(* ===== verification/Prelude.thy ===== *)
theory Prelude
  imports Main "HOL-Library.Sublist"
begin

text \<open>
  Shared vocabulary of the development: the type synonyms that name Go's values, the
  collections of simplification rules the component theories fill, the error-or-value
  combinators, and generic lemmas on lists, options and maps.

  Go's strings are byte sequences and are modelled by \<open>string\<close> (a \<open>char\<close> is one byte).
  A UUID is compared for equality only; it is modelled by a natural number, with
  \<open>uuid.Nil\<close> as 0. A \<open>time.Time\<close> is an instant, an integer number of nanoseconds since 1970; the
  zero time is 1 January of year 1. Operations that read the clock take the instant read as an argument.
\<close>

type_synonym uuid = nat
type_synonym time = int
type_synonym duration = int

abbreviation (input) uuid_nil :: uuid where "uuid_nil \<equiv> 0"
abbreviation (input) time_zero :: time where "time_zero \<equiv> - 62135596800000000000"

definition nanosecond_per_second :: int where
  "nanosecond_per_second = 1000000000"

definition seconds :: "int \<Rightarrow> duration" where
  "seconds n = n * nanosecond_per_second"

named_theorems guard_simps \<open>unfolding rules of the SQL guard\<close>
named_theorems breaker_simps \<open>unfolding rules of the circuit breaker\<close>
named_theorems session_simps \<open>unfolding rules of the agent sessions\<close>
named_theorems tenant_simps \<open>unfolding rules of tenants and tokens\<close>
named_theorems layer_simps \<open>unfolding rules of the semantic layers\<close>
named_theorems onboarding_simps \<open>unfolding rules of the onboarding state\<close>
named_theorems query_simps \<open>unfolding rules of the query pipeline\<close>

section \<open>Results\<close>

text \<open>A Go function returning \<open>(T, error)\<close> returns \<open>Inl err\<close> or \<open>Inr v\<close>.\<close>

fun result_bind :: "'e + 'a \<Rightarrow> ('a \<Rightarrow> 'e + 'b) \<Rightarrow> 'e + 'b" where
  "result_bind (Inl e) f = Inl e"
| "result_bind (Inr v) f = f v"

fun map_error :: "('e \<Rightarrow> 'f) \<Rightarrow> 'e + 'a \<Rightarrow> 'f + 'a" where
  "map_error f (Inl e) = Inl (f e)"
| "map_error f (Inr v) = Inr v"

lemma result_bind_Inr_iff [simp]:
  "result_bind r f = Inr y \<longleftrightarrow> (\<exists>v. r = Inr v \<and> f v = Inr y)"
  by (cases r) auto

lemma result_bind_Inl_iff:
  "result_bind r f = Inl e \<longleftrightarrow> r = Inl e \<or> (\<exists>v. r = Inr v \<and> f v = Inl e)"
  by (cases r) auto

lemma map_error_Inr_iff [simp]: "map_error f r = Inr v \<longleftrightarrow> r = Inr v"
  by (cases r) auto

section \<open>Lists\<close>

text \<open>First occurrences, in order: what a loop with a \<open>seen\<close> set keeps.\<close>

fun nub_seen :: "'a list \<Rightarrow> 'a list \<Rightarrow> 'a list" where
  "nub_seen seen [] = []"
| "nub_seen seen (x # xs) =
     (if x \<in> set seen then nub_seen seen xs else x # nub_seen (x # seen) xs)"

lemma set_nub_seen: "set (nub_seen seen xs) = set xs - set seen"
  by (induction xs arbitrary: seen) auto

lemma distinct_nub_seen [simp]: "distinct (nub_seen seen xs)"
  by (induction xs arbitrary: seen) (auto simp: set_nub_seen)

lemma nub_seen_distinct_id:
  "distinct xs \<Longrightarrow> set xs \<inter> set seen = {} \<Longrightarrow> nub_seen seen xs = xs"
  by (induction xs arbitrary: seen) auto

lemma length_nub_seen: "length (nub_seen seen xs) \<le> length xs"
  by (induction xs arbitrary: seen) (auto intro: le_SucI)

text \<open>Go's \<open>xs[i:j]\<close> for \<open>i \<le> j \<le> len(xs)\<close>.\<close>

definition slice :: "'a list \<Rightarrow> nat \<Rightarrow> nat \<Rightarrow> 'a list" where
  "slice xs i j = take (j - i) (drop i xs)"

lemma slice_Suc: "i \<le> j \<Longrightarrow> j < length xs \<Longrightarrow> slice xs i (Suc j) = slice xs i j @ [xs ! j]"
  by (simp add: slice_def Suc_diff_le take_Suc_conv_app_nth)

lemma slice_same [simp]: "slice xs i i = []"
  by (simp add: slice_def)

lemma slice_full: "length xs \<le> j \<Longrightarrow> slice xs i j = drop i xs"
  by (simp add: slice_def)

text \<open>Replacing the first element that satisfies a predicate, as an UPDATE by key does.\<close>

fun update_first :: "('a \<Rightarrow> bool) \<Rightarrow> ('a \<Rightarrow> 'a) \<Rightarrow> 'a list \<Rightarrow> 'a list" where
  "update_first p f [] = []"
| "update_first p f (x # xs) = (if p x then f x # xs else x # update_first p f xs)"

definition update_where :: "('a \<Rightarrow> bool) \<Rightarrow> ('a \<Rightarrow> 'a) \<Rightarrow> 'a list \<Rightarrow> 'a list" where
  "update_where p f xs = map (\<lambda>x. if p x then f x else x) xs"

lemma length_update_first [simp]: "length (update_first p f xs) = length xs"
  by (induction xs) auto

lemma update_where_simps [simp]:
  "update_where p f [] = []"
  "update_where p f (x # xs) = (if p x then f x else x) # update_where p f xs"
  by (auto simp: update_where_def)

lemma length_update_where [simp]: "length (update_where p f xs) = length xs"
  by (simp add: update_where_def)

lemma map_update_where_key:
  "(\<And>x. k (f x) = k x) \<Longrightarrow> map k (update_where p f xs) = map k xs"
  by (induction xs) auto

lemma in_set_update_where:
  "y \<in> set (update_where p f xs) \<longleftrightarrow>
     (\<exists>x \<in> set xs. y = (if p x then f x else x))"
  by (auto simp: update_where_def)

lemma find_update_where_other:
  "(\<And>x. q x \<Longrightarrow> \<not> p x) \<Longrightarrow> (\<And>x. p x \<Longrightarrow> \<not> q (f x)) \<Longrightarrow>
     find q (update_where p f xs) = find q xs"
  by (induction xs) auto

lemma find_Some_in_set: "find p xs = Some x \<Longrightarrow> x \<in> set xs \<and> p x"
  by (auto simp: find_Some_iff)

lemma find_append:
  "find p (xs @ ys) = (case find p xs of Some x \<Rightarrow> Some x | None \<Rightarrow> find p ys)"
  by (induction xs) auto

lemma find_append_first: "find p xs = Some r \<Longrightarrow> find p (xs @ ys) = Some r"
  by (simp add: find_append)

lemma find_append_new: "\<not> list_ex p xs \<Longrightarrow> p u \<Longrightarrow> find p (xs @ [u]) = Some u"
  by (induction xs) auto

lemma find_None_filter: "find p xs = None \<longleftrightarrow> filter p xs = []"
  by (induction xs) auto

lemma length_filter_update_where_le:
  assumes "\<And>x. q (if p x then f x else x) \<Longrightarrow> q x"
  shows "length (filter q (update_where p f xs)) \<le> length (filter q xs)"
proof (induction xs)
  case (Cons x xs)
  then show ?case using assms [of x] by (cases "q x"; cases "p x") auto
qed simp

lemma filter_key_unique:
  "distinct (map k xs) \<Longrightarrow> length (filter (\<lambda>x. k x = v) xs) \<le> 1"
proof (induction xs)
  case (Cons x xs)
  have "filter (\<lambda>x. k x = v) xs = []" if "k x = v"
  proof -
    have "k y \<noteq> v" if "y \<in> set xs" for y
      using \<open>k x = v\<close> that Cons.prems by auto (metis imageI)
    then show ?thesis by (simp add: filter_empty_conv)
  qed
  with Cons show ?case by (cases "k x = v") auto
qed simp

lemma distinct_map_same_key:
  "distinct (map k xs) \<Longrightarrow> x \<in> set xs \<Longrightarrow> y \<in> set xs \<Longrightarrow> k x = k y \<Longrightarrow> x = y"
  by (induction xs) (auto simp: rev_image_eqI)

section \<open>Maps that the code iterates over\<close>

text \<open>
  A Go map whose entries the code ranges over is an association list without repeated keys:
  storing puts the entry in front and drops the old one.
\<close>

definition al_del :: "'k \<Rightarrow> ('k \<times> 'v) list \<Rightarrow> ('k \<times> 'v) list" where
  "al_del k xs = filter (\<lambda>e. fst e \<noteq> k) xs"

definition al_put :: "'k \<Rightarrow> 'v \<Rightarrow> ('k \<times> 'v) list \<Rightarrow> ('k \<times> 'v) list" where
  "al_put k v xs = (k, v) # al_del k xs"

lemma al_del_Nil [simp]: "al_del k [] = []"
  by (simp add: al_del_def)

lemma map_of_al_del [simp]: "map_of (al_del k xs) = (map_of xs)(k := None)"
  by (induction xs) (auto simp: al_del_def)

lemma map_of_al_put [simp]: "map_of (al_put k v xs) = (map_of xs)(k \<mapsto> v)"
  by (auto simp: al_put_def)

lemma distinct_al_del [simp]: "distinct (map fst xs) \<Longrightarrow> distinct (map fst (al_del k xs))"
  by (induction xs) (auto simp: al_del_def)

lemma keys_al_del [simp]: "fst ` set (al_del k xs) = fst ` set xs - {k}"
  by (auto simp: al_del_def)

lemma distinct_al_put [simp]: "distinct (map fst xs) \<Longrightarrow> distinct (map fst (al_put k v xs))"
  using keys_al_del [of k xs] by (auto simp: al_put_def)

lemma set_map_snd_map_of:
  "distinct (map fst xs) \<Longrightarrow> v \<in> snd ` set xs \<longleftrightarrow> (\<exists>k. map_of xs k = Some v)"
  by (force dest: map_of_SomeD)

section \<open>Elapsed time\<close>

text \<open>Go's \<open>int64\<close> arithmetic wraps modulo \<open>2 ^ 64\<close>.\<close>

definition wrap64 :: "int \<Rightarrow> int" where
  "wrap64 x = (x + 2 ^ 63) mod 2 ^ 64 - 2 ^ 63"

lemma wrap64_id: "- (2 ^ 63) \<le> x \<Longrightarrow> x < 2 ^ 63 \<Longrightarrow> wrap64 x = x"
  by (simp add: wrap64_def)

text \<open>\<open>Duration.Milliseconds\<close>: division that truncates towards zero.\<close>

definition milliseconds :: "duration \<Rightarrow> int" where
  "milliseconds d = (if d < 0 then - ((- d) div 1000000) else d div 1000000)"

text \<open>\<open>Time.Sub\<close>: the difference, saturated at the bounds of a 64-bit duration.\<close>

definition duration_max :: int where "duration_max = 2 ^ 63 - 1"
definition duration_min :: int where "duration_min = - (2 ^ 63)"

definition time_sub :: "time \<Rightarrow> time \<Rightarrow> duration" where
  "time_sub t u = max duration_min (min duration_max (t - u))"

lemma time_sub_le_iff:
  "duration_min \<le> d \<Longrightarrow> d < duration_max \<Longrightarrow> time_sub t u \<le> d \<longleftrightarrow> t \<le> u + d"
  by (auto simp: time_sub_def)

section \<open>Folds that stop at the first error\<close>

fun fold_result :: "('s \<Rightarrow> 'a \<Rightarrow> 'e + 's) \<Rightarrow> 's \<Rightarrow> 'a list \<Rightarrow> 'e + 's" where
  "fold_result f s [] = Inr s"
| "fold_result f s (x # xs) = (case f s x of Inl e \<Rightarrow> Inl e | Inr s' \<Rightarrow> fold_result f s' xs)"

lemma fold_result_append:
  "fold_result f s (xs @ ys) = result_bind (fold_result f s xs) (\<lambda>s'. fold_result f s' ys)"
  by (induction xs arbitrary: s) (auto split: sum.splits)

lemma fold_result_invariant:
  assumes "fold_result f s xs = Inr s'" and "P s"
    and "\<And>a x b. x \<in> set xs \<Longrightarrow> P a \<Longrightarrow> f a x = Inr b \<Longrightarrow> P b"
  shows "P s'"
  using assms
proof (induction xs arbitrary: s)
  case (Cons a xs)
  then obtain t where t: "f s a = Inr t" "fold_result f t xs = Inr s'"
    by (auto split: sum.splits)
  with Cons.prems have "P t" by (meson list.set_intros(1))
  with t Cons show ?case by (meson list.set_intros(2))
qed simp

fun map_result :: "('a \<Rightarrow> 'e + 'b) \<Rightarrow> 'a list \<Rightarrow> 'e + 'b list" where
  "map_result f [] = Inr []"
| "map_result f (x # xs) =
     (case f x of Inl e \<Rightarrow> Inl e
      | Inr y \<Rightarrow> (case map_result f xs of Inl e \<Rightarrow> Inl e | Inr ys \<Rightarrow> Inr (y # ys)))"

lemma map_result_Inr_iff:
  "map_result f xs = Inr ys \<longleftrightarrow> list_all2 (\<lambda>x y. f x = Inr y) xs ys"
proof (induction xs arbitrary: ys)
  case (Cons x xs)
  show ?case by (cases ys) (auto split: sum.splits simp: Cons.IH [symmetric])
qed auto

end
