(* ===== verification/GoStrings.thy ===== *)
theory GoStrings
  imports Prelude
begin

text \<open>
  The functions of Go's \<open>strings\<close> and \<open>fmt\<close> packages that the program uses, on byte
  strings: substring tests, \<open>TrimSpace\<close> with the UTF-8 encodings of the Unicode white space,
  case mapping, \<open>Join\<close>, \<open>Split\<close>, \<open>Fields\<close>, \<open>ReplaceAll\<close> and decimal printing. The case
  mapping of a string with a byte above 0x7F uses the Unicode tables; it is the argument
  \<open>ucase\<close> of the functions that need it, while the all-ASCII path is written out.
\<close>

section \<open>Substrings\<close>

definition has_prefix :: "string \<Rightarrow> string \<Rightarrow> bool" where
  "has_prefix s p = prefix p s"

definition has_suffix :: "string \<Rightarrow> string \<Rightarrow> bool" where
  "has_suffix s p = suffix p s"

fun contains :: "string \<Rightarrow> string \<Rightarrow> bool" where
  "contains [] p = (p = [])"
| "contains (c # s) p = (prefix p (c # s) \<or> contains s p)"

lemma contains_iff_sublist: "contains s p \<longleftrightarrow> sublist p s"
proof (induction s)
  case (Cons c s)
  then show ?case by (simp add: sublist_Cons_right)
qed simp

lemma contains_append: "contains s p \<Longrightarrow> contains (u @ s @ v) p"
  by (auto simp: contains_iff_sublist sublist_def) (metis append_assoc)

definition trim_prefix :: "string \<Rightarrow> string \<Rightarrow> string" where
  "trim_prefix s p = (if has_prefix s p then drop (length p) s else s)"

definition trim_suffix :: "string \<Rightarrow> string \<Rightarrow> string" where
  "trim_suffix s p = (if has_suffix s p then take (length s - length p) s else s)"

section \<open>TrimSpace\<close>

text \<open>The UTF-8 encodings of the runes for which \<open>unicode.IsSpace\<close> holds.\<close>

definition space_encodings :: "string list" where
  "space_encodings =
     [[CHR 0x09], [CHR 0x0A], [CHR 0x0B], [CHR 0x0C], [CHR 0x0D], [CHR 0x20],
      [CHR 0xC2, CHR 0x85], [CHR 0xC2, CHR 0xA0], [CHR 0xE1, CHR 0x9A, CHR 0x80],
      [CHR 0xE2, CHR 0x80, CHR 0x80], [CHR 0xE2, CHR 0x80, CHR 0x81],
      [CHR 0xE2, CHR 0x80, CHR 0x82], [CHR 0xE2, CHR 0x80, CHR 0x83],
      [CHR 0xE2, CHR 0x80, CHR 0x84], [CHR 0xE2, CHR 0x80, CHR 0x85],
      [CHR 0xE2, CHR 0x80, CHR 0x86], [CHR 0xE2, CHR 0x80, CHR 0x87],
      [CHR 0xE2, CHR 0x80, CHR 0x88], [CHR 0xE2, CHR 0x80, CHR 0x89],
      [CHR 0xE2, CHR 0x80, CHR 0x8A], [CHR 0xE2, CHR 0x80, CHR 0xA8],
      [CHR 0xE2, CHR 0x80, CHR 0xA9], [CHR 0xE2, CHR 0x80, CHR 0xAF],
      [CHR 0xE2, CHR 0x81, CHR 0x9F], [CHR 0xE3, CHR 0x80, CHR 0x80]]"

function trim_by :: "string list \<Rightarrow> string \<Rightarrow> string" where
  "trim_by encs s =
     (case find (\<lambda>e. e \<noteq> [] \<and> prefix e s) encs of
        None \<Rightarrow> s
      | Some e \<Rightarrow> trim_by encs (drop (length e) s))"
  by pat_completeness auto
termination
  by (relation "measure (\<lambda>(_, s). length s)")
    (auto simp: find_Some_iff prefix_def dest!: sym [of "_ \<and> _"])

declare trim_by.simps [simp del]

definition trim_space :: "string \<Rightarrow> string" where
  "trim_space s = rev (trim_by (map rev space_encodings) (rev (trim_by space_encodings s)))"

lemma trim_by_suffix: "suffix (trim_by encs s) s"
proof (induction encs s rule: trim_by.induct)
  case (1 encs s)
  then show ?case
    by (subst trim_by.simps)
      (auto split: option.splits intro: suffix_order.trans suffix_drop)
qed

lemma trim_by_stop:
  "e \<in> set encs \<Longrightarrow> e \<noteq> [] \<Longrightarrow> \<not> prefix e (trim_by encs s)"
proof (induction encs s rule: trim_by.induct)
  case (1 encs s)
  show ?case
  proof (cases "find (\<lambda>e. e \<noteq> [] \<and> prefix e s) encs")
    case None
    then have "trim_by encs s = s" by (subst trim_by.simps) simp
    with None 1 show ?thesis by (auto simp: find_None_iff)
  next
    case (Some d)
    then have "trim_by encs s = trim_by encs (drop (length d) s)" by (subst trim_by.simps) simp
    with Some 1 show ?thesis by auto
  qed
qed

lemma trim_by_id: "(\<And>e. e \<in> set encs \<Longrightarrow> e \<noteq> [] \<Longrightarrow> \<not> prefix e s) \<Longrightarrow> trim_by encs s = s"
  by (subst trim_by.simps) (auto split: option.splits simp: find_Some_iff in_set_conv_nth)

lemma trim_by_Nil [simp]: "trim_by encs [] = []"
  by (rule trim_by_id) auto

lemma trim_space_Nil [simp]: "trim_space [] = []"
  by (simp add: trim_space_def)

lemma trim_space_sublist: "sublist (trim_space s) s"
proof -
  let ?t = "trim_by space_encodings s"
  have "suffix (trim_by (map rev space_encodings) (rev ?t)) (rev ?t)"
    by (rule trim_by_suffix)
  then have "prefix (trim_space s) ?t"
    unfolding trim_space_def by (simp add: suffix_to_prefix)
  then show ?thesis
    by (meson prefix_imp_sublist suffix_imp_sublist sublist_order.order.trans trim_by_suffix)
qed

lemma length_trim_space: "length (trim_space s) \<le> length s"
  by (rule sublist_length_le [OF trim_space_sublist])

text \<open>Trimming is idempotent: neither end of a trimmed string is a white-space rune.\<close>

lemma trim_space_no_prefix:
  assumes "e \<in> set space_encodings"
  shows "\<not> prefix e (trim_space s)"
proof
  assume "prefix e (trim_space s)"
  moreover have "prefix (trim_space s) (trim_by space_encodings s)"
    using trim_by_suffix [of "map rev space_encodings" "rev (trim_by space_encodings s)"]
    unfolding trim_space_def by (simp add: suffix_to_prefix)
  ultimately have "prefix e (trim_by space_encodings s)"
    using prefix_order.trans by blast
  moreover have "e \<noteq> []" using assms by (auto simp: space_encodings_def)
  ultimately show False using assms trim_by_stop by blast
qed

lemma trim_space_no_suffix:
  assumes "e \<in> set space_encodings"
  shows "\<not> suffix e (trim_space s)"
proof
  assume "suffix e (trim_space s)"
  then have "prefix (rev e) (trim_by (map rev space_encodings) (rev (trim_by space_encodings s)))"
    by (simp add: trim_space_def suffix_to_prefix)
  moreover have "rev e \<in> set (map rev space_encodings)" using assms by auto
  moreover have "rev e \<noteq> []" using assms by (auto simp: space_encodings_def)
  ultimately show False using trim_by_stop by blast
qed

lemma trim_space_idem [simp]: "trim_space (trim_space s) = trim_space s"
proof -
  have left: "trim_by space_encodings (trim_space s) = trim_space s"
    by (rule trim_by_id) (simp add: trim_space_no_prefix)
  have "trim_by (map rev space_encodings) (rev (trim_space s)) = rev (trim_space s)"
    by (rule trim_by_id) (auto simp: trim_space_no_suffix suffix_to_prefix [symmetric])
  with left show ?thesis by (subst (1) trim_space_def) simp
qed

text \<open>Printable ASCII text is not trimmed.\<close>

definition plain_char :: "char \<Rightarrow> bool" where
  "plain_char c \<longleftrightarrow> (33 :: nat) \<le> of_char c \<and> of_char c \<le> (126 :: nat)"

lemma space_encodings_not_plain:
  "e \<in> set space_encodings \<Longrightarrow> e \<noteq> [] \<and> \<not> plain_char (hd e) \<and> \<not> plain_char (last e)"
  by (auto simp: space_encodings_def plain_char_def)

lemma trim_space_plain:
  assumes "s = [] \<or> (plain_char (hd s) \<and> plain_char (last s))"
  shows "trim_space s = s"
proof -
  have "\<not> prefix e s" "\<not> suffix e s" if "e \<in> set space_encodings" for e
    using space_encodings_not_plain [OF that] assms by (auto simp: prefix_def suffix_def)
  moreover have "rev e \<in> rev ` set space_encodings \<longleftrightarrow> e \<in> set space_encodings" for e by auto
  ultimately have "trim_by space_encodings s = s"
    "trim_by (map rev space_encodings) (rev s) = rev s"
    by (auto intro!: trim_by_id simp: suffix_to_prefix [symmetric])
  then show ?thesis by (simp add: trim_space_def)
qed

section \<open>Case mapping\<close>

definition is_ascii :: "string \<Rightarrow> bool" where
  "is_ascii s = list_all (\<lambda>c. of_char c < (128 :: nat)) s"

definition ascii_upper_char :: "char \<Rightarrow> char" where
  "ascii_upper_char c =
     (let n = (of_char c :: nat) in if 97 \<le> n \<and> n \<le> 122 then char_of (n - 32) else c)"

definition ascii_lower_char :: "char \<Rightarrow> char" where
  "ascii_lower_char c =
     (let n = (of_char c :: nat) in if 65 \<le> n \<and> n \<le> 90 then char_of (n + 32) else c)"

definition to_upper :: "(string \<Rightarrow> string) \<Rightarrow> string \<Rightarrow> string" where
  "to_upper ucase s = (if is_ascii s then map ascii_upper_char s else ucase s)"

definition to_lower :: "(string \<Rightarrow> string) \<Rightarrow> string \<Rightarrow> string" where
  "to_lower lcase s = (if is_ascii s then map ascii_lower_char s else lcase s)"

lemma to_upper_Nil [simp]: "to_upper u [] = []"
  by (simp add: to_upper_def is_ascii_def)

section \<open>Join, Split, Fields, ReplaceAll\<close>

fun join :: "string list \<Rightarrow> string \<Rightarrow> string" where
  "join [] sep = []"
| "join [x] sep = x"
| "join (x # y # ys) sep = x @ sep @ join (y # ys) sep"

text \<open>\<open>strings.Split\<close> on a one-byte separator.\<close>

fun split_byte :: "char \<Rightarrow> string \<Rightarrow> string list" where
  "split_byte sep [] = [[]]"
| "split_byte sep (c # s) =
     (if c = sep then [] # split_byte sep s
      else (case split_byte sep s of [] \<Rightarrow> [[c]] | w # ws \<Rightarrow> (c # w) # ws))"

lemma split_byte_nonempty [simp]: "split_byte sep s \<noteq> []"
  by (induction s) (auto split: list.splits)

lemma join_split_byte: "join (split_byte sep s) [sep] = s"
proof (induction s)
  case (Cons c s)
  obtain w ws where ws: "split_byte sep s = w # ws"
    by (meson neq_Nil_conv split_byte_nonempty)
  show ?case
  proof (cases "c = sep")
    case True
    then show ?thesis using Cons ws by simp
  next
    case False
    then show ?thesis using Cons ws by (cases ws) auto
  qed
qed simp

text \<open>\<open>strings.ReplaceAll\<close> with a one-byte pattern.\<close>

definition replace_byte :: "string \<Rightarrow> char \<Rightarrow> string \<Rightarrow> string" where
  "replace_byte s old new = concat (map (\<lambda>c. if c = old then new else [c]) s)"

text \<open>\<open>strings.Fields\<close>: the maximal runs without white space.\<close>

function fields_from :: "string \<Rightarrow> string \<Rightarrow> string list" where
  "fields_from cur s =
     (case find (\<lambda>e. e \<noteq> [] \<and> prefix e s) space_encodings of
        Some e \<Rightarrow> (if cur = [] then [] else [cur]) @ fields_from [] (drop (length e) s)
      | None \<Rightarrow> (case s of
            [] \<Rightarrow> if cur = [] then [] else [cur]
          | c # r \<Rightarrow> fields_from (cur @ [c]) r))"
  by pat_completeness auto
termination
  by (relation "measure (\<lambda>(_, s). length s)")
    (auto simp: find_Some_iff prefix_def dest!: sym [of "_ \<and> _"])

declare fields_from.simps [simp del]

definition string_fields :: "string \<Rightarrow> string list" where
  "string_fields s = fields_from [] s"

text \<open>\<open>strings.Index\<close>: the first position of a substring.\<close>

fun index_of :: "string \<Rightarrow> string \<Rightarrow> nat option" where
  "index_of [] p = (if p = [] then Some 0 else None)"
| "index_of (c # s) p = (if prefix p (c # s) then Some 0 else map_option Suc (index_of s p))"

lemma index_of_Some:
  "index_of s p = Some i \<Longrightarrow>
     \<exists>rest. s = take i s @ p @ rest \<and> i + length p \<le> length s \<and> (\<forall>j < i. \<not> prefix p (drop j s))"
proof (induction s arbitrary: i)
  case Nil
  then show ?case by (auto split: if_splits)
next
  case (Cons c s)
  show ?case
  proof (cases "prefix p (c # s)")
    case True
    with Cons.prems have "i = 0" by simp
    with True prefix_length_le [OF True] show ?thesis by (auto simp: prefix_def)
  next
    case False
    with Cons.prems obtain k where k: "i = Suc k" "index_of s p = Some k" by auto
    from Cons.IH [OF k(2)] obtain rest where
      r: "s = take k s @ p @ rest" "k + length p \<le> length s" "\<forall>j < k. \<not> prefix p (drop j s)" by blast
    have "\<not> prefix p (drop j (c # s))" if "j < i" for j
      using that r(3) k False by (cases j) auto
    with r k show ?thesis by auto
  qed
qed

lemma index_of_None: "index_of s p = None \<longleftrightarrow> \<not> contains s p"
  by (induction s) (auto split: if_splits)

section \<open>Decimal numbers\<close>

definition digit_char :: "nat \<Rightarrow> char" where
  "digit_char d = char_of (48 + d)"

fun itoa_nat :: "nat \<Rightarrow> string" where
  "itoa_nat n = (if n < 10 then [digit_char n] else itoa_nat (n div 10) @ [digit_char (n mod 10)])"

declare itoa_nat.simps [simp del]

definition itoa :: "int \<Rightarrow> string" where
  "itoa i = (if i < 0 then CHR ''-'' # itoa_nat (nat (- i)) else itoa_nat (nat i))"

text \<open>\<open>strconv.ParseInt(s, 10, 64)\<close>.\<close>

definition is_digit :: "char \<Rightarrow> bool" where
  "is_digit c = ((48 :: nat) \<le> of_char c \<and> of_char c \<le> (57 :: nat))"

definition digits_value :: "string \<Rightarrow> int" where
  "digits_value s = foldl (\<lambda>n c. n * 10 + (int (of_char c) - 48)) 0 s"

definition parse_int64 :: "string \<Rightarrow> int option" where
  "parse_int64 s =
     (let (neg, ds) = (case s of c # r \<Rightarrow> if c = CHR ''-'' then (True, r)
                                     else if c = CHR ''+'' then (False, r) else (False, s)
                              | [] \<Rightarrow> (False, s));
          v = (if neg then - digits_value ds else digits_value ds)
      in if ds = [] \<or> \<not> list_all is_digit ds \<or> v < - (2 ^ 63) \<or> 2 ^ 63 \<le> v then None else Some v)"

lemma itoa_nat_nonempty [simp]: "itoa_nat n \<noteq> []"
  by (subst itoa_nat.simps) simp

section \<open>unicode/utf8\<close>

definition byte_in :: "nat \<Rightarrow> nat \<Rightarrow> char \<Rightarrow> bool" where
  "byte_in lo hi c = (lo \<le> of_char c \<and> of_char c \<le> hi)"

definition cont_byte :: "char \<Rightarrow> bool" where "cont_byte c = byte_in 0x80 0xBF c"

text \<open>The bytes of the first rune of a string; 0 when it does not begin with a valid encoding.\<close>

definition rune_len :: "string \<Rightarrow> nat" where
  "rune_len s =
     (case s of
        [] \<Rightarrow> 0
      | c # r \<Rightarrow>
          (if byte_in 0 0x7F c then 1
           else if byte_in 0xC2 0xDF c then
             (case r of d # _ \<Rightarrow> if cont_byte d then 2 else 0 | _ \<Rightarrow> 0)
           else if byte_in 0xE0 0xEF c then
             (case r of d # e # _ \<Rightarrow>
                if byte_in (if byte_in 0xE0 0xE0 c then 0xA0 else 0x80)
                     (if byte_in 0xED 0xED c then 0x9F else 0xBF) d \<and> cont_byte e then 3 else 0
              | _ \<Rightarrow> 0)
           else if byte_in 0xF0 0xF4 c then
             (case r of d # e # f # _ \<Rightarrow>
                if byte_in (if byte_in 0xF0 0xF0 c then 0x90 else 0x80)
                     (if byte_in 0xF4 0xF4 c then 0x8F else 0xBF) d \<and> cont_byte e \<and> cont_byte f
                then 4 else 0
              | _ \<Rightarrow> 0)
           else 0))"

section \<open>strconv.Quote\<close>

text \<open>
  \<open>%q\<close> of a string. The escapes of ASCII and of bytes that encode no rune are written out; a rune
  above U+007F is kept as it is, as Go does for those it prints.
\<close>

definition hex_digit :: "nat \<Rightarrow> char" where
  "hex_digit d = (if d < 10 then char_of (48 + d) else char_of (87 + d))"

definition hex_escape :: "char \<Rightarrow> string" where
  "hex_escape c = [CHR 0x5C, CHR ''x'', hex_digit (of_char c div 16), hex_digit (of_char c mod 16)]"

definition quote_char :: "char \<Rightarrow> string" where
  "quote_char c =
     (if c = CHR 0x22 \<or> c = CHR 0x5C then [CHR 0x5C, c]
      else if byte_in 0x20 0x7E c then [c]
      else if byte_in 0x07 0x0D c then [CHR 0x5C, ''abtnvfr'' ! (of_char c - 7)]
      else hex_escape c)"

function quote_body :: "string \<Rightarrow> string" where
  "quote_body s =
     (if s = [] then []
      else (if rune_len s = 0 then hex_escape (hd s)
            else if rune_len s = 1 then quote_char (hd s)
            else take (rune_len s) s) @ quote_body (drop (max 1 (rune_len s)) s))"
  by pat_completeness auto
termination by (relation "measure length") auto

declare quote_body.simps [simp del]

definition go_quote :: "string \<Rightarrow> string" where
  "go_quote s = [CHR 0x22] @ quote_body s @ [CHR 0x22]"

end
