(* ===== verification/Errors.thy ===== *)
theory Errors
  imports GoStrings
begin

text \<open>
  Go error values. A package-level \<open>errors.New\<close> is a \<open>Sentinel\<close> with its identity, since two
  sentinels with the same text are different errors (\<open>ErrQueryAccessDenied\<close> and
  \<open>ErrSemanticLayerAccessDenied\<close> have the same text). \<open>Wrapped\<close> is
  \<open>fmt.Errorf("text: %w", err)\<close>; \<open>ProviderError\<close> and \<open>UnavailableError\<close> are the error types of
  gateway/llm/errors.go, \<open>JoinedError\<close> is \<open>errors.Join\<close> of two errors, \<open>Annotated\<close> is
  \<open>fmt.Errorf("%w: %s", err, text)\<close>, \<open>Suffixed\<close> is \<open>fmt.Errorf("text: %w suffix", err)\<close>
  and \<open>QueryError\<close> the type of queryerror/queryerror.go. \<open>Inl\<close> of a result is a non-nil error, so \<open>nil\<close> never occurs as an error value.
\<close>

datatype gerr =
    Sentinel string string
  | ErrNew string
  | Wrapped string gerr
  | ProviderError string gerr bool
  | UnavailableError "string list" gerr
  | QueryError string string "string list" "gerr option"
  | JoinedError gerr gerr
  | Annotated gerr string
  | Suffixed string gerr string
  | ContextCanceled
  | ContextDeadlineExceeded

fun err_unwrap :: "gerr \<Rightarrow> gerr option" where
  "err_unwrap (Wrapped _ e) = Some e"
| "err_unwrap (ProviderError _ e _) = Some e"
| "err_unwrap (UnavailableError _ e) = Some e"
| "err_unwrap (QueryError _ _ _ e) = e"
| "err_unwrap (Annotated e _) = Some e"
| "err_unwrap (Suffixed _ e _) = Some e"
| "err_unwrap _ = None"

text \<open>\<open>errors.Is\<close>: the chain of wrapped errors, outermost first, holds the target.\<close>

fun err_chain :: "gerr \<Rightarrow> gerr list" where
  "err_chain (Wrapped t e) = Wrapped t e # err_chain e"
| "err_chain (ProviderError p e b) = ProviderError p e b # err_chain e"
| "err_chain (UnavailableError ps e) = UnavailableError ps e # err_chain e"
| "err_chain (JoinedError a b) = JoinedError a b # err_chain a @ err_chain b"
| "err_chain (Annotated e t) = Annotated e t # err_chain e"
| "err_chain (Suffixed t e u) = Suffixed t e u # err_chain e"
| "err_chain (QueryError c r bs None) = [QueryError c r bs None]"
| "err_chain (QueryError c r bs (Some e)) = QueryError c r bs (Some e) # err_chain e"
| "err_chain e = [e]"

definition errors_is :: "gerr \<Rightarrow> gerr \<Rightarrow> bool" where
  "errors_is e target = (target \<in> set (err_chain e))"

lemma errors_is_refl [simp]: "errors_is e e"
  by (cases e rule: err_chain.cases) (auto simp: errors_is_def)

lemma errors_is_Sentinel [simp]:
  "errors_is (Sentinel i t) e \<longleftrightarrow> e = Sentinel i t"
  by (auto simp: errors_is_def)

lemma errors_is_Wrapped [simp]:
  "errors_is (Wrapped t e) x \<longleftrightarrow> x = Wrapped t e \<or> errors_is e x"
  by (auto simp: errors_is_def)

lemma errors_is_ProviderError [simp]:
  "errors_is (ProviderError p e t) x \<longleftrightarrow> x = ProviderError p e t \<or> errors_is e x"
  by (auto simp: errors_is_def)

lemma errors_is_Unavailable [simp]:
  "errors_is (UnavailableError ps e) x \<longleftrightarrow> x = UnavailableError ps e \<or> errors_is e x"
  by (auto simp: errors_is_def)

lemma errors_is_Annotated [simp]:
  "errors_is (Annotated e t) x \<longleftrightarrow> x = Annotated e t \<or> errors_is e x"
  by (auto simp: errors_is_def)

lemma errors_is_Suffixed [simp]:
  "errors_is (Suffixed t e u) x \<longleftrightarrow> x = Suffixed t e u \<or> errors_is e x"
  by (auto simp: errors_is_def)

section \<open>gateway/llm/errors.go\<close>

definition user_unavailable_message :: string where
  "user_unavailable_message =
     ''language model service is temporarily unavailable; please try again shortly''"

text \<open>\<open>errors.As\<close> with a \<open>ProviderError\<close> target: the first of the chain.\<close>

fun is_provider_error :: "gerr \<Rightarrow> bool" where
  "is_provider_error (ProviderError _ _ _) = True"
| "is_provider_error _ = False"

fun is_unavailable :: "gerr \<Rightarrow> bool" where
  "is_unavailable (UnavailableError _ _) = True"
| "is_unavailable _ = False"

definition as_provider_error :: "gerr \<Rightarrow> gerr option" where
  "as_provider_error e = find is_provider_error (err_chain e)"

definition new_provider_error :: "string \<Rightarrow> gerr \<Rightarrow> gerr" where
  "new_provider_error provider err = ProviderError provider err False"

definition new_transient_provider_error :: "string \<Rightarrow> gerr \<Rightarrow> gerr" where
  "new_transient_provider_error provider err = ProviderError provider err True"

definition wrap_provider_error :: "string \<Rightarrow> gerr \<Rightarrow> gerr" where
  "wrap_provider_error provider err =
     (case as_provider_error err of
        Some (ProviderError p inner transient) \<Rightarrow>
          if p = [] then ProviderError provider inner transient else err
      | _ \<Rightarrow> new_provider_error provider err)"

definition is_transient_provider_error :: "gerr \<Rightarrow> bool" where
  "is_transient_provider_error err =
     (case as_provider_error err of
        Some (ProviderError _ _ transient) \<Rightarrow> transient
      | _ \<Rightarrow> False)"

definition new_unavailable_error :: "string list \<Rightarrow> gerr \<Rightarrow> gerr" where
  "new_unavailable_error providers err = UnavailableError providers err"

definition is_unavailable_error :: "gerr \<Rightarrow> bool" where
  "is_unavailable_error err = list_ex is_unavailable (err_chain err)"

lemma as_provider_error_ProviderError [simp]:
  "as_provider_error (ProviderError p e t) = Some (ProviderError p e t)"
  by (simp add: as_provider_error_def)

lemma is_transient_ProviderError [simp]:
  "is_transient_provider_error (ProviderError p e t) = t"
  by (simp add: is_transient_provider_error_def)

lemma as_provider_error_SomeD:
  "as_provider_error e = Some x \<Longrightarrow> \<exists>p i t. x = ProviderError p i t"
  unfolding as_provider_error_def
  by (drule find_Some_in_set) (cases x; simp)

text \<open>Wrapping keeps the classification of the error.\<close>

lemma is_transient_wrap:
  "is_transient_provider_error (wrap_provider_error p e) = is_transient_provider_error e"
proof (cases "as_provider_error e")
  case None
  then show ?thesis
    by (simp add: wrap_provider_error_def is_transient_provider_error_def new_provider_error_def)
next
  case (Some x)
  with as_provider_error_SomeD obtain q i t where "x = ProviderError q i t" by blast
  with Some show ?thesis
    by (simp add: wrap_provider_error_def is_transient_provider_error_def)
qed

section \<open>queryerror/queryerror.go\<close>

fun is_query_error :: "gerr \<Rightarrow> bool" where
  "is_query_error (QueryError _ _ _ _) = True"
| "is_query_error _ = False"

definition as_query_error :: "gerr \<Rightarrow> gerr option" where
  "as_query_error e = find is_query_error (err_chain e)"

definition code_unspecified :: string where "code_unspecified = ''UNSPECIFIED''"
definition code_permission_denied :: string where "code_permission_denied = ''PERMISSION_DENIED''"
definition code_internal :: string where "code_internal = ''INTERNAL''"

text \<open>\<open>fmt\<close>'s \<open>%v\<close> of a string slice: the items separated by blanks, in brackets.\<close>

definition show_slice :: "string list \<Rightarrow> string" where
  "show_slice xs = ''['' @ join xs '' '' @ '']''"

text \<open>The \<open>Error\<close> methods.\<close>

fun err_text :: "gerr \<Rightarrow> string" where
  "err_text (Sentinel _ t) = t"
| "err_text (ErrNew t) = t"
| "err_text (Wrapped t e) = t @ '': '' @ err_text e"
| "err_text (ProviderError p e _) =
     (if p = [] then err_text e else p @ '' provider error: '' @ err_text e)"
| "err_text (UnavailableError _ _) = user_unavailable_message"
| "err_text (QueryError _ r _ None) = (if r \<noteq> [] then r else ''query failed'')"
| "err_text (QueryError _ r _ (Some e)) = (if r \<noteq> [] then r else err_text e)"
| "err_text (JoinedError a b) = err_text a @ [CHR 0x0A] @ err_text b"
| "err_text (Annotated e t) = err_text e @ '': '' @ t"
| "err_text (Suffixed t e u) = t @ '': '' @ err_text e @ u"
| "err_text ContextCanceled = ''context canceled''"
| "err_text ContextDeadlineExceeded = ''context deadline exceeded''"

definition permission_denied :: "string \<Rightarrow> string list \<Rightarrow> gerr" where
  "permission_denied reason blocked = QueryError code_permission_denied reason blocked None"

definition internal_error :: "string \<Rightarrow> gerr option \<Rightarrow> gerr" where
  "internal_error reason err =
     QueryError code_internal
       (case err of Some e \<Rightarrow> if reason = [] then err_text e else reason | None \<Rightarrow> reason) [] err"

definition code_string :: "string \<Rightarrow> string" where
  "code_string c = (if c = [] then code_unspecified else c)"

definition format_reason :: "string \<Rightarrow> string list \<Rightarrow> string" where
  "format_reason reason blocked =
     (if blocked = [] then reason else reason @ '' ('' @ show_slice blocked @ '')'')"

end
