(* ===== verification/SqlGuard.thy ===== *)
theory SqlGuard
  imports Errors
begin

text \<open>
  internal/sqlguard/sqlguard.go: the safety layer between model-written SQL and MySQL.
  The TiDB parser is third-party code: \<open>sql_parser\<close> holds its \<open>Parse\<close> (None for a parse
  error) and the \<open>Restore\<close> of a statement. Its syntax trees are \<open>ast_node\<close>s: the node's kind
  with the fields the guard reads, an opaque payload for the rest, and the children in the
  order \<open>Accept\<close> visits them. The index loop of \<open>scanOutsideQuotes\<close> is modelled with its
  indices and proved equal to a structural lexer.
\<close>

section \<open>Syntax trees as the guard reads them\<close>

datatype select_lock_type =
    SelectLockNone
  | SelectLockForShare
  | SelectLockForShareNoWait
  | SelectLockForShareSkipLocked
  | SelectLockOther

datatype expr_node =
    AggregateFuncExpr
  | ParenthesesExpr expr_node
  | OtherExpr

type_synonym select_field = "expr_node option"

record select_stmt =
  SelectIntoOpt :: "unit option"
  LockInfo :: "select_lock_type option"
  SelectLimit :: "unit option"
  GroupByItems :: "nat option"
  SelectFields :: "select_field option list option"

datatype node_kind =
    SelectStmt select_stmt
  | SetOprStmt "unit option"
  | ShowStmt
  | AlterTableStmt
  | BeginStmt
  | CallStmt
  | CommitStmt
  | CreateDatabaseStmt
  | CreateTableStmt
  | CreateViewStmt
  | CreateIndexStmt
  | DeleteStmt
  | DoStmt
  | DropDatabaseStmt
  | DropTableStmt
  | FlushStmt
  | GrantStmt
  | InsertStmt bool
  | KillStmt
  | LoadDataStmt
  | LockTablesStmt
  | RenameTableStmt
  | RevokeStmt
  | RollbackStmt
  | SetStmt
  | TruncateTableStmt
  | UnlockTablesStmt
  | UpdateStmt
  | OtherNode

datatype 'x ast_node = AstNode (kind_of: node_kind) (payload: 'x) (children: "'x ast_node list")

record 'x sql_parser =
  ParseSQL :: "string \<Rightarrow> 'x ast_node list option"
  RestoreSQL :: "'x ast_node \<Rightarrow> gerr + string"

record guard_result =
  OK :: bool
  RewrittenSQL :: string
  Reason :: string
  BlockedConstructs :: "string list"
  LimitInjected :: bool

definition default_row_limit :: int where
  "default_row_limit = 1000"

definition empty_result :: guard_result where
  "empty_result = \<lparr>OK = False, RewrittenSQL = [], Reason = [], BlockedConstructs = [],
     LimitInjected = False\<rparr>"

section \<open>Denials\<close>

definition unique_constructs :: "string list \<Rightarrow> string list" where
  "unique_constructs xs = nub_seen [] (filter (\<lambda>x. x \<noteq> []) xs)"

definition deny :: "string \<Rightarrow> string list \<Rightarrow> guard_result" where
  "deny reason blocked = \<lparr>OK = False, RewrittenSQL = [], Reason = reason,
     BlockedConstructs = unique_constructs blocked, LimitInjected = False\<rparr>"

lemma deny_simps [simp]:
  "OK (deny r bs) = False" "RewrittenSQL (deny r bs) = []" "Reason (deny r bs) = r"
  "LimitInjected (deny r bs) = False"
  "BlockedConstructs (deny r bs) = unique_constructs bs"
  by (simp_all add: deny_def)

lemma unique_constructs_single [simp]: "c \<noteq> [] \<Longrightarrow> unique_constructs [c] = [c]"
  by (simp add: unique_constructs_def)

definition statement_construct :: "node_kind \<Rightarrow> string" where
  "statement_construct n = (case n of
     AlterTableStmt \<Rightarrow> ''statement_alter''
   | BeginStmt \<Rightarrow> ''statement_begin''
   | CallStmt \<Rightarrow> ''statement_call''
   | CommitStmt \<Rightarrow> ''statement_commit''
   | CreateDatabaseStmt \<Rightarrow> ''statement_create''
   | CreateTableStmt \<Rightarrow> ''statement_create''
   | CreateViewStmt \<Rightarrow> ''statement_create''
   | CreateIndexStmt \<Rightarrow> ''statement_create''
   | DeleteStmt \<Rightarrow> ''statement_delete''
   | DoStmt \<Rightarrow> ''statement_do''
   | DropDatabaseStmt \<Rightarrow> ''statement_drop''
   | DropTableStmt \<Rightarrow> ''statement_drop''
   | FlushStmt \<Rightarrow> ''statement_flush''
   | GrantStmt \<Rightarrow> ''statement_grant''
   | InsertStmt is_replace \<Rightarrow> (if is_replace then ''statement_replace'' else ''statement_insert'')
   | KillStmt \<Rightarrow> ''statement_kill''
   | LoadDataStmt \<Rightarrow> ''statement_load_data''
   | LockTablesStmt \<Rightarrow> ''statement_lock_tables''
   | RenameTableStmt \<Rightarrow> ''statement_rename_table''
   | RevokeStmt \<Rightarrow> ''statement_revoke''
   | RollbackStmt \<Rightarrow> ''statement_rollback''
   | SetStmt \<Rightarrow> ''statement_set''
   | TruncateTableStmt \<Rightarrow> ''statement_truncate''
   | UnlockTablesStmt \<Rightarrow> ''statement_unlock_tables''
   | UpdateStmt \<Rightarrow> ''statement_update''
   | _ \<Rightarrow> ''statement_disallowed'')"

lemma statement_construct_nonempty [simp]: "statement_construct n \<noteq> []"
  by (simp add: statement_construct_def split: node_kind.splits)

section \<open>The scanner\<close>

datatype scan_state = StateNormal | StateSingle | StateDouble | StateBacktick

definition is_space_or_control :: "char \<Rightarrow> bool" where
  "is_space_or_control ch =
     (ch \<in> {CHR '' '', CHR 0x09, CHR 0x0A, CHR 0x0D, CHR 0x0C, CHR 0x0B})"

abbreviation (input) "single_quote \<equiv> CHR 0x27"
abbreviation (input) "double_quote \<equiv> CHR 0x22"
abbreviation (input) "backtick \<equiv> CHR 0x60"
abbreviation (input) "backslash \<equiv> CHR 0x5C"

text \<open>
  The loop of \<open>scanOutsideQuotes\<close>: \<open>outside_fn\<close> is the callback with the state it captures.
  The result is the returned bool and the captured state.
\<close>

function scan_loop ::
  "('s \<Rightarrow> string \<Rightarrow> bool \<times> 's) \<Rightarrow> bool \<Rightarrow> string \<Rightarrow> scan_state \<Rightarrow> nat \<Rightarrow> nat \<Rightarrow> 's \<Rightarrow> bool \<times> 's"
where
  "scan_loop outside_fn keep_quoted_width sql state start i acc =
    (if i < length sql then
       (let ch = sql ! i in
        case state of
          StateNormal \<Rightarrow>
            (if ch = single_quote then
               (case outside_fn acc (slice sql start i) of
                  (True, acc') \<Rightarrow> (True, acc')
                | (False, acc') \<Rightarrow>
                    scan_loop outside_fn keep_quoted_width sql StateSingle i (i + 1) acc')
             else if ch = double_quote then
               (case outside_fn acc (slice sql start i) of
                  (True, acc') \<Rightarrow> (True, acc')
                | (False, acc') \<Rightarrow>
                    scan_loop outside_fn keep_quoted_width sql StateDouble i (i + 1) acc')
             else if ch = backtick then
               (case outside_fn acc (slice sql start i) of
                  (True, acc') \<Rightarrow> (True, acc')
                | (False, acc') \<Rightarrow>
                    scan_loop outside_fn keep_quoted_width sql StateBacktick i (i + 1) acc')
             else if ch = CHR ''#'' then (True, acc)
             else if ch = CHR ''/'' \<and> i + 1 < length sql \<and> sql ! (i + 1) = CHR ''*'' then
               (True, acc)
             else if ch = CHR ''-'' \<and> i + 2 < length sql \<and> sql ! (i + 1) = CHR ''-'' \<and>
                     is_space_or_control (sql ! (i + 2)) then (True, acc)
             else scan_loop outside_fn keep_quoted_width sql StateNormal start (i + 1) acc)
        | StateSingle \<Rightarrow>
            (if ch = backslash \<and> i + 1 < length sql then
               scan_loop outside_fn keep_quoted_width sql StateSingle start (i + 2) acc
             else if ch = single_quote then
               (if i + 1 < length sql \<and> sql ! (i + 1) = single_quote then
                  scan_loop outside_fn keep_quoted_width sql StateSingle start (i + 2) acc
                else scan_loop outside_fn keep_quoted_width sql StateNormal
                       (if keep_quoted_width then i + 1 else i + 1) (i + 1) acc)
             else scan_loop outside_fn keep_quoted_width sql StateSingle start (i + 1) acc)
        | StateDouble \<Rightarrow>
            (if ch = backslash \<and> i + 1 < length sql then
               scan_loop outside_fn keep_quoted_width sql StateDouble start (i + 2) acc
             else if ch = double_quote then
               (if i + 1 < length sql \<and> sql ! (i + 1) = double_quote then
                  scan_loop outside_fn keep_quoted_width sql StateDouble start (i + 2) acc
                else scan_loop outside_fn keep_quoted_width sql StateNormal (i + 1) (i + 1) acc)
             else scan_loop outside_fn keep_quoted_width sql StateDouble start (i + 1) acc)
        | StateBacktick \<Rightarrow>
            (if ch = backtick then
               (if i + 1 < length sql \<and> sql ! (i + 1) = backtick then
                  scan_loop outside_fn keep_quoted_width sql StateBacktick start (i + 2) acc
                else scan_loop outside_fn keep_quoted_width sql StateNormal (i + 1) (i + 1) acc)
             else scan_loop outside_fn keep_quoted_width sql StateBacktick start (i + 1) acc))
     else if state = StateNormal then outside_fn acc (drop start sql)
     else (False, acc))"
  by pat_completeness auto
termination
  by (relation "measure (\<lambda>(_, _, sql, _, _, i, _). length sql - i)") auto

declare scan_loop.simps [simp del]

definition scan_outside_quotes ::
  "string \<Rightarrow> ('s \<Rightarrow> string \<Rightarrow> bool \<times> 's) \<Rightarrow> bool \<Rightarrow> 's \<Rightarrow> bool \<times> 's" where
  "scan_outside_quotes sql outside_fn keep_quoted_width acc =
     scan_loop outside_fn keep_quoted_width sql StateNormal 0 0 acc"

definition has_comment_token :: "string \<Rightarrow> bool" where
  "has_comment_token sql = fst (scan_outside_quotes sql
     (\<lambda>_ fragment. (contains fragment ''#'' \<or> contains fragment ''/*'' \<or>
                    contains fragment ''-- '', ())) False ())"

definition outside_quotes_upper :: "(string \<Rightarrow> string) \<Rightarrow> string \<Rightarrow> string" where
  "outside_quotes_upper ucase sql = snd (scan_outside_quotes sql
     (\<lambda>builder fragment. (False, builder @ to_upper ucase fragment)) True [])"

definition detect_raw_denied_pattern :: "(string \<Rightarrow> string) \<Rightarrow> string \<Rightarrow> guard_result option" where
  "detect_raw_denied_pattern ucase sql =
     (let normalized = outside_quotes_upper ucase sql in
      if contains normalized '' INTO OUTFILE'' \<or> contains normalized '' INTO DUMPFILE'' \<or>
         contains normalized '' INTO @''
      then Some (deny ''SELECT ... INTO is not allowed'' [''select_into''])
      else None)"

section \<open>The visitor\<close>

text \<open>\<open>guardVisitor.Enter\<close>: the new \<open>denied\<close> field and whether the children are skipped.\<close>

definition visitor_enter :: "guard_result option \<Rightarrow> node_kind \<Rightarrow> guard_result option \<times> bool" where
  "visitor_enter denied n =
     (if denied \<noteq> None then (denied, True)
      else (case n of
        SelectStmt node \<Rightarrow>
          (if SelectIntoOpt node \<noteq> None then
             (Some (deny ''SELECT ... INTO is not allowed'' [''select_into'']), True)
           else (case LockInfo node of
               None \<Rightarrow> (None, False)
             | Some lock \<Rightarrow>
                 (if lock \<in> {SelectLockNone, SelectLockForShare, SelectLockForShareNoWait,
                             SelectLockForShareSkipLocked}
                  then (None, False)
                  else (Some (deny ''SELECT ... FOR UPDATE is not allowed'' [''for_update'']), True))))
      | _ \<Rightarrow> (None, False)))"

definition visitor_leave :: "guard_result option \<Rightarrow> bool" where
  "visitor_leave denied = (denied = None)"

text \<open>
  \<open>Accept\<close> as the parser documents it: enter the node, visit its children unless told to skip
  them, stop when a child's visit is not ok, and leave the node. The result is the visitor's
  \<open>denied\<close> field and ok.
\<close>

fun accept :: "guard_result option \<Rightarrow> 'x ast_node \<Rightarrow> guard_result option \<times> bool"
and accept_children :: "guard_result option \<Rightarrow> 'x ast_node list \<Rightarrow> guard_result option \<times> bool"
where
  "accept denied (AstNode k x kids) =
     (case visitor_enter denied k of
        (denied', True) \<Rightarrow> (denied', visitor_leave denied')
      | (denied', False) \<Rightarrow>
          (case accept_children denied' kids of
             (denied'', False) \<Rightarrow> (denied'', False)
           | (denied'', True) \<Rightarrow> (denied'', visitor_leave denied'')))"
| "accept_children denied [] = (denied, True)"
| "accept_children denied (n # ns) =
     (case accept denied n of
        (denied', False) \<Rightarrow> (denied', False)
      | (denied', True) \<Rightarrow> accept_children denied' ns)"

section \<open>LIMIT injection\<close>

fun contains_top_level_aggregate :: "expr_node \<Rightarrow> bool" where
  "contains_top_level_aggregate AggregateFuncExpr = True"
| "contains_top_level_aggregate (ParenthesesExpr e) = contains_top_level_aggregate e"
| "contains_top_level_aggregate OtherExpr = False"

definition is_aggregated_select :: "select_stmt \<Rightarrow> bool" where
  "is_aggregated_select s =
     (if (case GroupByItems s of None \<Rightarrow> False | Some n \<Rightarrow> n > 0) then True
      else (case SelectFields s of
          None \<Rightarrow> False
        | Some field_list \<Rightarrow>
            list_ex (\<lambda>field. case field of
                Some (Some e) \<Rightarrow> contains_top_level_aggregate e
              | _ \<Rightarrow> False) field_list))"

definition needs_limit_injection :: "node_kind \<Rightarrow> gerr + bool" where
  "needs_limit_injection n = (case n of
     SelectStmt s \<Rightarrow>
       (if SelectLimit s \<noteq> None then Inr False
        else if is_aggregated_select s then Inr False else Inr True)
   | SetOprStmt limit \<Rightarrow> (if limit \<noteq> None then Inr False else Inr True)
   | ShowStmt \<Rightarrow> Inr False
   | _ \<Rightarrow> Inl (ErrNew ''unexpected statement type''))"

definition allowed_kind :: "node_kind \<Rightarrow> bool" where
  "allowed_kind n = (case n of SelectStmt _ \<Rightarrow> True | SetOprStmt _ \<Rightarrow> True | ShowStmt \<Rightarrow> True
     | _ \<Rightarrow> False)"

section \<open>Validate\<close>

definition parse_error_result :: guard_result where
  "parse_error_result =
     deny ''SQL could not be parsed as a single MySQL statement'' [''parse_error'']"

definition validate_sql ::
  "'x sql_parser \<Rightarrow> (string \<Rightarrow> string) \<Rightarrow> string \<Rightarrow> gerr + guard_result" where
  "validate_sql p ucase sql_text =
    (let trimmed = trim_space sql_text in
     if trimmed = [] then Inr parse_error_result
     else if has_comment_token trimmed then
       Inr (deny ''SQL comments are not allowed'' [''comment''])
     else (case detect_raw_denied_pattern ucase trimmed of
       Some result \<Rightarrow> Inr result
     | None \<Rightarrow>
       (case ParseSQL p trimmed of
          None \<Rightarrow> Inr parse_error_result
        | Some [] \<Rightarrow> Inr parse_error_result
        | Some (stmt # rest) \<Rightarrow>
          (if rest \<noteq> [] then
             Inr (deny ''multi-statement SQL is not allowed'' [''multi_statement''])
           else if \<not> allowed_kind (kind_of stmt) then
             Inr (deny ''only SELECT, WITH-that-resolves-to-SELECT, and SHOW statements are allowed''
                    [statement_construct (kind_of stmt)])
           else (case fst (accept None stmt) of
             Some denied \<Rightarrow> Inr denied
           | None \<Rightarrow>
             (case needs_limit_injection (kind_of stmt) of
                Inl err \<Rightarrow> Inl err
              | Inr needs_limit \<Rightarrow>
                (case RestoreSQL p stmt of
                   Inl err \<Rightarrow> Inl (Wrapped ''restore sql'' err)
                 | Inr text \<Rightarrow>
                   Inr \<lparr>OK = True,
                        RewrittenSQL =
                          (if needs_limit then text @ '' LIMIT '' @ itoa default_row_limit else text),
                        Reason = [], BlockedConstructs = [], LimitInjected = needs_limit\<rparr>)))))))"

section \<open>A structural lexer, and the scanner against it\<close>

text \<open>
  \<open>outside_fragments\<close> is the specification of \<open>scanOutsideQuotes\<close>: the maximal runs of text
  outside single, double and backtick quotes, an unterminated quote swallowing the rest.
\<close>

definition quote_state :: "char \<Rightarrow> scan_state option" where
  "quote_state c =
     (if c = single_quote then Some StateSingle
      else if c = double_quote then Some StateDouble
      else if c = backtick then Some StateBacktick
      else None)"

definition escapes :: "scan_state \<Rightarrow> bool" where
  "escapes st = (st = StateSingle \<or> st = StateDouble)"

fun outside_fragments :: "scan_state \<Rightarrow> string \<Rightarrow> string \<Rightarrow> string list" where
  "outside_fragments st cur [] = (if st = StateNormal then [cur] else [])"
| "outside_fragments st cur (c # s) =
     (if st = StateNormal then
        (case quote_state c of
           Some q \<Rightarrow> cur # outside_fragments q [] s
         | None \<Rightarrow> outside_fragments StateNormal (cur @ [c]) s)
      else if escapes st \<and> c = backslash \<and> s \<noteq> [] then outside_fragments st [] (tl s)
      else if quote_state c = Some st then
        (if s \<noteq> [] \<and> hd s = c then outside_fragments st [] (tl s)
         else outside_fragments StateNormal [] s)
      else outside_fragments st [] s)"

definition outside_quotes :: "string \<Rightarrow> string list" where
  "outside_quotes s = outside_fragments StateNormal [] s"

text \<open>A comment opens at the head of the text: \<open>#\<close>, \<open>/*\<close>, or \<open>--\<close> and a white space.\<close>

definition starts_comment :: "string \<Rightarrow> bool" where
  "starts_comment s =
     (case s of
        [] \<Rightarrow> False
      | c # r \<Rightarrow>
          c = CHR ''#''
          \<or> (c = CHR ''/'' \<and> (case r of d # _ \<Rightarrow> d = CHR ''*'' | [] \<Rightarrow> False))
          \<or> (c = CHR ''-'' \<and>
              (case r of d # e # _ \<Rightarrow> d = CHR ''-'' \<and> is_space_or_control e | _ \<Rightarrow> False)))"

fun opens_comment :: "string \<Rightarrow> bool" where
  "opens_comment [] = False"
| "opens_comment (c # s) = (starts_comment (c # s) \<or> opens_comment s)"

fun run_fragments :: "('s \<Rightarrow> string \<Rightarrow> bool \<times> 's) \<Rightarrow> 's \<Rightarrow> string list \<Rightarrow> bool \<times> 's" where
  "run_fragments f acc [] = (False, acc)"
| "run_fragments f acc (x # xs) =
     (case f acc x of (True, acc') \<Rightarrow> (True, acc') | (False, acc') \<Rightarrow> run_fragments f acc' xs)"

text \<open>The scanner on a list: the same loop without indices.\<close>

fun scan_list ::
  "('s \<Rightarrow> string \<Rightarrow> bool \<times> 's) \<Rightarrow> scan_state \<Rightarrow> string \<Rightarrow> string \<Rightarrow> 's \<Rightarrow> bool \<times> 's" where
  "scan_list f st cur [] acc = (if st = StateNormal then f acc cur else (False, acc))"
| "scan_list f st cur (c # s) acc =
     (if st = StateNormal then
        (case quote_state c of
           Some q \<Rightarrow> (case f acc cur of (True, acc') \<Rightarrow> (True, acc')
                                    | (False, acc') \<Rightarrow> scan_list f q [] s acc')
         | None \<Rightarrow> if starts_comment (c # s) then (True, acc)
                   else scan_list f StateNormal (cur @ [c]) s acc)
      else if escapes st \<and> c = backslash \<and> s \<noteq> [] then scan_list f st [] (tl s) acc
      else if quote_state c = Some st then
        (if s \<noteq> [] \<and> hd s = c then scan_list f st [] (tl s) acc
         else scan_list f StateNormal [] s acc)
      else scan_list f st [] s acc)"

lemma nonquote_simps:
  "quote_state CHR ''#'' = None" "quote_state CHR ''/'' = None" "quote_state CHR ''-'' = None"
  "quote_state backslash = None"
  by (simp_all add: quote_state_def)

lemma starts_comment_drop:
  "i < length s \<Longrightarrow> starts_comment (drop i s) \<longleftrightarrow>
     s ! i = CHR ''#''
     \<or> (s ! i = CHR ''/'' \<and> i + 1 < length s \<and> s ! (i + 1) = CHR ''*'')
     \<or> (s ! i = CHR ''-'' \<and> i + 2 < length s \<and> s ! (i + 1) = CHR ''-'' \<and>
         is_space_or_control (s ! (i + 2)))"
proof -
  assume i: "i < length s"
  consider "Suc (Suc i) < length s" | "Suc i < length s" "\<not> Suc (Suc i) < length s"
    | "\<not> Suc i < length s" by blast
  then show ?thesis
  proof cases
    case 1
    then have "drop i s = s ! i # s ! Suc i # s ! Suc (Suc i) # drop (Suc (Suc (Suc i))) s"
      by (simp add: Cons_nth_drop_Suc)
    with 1 show ?thesis by (auto simp: starts_comment_def)
  next
    case 2
    then have "drop i s = [s ! i, s ! Suc i]"
      by (metis Cons_nth_drop_Suc drop_all i linorder_not_less)
    with 2 show ?thesis by (auto simp: starts_comment_def)
  next
    case 3
    then have "drop i s = [s ! i]"
      by (metis Cons_nth_drop_Suc drop_all i linorder_not_less)
    with 3 show ?thesis by (auto simp: starts_comment_def)
  qed
qed

lemma scan_loop_scan_list:
  "start \<le> i \<Longrightarrow>
     scan_loop f keep sql st start i acc =
     scan_list f st (if st = StateNormal then slice sql start i else []) (drop i sql) acc"
proof (induction f keep sql st start i acc rule: scan_loop.induct)
  case (1 f keep sql st start i acc)
  show ?case
  proof (cases "i < length sql")
    case False
    then show ?thesis
      by (subst scan_loop.simps) (simp add: slice_full)
  next
    case True
    note cons = Cons_nth_drop_Suc [OF True, symmetric]
    have two: "drop (Suc i) sql \<noteq> [] \<longleftrightarrow> Suc i < length sql"
      by (simp add: not_le)
    have two': "Suc i < length sql \<Longrightarrow> hd (drop (Suc i) sql) = sql ! Suc i"
      by (simp add: hd_drop_conv_nth)
    have two'': "tl (drop (Suc i) sql) = drop (Suc (Suc i)) sql"
      by (metis drop_Suc tl_drop)
    note two = two two' two''
    note ih = "1.IH" [OF True refl]
    show ?thesis
    proof (cases st)
      case StateNormal
      then show ?thesis
        using ih(1-4) "1.prems" True starts_comment_drop [OF True]
        by (subst scan_loop.simps, subst cons)
          (auto simp: quote_state_def cons slice_Suc split: prod.splits bool.splits)
    next
      case StateSingle
      then show ?thesis
        using ih(5-8) "1.prems" True two
        by (subst scan_loop.simps, subst cons) (auto simp: quote_state_def escapes_def)
    next
      case StateDouble
      then show ?thesis
        using ih(9-12) "1.prems" True two
        by (subst scan_loop.simps, subst cons) (auto simp: quote_state_def escapes_def)
    next
      case StateBacktick
      then show ?thesis
        using ih(13-15) "1.prems" True two
        by (subst scan_loop.simps, subst cons) (auto simp: quote_state_def escapes_def)
    qed
  qed
qed

lemma starts_comment_append: "starts_comment s \<Longrightarrow> starts_comment (s @ t)"
  by (auto simp: starts_comment_def split: list.splits)

lemma starts_comment_quote:
  assumes "quote_state q = Some st"
  shows "starts_comment (s @ q # t) \<longleftrightarrow> starts_comment s"
proof -
  have q: "q \<noteq> CHR ''*''" "q \<noteq> CHR ''-''" "q \<noteq> CHR ''#''" "q \<noteq> CHR ''/''"
    "\<not> is_space_or_control q"
    using assms by (auto simp: quote_state_def is_space_or_control_def split: if_splits)
  consider "s = []" | a where "s = [a]" | a b where "s = [a, b]"
    | a b c r where "s = a # b # c # r"
    by (metis neq_Nil_conv)
  then show ?thesis
    by cases (use q in \<open>auto simp: starts_comment_def split: list.splits\<close>)
qed

lemma opens_comment_append: "starts_comment s \<Longrightarrow> s \<noteq> [] \<Longrightarrow> opens_comment (u @ s)"
proof (induction u)
  case Nil
  then show ?case by (cases s) auto
qed simp

lemma opens_commentD: "opens_comment s \<Longrightarrow> \<exists>k < length s. starts_comment (drop k s)"
proof (induction s)
  case (Cons c s)
  show ?case
  proof (cases "starts_comment (c # s)")
    case True
    then show ?thesis by (intro exI [of _ 0]) simp
  next
    case False
    with Cons obtain k where "k < length s" "starts_comment (drop k s)" by auto
    then show ?thesis by (intro exI [of _ "Suc k"]) simp
  qed
qed simp

lemma starts_comment_nonempty: "starts_comment s \<Longrightarrow> s \<noteq> []"
  by (auto simp: starts_comment_def)

text \<open>The head of a text outside quotes is its longest prefix without a quote.\<close>

definition until_quote :: "string \<Rightarrow> string" where
  "until_quote s = takeWhile (\<lambda>c. quote_state c = None) s"

lemma outside_fragments_hd:
  "\<exists>rest. outside_fragments StateNormal cur s = (cur @ until_quote s) # rest"
proof (induction s arbitrary: cur)
  case (Cons c s)
  show ?case
  proof (cases "quote_state c")
    case None
    then show ?thesis using Cons [of "cur @ [c]"] by (simp add: until_quote_def)
  next
    case (Some q)
    then show ?thesis by (simp add: until_quote_def)
  qed
qed (simp add: until_quote_def)

lemma starts_comment_until_quote: "starts_comment (until_quote s) \<longleftrightarrow> starts_comment s"
proof (cases "dropWhile (\<lambda>c. quote_state c = None) s")
  case Nil
  then show ?thesis by (metis append_Nil2 takeWhile_dropWhile_id until_quote_def)
next
  case (Cons q t)
  then have "quote_state q \<noteq> None"
    using hd_dropWhile [of "\<lambda>c. quote_state c = None" s] by simp
  then obtain st where st: "quote_state q = Some st" by auto
  have "s = until_quote s @ q # t"
    using Cons takeWhile_dropWhile_id [of "\<lambda>c. quote_state c = None" s]
    by (simp add: until_quote_def)
  with starts_comment_quote [OF st, of "until_quote s" t] show ?thesis by metis
qed

lemma scan_list_no_comment:
  "\<not> list_ex opens_comment (outside_fragments st cur s) \<Longrightarrow>
     scan_list f st cur s acc = run_fragments f acc (outside_fragments st cur s)"
proof (induction f st cur s acc rule: scan_list.induct)
  case (1 f st cur acc)
  then show ?case by (auto split: prod.splits bool.splits)
next
  case (2 f st cur c s acc)
  show ?case
  proof (cases "st = StateNormal \<and> quote_state c = None")
    case True
    have "\<not> starts_comment (c # s)"
    proof
      assume "starts_comment (c # s)"
      then have start: "starts_comment (until_quote (c # s))"
        by (simp add: starts_comment_until_quote)
      obtain rest where "outside_fragments StateNormal cur (c # s) =
          (cur @ until_quote (c # s)) # rest"
        using outside_fragments_hd by blast
      with start True "2.prems" show False
        using opens_comment_append starts_comment_nonempty by fastforce
    qed
    with True 2 show ?thesis by simp
  next
    case other: False
    obtain b acc' where fa: "f acc cur = (b, acc')" by fastforce
    show ?thesis
    proof (cases "st = StateNormal")
      case True
      with other obtain q where "quote_state c = Some q" by auto
      with True fa "2.IH"(2) "2.prems" show ?thesis by (cases b) auto
    next
      case quoted: False
      show ?thesis
      proof (cases "escapes st \<and> c = backslash \<and> s \<noteq> []")
        case True
        with quoted "2.IH"(3) "2.prems" show ?thesis by simp
      next
        case unescaped: False
        show ?thesis
        proof (cases "quote_state c = Some st")
          case closing: True
          show ?thesis
          proof (cases "s \<noteq> [] \<and> hd s = c")
            case True
            with quoted unescaped closing "2.IH"(4) "2.prems" show ?thesis by auto
          next
            case False
            with quoted unescaped closing "2.IH"(5) [OF quoted unescaped closing False] "2.prems"
            show ?thesis by (auto simp del: outside_fragments.simps(1) scan_list.simps(1))
          qed
        next
          case False
          with quoted unescaped "2.IH"(6) "2.prems" show ?thesis by auto
        qed
      qed
    qed
  qed
qed

lemma scan_list_comment:
  "list_ex opens_comment (outside_fragments st cur s) \<Longrightarrow>
     (\<forall>k < length cur. \<not> starts_comment (drop k cur @ s)) \<Longrightarrow> fst (scan_list f st cur s acc)"
proof (induction f st cur s acc rule: scan_list.induct)
  case (1 f st cur acc)
  then show ?case by (auto split: if_splits dest: opens_commentD)
next
  case (2 f st cur c s acc)
  show ?case
  proof (cases "st = StateNormal")
    case quoted: False
    show ?thesis
    proof (cases "escapes st \<and> c = backslash \<and> s \<noteq> []")
      case True
      with quoted "2.IH"(3) "2.prems" show ?thesis by simp
    next
      case unescaped: False
      show ?thesis
      proof (cases "quote_state c = Some st")
        case closing: True
        show ?thesis
        proof (cases "s \<noteq> [] \<and> hd s = c")
          case True
          with quoted unescaped closing "2.IH"(4) "2.prems" show ?thesis by auto
        next
          case False
          with quoted unescaped closing "2.IH"(5) [OF quoted unescaped closing False] "2.prems"
          show ?thesis by (auto simp del: outside_fragments.simps(1) scan_list.simps(1))
        qed
      next
        case False
        with quoted unescaped "2.IH"(6) "2.prems" show ?thesis by auto
      qed
    qed
  next
    case normal: True
    show ?thesis
    proof (cases "quote_state c")
      case (Some q)
      then have clean: "\<not> opens_comment cur"
        using "2.prems"(2) starts_comment_quote [OF Some] opens_commentD by blast
      obtain b acc' where fa: "f acc cur = (b, acc')" by fastforce
      from clean Some normal fa "2.IH"(2) "2.prems"(1) show ?thesis by (cases b) auto
    next
      case None
      have step: "\<forall>k < length (cur @ [c]). \<not> starts_comment (drop k (cur @ [c]) @ s)"
        if "\<not> starts_comment (c # s)"
        using that "2.prems"(2) by (auto simp: less_Suc_eq)
      show ?thesis
      proof (cases "starts_comment (c # s)")
        case True
        with None normal show ?thesis by simp
      next
        case False
        from None normal False "2.IH"(1) [OF normal None False _ step [OF False]] "2.prems"(1)
        show ?thesis by simp
      qed
    qed
  qed
qed

lemma scan_outside_quotes_list:
  "scan_outside_quotes sql f keep acc = scan_list f StateNormal [] sql acc"
  using scan_loop_scan_list [of 0 0 f keep sql StateNormal acc]
  by (simp add: scan_outside_quotes_def)

text \<open>The callback's substring tests find nothing the loop has not stopped at.\<close>

lemma contains_opens_comment:
  "contains s ''#'' \<or> contains s ''/*'' \<or> contains s ''-- '' \<Longrightarrow> opens_comment s"
proof (induction s)
  case (Cons c s)
  have "starts_comment (c # s)"
    if "prefix ''#'' (c # s) \<or> prefix ''/*'' (c # s) \<or> prefix ''-- '' (c # s)"
    using that by (auto simp: starts_comment_def is_space_or_control_def prefix_def)
  with Cons show ?case by (auto simp del: Cons_prefix_Cons)
qed simp

lemma run_fragments_bool:
  "(\<And>x. P x \<Longrightarrow> Q x) \<Longrightarrow> \<not> list_ex Q xs \<Longrightarrow> \<not> fst (run_fragments (\<lambda>_ x. (P x, ())) () xs)"
proof (induction xs)
  case (Cons a xs)
  then have "\<not> P a" by auto
  with Cons show ?case by simp
qed simp

lemma run_fragments_append:
  "run_fragments (\<lambda>b x. (False, b @ g x)) acc xs = (False, acc @ concat (map g xs))"
  by (induction xs arbitrary: acc) auto

lemma has_comment_token_iff:
  "has_comment_token s \<longleftrightarrow> list_ex opens_comment (outside_quotes s)"
proof (cases "list_ex opens_comment (outside_quotes s)")
  case True
  then show ?thesis
    using scan_list_comment [of StateNormal "[]" s]
    by (simp add: has_comment_token_def scan_outside_quotes_list outside_quotes_def)
next
  case False
  then show ?thesis
    using run_fragments_bool [OF contains_opens_comment, where xs = "outside_quotes s"]
    by (simp add: has_comment_token_def scan_outside_quotes_list outside_quotes_def
        scan_list_no_comment)
qed

lemma outside_quotes_upper_eq:
  "\<not> has_comment_token s \<Longrightarrow>
     outside_quotes_upper u s = concat (map (to_upper u) (outside_quotes s))"
  by (simp add: has_comment_token_iff outside_quotes_upper_def scan_outside_quotes_list
      outside_quotes_def scan_list_no_comment run_fragments_append)

section \<open>What the guard lets through\<close>

fun all_nodes :: "'x ast_node \<Rightarrow> node_kind list" where
  "all_nodes (AstNode k x kids) = k # concat (map all_nodes kids)"

definition read_only_node :: "node_kind \<Rightarrow> bool" where
  "read_only_node n = (case n of
     SelectStmt s \<Rightarrow> SelectIntoOpt s = None \<and> LockInfo s \<noteq> Some SelectLockOther
   | _ \<Rightarrow> True)"

definition visitor_denials :: "guard_result set" where
  "visitor_denials =
     {deny ''SELECT ... INTO is not allowed'' [''select_into''],
      deny ''SELECT ... FOR UPDATE is not allowed'' [''for_update'']}"

text \<open>One visit: ok is \<open>denied = nil\<close>, which holds when the subtree only reads.\<close>

definition visit_ok :: "guard_result option \<times> bool \<Rightarrow> bool \<Rightarrow> bool" where
  "visit_ok res reads \<longleftrightarrow>
     (if reads then res = (None, True) else snd res = False \<and> fst res \<in> Some ` visitor_denials)"

lemma visitor_enter_cases:
  "(read_only_node k \<and> visitor_enter None k = (None, False)) \<or>
   (\<not> read_only_node k \<and> snd (visitor_enter None k) \<and>
    fst (visitor_enter None k) \<in> Some ` visitor_denials)"
proof (cases k)
  case (SelectStmt s)
  then show ?thesis
    by (cases "SelectIntoOpt s"; cases "LockInfo s"; cases "the (LockInfo s)")
       (simp_all add: visitor_enter_def read_only_node_def visitor_denials_def)
qed (simp_all add: visitor_enter_def read_only_node_def)

lemma accept_children_visit_ok:
  "(\<And>t. t \<in> set ts \<Longrightarrow> visit_ok (accept None t) (list_all read_only_node (all_nodes t))) \<Longrightarrow>
     visit_ok (accept_children None ts)
       (list_all read_only_node (concat (map all_nodes ts)))"
proof (induction ts)
  case (Cons t ts)
  show ?case
  proof (cases "list_all read_only_node (all_nodes t)")
    case True
    with Cons.prems have "accept None t = (None, True)" by (simp add: visit_ok_def)
    with True Cons show ?thesis by simp
  next
    case False
    with Cons.prems [of t] obtain d where
      "accept None t = (d, False)" "d \<in> Some ` visitor_denials"
      by (cases "accept None t") (auto simp: visit_ok_def)
    with False show ?thesis by (simp add: visit_ok_def)
  qed
qed (simp add: visit_ok_def)

lemma accept_visit_ok: "visit_ok (accept None t) (list_all read_only_node (all_nodes t))"
proof (induction t)
  case (AstNode k x kids)
  then have kids: "visit_ok (accept_children None kids)
      (list_all read_only_node (concat (map all_nodes kids)))"
    by (rule accept_children_visit_ok)
  show ?case
  proof (cases "read_only_node k")
    case True
    with visitor_enter_cases [of k] have "visitor_enter None k = (None, False)" by simp
    with True kids show ?thesis
      by (cases "accept_children None kids")
         (auto simp: visit_ok_def visitor_leave_def split: if_splits)
  next
    case False
    with visitor_enter_cases [of k] obtain d where
      "visitor_enter None k = (d, True)" "d \<in> Some ` visitor_denials"
      by (cases "visitor_enter None k") auto
    with False show ?thesis by (auto simp: visit_ok_def visitor_leave_def)
  qed
qed

lemma accept_None_iff:
  "fst (accept None t) = None \<longleftrightarrow> list_all read_only_node (all_nodes t)"
  using accept_visit_ok [of t] by (auto simp: visit_ok_def split: if_splits)

lemma accept_SomeD: "fst (accept None t) = Some r \<Longrightarrow> r \<in> visitor_denials"
  using accept_visit_ok [of t] by (auto simp: visit_ok_def split: if_splits)

lemma allowed_kind_needs_limit: "allowed_kind k \<Longrightarrow> \<exists>b. needs_limit_injection k = Inr b"
  by (auto simp: allowed_kind_def needs_limit_injection_def split: node_kind.splits)

text \<open>The accepted inputs, as one condition on the trimmed text.\<close>

definition read_only_text :: "(string \<Rightarrow> string) \<Rightarrow> string \<Rightarrow> bool" where
  "read_only_text ucase t \<longleftrightarrow>
     t \<noteq> [] \<and> \<not> has_comment_token t \<and> detect_raw_denied_pattern ucase t = None"

definition read_only_stmt :: "'x ast_node \<Rightarrow> bool" where
  "read_only_stmt stmt \<longleftrightarrow> allowed_kind (kind_of stmt) \<and> list_all read_only_node (all_nodes stmt)"

definition bounded_text :: "node_kind \<Rightarrow> string \<Rightarrow> string" where
  "bounded_text k text =
     (if needs_limit_injection k = Inr True then text @ '' LIMIT '' @ itoa default_row_limit
      else text)"

lemma detect_raw_denied_not_OK: "detect_raw_denied_pattern u t = Some r \<Longrightarrow>
    r = deny ''SELECT ... INTO is not allowed'' [''select_into'']"
  by (auto simp: detect_raw_denied_pattern_def Let_def split: if_splits)

lemma validate_sql_accepts:
  assumes "read_only_text u (trim_space s)" "ParseSQL p (trim_space s) = Some [stmt]"
    "read_only_stmt stmt" "RestoreSQL p stmt = Inr text"
  shows "validate_sql p u s = Inr \<lparr>OK = True, RewrittenSQL = bounded_text (kind_of stmt) text,
     Reason = [], BlockedConstructs = [],
     LimitInjected = (needs_limit_injection (kind_of stmt) = Inr True)\<rparr>"
proof -
  have "fst (accept None stmt) = None"
    using assms(3) by (simp add: accept_None_iff read_only_stmt_def)
  moreover obtain b where "needs_limit_injection (kind_of stmt) = Inr b"
    using assms(3) allowed_kind_needs_limit by (auto simp: read_only_stmt_def)
  ultimately show ?thesis using assms
    by (simp add: validate_sql_def read_only_text_def read_only_stmt_def bounded_text_def)
qed

lemma validate_sql_OKD:
  assumes "validate_sql p u s = Inr r" "OK r"
  obtains stmt out where "read_only_text u (trim_space s)"
    "ParseSQL p (trim_space s) = Some [stmt]" "read_only_stmt stmt"
    "RestoreSQL p stmt = Inr out" "RewrittenSQL r = bounded_text (kind_of stmt) out"
proof -
  have denied: "\<not> OK x" if "x \<in> visitor_denials" for x
    using that by (auto simp: visitor_denials_def)
  from assms have t: "read_only_text u (trim_space s)"
    by (auto simp: validate_sql_def read_only_text_def parse_error_result_def Let_def
        dest: detect_raw_denied_not_OK split: if_splits option.splits)
  with assms obtain stmt where st: "ParseSQL p (trim_space s) = Some [stmt]"
      "allowed_kind (kind_of stmt)"
    by (auto simp: validate_sql_def read_only_text_def parse_error_result_def Let_def
        split: if_splits option.splits list.splits)
  with assms t denied have acc: "fst (accept None stmt) = None"
    by (auto simp: validate_sql_def read_only_text_def dest: accept_SomeD split: option.splits)
  obtain b where b: "needs_limit_injection (kind_of stmt) = Inr b"
    using st(2) allowed_kind_needs_limit by blast
  with assms t st acc obtain out where "RestoreSQL p stmt = Inr out"
    by (auto simp: validate_sql_def read_only_text_def split: sum.splits)
  moreover have ro: "read_only_stmt stmt"
    using st acc by (simp add: read_only_stmt_def accept_None_iff)
  ultimately show ?thesis
    using that [OF t st(1) ro] validate_sql_accepts [OF t st(1) ro] assms(1) by auto
qed

definition denial_shape :: "guard_result \<Rightarrow> bool" where
  "denial_shape r \<longleftrightarrow> \<not> OK r \<and> RewrittenSQL r = [] \<and> \<not> LimitInjected r \<and> Reason r \<noteq> [] \<and>
     (case BlockedConstructs r of [c] \<Rightarrow> c \<noteq> [] | _ \<Rightarrow> False)"

lemma denial_shape_deny [simp]: "reason \<noteq> [] \<Longrightarrow> c \<noteq> [] \<Longrightarrow> denial_shape (deny reason [c])"
  by (simp add: denial_shape_def)

lemma denial_shape_visitor: "r \<in> visitor_denials \<Longrightarrow> denial_shape r"
  by (auto simp: visitor_denials_def)

lemma validate_sql_denied_shape:
  "validate_sql p u s = Inr r \<Longrightarrow> \<not> OK r \<Longrightarrow> denial_shape r"
  by (auto simp: validate_sql_def parse_error_result_def Let_def
      dest!: detect_raw_denied_not_OK dest: accept_SomeD denial_shape_visitor
      split: if_splits option.splits list.splits sum.splits)

lemma validate_sql_InlD:
  assumes "validate_sql p u s = Inl e"
  shows "\<exists>stmt err. ParseSQL p (trim_space s) = Some [stmt] \<and> RestoreSQL p stmt = Inl err \<and>
    e = Wrapped ''restore sql'' err"
  using assms allowed_kind_needs_limit
  by (auto simp: validate_sql_def Let_def split: if_splits option.splits list.splits sum.splits)
     (metis sum.distinct(1))+

section \<open>The contract with the executors of SQL\<close>

text \<open>
  What the query pipeline and the MySQL gateway rely on: text is admissible for execution only
  as the rewritten SQL of an accepted statement, and a denial carries its reason.
\<close>

locale sql_validator =
  fixes validate :: "string \<Rightarrow> gerr + guard_result"
    and admissible :: "string \<Rightarrow> string \<Rightarrow> bool"
  assumes accepted_admissible:
      "validate s = Inr r \<Longrightarrow> OK r \<Longrightarrow> admissible s (RewrittenSQL r)"
    and denied_shape: "validate s = Inr r \<Longrightarrow> \<not> OK r \<Longrightarrow> denial_shape r"
begin

lemma validate_cases:
  obtains (failed) e where "validate s = Inl e"
    | (denied) r where "validate s = Inr r" "\<not> OK r" "denial_shape r"
    | (accepted) r where "validate s = Inr r" "OK r" "admissible s (RewrittenSQL r)"
  using accepted_admissible denied_shape by (metis sum.exhaust)

end

definition guard_admissible ::
  "'x sql_parser \<Rightarrow> (string \<Rightarrow> string) \<Rightarrow> string \<Rightarrow> string \<Rightarrow> bool" where
  "guard_admissible p u s q \<longleftrightarrow>
     (\<exists>stmt out. read_only_text u (trim_space s) \<and> ParseSQL p (trim_space s) = Some [stmt] \<and>
        read_only_stmt stmt \<and> RestoreSQL p stmt = Inr out \<and> q = bounded_text (kind_of stmt) out)"

interpretation guard: sql_validator "validate_sql p u" "guard_admissible p u" for p u
proof unfold_locales
  show "guard_admissible p u s (RewrittenSQL r)" if "validate_sql p u s = Inr r" "OK r" for s r
    using that by (auto simp: guard_admissible_def elim!: validate_sql_OKD)
qed (rule validate_sql_denied_shape)

section \<open>Properties\<close>

definition example_select :: "unit ast_node" where
  "example_select = AstNode (SelectStmt \<lparr>SelectIntoOpt = None, LockInfo = Some SelectLockForShare,
     SelectLimit = None, GroupByItems = None,
     SelectFields = Some [None, Some (Some OtherExpr)]\<rparr>) () [AstNode OtherNode () []]"

definition example_parser :: "unit sql_parser" where
  "example_parser = \<lparr>ParseSQL = (\<lambda>_. Some [example_select]),
     RestoreSQL = (\<lambda>_. Inr ''SELECT a FROM t'')\<rparr>"

text \<open>
  C3. The guard accepts exactly the read-only statements: the trimmed text is not empty, has no
  comment and no raw INTO pattern outside quotes, parses to one statement that is a SELECT, a
  set operation or a SHOW, no SELECT anywhere in its tree has an INTO clause or an exclusive
  lock, and the parser can print it back. The SQL handed on is the printed statement, with the
  1000-row LIMIT when the statement needs one, never the caller's own text.
\<close>

theorem validate_accepts_iff_read_only:
  "(\<exists>r. validate_sql p u s = Inr r \<and> OK r \<and> RewrittenSQL r = q) \<longleftrightarrow>
   (\<exists>stmt out. read_only_text u (trim_space s) \<and> ParseSQL p (trim_space s) = Some [stmt] \<and>
      read_only_stmt stmt \<and> RestoreSQL p stmt = Inr out \<and> q = bounded_text (kind_of stmt) out)"
proof
  assume "\<exists>r. validate_sql p u s = Inr r \<and> OK r \<and> RewrittenSQL r = q"
  then show "\<exists>stmt out. read_only_text u (trim_space s) \<and>
      ParseSQL p (trim_space s) = Some [stmt] \<and> read_only_stmt stmt \<and>
      RestoreSQL p stmt = Inr out \<and> q = bounded_text (kind_of stmt) out"
    by (auto elim!: validate_sql_OKD)
qed (auto simp: validate_sql_accepts)

text \<open>
  C4. The scanner agrees with the lexer of quoted text: a text has a comment token exactly when
  one of its fragments outside quotes opens a comment, and when none does the text matched
  against the raw patterns is the concatenation of those fragments in upper case.
\<close>

theorem scanner_matches_lexer:
  "has_comment_token s = list_ex opens_comment (outside_quotes s) \<and>
   (\<not> has_comment_token s \<longrightarrow>
     outside_quotes_upper u s = concat (map (to_upper u) (outside_quotes s)))"
  using has_comment_token_iff [of s] outside_quotes_upper_eq [of s u] by simp

theorem scanner_matches_lexer_witness:
  "outside_quotes_upper id (''a'' @ [single_quote, CHR ''#'', single_quote] @ ''b'') = ''AB''"
proof -
  let ?s = "''a'' @ [single_quote, CHR ''#'', single_quote] @ ''b''"
  have o: "outside_quotes ?s = [''a'', ''b'']" by code_simp
  have "list_ex opens_comment [''a'', ''b''] = False" by code_simp
  moreover have "concat (map (to_upper id) [''a'', ''b'']) = ''AB''" by code_simp
  ultimately show ?thesis using scanner_matches_lexer [of ?s id] unfolding o by simp
qed

text \<open>
  A result of \<open>Validate\<close> that is not OK carries no SQL, no LIMIT flag, a reason and exactly
  one named construct, and the only way to get an error is a failing print of the statement.
\<close>

theorem validate_denials_and_errors:
  "(case validate_sql p u s of
      Inr r \<Rightarrow> OK r \<or> denial_shape r
    | Inl e \<Rightarrow> (\<exists>stmt err. ParseSQL p (trim_space s) = Some [stmt] \<and>
                 RestoreSQL p stmt = Inl err \<and> e = Wrapped ''restore sql'' err))"
  using validate_sql_denied_shape [of p u s] validate_sql_InlD [of p u s]
  by (auto split: sum.splits)

definition unbounded_kind :: "node_kind \<Rightarrow> bool" where
  "unbounded_kind k = (case k of
     SelectStmt s \<Rightarrow> SelectLimit s = None \<and> \<not> is_aggregated_select s
   | SetOprStmt limit \<Rightarrow> limit = None
   | _ \<Rightarrow> False)"


lemma example_parse:
  "validate_sql example_parser id ''SELECT a FROM t'' =
     Inr \<lparr>OK = True, RewrittenSQL = ''SELECT a FROM t LIMIT 1000'', Reason = [],
          BlockedConstructs = [], LimitInjected = True\<rparr>"
  by code_simp


end
