(* ===== verification/Breaker.thy ===== *)
theory Breaker
  imports Errors "HOL-Library.Multiset"
begin

text \<open>
  gateway/llm/breaker.go: one circuit breaker per provider. Each operation runs under the
  breaker's mutex and is one function on the record; the clock it reads is its first argument.
  The locale \<open>call_gate\<close> is what the router relies on; it is interpreted on the breaker here.
\<close>

section \<open>The breaker\<close>

definition err_circuit_open :: gerr where
  "err_circuit_open = Sentinel ''llm.ErrCircuitOpen'' ''llm provider circuit breaker is open''"

definition breaker_failure_threshold :: nat where "breaker_failure_threshold = 3"
definition breaker_open_interval :: duration where "breaker_open_interval = seconds 30"

datatype breaker_state = BreakerClosed | BreakerOpen | BreakerHalfOpen

record provider_breaker =
  brk_provider :: string
  brk_state :: breaker_state
  consecutive_fails :: nat
  open_until :: time
  half_open_in_flight :: bool

definition new_provider_breaker :: "string \<Rightarrow> provider_breaker" where
  "new_provider_breaker p = \<lparr>brk_provider = p, brk_state = BreakerClosed, consecutive_fails = 0,
     open_until = time_zero, half_open_in_flight = False\<rparr>"

definition before_call :: "time \<Rightarrow> provider_breaker \<Rightarrow> gerr option \<times> provider_breaker" where
  "before_call now b =
    (let admit = (\<lambda>b. (None,
           if brk_state b = BreakerHalfOpen then b\<lparr>half_open_in_flight := True\<rparr> else b));
         reject = (Some (new_transient_provider_error (brk_provider b) err_circuit_open), b)
     in case brk_state b of
          BreakerOpen \<Rightarrow>
            (if now < open_until b then reject
             else admit (b\<lparr>brk_state := BreakerHalfOpen, half_open_in_flight := False\<rparr>))
        | BreakerHalfOpen \<Rightarrow> (if half_open_in_flight b then reject else admit b)
        | BreakerClosed \<Rightarrow> admit b)"

definition trip_locked :: "time \<Rightarrow> provider_breaker \<Rightarrow> provider_breaker" where
  "trip_locked now b = b\<lparr>brk_state := BreakerOpen, consecutive_fails := 0,
     open_until := now + breaker_open_interval, half_open_in_flight := False\<rparr>"

definition close_breaker :: "provider_breaker \<Rightarrow> provider_breaker" where
  "close_breaker b = b\<lparr>brk_state := BreakerClosed, consecutive_fails := 0,
     open_until := time_zero, half_open_in_flight := False\<rparr>"

definition after_call :: "time \<Rightarrow> gerr option \<Rightarrow> provider_breaker \<Rightarrow> provider_breaker" where
  "after_call now err b =
    (case err of
       None \<Rightarrow> close_breaker b
     | Some e \<Rightarrow>
        (if errors_is e ContextCanceled then
           (if brk_state b = BreakerHalfOpen then b\<lparr>half_open_in_flight := False\<rparr> else b)
         else if \<not> is_transient_provider_error e then close_breaker b
         else if brk_state b = BreakerHalfOpen then trip_locked now b
         else (let b' = b\<lparr>consecutive_fails := consecutive_fails b + 1\<rparr> in
               if breaker_failure_threshold \<le> consecutive_fails b' then trip_locked now b'
               else b')))"

lemmas breaker_unfold [breaker_simps] =
  before_call_def after_call_def trip_locked_def close_breaker_def new_provider_breaker_def
  breaker_failure_threshold_def Let_def new_transient_provider_error_def

section \<open>The invariant\<close>

definition breaker_inv :: "provider_breaker \<Rightarrow> bool" where
  "breaker_inv b \<longleftrightarrow>
     consecutive_fails b < breaker_failure_threshold
     \<and> (half_open_in_flight b \<longrightarrow> brk_state b = BreakerHalfOpen)
     \<and> (brk_state b = BreakerClosed \<longrightarrow> open_until b = time_zero)
     \<and> (brk_state b = BreakerHalfOpen \<longrightarrow> consecutive_fails b < breaker_failure_threshold)"

lemma breaker_inv_new [intro, simp]: "breaker_inv (new_provider_breaker p)"
  by (simp add: breaker_inv_def breaker_simps)

lemma breaker_inv_before: "breaker_inv b \<Longrightarrow> breaker_inv (snd (before_call now b))"
  by (auto simp: breaker_inv_def breaker_simps split: breaker_state.splits)

lemma breaker_inv_after: "breaker_inv b \<Longrightarrow> breaker_inv (after_call now err b)"
  by (auto simp: breaker_inv_def breaker_simps split: option.splits if_splits)

lemma brk_provider_before [simp]: "brk_provider (snd (before_call now b)) = brk_provider b"
  by (simp add: breaker_simps split: breaker_state.splits)

lemma brk_provider_after [simp]: "brk_provider (after_call now err b) = brk_provider b"
  by (simp add: breaker_simps split: option.splits)

lemma before_call_reject:
  "before_call now b = (Some e, b') \<longleftrightarrow>
     e = ProviderError (brk_provider b) err_circuit_open True \<and> b' = b \<and>
     (brk_state b = BreakerOpen \<and> now < open_until b \<or>
      brk_state b = BreakerHalfOpen \<and> half_open_in_flight b)"
  by (auto simp: breaker_simps split: breaker_state.splits)

lemma before_call_admit:
  "before_call now b = (None, b') \<longleftrightarrow>
     (brk_state b = BreakerClosed \<and> b' = b)
     \<or> (brk_state b = BreakerOpen \<and> open_until b \<le> now \<and>
        b' = b\<lparr>brk_state := BreakerHalfOpen, half_open_in_flight := True\<rparr>)
     \<or> (brk_state b = BreakerHalfOpen \<and> \<not> half_open_in_flight b \<and>
        b' = b\<lparr>half_open_in_flight := True\<rparr>)"
  by (auto simp: breaker_simps split: breaker_state.splits)

section \<open>The contract with the router\<close>

locale call_gate =
  fixes before :: "time \<Rightarrow> 'b \<Rightarrow> gerr option \<times> 'b"
    and after :: "time \<Rightarrow> gerr option \<Rightarrow> 'b \<Rightarrow> 'b"
    and good :: "'b \<Rightarrow> bool"
    and gate_name :: "'b \<Rightarrow> string"
  assumes reject_transient:
      "before t b = (Some e, b') \<Longrightarrow> is_transient_provider_error e \<and> errors_is e err_circuit_open"
    and reject_keeps: "before t b = (Some e, b') \<Longrightarrow> b' = b"
    and before_good: "good b \<Longrightarrow> good (snd (before t b))"
    and after_good: "good b \<Longrightarrow> good (after t err b)"
    and name_before: "gate_name (snd (before t b)) = gate_name b"
    and name_after: "gate_name (after t err b) = gate_name b"
begin

text \<open>Any history of the gate's operations keeps what is good.\<close>

lemma history_good:
  "good b \<Longrightarrow> (\<And>op c. op \<in> set ops \<Longrightarrow> good c \<Longrightarrow> good (op c)) \<Longrightarrow> good (fold (\<lambda>op c. op c) ops b)"
  by (induction ops arbitrary: b) auto

lemma round_good:
  "good b \<Longrightarrow> before t b = (r, b') \<Longrightarrow> good (after t' err b')"
  using before_good [of b t] after_good by simp

end

interpretation breaker_gate: call_gate before_call after_call breaker_inv brk_provider
proof unfold_locales
  show "is_transient_provider_error e \<and> errors_is e err_circuit_open"
    if "before_call t b = (Some e, b')" for t b e b'
    using that by (auto simp: before_call_reject)
qed (auto simp: before_call_reject breaker_inv_before breaker_inv_after)

section \<open>Overlapping calls\<close>

text \<open>
  Goroutines interleave at the breaker's mutex: a call is admitted or rejected, and an admitted
  call reports its outcome at any later time. The state is the breaker with the admitted calls
  that have not reported, each tagged with whether it was admitted as the half-open probe.
\<close>

datatype admitted = RegularCall | ProbeCall

inductive breaker_step ::
  "provider_breaker \<times> admitted multiset \<Rightarrow> provider_breaker \<times> admitted multiset \<Rightarrow> bool" where
  admit: "before_call now b = (None, b') \<Longrightarrow>
     breaker_step (b, cs)
       (b', add_mset (if brk_state b' = BreakerHalfOpen then ProbeCall else RegularCall) cs)"
| reject: "before_call now b = (Some e, b') \<Longrightarrow> breaker_step (b, cs) (b', cs)"
| report: "c \<in># cs \<Longrightarrow> breaker_step (b, cs) (after_call now err b, cs - {#c#})"

inductive breaker_reachable :: "string \<Rightarrow> provider_breaker \<times> admitted multiset \<Rightarrow> bool" for p where
  start: "breaker_reachable p (new_provider_breaker p, {#})"
| step: "breaker_reachable p s \<Longrightarrow> breaker_step s s' \<Longrightarrow> breaker_reachable p s'"

inductive_cases breaker_stepE: "breaker_step (b, cs) s"

lemma breaker_step_inv: "breaker_step s s' \<Longrightarrow> breaker_inv (fst s) \<Longrightarrow> breaker_inv (fst s')"
proof (induction rule: breaker_step.induct)
  case (admit now b b' cs)
  then show ?case using breaker_gate.before_good [of b now] by simp
next
  case (reject now b e b' cs)
  then show ?case using breaker_gate.reject_keeps by auto
next
  case (report c cs b now err)
  then show ?case using breaker_gate.after_good by simp
qed

lemma breaker_step_provider:
  "breaker_step s s' \<Longrightarrow> brk_provider (fst s') = brk_provider (fst s)"
proof (induction rule: breaker_step.induct)
  case (admit now b b' cs)
  then show ?case using breaker_gate.name_before [of now b] by simp
next
  case (reject now b e b' cs)
  then show ?case using breaker_gate.name_before [of now b] by simp
qed simp

lemma breaker_reachable_provider: "breaker_reachable p s \<Longrightarrow> brk_provider (fst s) = p"
  by (induction rule: breaker_reachable.induct)
    (simp_all add: new_provider_breaker_def breaker_step_provider)

section \<open>Runs of one caller\<close>

text \<open>The outcomes of calls as the breaker classifies them.\<close>

datatype outcome_class = Succeeded | Cancelled | Permanent | Transient

definition classify :: "gerr option \<Rightarrow> outcome_class" where
  "classify err = (case err of
     None \<Rightarrow> Succeeded
   | Some e \<Rightarrow> if errors_is e ContextCanceled then Cancelled
              else if is_transient_provider_error e then Transient else Permanent)"

text \<open>The abstract breaker: transient failures since the last reset, cancellations ignored.\<close>

fun recent_transients :: "outcome_class list \<Rightarrow> nat" where
  "recent_transients [] = 0"
| "recent_transients (Cancelled # os) = recent_transients os"
| "recent_transients (Transient # os) = Suc (recent_transients os)"
| "recent_transients (_ # os) = 0"

definition report_all :: "(time \<times> gerr option) list \<Rightarrow> provider_breaker \<Rightarrow> provider_breaker" where
  "report_all rs b = foldl (\<lambda>b (now, err). after_call now err b) b rs"

definition classes :: "(time \<times> gerr option) list \<Rightarrow> outcome_class list" where
  "classes rs = rev (map (classify \<circ> snd) rs)"

lemma after_call_closed:
  "brk_state b = BreakerClosed \<Longrightarrow>
     after_call now err b =
       (case classify err of
          Cancelled \<Rightarrow> b
        | Transient \<Rightarrow>
            (if breaker_failure_threshold \<le> Suc (consecutive_fails b)
             then trip_locked now (b\<lparr>consecutive_fails := Suc (consecutive_fails b)\<rparr>)
             else b\<lparr>consecutive_fails := Suc (consecutive_fails b)\<rparr>)
        | _ \<Rightarrow> close_breaker b)"
  by (auto simp: classify_def after_call_def Let_def split: option.splits)

lemma report_all_closed:
  assumes "\<And>n. n \<le> length rs \<Longrightarrow> recent_transients (classes (take n rs)) < breaker_failure_threshold"
  shows "brk_state (report_all rs (new_provider_breaker p)) = BreakerClosed \<and>
    consecutive_fails (report_all rs (new_provider_breaker p)) = recent_transients (classes rs)"
  using assms
proof (induction rs rule: rev_induct)
  case Nil
  then show ?case by (simp add: report_all_def classes_def breaker_simps)
next
  case (snoc r rs)
  obtain now err where r: "r = (now, err)" by fastforce
  have prems: "recent_transients (classes (take n rs)) < breaker_failure_threshold"
    if "n \<le> length rs" for n using snoc.prems [of n] that by simp
  note ih = snoc.IH [OF prems]
  have last: "recent_transients (classify err # classes rs) < breaker_failure_threshold"
    using snoc.prems [of "length rs + 1"] by (simp add: classes_def r)
  show ?case
    using ih last
    by (cases "classify err")
       (auto simp: report_all_def classes_def r after_call_closed close_breaker_def)
qed

section \<open>Properties\<close>

text \<open>
  C6. Every breaker reachable by any interleaving of admissions, rejections and (late, failed,
  cancelled or successful) reports keeps its provider, counts fewer failures than the threshold,
  raises the in-flight flag only in the half-open state and has no deadline when closed.
\<close>

theorem breaker_reachable_invariant:
  assumes "breaker_reachable p s"
  shows "breaker_inv (fst s) \<and> brk_provider (fst s) = p"
  using assms
proof (induction rule: breaker_reachable.induct)
  case start
  then show ?case by (simp add: new_provider_breaker_def) (simp flip: new_provider_breaker_def)
next
  case (step s s')
  then show ?case using breaker_step_inv breaker_step_provider by metis
qed

theorem breaker_reachable_invariant_witness:
  "breaker_inv (new_provider_breaker ''openai'')"
  using breaker_reachable_invariant [OF breaker_reachable.start, of "''openai''"] by simp

text \<open>
  C7. A closed breaker opens at the third transient failure that follows no success or permanent
  failure, and not before: cancellations neither count nor reset. From then on every call is
  rejected as a transient error until 30 seconds after the failure that tripped it.
\<close>

theorem breaker_trips_at_third_failure:
  assumes "\<And>n. n \<le> length rs \<Longrightarrow> recent_transients (classes (take n rs)) < 3"
    and "classify err = Transient"
  shows "(let b = report_all (rs @ [(now, err)]) (new_provider_breaker p) in
    (brk_state b = BreakerOpen) = (recent_transients (classes (rs @ [(now, err)])) = 3) \<and>
    (brk_state b = BreakerOpen \<longrightarrow> (\<forall>t. fst (before_call t b) =
       (if t < now + 30000000000 then Some (ProviderError p err_circuit_open True) else None))))"
proof -
  define b where "b = report_all rs (new_provider_breaker p)"
  have b: "brk_state b = BreakerClosed" "consecutive_fails b = recent_transients (classes rs)"
    using report_all_closed [of rs p] assms(1) by (simp_all add: b_def breaker_failure_threshold_def)
  have p: "brk_provider b = p"
    unfolding report_all_def b_def
    by (induction rs rule: rev_induct) (auto simp: new_provider_breaker_def)
  have less: "recent_transients (classes rs) < 3" using assms(1) [of "length rs"] by simp
  have snoc: "report_all (rs @ [(now, err)]) (new_provider_breaker p) = after_call now err b"
    "recent_transients (classes (rs @ [(now, err)])) = Suc (recent_transients (classes rs))"
    using assms(2) by (simp_all add: report_all_def classes_def b_def)
  have after: "after_call now err b =
      (if 3 \<le> Suc (consecutive_fails b)
       then trip_locked now (b\<lparr>consecutive_fails := Suc (consecutive_fails b)\<rparr>)
       else b\<lparr>consecutive_fails := Suc (consecutive_fails b)\<rparr>)"
    using after_call_closed [OF b(1)] assms(2) by (simp add: breaker_failure_threshold_def)
  show ?thesis
    unfolding snoc Let_def after using b p less
    by (auto simp: before_call_def trip_locked_def new_transient_provider_error_def
        breaker_open_interval_def seconds_def nanosecond_per_second_def)
qed

definition overload :: gerr where
  "overload = ProviderError ''openai'' (ErrNew ''overloaded'') True"

theorem breaker_trips_at_third_failure_witness:
  "fst (before_call 5 (report_all [(1, Some overload), (2, Some overload), (3, Some overload)]
     (new_provider_breaker ''openai''))) = Some (ProviderError ''openai'' err_circuit_open True)"
proof -
  have c: "classify (Some overload) = Transient" by code_simp
  have "recent_transients (classes (take n [(1, Some overload), (2, Some overload)])) < 3" for n
    by (cases n rule: nat.exhaust; cases "n - 1") (auto simp: classes_def c)
  from breaker_trips_at_third_failure [OF this c, of 3 "''openai''"]
  show ?thesis by (simp add: Let_def classes_def c)
qed

text \<open>
  The half-open state admits one probe: once a call is admitted there, every further call is
  rejected, whatever the clock says, until some admitted call reports its outcome.
\<close>

theorem half_open_admits_one_probe:
  assumes "before_call t b = (None, b')" "brk_state b' = BreakerHalfOpen"
  shows "map (\<lambda>now. before_call now b') ts =
    replicate (length ts) (Some (ProviderError (brk_provider b) err_circuit_open True), b')"
proof -
  have "half_open_in_flight b'" "brk_provider b' = brk_provider b"
    using assms by (auto simp: before_call_admit)
  with assms(2) have "before_call now b' =
      (Some (ProviderError (brk_provider b) err_circuit_open True), b')" for now
    by (simp add: before_call_reject)
  then show ?thesis by (induction ts) auto
qed

definition tripped_breaker :: provider_breaker where
  "tripped_breaker = trip_locked 0 (new_provider_breaker ''openai'')"

theorem half_open_admits_one_probe_witness:
  "map (\<lambda>now. fst (before_call now (snd (before_call 40000000000 tripped_breaker)))) [40000000001] =
   [Some (ProviderError ''openai'' err_circuit_open True)]"
proof -
  have a: "before_call 40000000000 tripped_breaker =
      (None, snd (before_call 40000000000 tripped_breaker))" by code_simp
  have "brk_state (snd (before_call 40000000000 tripped_breaker)) = BreakerHalfOpen"
    "brk_provider tripped_breaker = ''openai''" by code_simp+
  with half_open_admits_one_probe [OF a, of "[40000000001]"] show ?thesis by simp
qed

text \<open>
  C8. A cancelled call that outlives the closed state defeats the single probe. While the probe is in
  flight every other call is rejected; but when a call admitted before the breaker tripped reports
  that it was cancelled, whatever the time, the in-flight flag is cleared and the next call is
  admitted at any instant, a second probe beside the first.
\<close>

theorem stale_cancellation_admits_second_probe:
  assumes "breaker_reachable p (b, add_mset ProbeCall (add_mset RegularCall cs))"
    and "brk_state b = BreakerHalfOpen" "half_open_in_flight b" "errors_is e ContextCanceled"
  shows "before_call t b = (Some (ProviderError p err_circuit_open True), b) \<and>
    (\<exists>b'. before_call t (after_call now (Some e) b) = (None, b') \<and>
       breaker_reachable p (b', add_mset ProbeCall (add_mset ProbeCall cs)) \<and> half_open_in_flight b')"
proof -
  let ?idle = "b\<lparr>half_open_in_flight := False\<rparr>"
  have name: "brk_provider b = p" using breaker_reachable_provider [OF assms(1)] by simp
  have cleared: "after_call now (Some e) b = ?idle" using assms(2,4) by (simp add: after_call_def)
  have r1: "breaker_reachable p (after_call now (Some e) b, add_mset ProbeCall cs)"
    by (rule breaker_reachable.step [OF assms(1)])
      (use breaker_step.report [of RegularCall "add_mset ProbeCall (add_mset RegularCall cs)" b now "Some e"] in simp)
  have adm: "before_call t ?idle = (None, ?idle\<lparr>half_open_in_flight := True\<rparr>)"
    using assms(2) by (simp add: before_call_admit)
  have "breaker_reachable p (?idle\<lparr>half_open_in_flight := True\<rparr>, add_mset ProbeCall (add_mset ProbeCall cs))"
    by (rule breaker_reachable.step [OF r1 [unfolded cleared]])
      (use breaker_step.admit [OF adm, of "add_mset ProbeCall cs"] assms(2) in simp)
  then show ?thesis unfolding cleared using adm assms(2,3) name by (simp add: before_call_reject)
qed

text \<open>Four calls are admitted; three fail, and after 30 seconds a probe is in flight beside the fourth.\<close>

definition probed_breaker :: provider_breaker where
  "probed_breaker = snd (before_call 40000000000 (report_all [(1, Some overload), (2, Some overload), (3, Some overload)]
     (new_provider_breaker ''openai'')))"

lemma probed_breaker_reachable:
  "breaker_reachable ''openai'' (probed_breaker, {#ProbeCall, RegularCall#})"
proof -
  let ?b0 = "new_provider_breaker ''openai''"
  let ?b3 = "report_all [(1, Some overload), (2, Some overload), (3, Some overload)] ?b0"
  note next_step = breaker_reachable.step [of "''openai''"]
  have adm: "before_call 0 ?b0 = (None, ?b0)" "brk_state ?b0 \<noteq> BreakerHalfOpen" by code_simp+
  then have "breaker_step (?b0, cs) (?b0, add_mset RegularCall cs)" for cs
    using breaker_step.admit [OF adm(1)] by simp
  then have four: "breaker_reachable ''openai'' (?b0, {#RegularCall, RegularCall, RegularCall, RegularCall#})"
    using breaker_reachable.start [of "''openai''"] next_step by metis
  have failed: "breaker_reachable ''openai'' (after_call now (Some overload) b, cs)"
    if "breaker_reachable ''openai'' (b, add_mset RegularCall cs)" for now b cs
    using next_step [OF that breaker_step.report [of RegularCall "add_mset RegularCall cs" b now]] by simp
  have "breaker_reachable ''openai'' (?b3, {#RegularCall#})"
    unfolding report_all_def using failed [OF failed [OF failed [OF four]]] by simp
  moreover have h: "before_call 40000000000 ?b3 = (None, probed_breaker)" "brk_state probed_breaker = BreakerHalfOpen"
    unfolding probed_breaker_def by code_simp+
  ultimately show ?thesis
    using next_step [OF _ breaker_step.admit [OF h(1), of "{#RegularCall#}"]] by simp
qed

theorem stale_cancellation_admits_second_probe_witness:
  "fst (before_call 5 probed_breaker) \<noteq> None \<and>
   fst (before_call 5 (after_call 5 (Some (ProviderError ''openai'' ContextCanceled False)) probed_breaker)) = None"
proof -
  have flags: "brk_state probed_breaker = BreakerHalfOpen" "half_open_in_flight probed_breaker" by code_simp+
  have "errors_is (ProviderError ''openai'' ContextCanceled False) ContextCanceled" by simp
  from stale_cancellation_admits_second_probe [OF probed_breaker_reachable flags this, of 5 5]
  show ?thesis by auto
qed

end
