(* ===== verification/Json.thy ===== *)
theory Json
  imports Prelude
begin

text \<open>
  JSON documents, as the code builds them from \<open>map[string]any\<close>, and the shape that structured
  outputs require of a JSON schema: every object names all its properties as required and admits
  no others. The output schemas of the controllers are values of this type.
\<close>

datatype json =
    JNull
  | JBool bool
  | JInt int
  | JString string
  | JArray "json list"
  | JObject "(string \<times> json) list"

abbreviation (input) jtype :: "string \<Rightarrow> json" where
  "jtype t \<equiv> JObject [(''type'', JString t)]"

definition jstrings :: "string list \<Rightarrow> json" where
  "jstrings xs = JArray (map JString xs)"

fun jfield :: "string \<Rightarrow> json \<Rightarrow> json option" where
  "jfield k (JObject fs) = map_of fs k"
| "jfield k _ = None"

fun jkeys :: "json \<Rightarrow> string list" where
  "jkeys (JObject fs) = map fst fs"
| "jkeys _ = []"

text \<open>
  A strict schema of nesting depth at most \<open>n\<close>: a scalar, an array of a strict schema, or an
  object whose properties are strict, all required and the only ones.
\<close>

fun strict_schema :: "nat \<Rightarrow> json \<Rightarrow> bool" where
  "strict_schema 0 _ = False"
| "strict_schema (Suc n) s =
     (case jfield ''type'' s of
        Some (JString t) \<Rightarrow>
          (if t = ''object'' then
             (case (jfield ''properties'' s, jfield ''required'' s) of
                (Some (JObject props), Some (JArray req)) \<Rightarrow>
                  distinct (map fst props) \<and> set req = set (map (JString \<circ> fst) props) \<and>
                  jfield ''additionalProperties'' s = Some (JBool False) \<and>
                  list_all (\<lambda>p. strict_schema n (snd p)) props
              | _ \<Rightarrow> False)
           else if t = ''array'' then
             (case jfield ''items'' s of Some i \<Rightarrow> strict_schema n i | None \<Rightarrow> False)
           else t \<in> {''string'', ''integer'', ''number'', ''boolean''})
      | _ \<Rightarrow> False)"

end
