(* ===== verification/Router.thy ===== *)
theory Router
  imports Breaker Json
begin

text \<open>
  gateway/llm/router.go with the request helpers of llm.go and message.go: the providers in
  order of preference, each behind its breaker, and the failover loop of \<open>Complete\<close>. A provider
  is third-party code behind the \<open>Provider\<close> interface: \<open>router_env\<close> holds its \<open>Complete\<close>, the
  clock, and what other goroutines do to the breakers while the provider is called. Logging is
  not modelled.
\<close>

section \<open>Requests\<close>

record llm_message =
  msg_role :: string
  msg_content :: string
  msg_cached_content :: string

record completion_request =
  req_system :: string
  req_messages :: "llm_message list"
  req_operation :: string
  req_model :: string
  req_provider_models :: "string \<rightharpoonup> string"
  req_max_tokens :: int
  req_output_format :: "(string \<times> json) option"
  req_cache_control :: "(string \<times> string) option"

record llm_usage =
  usage_provider :: string
  usage_model :: string
  input_tokens :: int
  output_tokens :: int
  cache_creation_tokens :: int
  cache_read_tokens :: int

record completion_response =
  resp_content :: string
  resp_provider :: string
  resp_model :: string
  resp_usage :: llm_usage

text \<open>A missing key of a Go map reads as the zero value.\<close>

definition map_read :: "('k \<rightharpoonup> string) \<Rightarrow> 'k \<Rightarrow> string" where
  "map_read m k = (case m k of None \<Rightarrow> [] | Some v \<Rightarrow> v)"

definition model_for_provider :: "completion_request \<Rightarrow> string \<Rightarrow> string" where
  "model_for_provider r provider_name =
     (let override = trim_space (map_read (req_provider_models r) provider_name) in
      if override \<noteq> [] then override else trim_space (req_model r))"

text \<open>\<open>CloneProviderModels\<close> over the entries of the map in the order the loop meets them.\<close>

definition clone_provider_models :: "(string \<times> string) list \<Rightarrow> (string \<rightharpoonup> string)" where
  "clone_provider_models entries =
     foldl (\<lambda>out (key, value).
        let trimmed_key = trim_space key; trimmed_value = trim_space value in
        if trimmed_key = [] then out
        else if trimmed_value \<noteq> [] then out(trimmed_key \<mapsto> trimmed_value) else out)
       Map.empty entries"

definition merge_message_content :: "string \<Rightarrow> string \<Rightarrow> string" where
  "merge_message_content cached_content dynamic_content =
     (let cached = trim_space cached_content; dynamic = trim_space dynamic_content in
      if cached = [] then dynamic
      else if dynamic = [] then cached
      else cached @ [CHR 0x0A, CHR 0x0A] @ dynamic)"

section \<open>The router\<close>

record llm_provider =
  provider_id :: nat
  provider_name :: string

record 'b router =
  default_provider :: string
  rt_order :: "string list"
  rt_providers :: "string \<rightharpoonup> llm_provider"
  rt_breakers :: "string \<Rightarrow> 'b"

record ('w, 'b) router_env =
  env_clock :: "'w \<Rightarrow> time \<times> 'w"
  env_complete :: "llm_provider \<Rightarrow> completion_request \<Rightarrow> 'w \<Rightarrow> (gerr + completion_response) \<times> 'w"
  env_interfere :: "'w \<Rightarrow> (string \<Rightarrow> 'b) \<Rightarrow> (string \<Rightarrow> 'b)"

definition add_provider ::
  "(string \<Rightarrow> 'b) \<Rightarrow> 'b router \<Rightarrow> llm_provider option \<Rightarrow> 'b router" where
  "add_provider new_breaker r provider =
    (case provider of
       None \<Rightarrow> r
     | Some p \<Rightarrow>
        (let name = trim_space (provider_name p) in
         if name = [] then r
         else if rt_providers r name \<noteq> None then r
         else r\<lparr>rt_order := rt_order r @ [name],
                rt_providers := (rt_providers r)(name \<mapsto> p),
                rt_breakers := (rt_breakers r)(name := new_breaker name)\<rparr>))"

definition new_router ::
  "(string \<Rightarrow> 'b) \<Rightarrow> string \<Rightarrow> llm_provider option list \<Rightarrow> 'b router" where
  "new_router new_breaker preferred_name providers =
     foldl (add_provider new_breaker)
       \<lparr>default_provider = trim_space preferred_name, rt_order = [], rt_providers = Map.empty,
        rt_breakers = new_breaker\<rparr> providers"

definition ordered_providers :: "'b router \<Rightarrow> string list" where
  "ordered_providers r =
     (if rt_order r = [] then []
      else (let preferred = trim_space (default_provider r);
                out = (if preferred \<noteq> [] \<and> rt_providers r preferred \<noteq> None
                       then [preferred] else [])
            in out @ filter (\<lambda>name. name \<notin> set out) (rt_order r)))"

definition no_providers_error :: gerr where
  "no_providers_error = ErrNew ''no llm providers are configured''"

definition missing_model_error :: "string \<Rightarrow> gerr" where
  "missing_model_error p = new_provider_error p
     (ErrNew (''model is not configured for provider '' @ go_quote p))"

text \<open>
  One iteration of the loop in \<open>Complete\<close>: the candidate is passed over (its breaker is open, or
  it failed transiently), its error is returned at once, or it answered. \<open>before\<close> and
  \<open>after\<close> are the gate's operations.
\<close>

datatype attempt_result =
    TryNext gerr
  | ReturnError gerr
  | Answered completion_response

definition attempt_provider ::
  "(time \<Rightarrow> 'b \<Rightarrow> gerr option \<times> 'b) \<Rightarrow> (time \<Rightarrow> gerr option \<Rightarrow> 'b \<Rightarrow> 'b) \<Rightarrow>
   ('w, 'b) router_env \<Rightarrow> (string \<rightharpoonup> llm_provider) \<Rightarrow> completion_request \<Rightarrow>
   string \<Rightarrow> (string \<Rightarrow> 'b) \<Rightarrow> 'w \<Rightarrow> attempt_result \<times> (string \<Rightarrow> 'b) \<times> 'w"
where
  "attempt_provider before after env providers req name brks w =
     (let (now, w1) = env_clock env w in
      case before now (brks name) of
        (Some err, b) \<Rightarrow> (TryNext err, brks(name := b), w1)
      | (None, b) \<Rightarrow>
          (let brks1 = brks(name := b); model = model_for_provider req name in
           if model = [] then
             (let err = missing_model_error name; (now2, w2) = env_clock env w1 in
              (ReturnError err, brks1(name := after now2 (Some err) (brks1 name)), w2))
           else
             (let p = the (providers name);
                  (res, w2) = env_complete env p (req\<lparr>req_model := model\<rparr>) w1;
                  res' = map_error (wrap_provider_error name) res;
                  brks2 = env_interfere env w2 brks1;
                  (now2, w3) = env_clock env w2;
                  outcome = (case res' of Inl e \<Rightarrow> Some e | Inr _ \<Rightarrow> None);
                  brks3 = brks2(name := after now2 outcome (brks2 name))
              in case res' of
                   Inl err \<Rightarrow>
                     (if \<not> is_transient_provider_error err then (ReturnError err, brks3, w3)
                      else (TryNext err, brks3, w3))
                 | Inr resp \<Rightarrow>
                     (Answered (if resp_provider resp = []
                        then resp\<lparr>resp_provider := provider_name p\<rparr> else resp), brks3, w3))))"

text \<open>
  The loop over the remaining candidates, with the attempted providers, the last error, the
  breakers and the world.
\<close>

fun complete_loop ::
  "(time \<Rightarrow> 'b \<Rightarrow> gerr option \<times> 'b) \<Rightarrow> (time \<Rightarrow> gerr option \<Rightarrow> 'b \<Rightarrow> 'b) \<Rightarrow>
   ('w, 'b) router_env \<Rightarrow> (string \<rightharpoonup> llm_provider) \<Rightarrow> completion_request \<Rightarrow>
   string list \<Rightarrow> string list \<Rightarrow> gerr option \<Rightarrow> (string \<Rightarrow> 'b) \<Rightarrow> 'w \<Rightarrow>
   (gerr + completion_response) \<times> (string \<Rightarrow> 'b) \<times> 'w"
where
  "complete_loop before after env providers req [] attempted last_err brks w =
     ((case last_err of
         Some e \<Rightarrow> Inl (new_unavailable_error attempted e)
       | None \<Rightarrow> Inl no_providers_error), brks, w)"
| "complete_loop before after env providers req (name # candidates) attempted last_err brks w =
     (case attempt_provider before after env providers req name brks w of
        (TryNext err, brks', w') \<Rightarrow>
          complete_loop before after env providers req candidates
            (attempted @ [name]) (Some err) brks' w'
      | (ReturnError err, brks', w') \<Rightarrow> (Inl err, brks', w')
      | (Answered resp, brks', w') \<Rightarrow> (Inr resp, brks', w'))"

definition router_complete_with ::
  "(time \<Rightarrow> 'b \<Rightarrow> gerr option \<times> 'b) \<Rightarrow> (time \<Rightarrow> gerr option \<Rightarrow> 'b \<Rightarrow> 'b) \<Rightarrow>
   ('w, 'b) router_env \<Rightarrow> 'b router \<Rightarrow> completion_request \<Rightarrow> 'w \<Rightarrow>
   (gerr + completion_response) \<times> 'b router \<times> 'w"
where
  "router_complete_with before after env r req w =
     (let candidates = ordered_providers r in
      if candidates = [] then (Inl no_providers_error, r, w)
      else (case complete_loop before after env (rt_providers r) req candidates [] None
                   (rt_breakers r) w of
              (res, brks, w') \<Rightarrow> (res, r\<lparr>rt_breakers := brks\<rparr>, w')))"

definition router_complete ::
  "('w, provider_breaker) router_env \<Rightarrow> provider_breaker router \<Rightarrow> completion_request \<Rightarrow> 'w \<Rightarrow>
   (gerr + completion_response) \<times> provider_breaker router \<times> 'w"
where
  "router_complete = router_complete_with before_call after_call"

section \<open>The table of providers\<close>

definition router_ok :: "'b router \<Rightarrow> bool" where
  "router_ok r \<longleftrightarrow> distinct (rt_order r) \<and> set (rt_order r) = dom (rt_providers r) \<and> [] \<notin> set (rt_order r)
     \<and> (\<forall>n p. rt_providers r n = Some p \<longrightarrow> trim_space (provider_name p) = n)"

lemma router_ok_add: "router_ok r \<Longrightarrow> router_ok (add_provider nb r p)"
proof (cases p)
  case (Some q)
  assume ok: "router_ok r"
  let ?n = "trim_space (provider_name q)"
  show ?thesis
  proof (cases "?n = [] \<or> rt_providers r ?n \<noteq> None")
    case True
    with ok Some show ?thesis by (auto simp: add_provider_def Let_def)
  next
    case False
    then have "add_provider nb r p = r\<lparr>rt_order := rt_order r @ [?n],
        rt_providers := (rt_providers r)(?n \<mapsto> q), rt_breakers := (rt_breakers r)(?n := nb ?n)\<rparr>"
      by (simp add: add_provider_def Some Let_def)
    moreover have "?n \<notin> set (rt_order r)" using ok False by (auto simp: router_ok_def)
    ultimately show ?thesis using ok False by (auto simp: router_ok_def)
  qed
qed (simp add: add_provider_def)

lemma router_ok_new: "router_ok (new_router nb d ps)"
proof -
  have "router_ok (foldl (add_provider nb) r ps)" if "router_ok r" for r :: "'a router"
    using that by (induction ps arbitrary: r) (simp_all add: router_ok_add)
  moreover have "router_ok \<lparr>default_provider = trim_space d, rt_order = [],
      rt_providers = Map.empty, rt_breakers = nb\<rparr>"
    by (simp add: router_ok_def)
  ultimately show ?thesis by (simp add: new_router_def)
qed

lemma ordered_providers_props:
  "router_ok r \<Longrightarrow> distinct (ordered_providers r) \<and> set (ordered_providers r) = set (rt_order r)"
  by (auto simp: router_ok_def ordered_providers_def Let_def)

lemma map_snd_foldl_other: "default_provider (foldl (add_provider nb) r ps) = default_provider r"
  by (induction ps arbitrary: r) (auto simp: add_provider_def Let_def split: option.splits)

section \<open>The loop\<close>

text \<open>
  A world that records the providers called, in order: what the loop does to the outside.
\<close>

definition logging_env ::
  "('w, 'b) router_env \<Rightarrow> ('w \<times> llm_provider list, 'b) router_env" where
  "logging_env env = \<lparr>
     env_clock = (\<lambda>(w, log). case env_clock env w of (t, w') \<Rightarrow> (t, w', log)),
     env_complete = (\<lambda>p req (w, log). case env_complete env p req w of (r, w') \<Rightarrow> (r, w', log @ [p])),
     env_interfere = (\<lambda>(w, _). env_interfere env w)\<rparr>"

context call_gate
begin

abbreviation "attempt \<equiv> attempt_provider before after"
abbreviation "run \<equiv> complete_loop before after"

text \<open>What one attempt can end in, for each way of ending.\<close>

lemma attempt_outcome:
  assumes "attempt env ps req c brks w = (out, brks', w')"
  shows "case out of
      TryNext e \<Rightarrow> is_transient_provider_error e
    | ReturnError e \<Rightarrow> \<not> is_transient_provider_error e
    | Answered resp \<Rightarrow> resp_provider resp \<noteq> [] \<or> resp_provider resp = provider_name (the (ps c))"
  using assms reject_transient
  by (auto simp: attempt_provider_def Let_def missing_model_error_def new_provider_error_def
      split: prod.splits option.splits sum.splits if_splits)

lemma attempt_good:
  assumes "attempt env ps req c brks w = (out, brks', w')" "\<And>n. good (brks n)"
    and "\<And>w brks n. (\<And>m. good (brks m)) \<Longrightarrow> good (env_interfere env w brks n)"
  shows "good (brks' n)"
proof -
  have b: "good (snd (before t (brks m)))" for t m by (rule before_good) (rule assms(2))
  show ?thesis
    using assms(1,2) b
    by (auto simp: attempt_provider_def Let_def after_good
        intro!: after_good assms(3)
        split: prod.splits option.splits sum.splits if_splits) (metis snd_conv)+
qed

lemma attempt_log:
  assumes "attempt (logging_env env) ps req c brks (w, log) = (out, brks', w', log')"
  shows "log' = log \<or> log' = log @ [the (ps c)]"
    and "(\<exists>resp. out = Answered resp) \<Longrightarrow> log' = log @ [the (ps c)]"
  using assms
  by (auto simp: attempt_provider_def logging_env_def Let_def
      split: prod.splits option.splits sum.splits if_splits)

text \<open>The loop: where it stopped, and what it did on the way.\<close>

lemma run_result:
  assumes "run env ps req cs attempted last_err brks w = (res, brks', w')"
    and "case last_err of None \<Rightarrow> attempted = [] | Some e \<Rightarrow> is_transient_provider_error e"
  shows "case res of
      Inr resp \<Rightarrow> resp_provider resp \<noteq> [] \<or> resp_provider resp \<in> (provider_name \<circ> the \<circ> ps) ` set cs
    | Inl e \<Rightarrow> \<not> is_transient_provider_error e
        \<or> (\<exists>err. e = UnavailableError (attempted @ cs) err \<and> is_transient_provider_error err)"
  using assms
proof (induction cs arbitrary: attempted last_err brks w)
  case Nil
  then show ?case
    by (auto simp: new_unavailable_error_def no_providers_error_def
        is_transient_provider_error_def as_provider_error_def split: option.splits)
next
  case (Cons c cs)
  obtain out b1 w1 where a: "attempt env ps req c brks w = (out, b1, w1)"
    by (metis prod_cases3)
  show ?case
  proof (cases out)
    case (TryNext e)
    then show ?thesis
      using Cons.prems Cons.IH [of "attempted @ [c]" "Some e" b1 w1] attempt_outcome [OF a] a
      by (auto split: sum.splits)
  next
    case (ReturnError e)
    then show ?thesis
      using Cons.prems a attempt_outcome [OF a] by auto
  next
    case (Answered resp)
    then show ?thesis
      using Cons.prems a attempt_outcome [OF a] by auto
  qed
qed

lemma run_good:
  assumes "run env ps req cs attempted last_err brks w = (res, brks', w')" "\<And>n. good (brks n)"
    and "\<And>w brks n. (\<And>m. good (brks m)) \<Longrightarrow> good (env_interfere env w brks n)"
  shows "good (brks' n)"
  using assms(1,2)
proof (induction cs arbitrary: attempted last_err brks w)
  case (Cons c cs)
  obtain out b1 w1 where a: "attempt env ps req c brks w = (out, b1, w1)"
    by (metis prod_cases3)
  have "good (b1 m)" for m by (rule attempt_good [OF a Cons.prems(2) assms(3)])
  with a Cons show ?case by (cases out) auto
qed simp

lemma run_log:
  assumes "run (logging_env env) ps req cs attempted last_err brks (w, log) = (res, brks', w', log')"
  shows "\<exists>called. log' = log @ map (the \<circ> ps) called \<and> subseq called cs \<and>
    (\<forall>resp. res = Inr resp \<longrightarrow> called \<noteq> [])"
  using assms
proof (induction cs arbitrary: attempted last_err brks w log)
  case Nil
  then show ?case by (auto split: option.splits)
next
  case (Cons c cs)
  obtain out b1 w1 log1 where a: "attempt (logging_env env) ps req c brks (w, log) = (out, b1, w1, log1)"
    by (metis prod_cases4)
  from attempt_log [OF a] obtain first where first:
    "log1 = log @ map (the \<circ> ps) first" "first = [] \<or> first = [c]"
    "(\<exists>resp. out = Answered resp) \<Longrightarrow> first = [c]"
    by (metis comp_apply list.simps(8,9) append_Nil2)
  show ?case
  proof (cases out)
    case (TryNext e)
    with Cons.prems a obtain called where "log' = log1 @ map (the \<circ> ps) called"
      "subseq called cs" "\<forall>resp. res = Inr resp \<longrightarrow> called \<noteq> []"
      using Cons.IH by fastforce
    with first show ?thesis
      by (intro exI [of _ "first @ called"]) auto
  next
    case (ReturnError e)
    with Cons.prems a first show ?thesis by (intro exI [of _ first]) auto
  next
    case (Answered resp)
    with Cons.prems a first show ?thesis by (intro exI [of _ first]) auto
  qed
qed

end

section \<open>Properties\<close>

text \<open>
  The candidates of a router built by \<open>NewRouter\<close> are its providers' trimmed names, each once,
  the preferred one first when it is configured, and each is bound to a provider of that name:
  nil providers, blank names and repeated names are dropped.
\<close>

theorem router_candidates:
  "(let r = new_router nb preferred_name ps; cs = ordered_providers r;
        names = filter (\<lambda>n. n \<noteq> []) (map (trim_space \<circ> provider_name) (map the (filter (\<lambda>p. p \<noteq> None) ps)))
    in distinct cs \<and> set cs = set names \<and>
       (trim_space preferred_name \<in> set names \<longrightarrow> hd cs = trim_space preferred_name) \<and>
       (\<forall>c. c \<in> set cs \<longrightarrow> map_option (trim_space \<circ> provider_name) (rt_providers r c) = Some c))"
proof -
  define r where "r = new_router nb preferred_name ps"
  have ok: "router_ok r" by (simp add: r_def router_ok_new)
  have dom_fold: "dom (rt_providers (foldl (add_provider nb) r0 ps)) = dom (rt_providers r0) \<union>
      set (filter (\<lambda>n. n \<noteq> []) (map (trim_space \<circ> provider_name) (map the (filter (\<lambda>p. p \<noteq> None) ps))))"
    for r0 :: "'a router" and ps
    by (induction ps arbitrary: r0) (auto simp: add_provider_def Let_def split: option.splits)
  define names where
    "names = filter (\<lambda>n. n \<noteq> []) (map (trim_space \<circ> provider_name) (map the (filter (\<lambda>p. p \<noteq> None) ps)))"
  have d: "dom (rt_providers r) = set names"
    unfolding names_def r_def new_router_def dom_fold by simp
  have s: "set (ordered_providers r) = dom (rt_providers r)"
    using ordered_providers_props [OF ok] ok by (simp add: router_ok_def)
  have dp: "default_provider r = trim_space preferred_name"
    by (simp add: r_def new_router_def map_snd_foldl_other)
  have "hd (ordered_providers r) = trim_space preferred_name"
    if "trim_space preferred_name \<in> dom (rt_providers r)"
  proof -
    have "trim_space preferred_name \<in> set (rt_order r)" using that ok by (simp add: router_ok_def)
    moreover from this have "trim_space preferred_name \<noteq> []" "rt_order r \<noteq> []"
      using ok by (auto simp: router_ok_def)
    ultimately show ?thesis using that dp by (auto simp: ordered_providers_def Let_def)
  qed
  moreover have "map_option (trim_space \<circ> provider_name) (rt_providers r c) = Some c"
    if "c \<in> dom (rt_providers r)" for c
    using that ok by (auto simp: router_ok_def)
  ultimately show ?thesis
    unfolding r_def [symmetric] Let_def names_def [symmetric]
    using ordered_providers_props [OF ok] s d by metis
qed

definition example_router :: "provider_breaker router" where
  "example_router = new_router new_provider_breaker ''b''
     [Some \<lparr>provider_id = 1, provider_name = ''a''\<rparr>, None, Some \<lparr>provider_id = 2, provider_name = ''b''\<rparr>]"

theorem router_candidates_witness:
  "set (ordered_providers example_router) = {''a'', ''b''} \<and> hd (ordered_providers example_router) = ''b''"
proof -
  have n: "map (trim_space \<circ> provider_name) (map the (filter (\<lambda>p. p \<noteq> None)
      [Some \<lparr>provider_id = 1, provider_name = ''a''\<rparr>, None, Some \<lparr>provider_id = 2, provider_name = ''b''\<rparr>]))
      = [''a'', ''b'']" "trim_space ''b'' = ''b''"
    by code_simp+
  then show ?thesis
    using router_candidates [of new_provider_breaker "''b''"
        "[Some \<lparr>provider_id = 1, provider_name = ''a''\<rparr>, None, Some \<lparr>provider_id = 2, provider_name = ''b''\<rparr>]"]
    unfolding example_router_def [symmetric] by (simp only: Let_def n) auto
qed

text \<open>
  C9. \<open>Complete\<close> calls each provider at most once, in the candidates' order, and what it returns
  says how the failover went: an answer names its provider; an error that is not transient ended
  the loop at once; the unavailable error is returned only after every candidate was passed over,
  and names them all in order.
\<close>

theorem router_failover:
  assumes "router_complete (logging_env env) r req (w, []) = (res, r', w', called)"
    and "ordered_providers r \<noteq> []"
  shows "(\<exists>names. called = map (the \<circ> rt_providers r) names \<and> subseq names (ordered_providers r) \<and>
       (\<forall>resp. res = Inr resp \<longrightarrow> names \<noteq> [])) \<and>
    (case res of
       Inr resp \<Rightarrow> resp_provider resp \<noteq> [] \<or>
         resp_provider resp \<in> (provider_name \<circ> the \<circ> rt_providers r) ` set (ordered_providers r)
     | Inl e \<Rightarrow> \<not> is_transient_provider_error e
         \<or> (\<exists>err. e = UnavailableError (ordered_providers r) err \<and> is_transient_provider_error err))"
proof -
  obtain brks' where "complete_loop before_call after_call (logging_env env) (rt_providers r) req
      (ordered_providers r) [] None (rt_breakers r) (w, []) = (res, brks', w', called)"
    using assms by (auto simp: router_complete_def router_complete_with_def Let_def
        split: prod.splits)
  from breaker_gate.run_log [OF this] breaker_gate.run_result [OF this] show ?thesis
    by (cases res) auto
qed

definition example_request :: completion_request where
  "example_request = \<lparr>req_system = [], req_messages = [], req_operation = ''op'', req_model = ''m'',
     req_provider_models = Map.empty, req_max_tokens = 10, req_output_format = None,
     req_cache_control = None\<rparr>"

definition example_env :: "(unit, provider_breaker) router_env" where
  "example_env = \<lparr>env_clock = (\<lambda>w. (7, w)),
     env_complete = (\<lambda>p _ w. (if provider_id p = 2 then Inl (ProviderError [] (ErrNew ''busy'') True)
        else Inr \<lparr>resp_content = ''hi'', resp_provider = [], resp_model = ''m'',
          resp_usage = \<lparr>usage_provider = [], usage_model = [], input_tokens = 0, output_tokens = 0,
            cache_creation_tokens = 0, cache_read_tokens = 0\<rparr>\<rparr>, w)),
     env_interfere = (\<lambda>_ brks. brks)\<rparr>"

theorem router_failover_witness:
  "(case router_complete (logging_env example_env) example_router example_request ((), []) of
     (res, _, _, called) \<Rightarrow> \<exists>names. called = map (the \<circ> rt_providers example_router) names \<and>
        subseq names [''b'', ''a''])"
proof -
  have o: "ordered_providers example_router = [''b'', ''a'']" by code_simp
  obtain res r' w' called where
    "router_complete (logging_env example_env) example_router example_request ((), []) =
       (res, r', w', called)"
    by (metis prod_cases4)
  from router_failover [OF this] this o show ?thesis by auto
qed

text \<open>
  \<open>Complete\<close> keeps every breaker's invariant, whatever the providers answer and whatever other
  goroutines do to the breakers in between, as long as they too keep it.
\<close>

theorem router_keeps_breakers:
  assumes "router_complete env r req w = (res, r', w')" "\<And>n. breaker_inv (rt_breakers r n)"
    and "\<And>w brks n. (\<And>m. breaker_inv (brks m)) \<Longrightarrow> breaker_inv (env_interfere env w brks n)"
  shows "breaker_inv (rt_breakers r' n) \<and> rt_order r' = rt_order r \<and> rt_providers r' = rt_providers r"
proof (cases "ordered_providers r = []")
  case True
  with assms show ?thesis by (simp add: router_complete_def router_complete_with_def)
next
  case False
  with assms(1) obtain brks' where run: "complete_loop before_call after_call env (rt_providers r) req
      (ordered_providers r) [] None (rt_breakers r) w = (res, brks', w')"
    "r' = r\<lparr>rt_breakers := brks'\<rparr>"
    by (auto simp: router_complete_def router_complete_with_def Let_def split: prod.splits)
  from breaker_gate.run_good [OF run(1) assms(2,3)] run(2) show ?thesis by simp
qed

theorem router_keeps_breakers_witness:
  "breaker_inv (rt_breakers (fst (snd (router_complete example_env example_router example_request ()))) ''b'')"
proof -
  obtain res r' w' where c:
    "router_complete example_env example_router example_request () = (res, r', w')"
    by (metis prod_cases3)
  have "breaker_inv (rt_breakers example_router n)" for n
    by (simp add: example_router_def new_router_def add_provider_def Let_def)
  from router_keeps_breakers [OF c this, of "''b''"] c show ?thesis by (simp add: example_env_def)
qed

end
