(* ===== verification/Model.thy ===== *)
theory Model
  imports Errors
begin

text \<open>
  internal/controlplane/model: the domain records the layers share. JSON columns
  (\<open>json.RawMessage\<close>) are kept as the byte string stored; the components that read them take the
  codec as an argument. A value of type \<open>any\<close> in a result row is a \<open>go_any\<close>.
\<close>

datatype go_any = GoNil | GoBool bool | GoInt int | GoString string | GoOpaque nat

section \<open>tenant.go\<close>

datatype role = RoleOwner | RoleMember

record tenant =
  tenant_id :: uuid
  tenant_slug :: string
  tenant_name :: string
  tenant_created_at :: time

record tenant_user =
  tu_tenant_id :: uuid
  tu_clerk_user_id :: string
  tu_role :: role
  tu_created_at :: time

record tenant_token =
  tok_id :: uuid
  tok_tenant_id :: uuid
  tok_label :: string
  tok_created_at :: time
  tok_last_used_at :: "time option"
  tok_revoked_at :: "time option"

section \<open>schema.go\<close>

record schema_table =
  st_table_schema :: string
  st_table_name :: string
  st_table_type :: string
  st_table_comment :: string

record schema_column =
  sc_table_schema :: string
  sc_table_name :: string
  sc_column_name :: string
  sc_ordinal :: int
  sc_data_type :: string
  sc_column_type :: string
  sc_is_nullable :: bool
  sc_has_default :: bool
  sc_default_value :: string
  sc_column_comment :: string

record schema_primary_key =
  pk_table_schema :: string
  pk_table_name :: string
  pk_constraint_name :: string
  pk_column_name :: string
  pk_ordinal :: int

record schema_foreign_key =
  fk_table_schema :: string
  fk_table_name :: string
  fk_constraint_name :: string
  fk_column_name :: string
  fk_ordinal :: int
  fk_ref_table_schema :: string
  fk_ref_table_name :: string
  fk_ref_column_name :: string

record schema_blob =
  sb_database_name :: string
  sb_tables :: "schema_table list"
  sb_columns :: "schema_column list"
  sb_primary_keys :: "schema_primary_key list"
  sb_foreign_keys :: "schema_foreign_key list"

record tenant_schema_version =
  sv_id :: uuid
  sv_tenant_id :: uuid
  sv_captured_at :: time
  sv_schema_hash :: string
  sv_blob :: string
  sv_created_at :: time

section \<open>semantic_layer.go\<close>

datatype semantic_layer_status = LayerDraft | LayerApproved | LayerArchived

record semantic_column =
  smc_table_schema :: string
  smc_table_name :: string
  smc_column_name :: string
  smc_ordinal :: int
  smc_data_type :: string
  smc_column_type :: string
  smc_is_nullable :: bool
  smc_column_comment :: string
  smc_description :: string

record semantic_table =
  smt_table_schema :: string
  smt_table_name :: string
  smt_table_type :: string
  smt_table_comment :: string
  smt_description :: string
  smt_columns :: "semantic_column list"

record semantic_entity =
  ent_name :: string
  ent_description :: string
  ent_source_tables :: "string list"

record candidate_metric =
  met_name :: string
  met_description :: string
  met_source_tables :: "string list"

record semantic_layer_content =
  slc_tables :: "semantic_table list"
  slc_entities :: "semantic_entity list"
  slc_metrics :: "candidate_metric list"

record tenant_semantic_layer =
  sl_id :: uuid
  sl_tenant_id :: uuid
  sl_schema_version_id :: uuid
  sl_status :: semantic_layer_status
  sl_content :: string
  sl_created_at :: time
  sl_approved_at :: "time option"
  sl_approved_by :: "string option"

section \<open>onboarding.go\<close>

record onboarding_payload =
  ob_primary_language :: string
  ob_workspace_name :: string
  ob_install_slug :: string
  ob_agent_token_id :: string
  ob_agent_token_plain :: string
  ob_agent_wait_started :: "time option"
  ob_agent_session_id :: string
  ob_agent_connected_at :: "time option"
  ob_database_host :: string
  ob_database_port :: int
  ob_database_name :: string
  ob_database_username :: string
  ob_generated_password :: string
  ob_db_verified_at :: "time option"
  ob_db_error_code :: string
  ob_db_error_message_ko :: string
  ob_schema_version_id :: string
  ob_schema_table_count :: int
  ob_schema_column_count :: int
  ob_schema_fk_count :: int
  ob_semantic_layer_id :: string
  ob_semantic_approved :: "time option"

record tenant_onboarding_state =
  os_tenant_id :: uuid
  os_current_step :: int
  os_payload :: string
  os_completed_at :: "time option"
  os_created_at :: time
  os_updated_at :: time

record onboarding_workspace =
  ow_tenant_id :: uuid
  ow_slug :: string
  ow_name :: string
  ow_role :: role
  ow_complete :: bool
  ow_current_step :: int
  ow_updated_at :: time

record tenant_invite =
  inv_id :: uuid
  inv_tenant_id :: uuid
  inv_email :: string
  inv_created_by :: string
  inv_created_at :: time

section \<open>query_memory.go\<close>

datatype prompt_context_source = SourceApproved | SourceDraft | SourceRawSchema

datatype query_run_status = RunRunning | RunSucceeded | RunFailed

datatype feedback_rating = RatingUp | RatingDown

datatype review_queue_filter = ReviewOpen | ReviewAllRecent

record query_run_attempt =
  att_sql :: string
  att_error :: string
  att_stage :: string

record tenant_query_run =
  qr_id :: uuid
  qr_tenant_id :: uuid
  qr_schema_version_id :: uuid
  qr_semantic_layer_id :: "uuid option"
  qr_context_source :: prompt_context_source
  qr_clerk_user_id :: string
  qr_question :: string
  qr_status :: query_run_status
  qr_sql_original :: string
  qr_sql_executed :: string
  qr_attempts :: "query_run_attempt list"
  qr_warnings :: "string list"
  qr_row_count :: int
  qr_elapsed_ms :: int
  qr_error_stage :: string
  qr_error_message :: string
  qr_created_at :: time
  qr_completed_at :: "time option"

record tenant_query_feedback =
  fb_query_run_id :: uuid
  fb_clerk_user_id :: string
  fb_rating :: feedback_rating
  fb_comment :: string
  fb_corrected_sql :: string
  fb_created_at :: time
  fb_updated_at :: time

record canonical_query_example =
  ex_id :: uuid
  ex_tenant_id :: uuid
  ex_schema_version_id :: uuid
  ex_source_run_id :: uuid
  ex_created_by :: string
  ex_question :: string
  ex_sql :: string
  ex_notes :: string
  ex_archived_at :: "time option"
  ex_created_at :: time

record review_item =
  ri_run :: tenant_query_run
  ri_has_feedback :: bool
  ri_latest_feedback :: "tenant_query_feedback option"
  ri_has_active_canonical :: bool
  ri_reviewed_at :: "time option"
  ri_signal_at :: time

section \<open>starter_question.go\<close>

datatype starter_category =
    CategoryCount | CategoryTrend | CategoryTopN | CategoryLatest | CategoryComparison | CategoryAnomaly

datatype locale_tag = LocaleKorean | LocaleEnglish

definition normalize_locale :: "string \<Rightarrow> locale_tag" where
  "normalize_locale raw =
     (if raw = ''en'' then LocaleEnglish
      else if raw = ''ko'' then LocaleKorean
      else LocaleKorean)"

record starter_question =
  sq_id :: uuid
  sq_set_id :: uuid
  sq_tenant_id :: uuid
  sq_semantic_layer_id :: uuid
  sq_ordinal :: int
  sq_text :: string
  sq_category :: string
  sq_primary_table :: string
  sq_locale :: locale_tag
  sq_created_at :: time
  sq_is_active :: bool

end
