(* ===== verification/AgentSessions.thy ===== *)
theory AgentSessions
  imports Model
begin

text \<open>
  controller/agent.go: the control plane's table of edge-agent sessions. Sessions and the
  result channels ("waiters") are objects the code shares by pointer, so the manager holds a
  heap of each, and its two maps hold addresses. A waiter is a channel of capacity one; sending
  to or closing a closed channel panics, recorded in \<open>panicked\<close>. Each definition below is one
  critical section of \<open>m.mu\<close>, or the channel operations after it; AgentProtocol interleaves them.
\<close>

section \<open>Data\<close>

definition err_invalid_session_id :: gerr where
  "err_invalid_session_id = Sentinel ''controller.ErrInvalidSessionID'' ''session_id is required''"
definition err_invalid_hostname :: gerr where
  "err_invalid_hostname = Sentinel ''controller.ErrInvalidHostname'' ''hostname is required''"
definition err_session_not_found :: gerr where
  "err_session_not_found = Sentinel ''controller.ErrSessionNotFound'' ''session not found''"
definition err_session_not_active :: gerr where
  "err_session_not_active = Sentinel ''controller.ErrSessionNotActive'' ''session is not active''"
definition err_command_not_found :: gerr where
  "err_command_not_found = Sentinel ''controller.ErrCommandNotFound'' ''command not found''"
definition err_command_rejected :: gerr where
  "err_command_rejected = Sentinel ''controller.ErrCommandRejected'' ''command queue is full''"
definition err_tenant_not_connected :: gerr where
  "err_tenant_not_connected =
     Sentinel ''controller.ErrTenantNotConnected'' ''no active agent connected for tenant''"

datatype command_kind = KindPing | KindExecuteQuery | KindIntrospectSchema | KindConfigureDatabase

definition all_kinds :: "command_kind list" where
  "all_kinds = [KindPing, KindExecuteQuery, KindIntrospectSchema, KindConfigureDatabase]"

record agent_command =
  cmd_session_id :: string
  cmd_command_id :: string
  cmd_issued_at :: time
  cmd_kind :: command_kind
  cmd_sql :: string
  cmd_dsn :: string

record ping_result =
  pr_session_id :: string
  pr_command_id :: string
  pr_completed_at :: time
  pr_round_trip_ms :: int

record execute_query_result =
  eq_session_id :: string
  eq_command_id :: string
  eq_completed_at :: time
  eq_columns :: "string list"
  eq_rows :: "(string \<rightharpoonup> go_any) list"
  eq_elapsed_ms :: int
  eq_database_user :: string
  eq_database_name :: string
  eq_error :: string
  eq_error_code :: string
  eq_error_reason :: string
  eq_blocked_constructs :: "string list"

record introspect_schema_result =
  is_session_id :: string
  is_command_id :: string
  is_completed_at :: time
  is_schema :: schema_blob
  is_elapsed_ms :: int
  is_database_user :: string
  is_database_name :: string
  is_error :: string

datatype configure_error_code =
    ConfigUnspecified | ConfigInvalidDSN | ConfigConnectFailed | ConfigAuthFailed
  | ConfigPrivilegeError | ConfigWriteConfig | ConfigTimeout

record configure_database_result =
  cd_session_id :: string
  cd_command_id :: string
  cd_completed_at :: time
  cd_elapsed_ms :: int
  cd_database_user :: string
  cd_database_name :: string
  cd_error :: string
  cd_error_code :: configure_error_code

datatype agent_result =
    PingR ping_result
  | QueryR execute_query_result
  | SchemaR introspect_schema_result
  | ConfigR configure_database_result

datatype session_status = StatusOnline | StatusOffline

record session_snapshot =
  sn_session_id :: string
  sn_tenant_id :: uuid
  sn_token_id :: uuid
  sn_token_label :: string
  sn_hostname :: string
  sn_agent_version :: string
  sn_connected_at :: time
  sn_last_heartbeat_at :: time
  sn_disconnected_at :: "time option"
  sn_status :: session_status

text \<open>
  A session; \<open>pending\<close> holds the four maps from command ids to waiters, one per kind, and
  \<open>done_closed\<close> says whether the \<open>done\<close> channel is closed.
\<close>

record agent_session =
  snapshot :: session_snapshot
  sess_active :: bool
  commands :: "agent_command list"
  done_closed :: bool
  pending :: "command_kind \<Rightarrow> (string \<times> nat) list"

record waiter =
  w_buffer :: "agent_result option"
  w_closed :: bool

record manager =
  mg_stale_after :: duration
  mg_ping_timeout :: duration
  by_token :: "uuid \<rightharpoonup> nat"
  by_id :: "string \<rightharpoonup> nat"
  sessions :: "nat \<rightharpoonup> agent_session"
  next_session :: nat
  waiters :: "nat \<rightharpoonup> waiter"
  next_waiter :: nat
  panicked :: bool

definition command_queue_capacity :: nat where "command_queue_capacity = 16"

definition new_agent_session_manager :: "duration \<Rightarrow> duration \<Rightarrow> manager" where
  "new_agent_session_manager stale ping =
     \<lparr>mg_stale_after = (if stale \<le> 0 then seconds 25 else stale),
      mg_ping_timeout = (if ping \<le> 0 then seconds 5 else ping),
      by_token = Map.empty, by_id = Map.empty, sessions = Map.empty, next_session = 0,
      waiters = Map.empty, next_waiter = 0, panicked = False\<rparr>"

section \<open>Channels\<close>

text \<open>Sending blocks (None) on a full buffer; receiving blocks on an open, empty channel.\<close>

definition close_waiter :: "nat \<Rightarrow> manager \<Rightarrow> manager" where
  "close_waiter w m =
     (case waiters m w of
        None \<Rightarrow> m\<lparr>panicked := True\<rparr>
      | Some ch \<Rightarrow>
          (if w_closed ch then m\<lparr>panicked := True\<rparr>
           else m\<lparr>waiters := (waiters m)(w \<mapsto> ch\<lparr>w_closed := True\<rparr>)\<rparr>))"

definition send_waiter :: "nat \<Rightarrow> agent_result \<Rightarrow> manager \<Rightarrow> manager option" where
  "send_waiter w r m =
     (case waiters m w of
        None \<Rightarrow> None
      | Some ch \<Rightarrow>
          (if w_closed ch then Some (m\<lparr>panicked := True\<rparr>)
           else if w_buffer ch \<noteq> None then None
           else Some (m\<lparr>waiters := (waiters m)(w \<mapsto> ch\<lparr>w_buffer := Some r\<rparr>)\<rparr>)))"

text \<open>The receive branch of the \<open>select\<close> in \<open>Ping\<close> and its siblings.\<close>

definition receive_result :: "nat \<Rightarrow> manager \<Rightarrow> ((gerr + agent_result) \<times> manager) option" where
  "receive_result w m =
     (case waiters m w of
        None \<Rightarrow> None
      | Some ch \<Rightarrow>
          (case w_buffer ch of
             Some r \<Rightarrow> Some (Inr r, m\<lparr>waiters := (waiters m)(w \<mapsto> ch\<lparr>w_buffer := None\<rparr>)\<rparr>)
           | None \<Rightarrow> if w_closed ch then Some (Inl err_session_not_active, m) else None))"

section \<open>Sessions\<close>

definition is_active_locked :: "time \<Rightarrow> manager \<Rightarrow> agent_session \<Rightarrow> bool" where
  "is_active_locked now m s =
     (sess_active s \<and> time_sub now (sn_last_heartbeat_at (snapshot s)) \<le> mg_stale_after m)"

definition session_locked :: "time \<Rightarrow> uuid \<Rightarrow> string \<Rightarrow> manager \<Rightarrow> gerr + nat" where
  "session_locked now tid sid m =
     (case by_id m sid of
        None \<Rightarrow> Inl err_session_not_found
      | Some a \<Rightarrow>
          (case sessions m a of
             None \<Rightarrow> Inl err_session_not_found
           | Some s \<Rightarrow>
               (if sn_token_id (snapshot s) \<noteq> tid then Inl err_session_not_found
                else if \<not> is_active_locked now m s then Inl err_session_not_active
                else Inr a)))"

definition session_waiters :: "agent_session \<Rightarrow> nat list" where
  "session_waiters s = concat (map (\<lambda>k. map snd (pending s k)) all_kinds)"

definition close_session_locked :: "nat \<Rightarrow> time \<Rightarrow> manager \<Rightarrow> manager" where
  "close_session_locked a disconnected_at m =
     (case sessions m a of
        None \<Rightarrow> m
      | Some s \<Rightarrow>
          (let s' = (if sess_active s then
                       s\<lparr>sess_active := False,
                         snapshot := (if sn_disconnected_at (snapshot s) = None
                           then (snapshot s)\<lparr>sn_disconnected_at := Some disconnected_at\<rparr>
                           else snapshot s)\<rparr>
                     else s)\<lparr>done_closed := True, pending := (\<lambda>_. [])\<rparr>
           in fold close_waiter (session_waiters s)
                (m\<lparr>sessions := (sessions m)(a \<mapsto> s')\<rparr>)))"

definition register_session ::
  "time \<Rightarrow> tenant_token \<Rightarrow> string \<Rightarrow> string \<Rightarrow> string \<Rightarrow> manager \<Rightarrow> (gerr + nat) \<times> manager" where
  "register_session now token sid hostname version m =
     (if sid = [] then (Inl err_invalid_session_id, m)
      else if hostname = [] then (Inl err_invalid_hostname, m)
      else
        (let m1 = (case by_token m (tok_id token) of
                     None \<Rightarrow> m
                   | Some a \<Rightarrow>
                       (let m' = close_session_locked a now m in
                        case sessions m a of
                          None \<Rightarrow> m'
                        | Some existing \<Rightarrow>
                            (if sn_session_id (snapshot existing) \<noteq> sid
                             then m'\<lparr>by_id := (by_id m')(sn_session_id (snapshot existing) := None)\<rparr>
                             else m')));
             a = next_session m1;
             s = \<lparr>snapshot = \<lparr>sn_session_id = sid, sn_tenant_id = tok_tenant_id token,
                    sn_token_id = tok_id token, sn_token_label = tok_label token,
                    sn_hostname = hostname, sn_agent_version = version, sn_connected_at = now,
                    sn_last_heartbeat_at = now, sn_disconnected_at = None,
                    sn_status = StatusOnline\<rparr>,
                  sess_active = True, commands = [], done_closed = False, pending = (\<lambda>_. [])\<rparr>
         in (Inr a, m1\<lparr>sessions := (sessions m1)(a \<mapsto> s), next_session := a + 1,
               by_token := (by_token m1)(tok_id token \<mapsto> a), by_id := (by_id m1)(sid \<mapsto> a)\<rparr>)))"

definition mark_heartbeat ::
  "time \<Rightarrow> uuid \<Rightarrow> string \<Rightarrow> time \<Rightarrow> manager \<Rightarrow> gerr option \<times> manager" where
  "mark_heartbeat now tid sid at m =
     (case session_locked now tid sid m of
        Inl e \<Rightarrow> (Some e, m)
      | Inr a \<Rightarrow>
          (case sessions m a of
             None \<Rightarrow> (None, m)
           | Some s \<Rightarrow>
               (None, m\<lparr>sessions := (sessions m)(a \<mapsto>
                  s\<lparr>snapshot := (snapshot s)\<lparr>sn_last_heartbeat_at := at\<rparr>\<rparr>)\<rparr>)))"

section \<open>Results from the agent\<close>

text \<open>
  The locked part of the four \<open>Submit*Result\<close>: find the session and the waiter, and remove it
  from the map. The send and the close follow without the lock.
\<close>

definition take_waiter ::
  "time \<Rightarrow> uuid \<Rightarrow> string \<Rightarrow> command_kind \<Rightarrow> string \<Rightarrow> manager \<Rightarrow> (gerr + nat) \<times> manager" where
  "take_waiter now tid sid kind cid m =
     (case session_locked now tid sid m of
        Inl e \<Rightarrow> (Inl e, m)
      | Inr a \<Rightarrow>
          (case sessions m a of
             None \<Rightarrow> (Inl err_session_not_found, m)
           | Some s \<Rightarrow>
               (case map_of (pending s kind) cid of
                  None \<Rightarrow> (Inl err_command_not_found, m)
                | Some w \<Rightarrow>
                    (Inr w, m\<lparr>sessions := (sessions m)(a \<mapsto>
                       s\<lparr>pending := (pending s)(kind := al_del cid (pending s kind))\<rparr>)\<rparr>))))"

definition submit_ping_result ::
  "time \<Rightarrow> uuid \<Rightarrow> string \<Rightarrow> string \<Rightarrow> time \<Rightarrow> int \<Rightarrow> manager \<Rightarrow>
   (gerr + nat \<times> agent_result) \<times> manager" where
  "submit_ping_result now tid sid cid completed_at round_trip_ms m =
     (case take_waiter now tid sid KindPing cid m of
        (Inl e, m') \<Rightarrow> (Inl e, m')
      | (Inr w, m') \<Rightarrow> (Inr (w, PingR \<lparr>pr_session_id = sid, pr_command_id = cid,
          pr_completed_at = completed_at, pr_round_trip_ms = round_trip_ms\<rparr>), m'))"

text \<open>\<open>cloneRows\<close> and \<open>cloneSchemaBlob\<close> copy; values are immutable here.\<close>

definition clone_rows :: "(string \<rightharpoonup> go_any) list \<Rightarrow> (string \<rightharpoonup> go_any) list" where
  "clone_rows rows = map (\<lambda>row key. row key) rows"

definition clone_schema_blob :: "schema_blob \<Rightarrow> schema_blob" where
  "clone_schema_blob blob =
     \<lparr>sb_database_name = sb_database_name blob, sb_tables = sb_tables blob,
      sb_columns = sb_columns blob, sb_primary_keys = sb_primary_keys blob,
      sb_foreign_keys = sb_foreign_keys blob\<rparr>"

definition submit_execute_query_result ::
  "time \<Rightarrow> uuid \<Rightarrow> string \<Rightarrow> string \<Rightarrow> time \<Rightarrow> string list \<Rightarrow> (string \<rightharpoonup> go_any) list \<Rightarrow> int \<Rightarrow>
   string \<Rightarrow> string \<Rightarrow> string \<Rightarrow> string \<Rightarrow> string \<Rightarrow> string list \<Rightarrow> manager \<Rightarrow>
   (gerr + nat \<times> agent_result) \<times> manager" where
  "submit_execute_query_result now tid sid cid completed_at columns rows elapsed_ms db_user db_name
     command_error error_code error_reason blocked m =
     (case take_waiter now tid sid KindExecuteQuery cid m of
        (Inl e, m') \<Rightarrow> (Inl e, m')
      | (Inr w, m') \<Rightarrow> (Inr (w, QueryR \<lparr>eq_session_id = sid, eq_command_id = cid,
          eq_completed_at = completed_at, eq_columns = columns, eq_rows = clone_rows rows,
          eq_elapsed_ms = elapsed_ms, eq_database_user = db_user, eq_database_name = db_name,
          eq_error = command_error, eq_error_code = error_code, eq_error_reason = error_reason,
          eq_blocked_constructs = blocked\<rparr>), m'))"

definition submit_introspect_schema_result ::
  "time \<Rightarrow> uuid \<Rightarrow> string \<Rightarrow> string \<Rightarrow> time \<Rightarrow> schema_blob \<Rightarrow> int \<Rightarrow> string \<Rightarrow> string \<Rightarrow> string \<Rightarrow>
   manager \<Rightarrow> (gerr + nat \<times> agent_result) \<times> manager" where
  "submit_introspect_schema_result now tid sid cid completed_at schema elapsed_ms db_user db_name
     command_error m =
     (case take_waiter now tid sid KindIntrospectSchema cid m of
        (Inl e, m') \<Rightarrow> (Inl e, m')
      | (Inr w, m') \<Rightarrow> (Inr (w, SchemaR \<lparr>is_session_id = sid, is_command_id = cid,
          is_completed_at = completed_at, is_schema = clone_schema_blob schema,
          is_elapsed_ms = elapsed_ms, is_database_user = db_user, is_database_name = db_name,
          is_error = command_error\<rparr>), m'))"

definition submit_configure_database_result ::
  "time \<Rightarrow> uuid \<Rightarrow> string \<Rightarrow> string \<Rightarrow> time \<Rightarrow> int \<Rightarrow> string \<Rightarrow> string \<Rightarrow> string \<Rightarrow>
   configure_error_code \<Rightarrow> manager \<Rightarrow> (gerr + nat \<times> agent_result) \<times> manager" where
  "submit_configure_database_result now tid sid cid completed_at elapsed_ms db_user db_name
     command_error error_code m =
     (case take_waiter now tid sid KindConfigureDatabase cid m of
        (Inl e, m') \<Rightarrow> (Inl e, m')
      | (Inr w, m') \<Rightarrow> (Inr (w, ConfigR \<lparr>cd_session_id = sid, cd_command_id = cid,
          cd_completed_at = completed_at, cd_elapsed_ms = elapsed_ms, cd_database_user = db_user,
          cd_database_name = db_name, cd_error = command_error, cd_error_code = error_code\<rparr>), m'))"

section \<open>Commands to the agent\<close>

text \<open>What a caller keeps of a command it has sent: the arguments of its later \<open>select\<close>.\<close>

record call =
  c_waiter :: nat
  c_session :: nat
  c_session_id :: string
  c_kind :: command_kind
  c_command_id :: string

text \<open>
  The shared tail of \<open>Ping\<close>, \<open>ExecuteQuery\<close>, \<open>IntrospectSchema\<close> and \<open>ConfigureDatabase\<close>: make
  the waiter, enter it in the map, and push the command if the queue has room.
\<close>

definition dispatch :: "nat \<Rightarrow> agent_session \<Rightarrow> agent_command \<Rightarrow> manager \<Rightarrow> (gerr + call) \<times> manager" where
  "dispatch a s command m =
     (let w = next_waiter m;
          kind = cmd_kind command;
          cid = cmd_command_id command;
          m1 = m\<lparr>waiters := (waiters m)(w \<mapsto> \<lparr>w_buffer = None, w_closed = False\<rparr>),
                 next_waiter := w + 1\<rparr>;
          pend = al_put cid w (pending s kind)
      in if length (commands s) < command_queue_capacity
         then (Inr \<lparr>c_waiter = w, c_session = a, c_session_id = cmd_session_id command,
                    c_kind = kind, c_command_id = cid\<rparr>,
               m1\<lparr>sessions := (sessions m1)(a \<mapsto> s\<lparr>commands := commands s @ [command],
                   pending := (pending s)(kind := pend)\<rparr>)\<rparr>)
         else (Inl err_command_rejected,
               m1\<lparr>sessions := (sessions m1)(a \<mapsto>
                   s\<lparr>pending := (pending s)(kind := al_del cid pend)\<rparr>)\<rparr>))"

definition start_ping :: "time \<Rightarrow> time \<Rightarrow> string \<Rightarrow> string \<Rightarrow> manager \<Rightarrow> (gerr + call) \<times> manager" where
  "start_ping issued now cid sid m =
     (case by_id m sid of
        None \<Rightarrow> (Inl err_session_not_found, m)
      | Some a \<Rightarrow>
          (case sessions m a of
             None \<Rightarrow> (Inl err_session_not_found, m)
           | Some s \<Rightarrow>
               (if \<not> is_active_locked now m s then (Inl err_session_not_active, m)
                else dispatch a s \<lparr>cmd_session_id = sid, cmd_command_id = cid, cmd_issued_at = issued,
                       cmd_kind = KindPing, cmd_sql = [], cmd_dsn = []\<rparr> m)))"

text \<open>
  The scan of \<open>byToken\<close>, in the order \<open>tokens\<close> the map iteration happens to take; the first of
  the most recently connected active sessions of the tenant is kept.
\<close>

fun scan_tenant_sessions ::
  "time \<Rightarrow> manager \<Rightarrow> uuid \<Rightarrow> uuid list \<Rightarrow> (nat \<times> agent_session) option \<Rightarrow> (nat \<times> agent_session) option"
where
  "scan_tenant_sessions now m tenant [] current = current"
| "scan_tenant_sessions now m tenant (t # ts) current =
     (case by_token m t of
        None \<Rightarrow> scan_tenant_sessions now m tenant ts current
      | Some a \<Rightarrow>
          (case sessions m a of
             None \<Rightarrow> scan_tenant_sessions now m tenant ts current
           | Some s \<Rightarrow>
               (if sn_tenant_id (snapshot s) \<noteq> tenant \<or> \<not> is_active_locked now m s
                then scan_tenant_sessions now m tenant ts current
                else (case current of
                    None \<Rightarrow> scan_tenant_sessions now m tenant ts (Some (a, s))
                  | Some (b, c) \<Rightarrow>
                      (if sn_connected_at (snapshot c) < sn_connected_at (snapshot s)
                       then scan_tenant_sessions now m tenant ts (Some (a, s))
                       else scan_tenant_sessions now m tenant ts current)))))"

definition active_tenant_session_locked ::
  "time \<Rightarrow> uuid list \<Rightarrow> uuid \<Rightarrow> manager \<Rightarrow> (nat \<times> agent_session) option" where
  "active_tenant_session_locked now tokens tenant m = scan_tenant_sessions now m tenant tokens None"

definition active_token_session_locked ::
  "time \<Rightarrow> uuid \<Rightarrow> manager \<Rightarrow> (nat \<times> agent_session) option" where
  "active_token_session_locked now tid m =
     (case by_token m tid of
        None \<Rightarrow> None
      | Some a \<Rightarrow>
          (case sessions m a of
             None \<Rightarrow> None
           | Some s \<Rightarrow> if \<not> is_active_locked now m s then None else Some (a, s)))"

definition start_execute_query ::
  "time \<Rightarrow> time \<Rightarrow> uuid list \<Rightarrow> string \<Rightarrow> uuid \<Rightarrow> string \<Rightarrow> manager \<Rightarrow> (gerr + call) \<times> manager" where
  "start_execute_query issued now tokens cid tenant sql m =
     (case active_tenant_session_locked now tokens tenant m of
        None \<Rightarrow> (Inl err_tenant_not_connected, m)
      | Some (a, s) \<Rightarrow>
          dispatch a s \<lparr>cmd_session_id = sn_session_id (snapshot s), cmd_command_id = cid,
            cmd_issued_at = issued, cmd_kind = KindExecuteQuery, cmd_sql = sql, cmd_dsn = []\<rparr> m)"

definition start_introspect_schema ::
  "time \<Rightarrow> time \<Rightarrow> uuid list \<Rightarrow> string \<Rightarrow> uuid \<Rightarrow> manager \<Rightarrow> (gerr + call) \<times> manager" where
  "start_introspect_schema issued now tokens cid tenant m =
     (case active_tenant_session_locked now tokens tenant m of
        None \<Rightarrow> (Inl err_tenant_not_connected, m)
      | Some (a, s) \<Rightarrow>
          dispatch a s \<lparr>cmd_session_id = sn_session_id (snapshot s), cmd_command_id = cid,
            cmd_issued_at = issued, cmd_kind = KindIntrospectSchema, cmd_sql = [], cmd_dsn = []\<rparr> m)"

definition start_configure_database ::
  "time \<Rightarrow> time \<Rightarrow> string \<Rightarrow> uuid \<Rightarrow> string \<Rightarrow> manager \<Rightarrow> (gerr + call) \<times> manager" where
  "start_configure_database issued now cid tid dsn m =
     (case active_token_session_locked now tid m of
        None \<Rightarrow> (Inl err_tenant_not_connected, m)
      | Some (a, s) \<Rightarrow>
          dispatch a s \<lparr>cmd_session_id = sn_session_id (snapshot s), cmd_command_id = cid,
            cmd_issued_at = issued, cmd_kind = KindConfigureDatabase, cmd_sql = [], cmd_dsn = dsn\<rparr> m)"

text \<open>The \<open>ctx.Done\<close> branch of the four.\<close>

definition cancel_command :: "call \<Rightarrow> manager \<Rightarrow> manager" where
  "cancel_command c m =
     (if by_id m (c_session_id c) = Some (c_session c)
      then (case sessions m (c_session c) of
              None \<Rightarrow> m
            | Some s \<Rightarrow> m\<lparr>sessions := (sessions m)(c_session c \<mapsto> s\<lparr>pending := (pending s)
                (c_kind c := al_del (c_command_id c) (pending s (c_kind c)))\<rparr>)\<rparr>)
      else m)"

text \<open>The stream handler receives the next command of the session.\<close>

definition next_command :: "nat \<Rightarrow> manager \<Rightarrow> (agent_command \<times> manager) option" where
  "next_command a m =
     (case sessions m a of
        None \<Rightarrow> None
      | Some s \<Rightarrow> (case commands s of
            [] \<Rightarrow> None
          | c # cs \<Rightarrow> Some (c, m\<lparr>sessions := (sessions m)(a \<mapsto> s\<lparr>commands := cs\<rparr>)\<rparr>)))"

section \<open>Disconnecting and listing\<close>

definition disconnect_session :: "time \<Rightarrow> string \<Rightarrow> manager \<Rightarrow> manager" where
  "disconnect_session now sid m =
     (case by_id m sid of None \<Rightarrow> m | Some a \<Rightarrow> close_session_locked a now m)"

definition disconnect_registered_session :: "time \<Rightarrow> string \<Rightarrow> nat \<Rightarrow> manager \<Rightarrow> manager" where
  "disconnect_registered_session now sid target m =
     (if by_id m sid = Some target then close_session_locked target now m else m)"

definition snapshot_now :: "time \<Rightarrow> manager \<Rightarrow> agent_session \<Rightarrow> session_snapshot" where
  "snapshot_now now m s =
     (snapshot s)\<lparr>sn_status := (if is_active_locked now m s then StatusOnline else StatusOffline)\<rparr>"

text \<open>\<open>ListSessions\<close>, with the map order \<open>tokens\<close> and \<open>sort.Slice\<close> as the argument \<open>sort_by\<close>.\<close>

definition list_sessions ::
  "((session_snapshot \<Rightarrow> session_snapshot \<Rightarrow> bool) \<Rightarrow> session_snapshot list \<Rightarrow> session_snapshot list) \<Rightarrow>
   time \<Rightarrow> uuid list \<Rightarrow> manager \<Rightarrow> session_snapshot list" where
  "list_sessions sort_by now tokens m =
     sort_by (\<lambda>x y. sn_connected_at y < sn_connected_at x)
       (List.map_filter (\<lambda>t. case by_token m t of
            None \<Rightarrow> None
          | Some a \<Rightarrow> map_option (snapshot_now now m) (sessions m a)) tokens)"

fun latest_for_tenant ::
  "time \<Rightarrow> manager \<Rightarrow> uuid \<Rightarrow> uuid list \<Rightarrow> session_snapshot option \<Rightarrow> session_snapshot option" where
  "latest_for_tenant now m tenant [] selected = selected"
| "latest_for_tenant now m tenant (t # ts) selected =
     (case by_token m t of
        None \<Rightarrow> latest_for_tenant now m tenant ts selected
      | Some a \<Rightarrow>
          (case sessions m a of
             None \<Rightarrow> latest_for_tenant now m tenant ts selected
           | Some s \<Rightarrow>
               (if sn_tenant_id (snapshot s) \<noteq> tenant then latest_for_tenant now m tenant ts selected
                else (let snap = snapshot_now now m s in
                  case selected of
                    None \<Rightarrow> latest_for_tenant now m tenant ts (Some snap)
                  | Some best \<Rightarrow>
                      (if sn_connected_at best < sn_connected_at snap
                       then latest_for_tenant now m tenant ts (Some snap)
                       else latest_for_tenant now m tenant ts selected)))))"

definition latest_session_for_tenant ::
  "time \<Rightarrow> uuid list \<Rightarrow> uuid \<Rightarrow> manager \<Rightarrow> session_snapshot option" where
  "latest_session_for_tenant now tokens tenant m = latest_for_tenant now m tenant tokens None"

definition latest_session_for_token :: "time \<Rightarrow> uuid \<Rightarrow> manager \<Rightarrow> session_snapshot option" where
  "latest_session_for_token now tid m =
     (case by_token m tid of
        None \<Rightarrow> None
      | Some a \<Rightarrow> map_option (snapshot_now now m) (sessions m a))"

section \<open>Copies\<close>

lemma clone_rows_id [simp]: "clone_rows rows = rows"
  by (simp add: clone_rows_def)

lemma clone_schema_blob_id [simp]: "clone_schema_blob b = b"
  by (simp add: clone_schema_blob_def)

end
