(* ===== verification/AgentProtocol.thy ===== *)
theory AgentProtocol
  imports AgentSessions
begin

text \<open>
  The interleavings of the session manager's goroutines: stream handlers, agents' result calls
  and callers waiting for results. One step is one critical section or one channel operation.
  The invariant excludes every channel panic and every waiter that nobody will ever complete.
\<close>

section \<open>The manager's invariant\<close>

definition pend :: "manager \<Rightarrow> nat \<Rightarrow> command_kind \<Rightarrow> string \<Rightarrow> nat option" where
  "pend m a k c = (case sessions m a of None \<Rightarrow> None | Some s \<Rightarrow> map_of (pending s k) c)"

definition open_empty :: "manager \<Rightarrow> nat \<Rightarrow> bool" where
  "open_empty m w \<longleftrightarrow>
     (case waiters m w of None \<Rightarrow> False | Some ch \<Rightarrow> w_buffer ch = None \<and> \<not> w_closed ch)"

definition sess_ok :: "agent_session \<Rightarrow> bool" where
  "sess_ok s \<longleftrightarrow> (\<forall>k. distinct (map fst (pending s k))) \<and>
     length (commands s) \<le> command_queue_capacity \<and>
     (\<not> sess_active s \<longrightarrow> pending s = (\<lambda>_. [])) \<and> done_closed s = (\<not> sess_active s)"

definition mgr_inv :: "manager \<Rightarrow> bool" where
  "mgr_inv m \<longleftrightarrow>
     \<not> panicked m
     \<and> (\<forall>a s. sessions m a = Some s \<longrightarrow> a < next_session m \<and> sess_ok s)
     \<and> (\<forall>t a. by_token m t = Some a \<longrightarrow>
          (\<exists>s. sessions m a = Some s \<and> sn_token_id (snapshot s) = t))
     \<and> (\<forall>i a. by_id m i = Some a \<longrightarrow>
          (\<exists>s. sessions m a = Some s \<and> sn_session_id (snapshot s) = i))
     \<and> (\<forall>a k c w. pend m a k c = Some w \<longrightarrow> open_empty m w)
     \<and> (\<forall>a k c w a' k' c'. pend m a k c = Some w \<longrightarrow> pend m a' k' c' = Some w \<longrightarrow>
          a = a' \<and> k = k' \<and> c = c')
     \<and> (\<forall>w ch. waiters m w = Some ch \<longrightarrow> w < next_waiter m)"

lemma mgr_invD:
  assumes "mgr_inv m"
  shows "\<not> panicked m"
    and "sessions m a = Some s \<Longrightarrow> a < next_session m"
    and "sessions m a = Some s \<Longrightarrow> sess_ok s"
    and "by_token m t = Some a \<Longrightarrow> \<exists>s. sessions m a = Some s \<and> sn_token_id (snapshot s) = t"
    and "by_id m i = Some a \<Longrightarrow> \<exists>s. sessions m a = Some s \<and> sn_session_id (snapshot s) = i"
    and "pend m a k c = Some w \<Longrightarrow> open_empty m w"
    and "pend m a k c = Some w \<Longrightarrow> pend m a' k' c' = Some w \<Longrightarrow> a = a' \<and> k = k' \<and> c = c'"
    and "waiters m w = Some ch \<Longrightarrow> w < next_waiter m"
  using assms unfolding mgr_inv_def by blast+

lemma mgr_inv_new [simp]: "mgr_inv (new_agent_session_manager stale ping)"
  by (simp add: mgr_inv_def new_agent_session_manager_def pend_def)

subsection \<open>Updating one session\<close>

lemma pend_update:
  "pend (m\<lparr>sessions := (sessions m)(a \<mapsto> s)\<rparr>) a' k c =
     (if a' = a then map_of (pending s k) c else pend m a' k c)"
  by (simp add: pend_def)

lemma open_empty_update [simp]:
  "open_empty (m\<lparr>sessions := ss\<rparr>) w = open_empty m w"
  "open_empty (m\<lparr>by_id := bi\<rparr>) w = open_empty m w"
  "open_empty (m\<lparr>by_token := bt\<rparr>) w = open_empty m w"
  "open_empty (m\<lparr>next_session := n\<rparr>) w = open_empty m w"
  by (simp_all add: open_empty_def)

lemma pend_other_update [simp]:
  "pend (m\<lparr>by_id := bi\<rparr>) = pend m" "pend (m\<lparr>by_token := bt\<rparr>) = pend m"
  "pend (m\<lparr>next_session := n\<rparr>) = pend m" "pend (m\<lparr>waiters := ws\<rparr>) = pend m"
  "pend (m\<lparr>next_waiter := n\<rparr>) = pend m"
  by (simp_all add: pend_def fun_eq_iff)

lemma mgr_inv_shrink:
  assumes inv: "mgr_inv m" and s: "sessions m a = Some s" and ok: "sess_ok s'"
    and ids: "sn_token_id (snapshot s') = sn_token_id (snapshot s)"
      "sn_session_id (snapshot s') = sn_session_id (snapshot s)"
    and sub: "\<And>k c w. map_of (pending s' k) c = Some w \<Longrightarrow> map_of (pending s k) c = Some w"
  shows "mgr_inv (m\<lparr>sessions := (sessions m)(a \<mapsto> s')\<rparr>)"
proof -
  let ?m = "m\<lparr>sessions := (sessions m)(a \<mapsto> s')\<rparr>"
  have sub': "pend ?m b k c = Some w \<Longrightarrow> pend m b k c = Some w" for b k c w
    using sub s by (auto simp: pend_def split: if_splits)
  show ?thesis
    unfolding mgr_inv_def
  proof (intro conjI)
    show "\<forall>b k c w. pend ?m b k c = Some w \<longrightarrow> open_empty ?m w"
      using mgr_invD(6) [OF inv sub'] by (simp only: open_empty_update) blast
    show "\<forall>b k c w b' k' c'. pend ?m b k c = Some w \<longrightarrow> pend ?m b' k' c' = Some w \<longrightarrow>
        b = b' \<and> k = k' \<and> c = c'"
      using sub' mgr_invD(7) [OF inv] by meson
  qed (use mgr_invD(1-5,8) [OF inv] s ok ids in \<open>auto split: if_splits\<close>; metis option.inject)+
qed

subsection \<open>Closing waiters and sessions\<close>

definition closed_waiters :: "nat set \<Rightarrow> manager \<Rightarrow> manager" where
  "closed_waiters W m = m\<lparr>waiters := (\<lambda>w. if w \<in> W
     then map_option (\<lambda>ch. ch\<lparr>w_closed := True\<rparr>) (waiters m w) else waiters m w)\<rparr>"

lemma fold_close_waiter:
  "distinct ws \<Longrightarrow> (\<And>w. w \<in> set ws \<Longrightarrow> open_empty m w) \<Longrightarrow>
     fold close_waiter ws m = closed_waiters (set ws) m"
proof (induction ws arbitrary: m)
  case Nil
  then show ?case by (simp add: closed_waiters_def)
next
  case (Cons w ws)
  obtain ch where w: "waiters m w = Some ch" "\<not> w_closed ch"
    using Cons.prems(2) [of w] by (auto simp: open_empty_def split: option.splits)
  then have c: "close_waiter w m = m\<lparr>waiters := (waiters m)(w \<mapsto> ch\<lparr>w_closed := True\<rparr>)\<rparr>"
    by (simp add: close_waiter_def)
  have "fold close_waiter ws (close_waiter w m) = closed_waiters (set ws) (close_waiter w m)"
  proof (rule Cons.IH)
    show "open_empty (close_waiter w m) v" if "v \<in> set ws" for v
      using that Cons.prems(1) Cons.prems(2) [of v] by (auto simp: c open_empty_def)
  qed (use Cons.prems in simp)
  then show ?case
    using Cons.prems(1) w by (auto simp: c closed_waiters_def fun_eq_iff)
qed

lemma in_session_waiters:
  "sess_ok s \<Longrightarrow> w \<in> set (session_waiters s) \<longleftrightarrow> (\<exists>k c. map_of (pending s k) c = Some w)"
proof -
  assume "sess_ok s"
  then have "w \<in> snd ` set (pending s k) \<longleftrightarrow> (\<exists>c. map_of (pending s k) c = Some w)" for k
    by (intro set_map_snd_map_of) (simp add: sess_ok_def)
  moreover have "k \<in> set all_kinds" for k by (cases k) (simp_all add: all_kinds_def)
  ultimately show ?thesis by (auto simp: session_waiters_def)
qed

lemma distinct_map_snd:
  "distinct (map fst xs) \<Longrightarrow>
     (\<And>c c' w. map_of xs c = Some w \<Longrightarrow> map_of xs c' = Some w \<Longrightarrow> c = c') \<Longrightarrow> distinct (map snd xs)"
proof (induction xs)
  case (Cons x xs)
  obtain c w where x: "x = (c, w)" by fastforce
  have inj: "d = d'" if "map_of xs d = Some v" "map_of xs d' = Some v" for d d' v
  proof -
    have "d \<noteq> c" "d' \<noteq> c" using that Cons.prems(1) x by (auto dest: map_of_SomeD simp: image_iff)
    with that Cons.prems(2) [of d v d'] x show ?thesis by auto
  qed
  have "w \<notin> snd ` set xs"
  proof
    assume "w \<in> snd ` set xs"
    then obtain d where d: "map_of xs d = Some w" using Cons.prems(1) set_map_snd_map_of by fastforce
    then have "d \<noteq> c" using Cons.prems(1) x by (auto dest: map_of_SomeD simp: image_iff)
    with d Cons.prems(2) [of c w d] x show False by auto
  qed
  moreover have "distinct (map snd xs)"
    by (rule Cons.IH) (use Cons.prems(1) inj in \<open>simp_all\<close>)
  ultimately show ?case using x by simp
qed simp

lemma distinct_session_waiters:
  assumes "mgr_inv m" "sessions m a = Some s"
  shows "distinct (session_waiters s)"
proof -
  have p: "pend m a k c = map_of (pending s k) c" for k c using assms(2) by (simp add: pend_def)
  have ok: "distinct (map fst (pending s k))" for k
    using mgr_invD(3) [OF assms] by (simp add: sess_ok_def)
  have inj: "k = k' \<and> c = c'" if "map_of (pending s k) c = Some w" "map_of (pending s k') c' = Some w"
    for k k' c c' w
    using mgr_invD(7) [OF assms(1)] that p by metis
  have d: "distinct (map snd (pending s k))" for k
    by (rule distinct_map_snd [OF ok]) (use inj in blast)
  have "k = k'" if "w \<in> snd ` set (pending s k)" "w \<in> snd ` set (pending s k')" for k k' w
    using that inj set_map_snd_map_of [OF ok] by metis
  then have "snd ` set (pending s k) \<inter> snd ` set (pending s k') = {}" if "k \<noteq> k'" for k k'
    using that by auto
  with d show ?thesis by (simp add: session_waiters_def all_kinds_def Int_Un_distrib)
qed

definition closed_session :: "time \<Rightarrow> agent_session \<Rightarrow> agent_session" where
  "closed_session t s = (if sess_active s then
      s\<lparr>sess_active := False,
        snapshot := (if sn_disconnected_at (snapshot s) = None
          then (snapshot s)\<lparr>sn_disconnected_at := Some t\<rparr> else snapshot s)\<rparr>
    else s)\<lparr>done_closed := True, pending := (\<lambda>_. [])\<rparr>"

lemma closed_session_simps [simp]:
  "sess_active (closed_session t s) = False" "done_closed (closed_session t s) = True"
  "pending (closed_session t s) = (\<lambda>_. [])" "commands (closed_session t s) = commands s"
  "sn_token_id (snapshot (closed_session t s)) = sn_token_id (snapshot s)"
  "sn_session_id (snapshot (closed_session t s)) = sn_session_id (snapshot s)"
  by (simp_all add: closed_session_def)

lemma close_session_effect:
  assumes "mgr_inv m" "sessions m a = Some s"
  shows "close_session_locked a t m =
    closed_waiters {w. \<exists>k c. pend m a k c = Some w}
      (m\<lparr>sessions := (sessions m)(a \<mapsto> closed_session t s)\<rparr>)"
proof -
  let ?m = "m\<lparr>sessions := (sessions m)(a \<mapsto> closed_session t s)\<rparr>"
  have ws: "set (session_waiters s) = {w. \<exists>k c. pend m a k c = Some w}"
    using in_session_waiters [OF mgr_invD(3) [OF assms]] assms(2) by (auto simp: pend_def)
  have "fold close_waiter (session_waiters s) ?m = closed_waiters (set (session_waiters s)) ?m"
    by (rule fold_close_waiter [OF distinct_session_waiters [OF assms]])
      (use ws mgr_invD(6) [OF assms(1)] in auto)
  then show ?thesis
    using assms(2) ws by (simp add: close_session_locked_def closed_session_def Let_def)
qed

lemma closed_waiters_simps [simp]:
  "sessions (closed_waiters W m) = sessions m" "by_id (closed_waiters W m) = by_id m"
  "by_token (closed_waiters W m) = by_token m" "panicked (closed_waiters W m) = panicked m"
  "next_session (closed_waiters W m) = next_session m"
  "next_waiter (closed_waiters W m) = next_waiter m"
  "mg_stale_after (closed_waiters W m) = mg_stale_after m"
  "pend (closed_waiters W m) = pend m"
  by (simp_all add: closed_waiters_def pend_def fun_eq_iff)

lemma open_empty_closed_waiters:
  "open_empty (closed_waiters W m) w \<longleftrightarrow> w \<notin> W \<and> open_empty m w"
  by (auto simp: open_empty_def closed_waiters_def split: option.splits)

lemma mgr_inv_closed_waiters:
  assumes "mgr_inv m" "\<And>b k c w. pend m b k c = Some w \<Longrightarrow> w \<notin> W"
  shows "mgr_inv (closed_waiters W m)"
  unfolding mgr_inv_def
proof (intro conjI)
  show "\<forall>b k c w. pend (closed_waiters W m) b k c = Some w \<longrightarrow> open_empty (closed_waiters W m) w"
    using assms mgr_invD(6) by (auto simp: open_empty_closed_waiters)
  show "\<forall>w ch. waiters (closed_waiters W m) w = Some ch \<longrightarrow> w < next_waiter (closed_waiters W m)"
    using mgr_invD(8) [OF assms(1)] by (auto simp: closed_waiters_def split: if_splits)
qed (use mgr_invD [OF assms(1)] in \<open>simp_all; blast\<close>)+

lemma mgr_inv_close_session:
  assumes "mgr_inv m" "sessions m a = Some s"
  shows "mgr_inv (close_session_locked a t m)"
proof -
  let ?m = "m\<lparr>sessions := (sessions m)(a \<mapsto> closed_session t s)\<rparr>"
  have ok: "sess_ok (closed_session t s)"
    using mgr_invD(3) [OF assms] by (simp add: sess_ok_def)
  have "mgr_inv ?m" by (rule mgr_inv_shrink [OF assms ok]) simp_all
  then show ?thesis
    unfolding close_session_effect [OF assms]
  proof (rule mgr_inv_closed_waiters)
    show "w \<notin> {w. \<exists>k c. pend m a k c = Some w}" if "pend ?m b k c = Some w" for b k c w
      using that mgr_invD(7) [OF assms(1)] by (auto simp: pend_update split: if_splits)
  qed
qed

subsection \<open>Waiters outside the maps\<close>

lemma open_empty_allocated: "open_empty m w \<Longrightarrow> \<exists>ch. waiters m w = Some ch"
  by (auto simp: open_empty_def split: option.splits)

lemma mgr_inv_set_waiter:
  assumes inv: "mgr_inv m" and "\<And>a k c. pend m a k c \<noteq> Some w" and "waiters m w = Some old"
  shows "mgr_inv (m\<lparr>waiters := (waiters m)(w \<mapsto> ch)\<rparr>)"
  unfolding mgr_inv_def
proof (intro conjI)
  show "\<forall>a k c v. pend (m\<lparr>waiters := (waiters m)(w \<mapsto> ch)\<rparr>) a k c = Some v \<longrightarrow>
      open_empty (m\<lparr>waiters := (waiters m)(w \<mapsto> ch)\<rparr>) v"
    using assms(2) mgr_invD(6) [OF inv] by (auto simp: open_empty_def)
qed (use mgr_invD [OF inv] assms(3) in \<open>auto; blast\<close>)+

lemma mgr_inv_new_waiter:
  assumes inv: "mgr_inv m"
  shows "mgr_inv (m\<lparr>waiters := (waiters m)(next_waiter m \<mapsto> ch), next_waiter := next_waiter m + 1\<rparr>)"
    and "pend m a k c \<noteq> Some (next_waiter m)"
proof -
  have fresh: "waiters m (next_waiter m) = None"
    using mgr_invD(8) [OF inv] by (metis less_irrefl not_None_eq)
  then show np: "pend m a k c \<noteq> Some (next_waiter m)" for a k c
    using mgr_invD(6) [OF inv, of a k c "next_waiter m"] by (auto simp: open_empty_def)
  show "mgr_inv (m\<lparr>waiters := (waiters m)(next_waiter m \<mapsto> ch), next_waiter := next_waiter m + 1\<rparr>)"
    unfolding mgr_inv_def
  proof (intro conjI)
    let ?m = "m\<lparr>waiters := (waiters m)(next_waiter m \<mapsto> ch), next_waiter := next_waiter m + 1\<rparr>"
    show "\<forall>a k c v. pend ?m a k c = Some v \<longrightarrow> open_empty ?m v"
      using np mgr_invD(6) [OF inv] by (auto simp: open_empty_def)
    show "\<forall>v ch. waiters ?m v = Some ch \<longrightarrow> v < next_waiter ?m"
      using mgr_invD(8) [OF inv] by (auto intro: less_SucI)
  qed (use mgr_invD [OF inv] in \<open>auto; blast\<close>)+
qed

lemma mgr_inv_add_pending:
  assumes inv: "mgr_inv m" and s: "sessions m a = Some s" and ok: "sess_ok s'"
    and ids: "sn_token_id (snapshot s') = sn_token_id (snapshot s)"
      "sn_session_id (snapshot s') = sn_session_id (snapshot s)"
    and w: "open_empty m w" "\<And>b k c. pend m b k c \<noteq> Some w"
    and p: "\<And>k c. map_of (pending s' k) c =
        (if k = kind \<and> c = cid then Some w else map_of (pending s k) c)"
  shows "mgr_inv (m\<lparr>sessions := (sessions m)(a \<mapsto> s')\<rparr>)"
proof -
  let ?m = "m\<lparr>sessions := (sessions m)(a \<mapsto> s')\<rparr>"
  have pend': "pend ?m b k c = (if b = a \<and> k = kind \<and> c = cid then Some w else pend m b k c)"
    for b k c using p s by (auto simp: pend_def)
  show ?thesis
    unfolding mgr_inv_def
  proof (intro conjI)
    show "\<forall>b k c v. pend ?m b k c = Some v \<longrightarrow> open_empty ?m v"
      using pend' w(1) mgr_invD(6) [OF inv] by (auto split: if_splits)
    show "\<forall>b k c v b' k' c'. pend ?m b k c = Some v \<longrightarrow> pend ?m b' k' c' = Some v \<longrightarrow>
        b = b' \<and> k = k' \<and> c = c'"
      using mgr_invD(7) [OF inv] w(2) unfolding pend' by (metis option.inject)
  qed (use mgr_invD(1-5,8) [OF inv] s ok ids in \<open>auto split: if_splits\<close>; metis option.inject)+
qed

subsection \<open>The operations\<close>

lemma session_locked_InrD:
  "session_locked now tid sid m = Inr a \<Longrightarrow>
     \<exists>s. by_id m sid = Some a \<and> sessions m a = Some s \<and> sn_token_id (snapshot s) = tid \<and>
         is_active_locked now m s"
  by (auto simp: session_locked_def split: option.splits if_splits)

lemma take_waiter_effect:
  assumes "mgr_inv m" "take_waiter now tid sid kind cid m = (Inr w, m')"
  shows "mgr_inv m'" and "waiters m' = waiters m" and "by_id m' = by_id m"
    and "\<exists>a. pend m a kind cid = Some w \<and>
      pend m' = (\<lambda>b k c. if b = a \<and> k = kind \<and> c = cid then None else pend m b k c)"
proof -
  obtain a s where a: "session_locked now tid sid m = Inr a" "sessions m a = Some s"
      "map_of (pending s kind) cid = Some w" and
    m': "m' = m\<lparr>sessions := (sessions m)(a \<mapsto>
           s\<lparr>pending := (pending s)(kind := al_del cid (pending s kind))\<rparr>)\<rparr>"
    using assms(2) by (auto simp: take_waiter_def split: sum.splits option.splits)
  have "sess_ok (s\<lparr>pending := (pending s)(kind := al_del cid (pending s kind))\<rparr>)"
    using mgr_invD(3) [OF assms(1) a(2)] a(3) by (auto simp: sess_ok_def)
  then show "mgr_inv m'"
    unfolding m' by (rule mgr_inv_shrink [OF assms(1) a(2)]) (auto split: if_splits)
  show "waiters m' = waiters m" "by_id m' = by_id m" by (simp_all add: m')
  show "\<exists>a. pend m a kind cid = Some w \<and>
      pend m' = (\<lambda>b k c. if b = a \<and> k = kind \<and> c = cid then None else pend m b k c)"
    using a by (intro exI [of _ a]) (auto simp: m' pend_def fun_eq_iff)
qed

lemma take_waiter_Inl: "take_waiter now tid sid kind cid m = (Inl e, m') \<Longrightarrow> m' = m"
  by (auto simp: take_waiter_def split: sum.splits option.splits)

lemma mark_heartbeat_effect:
  assumes "mgr_inv m" "mark_heartbeat now tid sid at m = (e, m')"
  shows "mgr_inv m'" and "waiters m' = waiters m" and "pend m' = pend m"
proof -
  have "m' = m \<or> (\<exists>a s. sessions m a = Some s \<and>
      m' = m\<lparr>sessions := (sessions m)(a \<mapsto> s\<lparr>snapshot := (snapshot s)\<lparr>sn_last_heartbeat_at := at\<rparr>\<rparr>)\<rparr>)"
    using assms(2) unfolding mark_heartbeat_def
    by (cases "session_locked now tid sid m") (auto split: option.splits)
  then consider "m' = m" | a s where "sessions m a = Some s"
      "m' = m\<lparr>sessions := (sessions m)(a \<mapsto> s\<lparr>snapshot := (snapshot s)\<lparr>sn_last_heartbeat_at := at\<rparr>\<rparr>)\<rparr>"
    by blast
  then have "mgr_inv m' \<and> waiters m' = waiters m \<and> pend m' = pend m"
  proof cases
    case 2
    have "sess_ok (s\<lparr>snapshot := (snapshot s)\<lparr>sn_last_heartbeat_at := at\<rparr>\<rparr>)"
      using mgr_invD(3) [OF assms(1) 2(1)] by (simp add: sess_ok_def)
    then have "mgr_inv m'"
      unfolding 2(2) by (rule mgr_inv_shrink [OF assms(1) 2(1)]) auto
    with 2 show ?thesis by (auto simp: pend_def fun_eq_iff)
  qed (use assms in auto)
  then show "mgr_inv m'" "waiters m' = waiters m" "pend m' = pend m" by auto
qed

lemma cancel_command_effect:
  assumes "mgr_inv m"
  shows "mgr_inv (cancel_command c m)" and "waiters (cancel_command c m) = waiters m"
    and "pend (cancel_command c m) b k i =
      (if by_id m (c_session_id c) = Some (c_session c) \<and> b = c_session c \<and> k = c_kind c \<and>
          i = c_command_id c then None else pend m b k i)"
proof -
  have "mgr_inv (cancel_command c m) \<and> waiters (cancel_command c m) = waiters m \<and>
    pend (cancel_command c m) b k i =
      (if by_id m (c_session_id c) = Some (c_session c) \<and> b = c_session c \<and> k = c_kind c \<and>
          i = c_command_id c then None else pend m b k i)"
  proof (cases "by_id m (c_session_id c) = Some (c_session c)")
    case True
    then obtain s where s: "sessions m (c_session c) = Some s"
      using mgr_invD(5) [OF assms] by blast
    let ?s = "s\<lparr>pending := (pending s)(c_kind c := al_del (c_command_id c) (pending s (c_kind c)))\<rparr>"
    have "sess_ok ?s" using mgr_invD(3) [OF assms s] by (auto simp: sess_ok_def)
    then have "mgr_inv (m\<lparr>sessions := (sessions m)(c_session c \<mapsto> ?s)\<rparr>)"
      by (rule mgr_inv_shrink [OF assms s]) (auto split: if_splits)
    with True s show ?thesis by (auto simp: cancel_command_def pend_def)
  qed (use assms in \<open>simp add: cancel_command_def\<close>)
  then show "mgr_inv (cancel_command c m)" "waiters (cancel_command c m) = waiters m"
    "pend (cancel_command c m) b k i =
      (if by_id m (c_session_id c) = Some (c_session c) \<and> b = c_session c \<and> k = c_kind c \<and>
          i = c_command_id c then None else pend m b k i)" by auto
qed

lemma next_command_effect:
  assumes "mgr_inv m" "next_command a m = Some (c, m')"
  shows "mgr_inv m'" and "waiters m' = waiters m" and "pend m' = pend m"
proof -
  obtain s cs where s: "sessions m a = Some s" "commands s = c # cs"
      "m' = m\<lparr>sessions := (sessions m)(a \<mapsto> s\<lparr>commands := cs\<rparr>)\<rparr>"
    using assms(2) by (auto simp: next_command_def split: option.splits list.splits)
  have "sess_ok (s\<lparr>commands := cs\<rparr>)"
    using mgr_invD(3) [OF assms(1) s(1)] s(2) by (simp add: sess_ok_def)
  then show "mgr_inv m'"
    unfolding s(3) by (rule mgr_inv_shrink [OF assms(1) s(1)]) auto
  show "waiters m' = waiters m" "pend m' = pend m" using s by (auto simp: pend_def fun_eq_iff)
qed

lemma close_session_pend:
  assumes "mgr_inv m" "sessions m a = Some s"
  shows "pend (close_session_locked a t m) b k c = (if b = a then None else pend m b k c)"
    and "open_empty (close_session_locked a t m) w \<longleftrightarrow>
      open_empty m w \<and> (\<forall>k c. pend m a k c \<noteq> Some w)"
    and "waiters (close_session_locked a t m) w = None \<longleftrightarrow> waiters m w = None"
    and "(\<forall>k c. pend m a k c \<noteq> Some w) \<Longrightarrow> waiters (close_session_locked a t m) w = waiters m w"
  unfolding close_session_effect [OF assms]
  by (simp_all add: pend_update open_empty_closed_waiters) (auto simp: closed_waiters_def)

lemma disconnect_session_cases:
  assumes "mgr_inv m"
  shows "disconnect_session now sid m = m \<or>
    (\<exists>b s. sessions m b = Some s \<and> disconnect_session now sid m = close_session_locked b now m)"
proof (cases "by_id m sid")
  case (Some b)
  then obtain s where "sessions m b = Some s" using mgr_invD(5) [OF assms] by blast
  with Some show ?thesis by (auto simp: disconnect_session_def)
qed (simp add: disconnect_session_def)

lemma disconnect_registered_cases:
  "disconnect_registered_session now sid a m = m \<or>
   disconnect_registered_session now sid a m = disconnect_session now sid m"
  by (simp add: disconnect_registered_session_def disconnect_session_def)

lemma mgr_inv_delete_by_id:
  "mgr_inv m \<Longrightarrow> mgr_inv (m\<lparr>by_id := (by_id m)(i := None)\<rparr>)"
  unfolding mgr_inv_def by simp

lemma mgr_inv_add_session:
  assumes inv: "mgr_inv m" and ok: "sess_ok s" and empty: "pending s = (\<lambda>_. [])"
    and ids: "sn_token_id (snapshot s) = t" "sn_session_id (snapshot s) = i"
  shows "mgr_inv (m\<lparr>sessions := (sessions m)(next_session m \<mapsto> s), next_session := next_session m + 1,
      by_token := (by_token m)(t \<mapsto> next_session m), by_id := (by_id m)(i \<mapsto> next_session m)\<rparr>)"
    and "pend (m\<lparr>sessions := (sessions m)(next_session m \<mapsto> s), next_session := next_session m + 1,
      by_token := (by_token m)(t \<mapsto> next_session m), by_id := (by_id m)(i \<mapsto> next_session m)\<rparr>) = pend m"
proof -
  let ?m = "m\<lparr>sessions := (sessions m)(next_session m \<mapsto> s), next_session := next_session m + 1,
      by_token := (by_token m)(t \<mapsto> next_session m), by_id := (by_id m)(i \<mapsto> next_session m)\<rparr>"
  have fresh: "sessions m (next_session m) = None"
    using mgr_invD(2) [OF inv] by (metis less_irrefl not_None_eq)
  show pend: "pend ?m = pend m" using fresh empty by (auto simp: pend_def fun_eq_iff)
  have open_same: "open_empty ?m w = open_empty m w" for w by (simp add: open_empty_def)
  show "mgr_inv ?m"
    unfolding mgr_inv_def pend open_same
  proof (intro conjI)
    show "\<forall>b r. sessions ?m b = Some r \<longrightarrow> b < next_session ?m \<and> sess_ok r"
      using mgr_invD(2,3) [OF inv] ok by (auto intro: less_SucI)
    show "\<forall>u b. by_token ?m u = Some b \<longrightarrow> (\<exists>r. sessions ?m b = Some r \<and> sn_token_id (snapshot r) = u)"
      using mgr_invD(4) [OF inv] ids fresh by (auto split: if_splits) (metis option.distinct(1))
    show "\<forall>u b. by_id ?m u = Some b \<longrightarrow> (\<exists>r. sessions ?m b = Some r \<and> sn_session_id (snapshot r) = u)"
      using mgr_invD(5) [OF inv] ids fresh by (auto split: if_splits) (metis option.distinct(1))
  qed (use mgr_invD [OF inv] in \<open>simp_all; blast\<close>)+
qed

lemma register_session_effect:
  assumes "mgr_inv m" "register_session now token sid host ver m = (Inr a, m')"
  shows "mgr_inv m'"
    and "\<exists>m1. (m1 = m \<or> (\<exists>b s. sessions m b = Some s \<and> m1 = close_session_locked b now m)) \<and>
           pend m' = pend m1 \<and> waiters m' = waiters m1"
proof -
  define m1 where "m1 = (case by_token m (tok_id token) of None \<Rightarrow> m
     | Some b \<Rightarrow> close_session_locked b now m)"
  define m2 where "m2 = (case by_token m (tok_id token) of None \<Rightarrow> m
     | Some b \<Rightarrow> (case sessions m b of None \<Rightarrow> m1
        | Some existing \<Rightarrow>
            if sn_session_id (snapshot existing) \<noteq> sid
            then m1\<lparr>by_id := (by_id m1)(sn_session_id (snapshot existing) := None)\<rparr> else m1))"
  have m1: "m1 = m \<or> (\<exists>b s. sessions m b = Some s \<and> m1 = close_session_locked b now m)"
    using mgr_invD(4) [OF assms(1)] by (auto simp: m1_def split: option.splits)
  then have inv1: "mgr_inv m1" using assms(1) mgr_inv_close_session by auto
  then have inv2: "mgr_inv m2" using assms(1) mgr_inv_delete_by_id
    by (auto simp: m2_def split: option.splits)
  have same: "pend m2 = pend m1" "waiters m2 = waiters m1"
    by (auto simp: m2_def m1_def split: option.splits)
  define s where "s = \<lparr>snapshot = \<lparr>sn_session_id = sid, sn_tenant_id = tok_tenant_id token,
      sn_token_id = tok_id token, sn_token_label = tok_label token, sn_hostname = host,
      sn_agent_version = ver, sn_connected_at = now, sn_last_heartbeat_at = now,
      sn_disconnected_at = None, sn_status = StatusOnline\<rparr>,
    sess_active = True, commands = [], done_closed = False, pending = (\<lambda>_. [])\<rparr>"
  have m': "m' = m2\<lparr>sessions := (sessions m2)(next_session m2 \<mapsto> s), next_session := next_session m2 + 1,
      by_token := (by_token m2)(tok_id token \<mapsto> next_session m2), by_id := (by_id m2)(sid \<mapsto> next_session m2)\<rparr>"
    using assms(2)
    by (auto simp: register_session_def Let_def m2_def m1_def s_def split: if_splits option.splits)
  have s: "sess_ok s" "pending s = (\<lambda>_. [])" "sn_token_id (snapshot s) = tok_id token"
    "sn_session_id (snapshot s) = sid"
    by (simp_all add: s_def sess_ok_def command_queue_capacity_def)
  show "mgr_inv m'" unfolding m' by (rule mgr_inv_add_session(1) [OF inv2 s])
  have "pend m' = pend m2" unfolding m' by (rule mgr_inv_add_session(2) [OF inv2 s])
  moreover have "waiters m' = waiters m2" by (simp add: m')
  ultimately show "\<exists>m1. (m1 = m \<or> (\<exists>b s. sessions m b = Some s \<and> m1 = close_session_locked b now m)) \<and>
      pend m' = pend m1 \<and> waiters m' = waiters m1"
    using m1 same by metis
qed

subsection \<open>Commands\<close>

datatype agent_request =
    RequestPing string
  | RequestExecuteQuery uuid string
  | RequestIntrospectSchema uuid
  | RequestConfigureDatabase uuid string

text \<open>The public entry points, by request.\<close>

fun start_request ::
  "time \<Rightarrow> time \<Rightarrow> uuid list \<Rightarrow> string \<Rightarrow> agent_request \<Rightarrow> manager \<Rightarrow> (gerr + call) \<times> manager" where
  "start_request issued now tokens cid (RequestPing sid) m = start_ping issued now cid sid m"
| "start_request issued now tokens cid (RequestExecuteQuery tenant sql) m =
     start_execute_query issued now tokens cid tenant sql m"
| "start_request issued now tokens cid (RequestIntrospectSchema tenant) m =
     start_introspect_schema issued now tokens cid tenant m"
| "start_request issued now tokens cid (RequestConfigureDatabase tid dsn) m =
     start_configure_database issued now cid tid dsn m"

lemma scan_tenant_sessions_SomeD:
  assumes "scan_tenant_sessions now m tenant ts current = Some (a, s)"
    and "\<And>b c. current = Some (b, c) \<Longrightarrow> sessions m b = Some c \<and>
      sn_tenant_id (snapshot c) = tenant \<and> is_active_locked now m c"
  shows "sessions m a = Some s \<and> sn_tenant_id (snapshot s) = tenant \<and> is_active_locked now m s"
  using assms
proof (induction ts arbitrary: current)
  case (Cons t ts)
  show ?case
    by (rule Cons.IH [of "case by_token m t of None \<Rightarrow> current | Some a \<Rightarrow> (case sessions m a of
          None \<Rightarrow> current | Some s \<Rightarrow> if sn_tenant_id (snapshot s) \<noteq> tenant \<or>
          \<not> is_active_locked now m s then current else (case current of None \<Rightarrow> Some (a, s)
          | Some (b, c) \<Rightarrow> if sn_connected_at (snapshot c) < sn_connected_at (snapshot s)
             then Some (a, s) else current))"])
      (use Cons.prems in \<open>auto split: option.splits if_splits\<close>)
qed auto

lemma start_request_cases:
  assumes "start_request issued now tokens cid req m = (r, m')"
  shows "(\<exists>e. r = Inl e \<and> m' = m) \<or>
    (\<exists>a s cmd. sessions m a = Some s \<and> is_active_locked now m s \<and> cmd_command_id cmd = cid \<and>
       dispatch a s cmd m = (r, m'))"
proof (cases req)
  case (RequestPing sid)
  with assms show ?thesis
    by (auto simp: start_ping_def split: option.splits if_splits)
next
  case (RequestExecuteQuery tenant sql)
  with assms scan_tenant_sessions_SomeD [of now m tenant tokens None] show ?thesis
    by (auto simp: start_execute_query_def active_tenant_session_locked_def split: option.splits)
next
  case (RequestIntrospectSchema tenant)
  with assms scan_tenant_sessions_SomeD [of now m tenant tokens None] show ?thesis
    by (auto simp: start_introspect_schema_def active_tenant_session_locked_def split: option.splits)
next
  case (RequestConfigureDatabase tid dsn)
  with assms show ?thesis
    by (auto simp: start_configure_database_def active_token_session_locked_def
        split: option.splits if_splits)
qed

lemma dispatch_Inr_effect:
  assumes inv: "mgr_inv m" and s: "sessions m a = Some s" "is_active_locked now m s"
    and d: "dispatch a s cmd m = (Inr c, m')"
  shows "mgr_inv m'" and "c_waiter c = next_waiter m" and "c_command_id c = cmd_command_id cmd"
    and "waiters m' = (waiters m)(next_waiter m \<mapsto> \<lparr>w_buffer = None, w_closed = False\<rparr>)"
    and "pend m' b k i = (if b = c_session c \<and> k = c_kind c \<and> i = c_command_id c
           then Some (c_waiter c) else pend m b k i)"
    and "by_id m' = by_id m"
proof -
  let ?w = "next_waiter m" and ?k = "cmd_kind cmd" and ?i = "cmd_command_id cmd"
  let ?m1 = "m\<lparr>waiters := (waiters m)(?w \<mapsto> \<lparr>w_buffer = None, w_closed = False\<rparr>), next_waiter := ?w + 1\<rparr>"
  let ?s = "s\<lparr>commands := commands s @ [cmd], pending := (pending s)(?k := al_put ?i ?w (pending s ?k))\<rparr>"
  have room: "length (commands s) < command_queue_capacity"
    using d by (auto simp: dispatch_def Let_def split: if_splits)
  have c: "c = \<lparr>c_waiter = ?w, c_session = a, c_session_id = cmd_session_id cmd, c_kind = ?k,
      c_command_id = ?i\<rparr>" and m': "m' = ?m1\<lparr>sessions := (sessions ?m1)(a \<mapsto> ?s)\<rparr>"
    using d room by (auto simp: dispatch_def Let_def)
  have ok: "sess_ok ?s"
    using mgr_invD(3) [OF inv s(1)] room s(2) by (auto simp: sess_ok_def is_active_locked_def)
  have s1: "sessions ?m1 a = Some s" using s by simp
  have oe: "open_empty ?m1 ?w" by (simp add: open_empty_def)
  have np: "pend ?m1 b k i \<noteq> Some ?w" for b k i
    using mgr_inv_new_waiter(2) [OF inv, of b k i] by simp
  show "mgr_inv m'"
    unfolding m'
    by (rule mgr_inv_add_pending [OF mgr_inv_new_waiter(1) [OF inv] s1 ok _ _ oe np]) auto
  show "c_waiter c = next_waiter m" "c_command_id c = cmd_command_id cmd" by (simp_all add: c)
  show "waiters m' = (waiters m)(next_waiter m \<mapsto> \<lparr>w_buffer = None, w_closed = False\<rparr>)"
    "by_id m' = by_id m"
    by (simp_all add: m')
  show "pend m' b k i = (if b = c_session c \<and> k = c_kind c \<and> i = c_command_id c
      then Some (c_waiter c) else pend m b k i)"
    using s by (auto simp: m' c pend_def)
qed

lemma dispatch_Inl_effect:
  assumes inv: "mgr_inv m" and s: "sessions m a = Some s"
    and d: "dispatch a s cmd m = (Inl e, m')"
  shows "mgr_inv m'" and "e = err_command_rejected"
    and "waiters m' = (waiters m)(next_waiter m \<mapsto> \<lparr>w_buffer = None, w_closed = False\<rparr>)"
    and "pend m' b k i = (if b = a \<and> k = cmd_kind cmd \<and> i = cmd_command_id cmd
           then None else pend m b k i)"
proof -
  let ?w = "next_waiter m" and ?k = "cmd_kind cmd" and ?i = "cmd_command_id cmd"
  let ?m1 = "m\<lparr>waiters := (waiters m)(?w \<mapsto> \<lparr>w_buffer = None, w_closed = False\<rparr>), next_waiter := ?w + 1\<rparr>"
  let ?s = "s\<lparr>pending := (pending s)(?k := al_del ?i (al_put ?i ?w (pending s ?k)))\<rparr>"
  have m': "m' = ?m1\<lparr>sessions := (sessions ?m1)(a \<mapsto> ?s)\<rparr>" and e: "e = err_command_rejected"
    using d by (auto simp: dispatch_def Let_def split: if_splits)
  have put_del: "al_del i (al_put i w xs) = al_del i xs" for i w and xs :: "(string \<times> nat) list"
    by (simp add: al_put_def al_del_def)
  have ok: "sess_ok ?s"
    using mgr_invD(3) [OF inv s] by (auto simp: sess_ok_def put_del)
  have s1: "sessions ?m1 a = Some s" using s by simp
  show "mgr_inv m'"
    unfolding m'
    by (rule mgr_inv_shrink [OF mgr_inv_new_waiter(1) [OF inv] s1 ok])
      (auto simp: put_del split: if_splits)
  show "e = err_command_rejected" by (rule e)
  show "waiters m' = (waiters m)(next_waiter m \<mapsto> \<lparr>w_buffer = None, w_closed = False\<rparr>)"
    by (simp add: m')
  show "pend m' b k i = (if b = a \<and> k = cmd_kind cmd \<and> i = cmd_command_id cmd
      then None else pend m b k i)"
    using s by (auto simp: m' pend_def)
qed

section \<open>The interleavings\<close>

text \<open>
  \<open>deliveries\<close> are the waiters taken by a \<open>Submit\<close> call and not yet closed: about to be sent
  (Some) or about to be closed (None). \<open>waiting\<close> are the callers in their \<open>select\<close>.
  \<open>used_ids\<close> are the command ids drawn so far; \<open>uuid.NewString\<close> never repeats one.
\<close>

record system =
  mgr :: manager
  deliveries :: "(nat \<times> agent_result option) list"
  waiting :: "call list"
  used_ids :: "string set"

inductive session_step :: "system \<Rightarrow> system \<Rightarrow> bool" where
  register: "register_session now token sid host ver (mgr s) = (r, m') \<Longrightarrow>
     session_step s (s\<lparr>mgr := m'\<rparr>)"
| heartbeat: "mark_heartbeat now tid sid at (mgr s) = (e, m') \<Longrightarrow> session_step s (s\<lparr>mgr := m'\<rparr>)"
| start: "start_request issued now tokens cid req (mgr s) = (Inr c, m') \<Longrightarrow> cid \<notin> used_ids s \<Longrightarrow>
     session_step s (s\<lparr>mgr := m', waiting := c # waiting s, used_ids := insert cid (used_ids s)\<rparr>)"
| start_fails: "start_request issued now tokens cid req (mgr s) = (Inl e, m') \<Longrightarrow>
     cid \<notin> used_ids s \<Longrightarrow> session_step s (s\<lparr>mgr := m', used_ids := insert cid (used_ids s)\<rparr>)"
| submit: "take_waiter now tid sid kind cid (mgr s) = (Inr w, m') \<Longrightarrow>
     session_step s (s\<lparr>mgr := m', deliveries := (w, Some r) # deliveries s\<rparr>)"
| submit_fails: "take_waiter now tid sid kind cid (mgr s) = (Inl e, m') \<Longrightarrow>
     session_step s (s\<lparr>mgr := m'\<rparr>)"
| send: "(w, Some r) \<in> set (deliveries s) \<Longrightarrow> send_waiter w r (mgr s) = Some m' \<Longrightarrow>
     session_step s (s\<lparr>mgr := m', deliveries := (w, None) # remove1 (w, Some r) (deliveries s)\<rparr>)"
| close: "(w, None) \<in> set (deliveries s) \<Longrightarrow>
     session_step s (s\<lparr>mgr := close_waiter w (mgr s), deliveries := remove1 (w, None) (deliveries s)\<rparr>)"
| receive: "c \<in> set (waiting s) \<Longrightarrow> receive_result (c_waiter c) (mgr s) = Some (res, m') \<Longrightarrow>
     session_step s (s\<lparr>mgr := m', waiting := remove1 c (waiting s)\<rparr>)"
| cancel: "c \<in> set (waiting s) \<Longrightarrow>
     session_step s (s\<lparr>mgr := cancel_command c (mgr s), waiting := remove1 c (waiting s)\<rparr>)"
| stream: "next_command a (mgr s) = Some (cmd, m') \<Longrightarrow> session_step s (s\<lparr>mgr := m'\<rparr>)"
| disconnect: "session_step s (s\<lparr>mgr := disconnect_session now sid (mgr s)\<rparr>)"
| disconnect_registered:
    "session_step s (s\<lparr>mgr := disconnect_registered_session now sid a (mgr s)\<rparr>)"

inductive session_reachable :: "duration \<Rightarrow> duration \<Rightarrow> system \<Rightarrow> bool" for stale ping where
  init: "session_reachable stale ping
     \<lparr>mgr = new_agent_session_manager stale ping, deliveries = [], waiting = [], used_ids = {}\<rparr>"
| step: "session_reachable stale ping s \<Longrightarrow> session_step s s' \<Longrightarrow> session_reachable stale ping s'"

text \<open>The invariant of the interleavings: deliveries, then waiting callers.\<close>

definition deliveries_ok :: "manager \<Rightarrow> (nat \<times> agent_result option) list \<Rightarrow> bool" where
  "deliveries_ok m ds \<longleftrightarrow>
     distinct (map fst ds)
     \<and> (\<forall>w d. (w, d) \<in> set ds \<longrightarrow> (\<forall>a k c. pend m a k c \<noteq> Some w))
     \<and> (\<forall>w d. (w, d) \<in> set ds \<longrightarrow> (\<exists>ch. waiters m w = Some ch \<and> \<not> w_closed ch))
     \<and> (\<forall>w r. (w, Some r) \<in> set ds \<longrightarrow> open_empty m w)"

definition waiting_ok ::
  "manager \<Rightarrow> (nat \<times> agent_result option) list \<Rightarrow> call list \<Rightarrow> string set \<Rightarrow> bool" where
  "waiting_ok m ds cs used \<longleftrightarrow>
     distinct (map c_waiter cs)
     \<and> (\<forall>a k i w. pend m a k i = Some w \<longrightarrow> i \<in> used)
     \<and> (\<forall>c \<in> set cs. c_command_id c \<in> used \<and> waiters m (c_waiter c) \<noteq> None
          \<and> (\<forall>a k w. pend m a k (c_command_id c) = Some w \<longrightarrow>
               a = c_session c \<and> k = c_kind c \<and> w = c_waiter c)
          \<and> (open_empty m (c_waiter c) \<longrightarrow>
               pend m (c_session c) (c_kind c) (c_command_id c) = Some (c_waiter c)
               \<or> (\<exists>r. (c_waiter c, Some r) \<in> set ds)))"

definition system_inv :: "system \<Rightarrow> bool" where
  "system_inv s \<longleftrightarrow> mgr_inv (mgr s) \<and> deliveries_ok (mgr s) (deliveries s) \<and>
     waiting_ok (mgr s) (deliveries s) (waiting s) (used_ids s)"

section \<open>Every step keeps the invariant\<close>

lemma deliveries_okD:
  assumes "deliveries_ok m ds"
  shows "distinct (map fst ds)"
    and "(w, d) \<in> set ds \<Longrightarrow> pend m a k c \<noteq> Some w"
    and "(w, d) \<in> set ds \<Longrightarrow> \<exists>ch. waiters m w = Some ch \<and> \<not> w_closed ch"
    and "(w, Some r) \<in> set ds \<Longrightarrow> open_empty m w"
  using assms unfolding deliveries_ok_def by blast+

lemma waiting_okD:
  assumes "waiting_ok m ds cs used"
  shows "distinct (map c_waiter cs)"
    and "pend m a k i = Some w \<Longrightarrow> i \<in> used"
    and "c \<in> set cs \<Longrightarrow> c_command_id c \<in> used"
    and "c \<in> set cs \<Longrightarrow> waiters m (c_waiter c) \<noteq> None"
    and "c \<in> set cs \<Longrightarrow> pend m a k (c_command_id c) = Some w \<Longrightarrow>
      a = c_session c \<and> k = c_kind c \<and> w = c_waiter c"
    and "c \<in> set cs \<Longrightarrow> open_empty m (c_waiter c) \<Longrightarrow>
      pend m (c_session c) (c_kind c) (c_command_id c) = Some (c_waiter c) \<or>
      (\<exists>r. (c_waiter c, Some r) \<in> set ds)"
  using assms unfolding waiting_ok_def by blast+

lemma open_empty_cong: "waiters m' w = waiters m w \<Longrightarrow> open_empty m' w = open_empty m w"
  by (simp add: open_empty_def)

text \<open>
  Steps that only remove entries from the maps, closing the waiters they remove, and touch no
  other waiter: registering, heartbeats, reading the stream and disconnecting.
\<close>

definition shrinks :: "manager \<Rightarrow> manager \<Rightarrow> bool" where
  "shrinks m m' \<longleftrightarrow> mgr_inv m'
     \<and> (\<forall>a k c w. pend m' a k c = Some w \<longrightarrow> pend m a k c = Some w)
     \<and> (\<forall>w. (\<forall>a k c. pend m a k c \<noteq> Some w) \<longrightarrow> waiters m' w = waiters m w)
     \<and> (\<forall>w. waiters m w \<noteq> None \<longrightarrow> waiters m' w \<noteq> None)
     \<and> (\<forall>w. open_empty m' w \<longrightarrow> open_empty m w)
     \<and> (\<forall>a k c w. pend m a k c = Some w \<longrightarrow> open_empty m' w \<longrightarrow> pend m' a k c = Some w)"

lemma shrinks_same:
  "mgr_inv m' \<Longrightarrow> waiters m' = waiters m \<Longrightarrow> pend m' = pend m \<Longrightarrow> shrinks m m'"
  by (auto simp: shrinks_def open_empty_def)

lemma shrinks_close:
  assumes "mgr_inv m" "sessions m b = Some s"
  shows "shrinks m (close_session_locked b t m)"
  unfolding shrinks_def
proof (intro conjI)
  show "\<forall>a k c w. pend (close_session_locked b t m) a k c = Some w \<longrightarrow> pend m a k c = Some w"
    by (auto simp: close_session_pend(1) [OF assms] split: if_splits)
  show "\<forall>w. (\<forall>a k c. pend m a k c \<noteq> Some w) \<longrightarrow>
      waiters (close_session_locked b t m) w = waiters m w"
    using close_session_pend(4) [OF assms] by blast
  show "\<forall>w. waiters m w \<noteq> None \<longrightarrow> waiters (close_session_locked b t m) w \<noteq> None"
    by (simp add: close_session_pend(3) [OF assms])
  show "\<forall>w. open_empty (close_session_locked b t m) w \<longrightarrow> open_empty m w"
    using close_session_pend(2) [OF assms] by blast
  show "\<forall>a k c w. pend m a k c = Some w \<longrightarrow> open_empty (close_session_locked b t m) w \<longrightarrow>
      pend (close_session_locked b t m) a k c = Some w"
    by (auto simp: close_session_pend(1,2) [OF assms])
qed (rule mgr_inv_close_session [OF assms])

lemma shrinks_cong:
  "shrinks m m1 \<Longrightarrow> mgr_inv m' \<Longrightarrow> pend m' = pend m1 \<Longrightarrow> waiters m' = waiters m1 \<Longrightarrow> shrinks m m'"
proof -
  assume a: "shrinks m m1" "mgr_inv m'" "pend m' = pend m1" "waiters m' = waiters m1"
  then have oe: "open_empty m' = open_empty m1" by (simp add: open_empty_def fun_eq_iff)
  show "shrinks m m'"
    unfolding shrinks_def a(3) a(4) oe
    using a(1) [unfolded shrinks_def] a(2) by (elim conjE, intro conjI) assumption+
qed

lemma system_inv_shrinks:
  assumes "system_inv s" "shrinks (mgr s) m'"
  shows "system_inv (s\<lparr>mgr := m'\<rparr>)"
proof -
  let ?m = "mgr s"
  have d: "deliveries_ok ?m (deliveries s)" and w: "waiting_ok ?m (deliveries s) (waiting s) (used_ids s)"
    using assms(1) by (simp_all add: system_inv_def)
  have sh: "mgr_inv m'" "\<And>a k c w. pend m' a k c = Some w \<Longrightarrow> pend ?m a k c = Some w"
    "\<And>w. (\<And>a k c. pend ?m a k c \<noteq> Some w) \<Longrightarrow> waiters m' w = waiters ?m w"
    "\<And>w. waiters ?m w \<noteq> None \<Longrightarrow> waiters m' w \<noteq> None"
    "\<And>w. open_empty m' w \<Longrightarrow> open_empty ?m w"
    "\<And>a k c w. pend ?m a k c = Some w \<Longrightarrow> open_empty m' w \<Longrightarrow> pend m' a k c = Some w"
    using assms(2) unfolding shrinks_def by blast+
  have same: "waiters m' w = waiters ?m w" if "(w, x) \<in> set (deliveries s)" for w x
    by (rule sh(3)) (rule deliveries_okD(2) [OF d that])
  have "deliveries_ok m' (deliveries s)"
    unfolding deliveries_ok_def
    using deliveries_okD [OF d] same sh(2) open_empty_cong by metis
  moreover have "waiting_ok m' (deliveries s) (waiting s) (used_ids s)"
    unfolding waiting_ok_def
    using waiting_okD [OF w] sh(2,4-6) by meson
  ultimately show ?thesis using sh(1) by (simp add: system_inv_def)
qed

lemma system_inv_start:
  assumes inv: "system_inv s" and "start_request issued now tokens cid req (mgr s) = (Inr c, m')"
    and fresh: "cid \<notin> used_ids s"
  shows "system_inv (s\<lparr>mgr := m', waiting := c # waiting s, used_ids := insert cid (used_ids s)\<rparr>)"
proof -
  let ?m = "mgr s"
  have m: "mgr_inv ?m" and d: "deliveries_ok ?m (deliveries s)"
    and w: "waiting_ok ?m (deliveries s) (waiting s) (used_ids s)"
    using inv by (simp_all add: system_inv_def)
  obtain a r cmd where a: "sessions ?m a = Some r" "is_active_locked now ?m r"
      "cmd_command_id cmd = cid" "dispatch a r cmd ?m = (Inr c, m')"
    using start_request_cases [OF assms(2)] by auto
  note e = dispatch_Inr_effect [OF m a(1,2,4)]
  have cid: "c_command_id c = cid" using e(3) a(3) by simp
  have new: "waiters ?m (c_waiter c) = None"
    using mgr_invD(8) [OF m] e(2) by (metis less_irrefl not_None_eq)
  have old: "waiters m' v = waiters ?m v" if "waiters ?m v \<noteq> None" for v
    using that new e(2,4) by auto
  have pend: "pend m' b k i = (if b = c_session c \<and> k = c_kind c \<and> i = cid
      then Some (c_waiter c) else pend ?m b k i)" for b k i using e(5) cid by simp
  have "deliveries_ok m' (deliveries s)"
    unfolding deliveries_ok_def
  proof (intro conjI)
    show "\<forall>v x. (v, x) \<in> set (deliveries s) \<longrightarrow> (\<forall>a k c. pend m' a k c \<noteq> Some v)"
    proof (intro allI impI)
      fix v x b k i assume v: "(v, x) \<in> set (deliveries s)"
      then have "v \<noteq> c_waiter c" using deliveries_okD(3) [OF d v] new by auto
      then show "pend m' b k i \<noteq> Some v" using deliveries_okD(2) [OF d v] by (simp add: pend)
    qed
    show "\<forall>v x. (v, x) \<in> set (deliveries s) \<longrightarrow> (\<exists>ch. waiters m' v = Some ch \<and> \<not> w_closed ch)"
      using deliveries_okD(3) [OF d] old by (metis option.distinct(1))
    show "\<forall>v r. (v, Some r) \<in> set (deliveries s) \<longrightarrow> open_empty m' v"
      using deliveries_okD(3,4) [OF d] old open_empty_cong by (metis option.distinct(1))
  qed (rule deliveries_okD(1) [OF d])
  moreover have "waiting_ok m' (deliveries s) (c # waiting s) (insert cid (used_ids s))"
    unfolding waiting_ok_def
  proof (intro conjI)
    have "c_waiter c \<noteq> c_waiter x" if "x \<in> set (waiting s)" for x
      using waiting_okD(4) [OF w that] new by metis
    then show "distinct (map c_waiter (c # waiting s))"
      using waiting_okD(1) [OF w] by auto
    show "\<forall>a k i v. pend m' a k i = Some v \<longrightarrow> i \<in> insert cid (used_ids s)"
      using waiting_okD(2) [OF w] by (auto simp: pend)
    have "pend ?m a k cid = None" for a k using waiting_okD(2) [OF w] fresh by fastforce
    then have one: "pend m' a k cid = Some v \<Longrightarrow> a = c_session c \<and> k = c_kind c \<and> v = c_waiter c"
      for a k v by (auto simp: pend split: if_splits)
    have rest: "c_command_id x \<noteq> cid" "waiters ?m (c_waiter x) \<noteq> None" if "x \<in> set (waiting s)" for x
      using waiting_okD(3,4) [OF w that] fresh by auto
    show "\<forall>x \<in> set (c # waiting s). c_command_id x \<in> insert cid (used_ids s)
        \<and> waiters m' (c_waiter x) \<noteq> None
        \<and> (\<forall>a k v. pend m' a k (c_command_id x) = Some v \<longrightarrow>
             a = c_session x \<and> k = c_kind x \<and> v = c_waiter x)
        \<and> (open_empty m' (c_waiter x) \<longrightarrow>
             pend m' (c_session x) (c_kind x) (c_command_id x) = Some (c_waiter x)
             \<or> (\<exists>r. (c_waiter x, Some r) \<in> set (deliveries s)))"
    proof
      fix x assume "x \<in> set (c # waiting s)"
      then consider "x = c" | "x \<in> set (waiting s)" by auto
      then show "c_command_id x \<in> insert cid (used_ids s) \<and> waiters m' (c_waiter x) \<noteq> None
        \<and> (\<forall>a k v. pend m' a k (c_command_id x) = Some v \<longrightarrow>
             a = c_session x \<and> k = c_kind x \<and> v = c_waiter x)
        \<and> (open_empty m' (c_waiter x) \<longrightarrow>
             pend m' (c_session x) (c_kind x) (c_command_id x) = Some (c_waiter x)
             \<or> (\<exists>r. (c_waiter x, Some r) \<in> set (deliveries s)))"
      proof cases
        case 1
        have "pend m' (c_session c) (c_kind c) cid = Some (c_waiter c)" by (simp add: pend)
        moreover have "waiters m' (c_waiter c) \<noteq> None" using e(2,4) by simp
        ultimately show ?thesis unfolding 1 cid using one by blast
      next
        case 2
        have oe: "open_empty m' (c_waiter x) = open_empty ?m (c_waiter x)"
          by (rule open_empty_cong) (rule old [OF rest(2) [OF 2]])
        have px: "pend m' b k (c_command_id x) = pend ?m b k (c_command_id x)" for b k
          using rest(1) [OF 2] by (simp add: pend)
        show ?thesis
          unfolding oe px old [OF rest(2) [OF 2]]
          using waiting_okD(3) [OF w 2] rest(2) [OF 2] waiting_okD(5,6) [OF w 2] by blast
      qed
    qed
  qed
  ultimately show ?thesis using e(1) by (simp add: system_inv_def)
qed

lemma system_inv_start_fails:
  assumes inv: "system_inv s" and "start_request issued now tokens cid req (mgr s) = (Inl err, m')"
    and fresh: "cid \<notin> used_ids s"
  shows "system_inv (s\<lparr>mgr := m', used_ids := insert cid (used_ids s)\<rparr>)"
proof -
  let ?m = "mgr s"
  have m: "mgr_inv ?m" and d: "deliveries_ok ?m (deliveries s)"
    and w: "waiting_ok ?m (deliveries s) (waiting s) (used_ids s)"
    using inv by (simp_all add: system_inv_def)
  have grow: "waiting_ok ?m (deliveries s) (waiting s) (insert cid (used_ids s))"
    using w unfolding waiting_ok_def by blast
  from start_request_cases [OF assms(2)] consider "m' = ?m"
    | a r cmd where "sessions ?m a = Some r" "cmd_command_id cmd = cid" "dispatch a r cmd ?m = (Inl err, m')"
    by auto
  then show ?thesis
  proof cases
    case 1
    with m d grow show ?thesis by (simp add: system_inv_def)
  next
    case 2
    note e = dispatch_Inl_effect [OF m 2(1,3)]
    have "pend ?m a k cid = None" for a k using waiting_okD(2) [OF w] fresh by fastforce
    then have pend: "pend m' = pend ?m" using e(4) 2(2) by (auto simp: fun_eq_iff)
    have new: "waiters ?m (next_waiter ?m) = None"
      using mgr_invD(8) [OF m] by (metis less_irrefl not_None_eq)
    have old: "waiters m' v = waiters ?m v" if "waiters ?m v \<noteq> None" for v
      using that new e(3) by auto
    then have oe: "open_empty m' v = open_empty ?m v" if "waiters ?m v \<noteq> None" for v
      using that open_empty_cong by blast
    have "deliveries_ok m' (deliveries s)"
      unfolding deliveries_ok_def pend
      using deliveries_okD [OF d] old oe by (metis option.distinct(1))
    moreover have "waiting_ok m' (deliveries s) (waiting s) (insert cid (used_ids s))"
      unfolding waiting_ok_def pend
      using waiting_okD [OF grow] old oe by metis
    ultimately show ?thesis using e(1) by (simp add: system_inv_def)
  qed
qed

lemma distinct_fst_remove1:
  assumes "distinct (map fst ds)" "(w, x) \<in> set ds"
  shows "distinct (map fst (remove1 (w, x) ds))"
    and "set (remove1 (w, x) ds) = set ds - {(w, x)}"
    and "w \<notin> fst ` set (remove1 (w, x) ds)"
proof -
  have d: "distinct ds" using assms(1) by (simp add: distinct_map)
  then show s: "set (remove1 (w, x) ds) = set ds - {(w, x)}" by simp
  have "inj_on fst (set ds)" using assms(1) by (simp add: distinct_map)
  then show "w \<notin> fst ` set (remove1 (w, x) ds)"
    using assms(2) unfolding s by (fastforce simp: inj_on_def)
  show "distinct (map fst (remove1 (w, x) ds))"
    using assms(1) d s by (auto simp: distinct_map inj_on_def)
qed

text \<open>Changing one waiter that is in no map, with the deliveries that go with it.\<close>

lemma system_inv_set_waiter:
  assumes inv: "system_inv s" and w: "waiters (mgr s) w = Some old"
    and np: "\<And>a k c. pend (mgr s) a k c \<noteq> Some w"
    and ds: "distinct (map fst ds)"
      "\<And>v x. v \<noteq> w \<Longrightarrow> (v, x) \<in> set ds \<longleftrightarrow> (v, x) \<in> set (deliveries s)"
      "\<And>x. (w, x) \<in> set ds \<Longrightarrow> \<not> w_closed ch \<and> x = None"
    and cs: "distinct (map c_waiter cs)" "set cs \<subseteq> set (waiting s)"
    and empty: "\<And>c. c \<in> set cs \<Longrightarrow> c_waiter c = w \<Longrightarrow> w_buffer ch \<noteq> None \<or> w_closed ch"
  shows "system_inv (s\<lparr>mgr := (mgr s)\<lparr>waiters := (waiters (mgr s))(w \<mapsto> ch)\<rparr>,
    deliveries := ds, waiting := cs\<rparr>)"
proof -
  let ?m = "mgr s"
  let ?m' = "?m\<lparr>waiters := (waiters ?m)(w \<mapsto> ch)\<rparr>"
  have m: "mgr_inv ?m" and d: "deliveries_ok ?m (deliveries s)"
    and wt: "waiting_ok ?m (deliveries s) (waiting s) (used_ids s)"
    using inv by (simp_all add: system_inv_def)
  have oe: "open_empty ?m' v = open_empty ?m v" if "v \<noteq> w" for v
    using that by (simp add: open_empty_def)
  have pend: "pend ?m' = pend ?m" by simp
  have "deliveries_ok ?m' ds"
    unfolding deliveries_ok_def pend
  proof (intro conjI allI impI)
    fix v x a k c assume v: "(v, x) \<in> set ds"
    show "pend ?m a k c \<noteq> Some v"
      by (cases "v = w") (use np ds(2) v deliveries_okD(2) [OF d] in auto)
  next
    fix v x assume v: "(v, x) \<in> set ds"
    show "\<exists>ch. waiters ?m' v = Some ch \<and> \<not> w_closed ch"
    proof (cases "v = w")
      case True
      with ds(3) v show ?thesis by auto
    next
      case False
      with ds(2) v have "(v, x) \<in> set (deliveries s)" by simp
      from deliveries_okD(3) [OF d this] False show ?thesis by simp
    qed
  next
    fix v r assume v: "(v, Some r) \<in> set ds"
    then have "v \<noteq> w" using ds(3) by auto
    with ds(2) v deliveries_okD(4) [OF d] oe show "open_empty ?m' v" by auto
  qed (rule ds(1))
  moreover have "waiting_ok ?m' ds cs (used_ids s)"
    unfolding waiting_ok_def pend
  proof (intro conjI ballI)
    show "distinct (map c_waiter cs)" by (rule cs(1))
    show "\<forall>a k i v. pend ?m a k i = Some v \<longrightarrow> i \<in> used_ids s" using waiting_okD(2) [OF wt] by blast
    fix c assume c: "c \<in> set cs"
    then have c': "c \<in> set (waiting s)" using cs(2) by auto
    show "c_command_id c \<in> used_ids s" by (rule waiting_okD(3) [OF wt c'])
    show "waiters ?m' (c_waiter c) \<noteq> None" using waiting_okD(4) [OF wt c'] by simp
    show "\<forall>a k v. pend ?m a k (c_command_id c) = Some v \<longrightarrow>
        a = c_session c \<and> k = c_kind c \<and> v = c_waiter c"
      using waiting_okD(5) [OF wt c'] by blast
    show "open_empty ?m' (c_waiter c) \<longrightarrow>
        pend ?m (c_session c) (c_kind c) (c_command_id c) = Some (c_waiter c) \<or>
        (\<exists>r. (c_waiter c, Some r) \<in> set ds)"
    proof
      assume o: "open_empty ?m' (c_waiter c)"
      then have ne: "c_waiter c \<noteq> w" using empty [OF c] by (auto simp: open_empty_def)
      then have "open_empty ?m (c_waiter c)" using o oe by simp
      from waiting_okD(6) [OF wt c' this] ds(2) [OF ne]
      show "pend ?m (c_session c) (c_kind c) (c_command_id c) = Some (c_waiter c) \<or>
        (\<exists>r. (c_waiter c, Some r) \<in> set ds)" by auto
    qed
  qed
  moreover have "mgr_inv ?m'" by (rule mgr_inv_set_waiter [OF m np w])
  ultimately show ?thesis by (simp add: system_inv_def)
qed

lemma system_inv_submit:
  assumes inv: "system_inv s" and t: "take_waiter now tid sid kind cid (mgr s) = (Inr w, m')"
  shows "system_inv (s\<lparr>mgr := m', deliveries := (w, Some r) # deliveries s\<rparr>)"
proof -
  let ?m = "mgr s"
  have m: "mgr_inv ?m" and d: "deliveries_ok ?m (deliveries s)"
    and wt: "waiting_ok ?m (deliveries s) (waiting s) (used_ids s)"
    using inv by (simp_all add: system_inv_def)
  note e = take_waiter_effect [OF m t]
  obtain a where a: "pend ?m a kind cid = Some w"
    and p: "pend m' = (\<lambda>b k c. if b = a \<and> k = kind \<and> c = cid then None else pend ?m b k c)"
    using e(4) by blast
  have oe: "open_empty m' v = open_empty ?m v" for v by (rule open_empty_cong) (simp add: e(2))
  have less: "pend m' b k c = Some v \<Longrightarrow> pend ?m b k c = Some v" for b k c v
    by (auto simp: p split: if_splits)
  have gone: "pend m' b k c \<noteq> Some w" for b k c
    using mgr_invD(7) [OF m a] by (auto simp: p)
  have "deliveries_ok m' ((w, Some r) # deliveries s)"
    unfolding deliveries_ok_def
  proof (intro conjI allI impI)
    show "distinct (map fst ((w, Some r) # deliveries s))"
      using deliveries_okD(1,2) [OF d] a by auto
    show "pend m' b k c \<noteq> Some v" if "(v, x) \<in> set ((w, Some r) # deliveries s)" for v x b k c
      using that gone [of b k c] less [of b k c v] deliveries_okD(2) [OF d, of v x b k c] by auto
    show "\<exists>ch. waiters m' v = Some ch \<and> \<not> w_closed ch"
      if "(v, x) \<in> set ((w, Some r) # deliveries s)" for v x
      using that deliveries_okD(3) [OF d] mgr_invD(6) [OF m a] unfolding e(2)
      by (auto simp: open_empty_def split: option.splits)
    show "open_empty m' v" if "(v, Some x) \<in> set ((w, Some r) # deliveries s)" for v x
      using that deliveries_okD(4) [OF d] mgr_invD(6) [OF m a] by (auto simp: oe)
  qed
  moreover have "waiting_ok m' ((w, Some r) # deliveries s) (waiting s) (used_ids s)"
    unfolding waiting_ok_def oe e(2)
  proof (intro conjI ballI)
    show "\<forall>a k i v. pend m' a k i = Some v \<longrightarrow> i \<in> used_ids s"
      using waiting_okD(2) [OF wt] less by blast
    fix c assume c: "c \<in> set (waiting s)"
    show "\<forall>a k v. pend m' a k (c_command_id c) = Some v \<longrightarrow>
        a = c_session c \<and> k = c_kind c \<and> v = c_waiter c"
      using waiting_okD(5) [OF wt c] less by blast
    show "open_empty ?m (c_waiter c) \<longrightarrow>
        pend m' (c_session c) (c_kind c) (c_command_id c) = Some (c_waiter c) \<or>
        (\<exists>r'. (c_waiter c, Some r') \<in> set ((w, Some r) # deliveries s))"
      using waiting_okD(6) [OF wt c] a by (auto simp: p)
  qed (use waiting_okD(1,3,4) [OF wt] in auto)
  ultimately show ?thesis using e(1) by (simp add: system_inv_def)
qed

lemma system_inv_send:
  assumes inv: "system_inv s" and w: "(w, Some r) \<in> set (deliveries s)"
    and m': "send_waiter w r (mgr s) = Some m'"
  shows "system_inv (s\<lparr>mgr := m', deliveries := (w, None) # remove1 (w, Some r) (deliveries s)\<rparr>)"
proof -
  have d: "deliveries_ok (mgr s) (deliveries s)"
    and wt: "waiting_ok (mgr s) (deliveries s) (waiting s) (used_ids s)"
    using inv by (simp_all add: system_inv_def)
  obtain ch where ch: "waiters (mgr s) w = Some ch" "w_buffer ch = None" "\<not> w_closed ch"
    using deliveries_okD(4) [OF d w] by (auto simp: open_empty_def split: option.splits)
  then have m'_eq: "m' = (mgr s)\<lparr>waiters := (waiters (mgr s))(w \<mapsto> ch\<lparr>w_buffer := Some r\<rparr>)\<rparr>"
    using m' by (simp add: send_waiter_def)
  note rem = distinct_fst_remove1 [OF deliveries_okD(1) [OF d] w]
  have "system_inv (s\<lparr>mgr := m', deliveries := (w, None) # remove1 (w, Some r) (deliveries s),
      waiting := waiting s\<rparr>)"
    unfolding m'_eq
  proof (rule system_inv_set_waiter [OF inv ch(1)])
    show "pend (mgr s) a k c \<noteq> Some w" for a k c by (rule deliveries_okD(2) [OF d w])
    show "distinct (map fst ((w, None) # remove1 (w, Some r) (deliveries s)))" using rem by simp
    show "(v, x) \<in> set ((w, None) # remove1 (w, Some r) (deliveries s)) \<longleftrightarrow> (v, x) \<in> set (deliveries s)"
      if "v \<noteq> w" for v x using that rem(2) by auto
    show "\<not> w_closed (ch\<lparr>w_buffer := Some r\<rparr>) \<and> x = None"
      if "(w, x) \<in> set ((w, None) # remove1 (w, Some r) (deliveries s))" for x
    proof -
      have "(w, x) \<notin> set (remove1 (w, Some r) (deliveries s))" using rem(3) by (metis fst_conv imageI)
      with that ch(3) show ?thesis by auto
    qed
    show "distinct (map c_waiter (waiting s))" by (rule waiting_okD(1) [OF wt])
  qed auto
  then show ?thesis by simp
qed

lemma system_inv_close:
  assumes inv: "system_inv s" and w: "(w, None) \<in> set (deliveries s)"
  shows "system_inv (s\<lparr>mgr := close_waiter w (mgr s), deliveries := remove1 (w, None) (deliveries s)\<rparr>)"
proof -
  have d: "deliveries_ok (mgr s) (deliveries s)"
    and wt: "waiting_ok (mgr s) (deliveries s) (waiting s) (used_ids s)"
    using inv by (simp_all add: system_inv_def)
  obtain ch where ch: "waiters (mgr s) w = Some ch" "\<not> w_closed ch"
    using deliveries_okD(3) [OF d w] by blast
  then have c: "close_waiter w (mgr s) =
      (mgr s)\<lparr>waiters := (waiters (mgr s))(w \<mapsto> ch\<lparr>w_closed := True\<rparr>)\<rparr>"
    by (simp add: close_waiter_def)
  note rem = distinct_fst_remove1 [OF deliveries_okD(1) [OF d] w]
  have "system_inv (s\<lparr>mgr := close_waiter w (mgr s), deliveries := remove1 (w, None) (deliveries s),
      waiting := waiting s\<rparr>)"
    unfolding c
  proof (rule system_inv_set_waiter [OF inv ch(1)])
    show "pend (mgr s) a k c \<noteq> Some w" for a k c by (rule deliveries_okD(2) [OF d w])
    show "(v, x) \<in> set (remove1 (w, None) (deliveries s)) \<longleftrightarrow> (v, x) \<in> set (deliveries s)"
      if "v \<noteq> w" for v x using that rem(2) by auto
    show "\<not> w_closed (ch\<lparr>w_closed := True\<rparr>) \<and> x = None"
      if "(w, x) \<in> set (remove1 (w, None) (deliveries s))" for x
      using that rem(3) by (metis fst_conv imageI)
  qed (use rem waiting_okD(1) [OF wt] in auto)
  then show ?thesis by simp
qed

lemma distinct_waiting_remove1:
  "distinct (map c_waiter cs) \<Longrightarrow> c \<in> set cs \<Longrightarrow>
     distinct (map c_waiter (remove1 c cs)) \<and> set (remove1 c cs) \<subseteq> set cs \<and>
     (\<forall>x \<in> set (remove1 c cs). c_waiter x \<noteq> c_waiter c)"
  by (induction cs) (auto simp: image_iff dest: notin_set_remove1)

lemma system_inv_receive:
  assumes inv: "system_inv s" and c: "c \<in> set (waiting s)"
    and r: "receive_result (c_waiter c) (mgr s) = Some (res, m')"
  shows "system_inv (s\<lparr>mgr := m', waiting := remove1 c (waiting s)\<rparr>)"
proof -
  have m: "mgr_inv (mgr s)" and d: "deliveries_ok (mgr s) (deliveries s)"
    and wt: "waiting_ok (mgr s) (deliveries s) (waiting s) (used_ids s)"
    using inv by (simp_all add: system_inv_def)
  note rem = distinct_waiting_remove1 [OF waiting_okD(1) [OF wt] c]
  obtain ch where ch: "waiters (mgr s) (c_waiter c) = Some ch"
    using r by (auto simp: receive_result_def split: option.splits)
  have full: "\<not> open_empty (mgr s) (c_waiter c)"
    using r by (auto simp: receive_result_def open_empty_def split: option.splits if_splits)
  then have np: "pend (mgr s) a k i \<noteq> Some (c_waiter c)" for a k i
    using mgr_invD(6) [OF m] by blast
  define ch' where "ch' = (case w_buffer ch of None \<Rightarrow> ch | Some _ \<Rightarrow> ch\<lparr>w_buffer := None\<rparr>)"
  have "m' = (mgr s)\<lparr>waiters := (waiters (mgr s))(c_waiter c \<mapsto> ch')\<rparr>"
    using r ch by (auto simp: receive_result_def ch'_def fun_upd_idem split: option.splits if_splits)
  moreover have "w_closed ch' = w_closed ch" by (auto simp: ch'_def split: option.splits)
  ultimately have "system_inv (s\<lparr>mgr := m', deliveries := deliveries s,
      waiting := remove1 c (waiting s)\<rparr>)"
  proof (simp only:, intro system_inv_set_waiter [OF inv ch np])
    fix x assume x: "(c_waiter c, x) \<in> set (deliveries s)"
    assume "w_closed ch' = w_closed ch"
    with x full deliveries_okD(3,4) [OF d] ch show "\<not> w_closed ch' \<and> x = None" by (cases x) force+
  qed (use deliveries_okD(1) [OF d] rem in auto)
  then show ?thesis by simp
qed

lemma system_inv_cancel:
  assumes inv: "system_inv s" and c: "c \<in> set (waiting s)"
  shows "system_inv (s\<lparr>mgr := cancel_command c (mgr s), waiting := remove1 c (waiting s)\<rparr>)"
proof -
  let ?m = "mgr s" and ?m' = "cancel_command c (mgr s)"
  have m: "mgr_inv ?m" and d: "deliveries_ok ?m (deliveries s)"
    and wt: "waiting_ok ?m (deliveries s) (waiting s) (used_ids s)"
    using inv by (simp_all add: system_inv_def)
  note e = cancel_command_effect [OF m, of c]
  note rem = distinct_waiting_remove1 [OF waiting_okD(1) [OF wt] c]
  have oe: "open_empty ?m' v = open_empty ?m v" for v by (rule open_empty_cong) (simp add: e(2))
  have less: "pend ?m' b k i = Some v \<Longrightarrow> pend ?m b k i = Some v" for b k i v
    by (auto simp: e(3) split: if_splits)
  have "deliveries_ok ?m' (deliveries s)"
    unfolding deliveries_ok_def oe e(2)
    using deliveries_okD [OF d] less by blast
  moreover have "waiting_ok ?m' (deliveries s) (remove1 c (waiting s)) (used_ids s)"
    unfolding waiting_ok_def oe e(2)
  proof (intro conjI ballI)
    show "distinct (map c_waiter (remove1 c (waiting s)))" using rem by blast
    show "\<forall>a k i v. pend ?m' a k i = Some v \<longrightarrow> i \<in> used_ids s"
      using waiting_okD(2) [OF wt] less by blast
    fix x assume x: "x \<in> set (remove1 c (waiting s))"
    then have x': "x \<in> set (waiting s)" "c_waiter x \<noteq> c_waiter c" using rem by auto
    show "c_command_id x \<in> used_ids s" "waiters ?m (c_waiter x) \<noteq> None"
      using waiting_okD(3,4) [OF wt x'(1)] by auto
    show "\<forall>a k v. pend ?m' a k (c_command_id x) = Some v \<longrightarrow>
        a = c_session x \<and> k = c_kind x \<and> v = c_waiter x"
      using waiting_okD(5) [OF wt x'(1)] less by blast
    have "pend ?m (c_session x) (c_kind x) (c_command_id x) = Some (c_waiter x) \<Longrightarrow>
        pend ?m' (c_session x) (c_kind x) (c_command_id x) = Some (c_waiter x)"
      using waiting_okD(5) [OF wt c, of "c_session x" "c_kind x" "c_waiter x"] x'(2)
      by (auto simp: e(3))
    then show "open_empty ?m (c_waiter x) \<longrightarrow>
        pend ?m' (c_session x) (c_kind x) (c_command_id x) = Some (c_waiter x) \<or>
        (\<exists>r. (c_waiter x, Some r) \<in> set (deliveries s))"
      using waiting_okD(6) [OF wt x'(1)] by blast
  qed
  ultimately show ?thesis using e(1) by (simp add: system_inv_def)
qed

lemma register_session_shrinks:
  assumes "mgr_inv m" "register_session now token sid host ver m = (r, m')"
  shows "shrinks m m'"
proof (cases r)
  case (Inl e)
  with assms have "m' = m" by (auto simp: register_session_def Let_def split: if_splits)
  with assms(1) show ?thesis by (simp add: shrinks_same)
next
  case (Inr a)
  then have reg: "register_session now token sid host ver m = (Inr a, m')" using assms(2) by simp
  obtain m1 where
    "m1 = m \<or> (\<exists>b s. sessions m b = Some s \<and> m1 = close_session_locked b now m)"
    "pend m' = pend m1" "waiters m' = waiters m1" "mgr_inv m'"
    using register_session_effect [OF assms(1) reg] by blast
  moreover from this have "shrinks m m1"
    using assms(1) shrinks_close shrinks_same by blast
  ultimately show ?thesis using shrinks_cong by blast
qed

lemma disconnect_session_shrinks:
  assumes "mgr_inv m" shows "shrinks m (disconnect_session now sid m)"
proof -
  from disconnect_session_cases [OF assms, of now sid] show ?thesis
  proof (elim disjE exE conjE)
    fix b s assume "sessions m b = Some s" "disconnect_session now sid m = close_session_locked b now m"
    with shrinks_close [OF assms] show ?thesis by simp
  qed (simp add: shrinks_same assms)
qed

lemma disconnect_registered_shrinks:
  "mgr_inv m \<Longrightarrow> shrinks m (disconnect_registered_session now sid a m)"
  using disconnect_registered_cases [of now sid a m] disconnect_session_shrinks [of m now sid]
  by (auto simp: shrinks_same)

lemma system_inv_step: "session_step s s' \<Longrightarrow> system_inv s \<Longrightarrow> system_inv s'"
proof (induction rule: session_step.induct)
  case (register now token sid host ver s r m')
  then have "mgr_inv (mgr s)" by (simp add: system_inv_def)
  from register_session_shrinks [OF this register.hyps] register
  show ?case using system_inv_shrinks by blast
next
  case (heartbeat now tid sid at s e m')
  then have "mgr_inv (mgr s)" by (simp add: system_inv_def)
  from shrinks_same [OF mark_heartbeat_effect [OF this heartbeat.hyps]] heartbeat
  show ?case using system_inv_shrinks by blast
next
  case (submit_fails tid now sid kind cid s e m')
  then show ?case by (auto dest: take_waiter_Inl)
next
  case (stream a s cmd m')
  then have "mgr_inv (mgr s)" by (simp add: system_inv_def)
  from shrinks_same [OF next_command_effect [OF this stream.hyps]] stream
  show ?case using system_inv_shrinks by blast
next
  case (disconnect s now sid)
  then have "mgr_inv (mgr s)" by (simp add: system_inv_def)
  with disconnect show ?case using disconnect_session_shrinks system_inv_shrinks by blast
next
  case (disconnect_registered s now sid a)
  then have "mgr_inv (mgr s)" by (simp add: system_inv_def)
  with disconnect_registered show ?case using disconnect_registered_shrinks system_inv_shrinks by blast
qed (blast intro: system_inv_start system_inv_start_fails system_inv_submit system_inv_send
    system_inv_close system_inv_receive system_inv_cancel)+

lemma system_inv_reachable: "session_reachable stale ping s \<Longrightarrow> system_inv s"
proof (induction rule: session_reachable.induct)
  case init
  then show ?case
    by (simp add: system_inv_def deliveries_ok_def waiting_ok_def pend_def)
      (simp add: new_agent_session_manager_def)
qed (rule system_inv_step)

section \<open>Properties\<close>

text \<open>
  C10. In every interleaving of registrations, heartbeats, commands, results, cancellations and
  disconnections no channel operation panics: no closed channel is closed or sent to, and a
  result on its way can always be sent without blocking and its channel then closed.
\<close>

theorem sessions_never_panic:
  assumes "session_reachable stale ping s"
  shows "\<not> panicked (mgr s) \<and>
    (\<forall>w r. (w, Some r) \<in> set (deliveries s) \<longrightarrow>
       (\<exists>m'. send_waiter w r (mgr s) = Some m' \<and> \<not> panicked m' \<and> \<not> panicked (close_waiter w m'))) \<and>
    (\<forall>w. (w, None) \<in> set (deliveries s) \<longrightarrow> \<not> panicked (close_waiter w (mgr s)))"
proof -
  have inv: "mgr_inv (mgr s)" and d: "deliveries_ok (mgr s) (deliveries s)"
    using system_inv_reachable [OF assms] by (simp_all add: system_inv_def)
  note np = mgr_invD(1) [OF inv]
  have "\<exists>m'. send_waiter w r (mgr s) = Some m' \<and> \<not> panicked m' \<and> \<not> panicked (close_waiter w m')"
    if "(w, Some r) \<in> set (deliveries s)" for w r
    using deliveries_okD(4) [OF d that] np
    by (auto simp: open_empty_def send_waiter_def close_waiter_def split: option.splits)
  moreover have "\<not> panicked (close_waiter w (mgr s))" if "(w, None) \<in> set (deliveries s)" for w
    using deliveries_okD(3) [OF d that] np by (auto simp: close_waiter_def)
  ultimately show ?thesis using np by blast
qed

definition example_token :: tenant_token where
  "example_token = \<lparr>tok_id = 7, tok_tenant_id = 3, tok_label = ''edge'', tok_created_at = 0,
     tok_last_used_at = None, tok_revoked_at = None\<rparr>"

definition example_manager :: manager where
  "example_manager = snd (register_session 10 example_token ''s1'' ''host'' ''v1''
     (new_agent_session_manager 0 0))"

definition example_system :: system where
  "example_system = \<lparr>mgr = example_manager, deliveries = [], waiting = [], used_ids = {}\<rparr>"

lemma example_system_reachable: "session_reachable 0 0 example_system"
proof -
  have "session_reachable 0 0 (\<lparr>mgr = new_agent_session_manager 0 0, deliveries = [], waiting = [],
      used_ids = {}\<rparr>\<lparr>mgr := example_manager\<rparr>)"
    by (rule session_reachable.step [OF session_reachable.init session_step.register
        [where r = "fst (register_session 10 example_token ''s1'' ''host'' ''v1''
          (new_agent_session_manager 0 0))"]])
      (simp add: example_manager_def)
  then show ?thesis by (simp add: example_system_def)
qed

definition example_call :: call where
  "example_call = \<lparr>c_waiter = 0, c_session = 0, c_session_id = ''s1'', c_kind = KindPing,
     c_command_id = ''c1''\<rparr>"

definition example_ping :: agent_result where
  "example_ping = PingR \<lparr>pr_session_id = ''s1'', pr_command_id = ''c1'', pr_completed_at = 11,
     pr_round_trip_ms = 1\<rparr>"

lemma example_waiting_reachable:
  obtains s where "session_reachable 0 0 s" "waiting s = [example_call]"
    "deliveries s = [(0, Some example_ping)]"
proof -
  let ?start = "start_request 10 10 [] ''c1'' (RequestPing ''s1'') example_manager"
  have "fst ?start = Inr example_call" by code_simp
  then have st: "?start = (Inr example_call, snd ?start)" by (metis prod.collapse)
  let ?take = "take_waiter 11 7 ''s1'' KindPing ''c1'' (snd ?start)"
  have "fst ?take = Inr 0" by code_simp
  then have tk: "?take = (Inr 0, snd ?take)" by (metis prod.collapse)
  have st': "start_request 10 10 [] ''c1'' (RequestPing ''s1'') (mgr example_system) = (Inr example_call, snd ?start)"
    by (simp only: example_system_def system.simps) (rule st)
  have r1: "session_reachable 0 0 (example_system\<lparr>mgr := snd ?start,
      waiting := example_call # waiting example_system, used_ids := insert ''c1'' (used_ids example_system)\<rparr>)"
    by (rule session_reachable.step [OF example_system_reachable session_step.start [OF st']])
      (simp add: example_system_def)
  then have r1: "session_reachable 0 0 \<lparr>mgr = snd ?start, deliveries = [], waiting = [example_call],
      used_ids = {''c1''}\<rparr>"
    by (simp only: example_system_def system.simps)
  have tk': "take_waiter 11 7 ''s1'' KindPing ''c1'' (mgr \<lparr>mgr = snd ?start, deliveries = [],
      waiting = [example_call], used_ids = {''c1''}\<rparr>) = (Inr 0, snd ?take)"
    by (simp only: system.simps) (rule tk)
  from session_reachable.step [OF r1 session_step.submit [OF tk', of example_ping]]
  show ?thesis by (rule that) simp_all
qed

theorem sessions_never_panic_witness:
  "\<exists>s :: system. \<not> panicked (mgr s) \<and> waiting s = [example_call] \<and> fst ` set (deliveries s) = {0}"
proof -
  obtain s where r: "session_reachable 0 0 s" and s: "waiting s = [example_call]"
      "deliveries s = [(0, Some example_ping)]"
    by (rule example_waiting_reachable)
  have "\<not> panicked (mgr s)" using sessions_never_panic [OF r] by (rule conjunct1)
  with s show ?thesis by (intro exI [of _ s]) simp
qed

text \<open>
  C11. No caller is left behind: in every reachable state a caller that cannot receive yet is
  either still registered under its own command in an active session, where the agent's result
  or the closing of the session will find it, or its result is on its way. A closed session
  holds no waiter, and no session's command queue exceeds its 16 places.
\<close>

theorem sessions_lose_no_waiter:
  assumes "session_reachable stale ping s"
  shows "(\<forall>c. c \<in> set (waiting s) \<longrightarrow>
       receive_result (c_waiter c) (mgr s) \<noteq> None
       \<or> (\<exists>r. (c_waiter c, Some r) \<in> set (deliveries s))
       \<or> (\<exists>a. sessions (mgr s) (c_session c) = Some a \<and> sess_active a \<and>
             map_of (pending a (c_kind c)) (c_command_id c) = Some (c_waiter c))) \<and>
    (\<forall>i a. sessions (mgr s) i = Some a \<longrightarrow>
       length (commands a) \<le> 16 \<and> (sess_active a \<or> pending a = (\<lambda>_. [])) \<and>
       done_closed a = (\<not> sess_active a))"
proof -
  have inv: "mgr_inv (mgr s)"
    and w: "waiting_ok (mgr s) (deliveries s) (waiting s) (used_ids s)"
    using system_inv_reachable [OF assms] by (simp_all add: system_inv_def)
  have ok: "sess_ok a" if "sessions (mgr s) i = Some a" for i a by (rule mgr_invD(3) [OF inv that])
  have "receive_result (c_waiter c) (mgr s) \<noteq> None
      \<or> (\<exists>r. (c_waiter c, Some r) \<in> set (deliveries s))
      \<or> (\<exists>a. sessions (mgr s) (c_session c) = Some a \<and> sess_active a \<and>
            map_of (pending a (c_kind c)) (c_command_id c) = Some (c_waiter c))"
    if c: "c \<in> set (waiting s)" for c
  proof (cases "open_empty (mgr s) (c_waiter c)")
    case True
    from waiting_okD(6) [OF w c True] show ?thesis
    proof
      assume "pend (mgr s) (c_session c) (c_kind c) (c_command_id c) = Some (c_waiter c)"
      then obtain a where a: "sessions (mgr s) (c_session c) = Some a"
        "map_of (pending a (c_kind c)) (c_command_id c) = Some (c_waiter c)"
        by (auto simp: pend_def split: option.splits)
      then have "sess_active a" using ok [OF a(1)] by (auto simp: sess_ok_def)
      with a show ?thesis by blast
    qed blast
  next
    case False
    then show ?thesis
      using waiting_okD(4) [OF w c]
      by (auto simp: open_empty_def receive_result_def split: option.splits)
  qed
  moreover have "length (commands a) \<le> 16 \<and> (sess_active a \<or> pending a = (\<lambda>_. [])) \<and>
      done_closed a = (\<not> sess_active a)" if "sessions (mgr s) i = Some a" for i a
    using ok [OF that] by (auto simp: sess_ok_def command_queue_capacity_def)
  ultimately show ?thesis by blast
qed

theorem sessions_lose_no_waiter_witness:
  "\<exists>s :: system. waiting s = [example_call] \<and> (receive_result 0 (mgr s) \<noteq> None
     \<or> (\<exists>r. (0, Some r) \<in> set (deliveries s))
     \<or> (\<exists>a. sessions (mgr s) 0 = Some a \<and> sess_active a))"
proof -
  obtain s where r: "session_reachable 0 0 s" and s: "waiting s = [example_call]"
      "deliveries s = [(0, Some example_ping)]"
    by (rule example_waiting_reachable)
  have "c_waiter example_call = 0" "c_session example_call = 0" by (simp_all add: example_call_def)
  then show ?thesis
    using sessions_lose_no_waiter [OF r, THEN conjunct1, rule_format, of example_call] s
    by (intro exI [of _ s]) auto
qed

lemma closed_waiter_receive:
  assumes "mgr_inv m" "sessions m a = Some s" "pend m a k i = Some w"
  shows "\<exists>ch. waiters (close_session_locked a t m) w = Some ch \<and> w_closed ch \<and> w_buffer ch = None"
  using mgr_invD(6) [OF assms(1,3)] assms(3) close_session_effect [OF assms(1,2)]
  by (auto simp: open_empty_def closed_waiters_def split: option.splits)

lemma register_session_unfold:
  assumes "mgr_inv m" "by_token m (tok_id token) = Some a" "sessions m a = Some old"
    and "register_session now token sid host ver m = (Inr b, m')"
  shows "b = next_session m" and "waiters m' = waiters (close_session_locked a now m)"
    and "sessions m' a = Some (closed_session now old)"
    and "by_token m' (tok_id token) = Some b" and "by_id m' sid = Some b"
    and "mg_stale_after m' = mg_stale_after m"
    and "\<exists>s. sessions m' b = Some s \<and> sess_active s \<and> sn_token_id (snapshot s) = tok_id token \<and>
      sn_tenant_id (snapshot s) = tok_tenant_id token \<and> sn_last_heartbeat_at (snapshot s) = now"
proof -
  note e = close_session_effect [OF assms(1,3)]
  have c: "sessions (close_session_locked a now m) = (sessions m)(a \<mapsto> closed_session now old)"
    "next_session (close_session_locked a now m) = next_session m"
    "mg_stale_after (close_session_locked a now m) = mg_stale_after m"
    by (simp_all add: e)
  have lt: "a \<noteq> next_session m" using mgr_invD(2) [OF assms(1,3)] by simp
  have ne: "sid \<noteq> []" "host \<noteq> []"
    using assms(4) by (auto simp: register_session_def split: if_splits)
  from assms(2-4) ne c lt show "b = next_session m" "waiters m' = waiters (close_session_locked a now m)"
    "sessions m' a = Some (closed_session now old)" "by_token m' (tok_id token) = Some b"
    "by_id m' sid = Some b" "mg_stale_after m' = mg_stale_after m"
    "\<exists>s. sessions m' b = Some s \<and> sess_active s \<and> sn_token_id (snapshot s) = tok_id token \<and>
      sn_tenant_id (snapshot s) = tok_tenant_id token \<and> sn_last_heartbeat_at (snapshot s) = now"
    unfolding register_session_def Let_def
    by (cases "sn_session_id (snapshot old) = sid"; auto)+
qed

text \<open>
  Registering again with the same token replaces the session: the old one is inactive with
  its \<open>done\<close> channel closed, every caller waiting on it gets "session is not active" at once, and
  the new session, of the token's tenant, answers for the token and the session id.
\<close>

theorem register_replaces_session:
  assumes "session_reachable stale ping s" "by_token (mgr s) (tok_id token) = Some a"
    and "register_session now token sid host ver (mgr s) = (Inr b, m')" "0 \<le> mg_stale_after (mgr s)"
  shows "(\<exists>old'. sessions m' a = Some old' \<and> \<not> sess_active old' \<and> done_closed old' \<and>
       (\<forall>k. pending old' k = [])) \<and>
    (\<forall>k c w. pend (mgr s) a k c = Some w \<longrightarrow>
       receive_result w m' = Some (Inl err_session_not_active, m')) \<and>
    session_locked now (tok_id token) sid m' = Inr b \<and> by_token m' (tok_id token) = Some b"
proof -
  have inv: "mgr_inv (mgr s)" using system_inv_reachable [OF assms(1)] by (simp add: system_inv_def)
  obtain old where old: "sessions (mgr s) a = Some old" using mgr_invD(4) [OF inv assms(2)] by blast
  note u = register_session_unfold [OF inv assms(2) old assms(3)]
  have "receive_result w m' = Some (Inl err_session_not_active, m')"
    if "pend (mgr s) a k c = Some w" for k c w
    using closed_waiter_receive [OF inv old that, of now] u(2) by (auto simp: receive_result_def)
  moreover have "session_locked now (tok_id token) sid m' = Inr b"
    using u(5,6,7) assms(4)
    by (auto simp: session_locked_def is_active_locked_def time_sub_def duration_min_def duration_max_def)
  ultimately show ?thesis using u(3,4) by auto
qed

theorem register_replaces_session_witness:
  "session_locked 20 7 ''s2''
     (snd (register_session 20 example_token ''s2'' ''host'' ''v1'' example_manager)) = Inr 1"
proof -
  let ?r = "register_session 20 example_token ''s2'' ''host'' ''v1'' (mgr example_system)"
  have m: "mgr example_system = example_manager" by (simp add: example_system_def)
  have "fst ?r = Inr 1" unfolding m by code_simp
  then have r: "?r = (Inr 1, snd ?r)" by (metis prod.collapse)
  have t: "by_token (mgr example_system) (tok_id example_token) = Some 0" unfolding m by code_simp
  have st: "0 \<le> mg_stale_after (mgr example_system)" unfolding m by code_simp
  have "tok_id example_token = 7" by (simp add: example_token_def)
  with register_replaces_session [OF example_system_reachable t r st] show ?thesis
    unfolding m by simp
qed

text \<open>
  An agent's calls (heartbeats, results) are accepted exactly when the session id is the
  caller's own live session: registered under that id by the same token, not disconnected, with
  the last heartbeat not older than the stale limit. A refused call changes nothing.
\<close>

theorem heartbeat_accepted_iff_live:
  assumes "duration_min \<le> mg_stale_after m" "mg_stale_after m < duration_max"
  shows "(fst (mark_heartbeat now tid sid at m) = None) =
      (\<exists>a s. by_id m sid = Some a \<and> sessions m a = Some s \<and> sn_token_id (snapshot s) = tid \<and>
         sess_active s \<and> now \<le> sn_last_heartbeat_at (snapshot s) + mg_stale_after m) \<and>
    (fst (mark_heartbeat now tid sid at m) = None \<or> snd (mark_heartbeat now tid sid at m) = m)"
  by (auto simp: mark_heartbeat_def session_locked_def is_active_locked_def time_sub_le_iff [OF assms]
      split: option.splits)

theorem heartbeat_accepted_iff_live_witness:
  "fst (mark_heartbeat 25000000010 7 ''s1'' 20 example_manager) = None \<and>
   fst (mark_heartbeat 25000000011 7 ''s1'' 20 example_manager) \<noteq> None"
proof -
  have s: "mg_stale_after example_manager = 25000000000" by code_simp
  have b: "by_id example_manager ''s1'' = Some 0" by code_simp
  have "map_option (\<lambda>s. (sn_token_id (snapshot s), sess_active s, sn_last_heartbeat_at (snapshot s)))
      (sessions example_manager 0) = Some (7, True, 10)" by code_simp
  then obtain se where se: "sessions example_manager 0 = Some se" "sn_token_id (snapshot se) = 7"
      "sess_active se" "sn_last_heartbeat_at (snapshot se) = 10" by auto
  have r: "duration_min \<le> mg_stale_after example_manager" "mg_stale_after example_manager < duration_max"
    by (simp_all add: s duration_min_def duration_max_def)
  show ?thesis
    using heartbeat_accepted_iff_live [OF r, of 25000000010 7 "''s1''" 20]
      heartbeat_accepted_iff_live [OF r, of 25000000011 7 "''s1''" 20] s b se by auto
qed

lemma scan_tenant_sessions_max:
  assumes "scan_tenant_sessions now m tenant ts current = Some (a, s)"
  shows "(\<forall>b c. current = Some (b, c) \<longrightarrow> sn_connected_at (snapshot c) \<le> sn_connected_at (snapshot s)) \<and>
    (\<forall>t b c. t \<in> set ts \<longrightarrow> by_token m t = Some b \<longrightarrow> sessions m b = Some c \<longrightarrow>
       sn_tenant_id (snapshot c) = tenant \<longrightarrow> is_active_locked now m c \<longrightarrow>
       sn_connected_at (snapshot c) \<le> sn_connected_at (snapshot s))"
  using assms
proof (induction ts arbitrary: current)
  case (Cons t ts)
  let ?next = "case by_token m t of None \<Rightarrow> current | Some a \<Rightarrow> (case sessions m a of
      None \<Rightarrow> current | Some s \<Rightarrow> if sn_tenant_id (snapshot s) \<noteq> tenant \<or>
      \<not> is_active_locked now m s then current else (case current of None \<Rightarrow> Some (a, s)
      | Some (b, c) \<Rightarrow> if sn_connected_at (snapshot c) < sn_connected_at (snapshot s)
         then Some (a, s) else current))"
  have "scan_tenant_sessions now m tenant ts ?next = Some (a, s)"
    using Cons.prems by (auto split: option.splits if_splits)
  note ih = Cons.IH [OF this]
  show ?case
  proof (intro conjI allI impI)
    fix b c assume "current = Some (b, c)"
    then have "\<exists>b' c'. ?next = Some (b', c') \<and> sn_connected_at (snapshot c) \<le> sn_connected_at (snapshot c')"
      by (auto split: option.splits)
    with ih show "sn_connected_at (snapshot c) \<le> sn_connected_at (snapshot s)" by (meson order_trans)
  next
    fix u b c assume u: "u \<in> set (t # ts)" "by_token m u = Some b" "sessions m b = Some c"
      "sn_tenant_id (snapshot c) = tenant" "is_active_locked now m c"
    show "sn_connected_at (snapshot c) \<le> sn_connected_at (snapshot s)"
    proof (cases "u = t")
      case True
      with u have "\<exists>b' c'. ?next = Some (b', c') \<and> sn_connected_at (snapshot c) \<le> sn_connected_at (snapshot c')"
        by (cases current) auto
      with ih show ?thesis by (meson order_trans)
    next
      case False
      with u ih show ?thesis by auto
    qed
  qed
qed simp

text \<open>
  C12. A query of a tenant is queued only on a live session of that tenant, and on the most
  recently connected one of them, whatever order the map of tokens is visited in; the queued
  command carries the SQL it was given.
\<close>

theorem query_stays_in_tenant:
  assumes "start_execute_query issued now tokens cid tenant sql m = (Inr c, m')"
  shows "\<exists>s. sessions m (c_session c) = Some s \<and> sn_tenant_id (snapshot s) = tenant \<and>
      is_active_locked now m s \<and>
      (\<forall>t b r. t \<in> set tokens \<longrightarrow> by_token m t = Some b \<longrightarrow> sessions m b = Some r \<longrightarrow>
         sn_tenant_id (snapshot r) = tenant \<longrightarrow> is_active_locked now m r \<longrightarrow>
         sn_connected_at (snapshot r) \<le> sn_connected_at (snapshot s)) \<and>
      (\<exists>s'. sessions m' (c_session c) = Some s' \<and> (\<exists>cmd. commands s' = commands s @ [cmd] \<and>
         cmd_sql cmd = sql \<and> cmd_kind cmd = KindExecuteQuery \<and> cmd_command_id cmd = cid))"
proof -
  obtain a s where a: "scan_tenant_sessions now m tenant tokens None = Some (a, s)" and
    d: "dispatch a s \<lparr>cmd_session_id = sn_session_id (snapshot s), cmd_command_id = cid,
      cmd_issued_at = issued, cmd_kind = KindExecuteQuery, cmd_sql = sql, cmd_dsn = []\<rparr> m = (Inr c, m')"
    using assms by (auto simp: start_execute_query_def active_tenant_session_locked_def
        split: option.splits)
  have c: "c_session c = a" and m': "\<exists>s'. sessions m' a = Some s' \<and> (\<exists>cmd. commands s' = commands s @ [cmd] \<and>
         cmd_sql cmd = sql \<and> cmd_kind cmd = KindExecuteQuery \<and> cmd_command_id cmd = cid)"
    using d by (auto simp: dispatch_def Let_def split: if_splits)
  show ?thesis
    using scan_tenant_sessions_SomeD [OF a] scan_tenant_sessions_max [OF a] m' unfolding c by auto
qed

theorem query_stays_in_tenant_witness:
  "(case start_execute_query 11 11 [7] ''q1'' 3 ''SELECT 1'' example_manager of
      (Inr c, m') \<Rightarrow> (\<exists>s. sessions example_manager (c_session c) = Some s \<and> sn_tenant_id (snapshot s) = 3)
    | _ \<Rightarrow> False)"
proof -
  let ?r = "start_execute_query 11 11 [7] ''q1'' 3 ''SELECT 1'' example_manager"
  let ?c = "\<lparr>c_waiter = 0, c_session = 0, c_session_id = ''s1'', c_kind = KindExecuteQuery,
    c_command_id = ''q1''\<rparr>"
  have "fst ?r = Inr ?c" by code_simp
  then have "?r = (Inr ?c, snd ?r)" by (metis prod.collapse)
  from query_stays_in_tenant [OF this] this show ?thesis by (auto split: prod.splits sum.splits)
qed

definition other_token :: tenant_token where
  "other_token = \<lparr>tok_id = 8, tok_tenant_id = 4, tok_label = ''other'', tok_created_at = 0,
     tok_last_used_at = None, tok_revoked_at = None\<rparr>"

lemma register_other_token:
  assumes "mgr_inv m" "by_token m tid = Some a" "sessions m a = Some s" "tok_id other \<noteq> tid"
    and "register_session t0 other sid host version m = (Inr c, m')"
  shows "c \<noteq> a" "sessions m' a = Some s" "by_token m' tid = Some a" "by_id m' sid = Some c"
    and "\<exists>s'. sessions m' c = Some s' \<and> sn_token_id (snapshot s') = tok_id other \<and>
      sn_tenant_id (snapshot s') = tok_tenant_id other"
proof -
  have ne: "sid \<noteq> []" "host \<noteq> []" using assms(5) by (auto simp: register_session_def split: if_splits)
  have lt: "a < next_session m" using mgr_invD(2) [OF assms(1,3)] .
  have "c \<noteq> a \<and> sessions m' a = Some s \<and> by_token m' tid = Some a \<and> by_id m' sid = Some c \<and>
    (\<exists>s'. sessions m' c = Some s' \<and> sn_token_id (snapshot s') = tok_id other \<and>
      sn_tenant_id (snapshot s') = tok_tenant_id other)"
  proof (cases "by_token m (tok_id other)")
    case None
    with assms(2-5) ne lt show ?thesis by (auto simp: register_session_def Let_def)
  next
    case (Some b)
    obtain old where old: "sessions m b = Some old" "sn_token_id (snapshot old) = tok_id other"
      using mgr_invD(4) [OF assms(1) Some] by blast
    have "sn_token_id (snapshot s) = tid" using mgr_invD(4) [OF assms(1,2)] assms(3) by auto
    then have b: "b \<noteq> a" using old assms(3,4) by auto
    note e = close_session_effect [OF assms(1) old(1)]
    from assms(2-5) ne lt b Some old show ?thesis
      by (cases "sn_session_id (snapshot old) = sid") (auto simp: register_session_def Let_def e)
  qed
  then show "c \<noteq> a" "sessions m' a = Some s" "by_token m' tid = Some a" "by_id m' sid = Some c"
    "\<exists>s'. sessions m' c = Some s' \<and> sn_token_id (snapshot s') = tok_id other \<and>
      sn_tenant_id (snapshot s') = tok_tenant_id other" by blast+
qed

lemma foreign_session_refused:
  assumes "by_id m sid = Some c" "sessions m c = Some s" "sn_token_id (snapshot s) \<noteq> tid"
  shows "fst (mark_heartbeat t tid sid sent m) = Some err_session_not_found"
    and "fst (take_waiter t tid sid k cid m) = Inl err_session_not_found"
  using assms by (simp_all add: mark_heartbeat_def take_waiter_def session_locked_def)



end
