(* ===== verification/Tenancy.thy ===== *)
theory Tenancy
  imports Model
begin

text \<open>
  Tenants, memberships, agent tokens and invites: controller/tenant.go over
  repository/tenant.go, tenant_token.go and invite.go, and the agent authentication of
  auth/agent.go. A repository is a set of operations on its tables, lists of rows in insertion
  order, with the constraints of db/migrations/0001_schema.up.sql: a violated unique index is an
  error. Each operation takes the error the database driver may return (\<open>io\<close>, None when it
  answers), the database clock and the ids it generates. SHA-256 is the argument \<open>sha\<close>.
\<close>

section \<open>Tables\<close>

record token_row = tenant_token +
  row_token_hash :: string

record tenant_db =
  tenants :: "tenant list"
  tenant_users :: "tenant_user list"
  tenant_tokens :: "token_row list"
  tenant_invites :: "tenant_invite list"

definition empty_db :: tenant_db where
  "empty_db = \<lparr>tenants = [], tenant_users = [], tenant_tokens = [], tenant_invites = []\<rparr>"

definition err_not_found :: gerr where
  "err_not_found = Sentinel ''repository.ErrNotFound'' ''not found''"

definition unique_violation :: gerr where
  "unique_violation = ErrNew ''duplicate key value violates unique constraint''"

section \<open>repository/tenant.go\<close>

text \<open>
  \<open>CreateWithOwner\<close> runs in a transaction: on any error the tables are as before. \<open>io1\<close>, \<open>io2\<close>
  and \<open>io3\<close> are the driver's errors of the two inserts and of the commit.
\<close>

definition create_with_owner ::
  "gerr option \<Rightarrow> gerr option \<Rightarrow> gerr option \<Rightarrow> time \<Rightarrow> uuid \<Rightarrow> string \<Rightarrow> string \<Rightarrow> string \<Rightarrow>
   tenant_db \<Rightarrow> (gerr + tenant) \<times> tenant_db" where
  "create_with_owner io1 io2 io3 now new_id slug name owner_clerk_id db =
     (case io1 of
        Some e \<Rightarrow> (Inl (Wrapped ''insert tenant'' e), db)
      | None \<Rightarrow>
          (if list_ex (\<lambda>t. tenant_slug t = slug \<or> tenant_id t = new_id) (tenants db)
           then (Inl (Wrapped ''insert tenant'' unique_violation), db)
           else
             (let t = \<lparr>tenant_id = new_id, tenant_slug = slug, tenant_name = name,
                       tenant_created_at = now\<rparr>;
                  u = \<lparr>tu_tenant_id = new_id, tu_clerk_user_id = owner_clerk_id,
                       tu_role = RoleOwner, tu_created_at = now\<rparr>
              in case io2 of
                   Some e \<Rightarrow> (Inl (Wrapped ''insert owner'' e), db)
                 | None \<Rightarrow>
                     (if list_ex (\<lambda>v. tu_tenant_id v = new_id \<and> tu_clerk_user_id v = owner_clerk_id)
                           (tenant_users db)
                      then (Inl (Wrapped ''insert owner'' unique_violation), db)
                      else (case io3 of
                          Some e \<Rightarrow> (Inl e, db)
                        | None \<Rightarrow> (Inr t, db\<lparr>tenants := tenants db @ [t],
                                            tenant_users := tenant_users db @ [u]\<rparr>))))))"

definition list_for_user :: "gerr option \<Rightarrow> string \<Rightarrow> tenant_db \<Rightarrow> gerr + tenant list" where
  "list_for_user io clerk_user_id db =
     (case io of
        Some e \<Rightarrow> Inl e
      | None \<Rightarrow> Inr (sort_key tenant_created_at
          (filter (\<lambda>t. list_ex (\<lambda>u. tu_tenant_id u = tenant_id t \<and> tu_clerk_user_id u = clerk_user_id)
             (tenant_users db)) (tenants db))))"

definition get_membership :: "gerr option \<Rightarrow> uuid \<Rightarrow> string \<Rightarrow> tenant_db \<Rightarrow> gerr + tenant_user" where
  "get_membership io tid clerk_user_id db =
     (case io of
        Some e \<Rightarrow> Inl e
      | None \<Rightarrow>
          (case find (\<lambda>u. tu_tenant_id u = tid \<and> tu_clerk_user_id u = clerk_user_id) (tenant_users db) of
             None \<Rightarrow> Inl err_not_found
           | Some u \<Rightarrow> Inr u))"

definition update_name_repo ::
  "gerr option \<Rightarrow> uuid \<Rightarrow> string \<Rightarrow> tenant_db \<Rightarrow> (gerr + tenant) \<times> tenant_db" where
  "update_name_repo io tid name db =
     (case io of
        Some e \<Rightarrow> (Inl (Wrapped ''update tenant name'' e), db)
      | None \<Rightarrow>
          (case find (\<lambda>t. tenant_id t = tid) (tenants db) of
             None \<Rightarrow> (Inl err_not_found, db)
           | Some t \<Rightarrow> (Inr (t\<lparr>tenant_name := name\<rparr>),
               db\<lparr>tenants := update_where (\<lambda>t. tenant_id t = tid) (\<lambda>t. t\<lparr>tenant_name := name\<rparr>)
                   (tenants db)\<rparr>)))"

section \<open>repository/tenant_token.go\<close>

definition token_of_row :: "token_row \<Rightarrow> tenant_token" where
  "token_of_row r = tenant_token.truncate r"

definition token_active :: "token_row \<Rightarrow> bool" where
  "token_active r = (tok_revoked_at r = None)"

definition create_token ::
  "gerr option \<Rightarrow> time \<Rightarrow> uuid \<Rightarrow> uuid \<Rightarrow> string \<Rightarrow> string \<Rightarrow> tenant_db \<Rightarrow>
   (gerr + tenant_token) \<times> tenant_db" where
  "create_token io now new_id tid label token_hash db =
     (case io of
        Some e \<Rightarrow> (Inl (Wrapped ''insert token'' e), db)
      | None \<Rightarrow>
          (if list_ex (\<lambda>r. tok_id r = new_id \<or> (token_active r \<and> row_token_hash r = token_hash))
                (tenant_tokens db)
           then (Inl (Wrapped ''insert token'' unique_violation), db)
           else (let r = \<lparr>tok_id = new_id, tok_tenant_id = tid, tok_label = label,
                          tok_created_at = now, tok_last_used_at = None, tok_revoked_at = None,
                          row_token_hash = token_hash\<rparr>
                 in (Inr (token_of_row r), db\<lparr>tenant_tokens := tenant_tokens db @ [r]\<rparr>))))"

definition list_tokens_by_tenant :: "gerr option \<Rightarrow> uuid \<Rightarrow> tenant_db \<Rightarrow> gerr + tenant_token list" where
  "list_tokens_by_tenant io tid db =
     (case io of
        Some e \<Rightarrow> Inl e
      | None \<Rightarrow> Inr (map token_of_row (sort_key (\<lambda>r. - tok_created_at r)
          (filter (\<lambda>r. tok_tenant_id r = tid) (tenant_tokens db)))))"

definition revoke_token ::
  "gerr option \<Rightarrow> time \<Rightarrow> uuid \<Rightarrow> uuid \<Rightarrow> tenant_db \<Rightarrow> gerr option \<times> tenant_db" where
  "revoke_token io now tid token_id db =
     (case io of
        Some e \<Rightarrow> (Some e, db)
      | None \<Rightarrow>
          (let match = (\<lambda>r. tok_id r = token_id \<and> tok_tenant_id r = tid \<and> tok_revoked_at r = None) in
           if list_ex match (tenant_tokens db)
           then (None, db\<lparr>tenant_tokens := update_where match (\<lambda>r. r\<lparr>tok_revoked_at := Some now\<rparr>)
                   (tenant_tokens db)\<rparr>)
           else (Some err_not_found, db)))"

definition lookup_active_by_hash :: "gerr option \<Rightarrow> string \<Rightarrow> tenant_db \<Rightarrow> gerr + tenant_token" where
  "lookup_active_by_hash io hash db =
     (case io of
        Some e \<Rightarrow> Inl e
      | None \<Rightarrow>
          (case find (\<lambda>r. row_token_hash r = hash \<and> tok_revoked_at r = None) (tenant_tokens db) of
             None \<Rightarrow> Inl err_not_found
           | Some r \<Rightarrow> Inr (token_of_row r)))"

definition touch_last_used ::
  "gerr option \<Rightarrow> time \<Rightarrow> uuid \<Rightarrow> tenant_db \<Rightarrow> gerr option \<times> tenant_db" where
  "touch_last_used io now token_id db =
     (case io of
        Some e \<Rightarrow> (Some e, db)
      | None \<Rightarrow>
          (let match = (\<lambda>r. tok_id r = token_id \<and> tok_revoked_at r = None) in
           if list_ex match (tenant_tokens db)
           then (None, db\<lparr>tenant_tokens := update_where match (\<lambda>r. r\<lparr>tok_last_used_at := Some now\<rparr>)
                   (tenant_tokens db)\<rparr>)
           else (Some err_not_found, db)))"

section \<open>repository/invite.go\<close>

definition list_invites_by_tenant ::
  "gerr option \<Rightarrow> (tenant_invite list \<Rightarrow> tenant_invite list) \<Rightarrow> uuid \<Rightarrow> tenant_db \<Rightarrow>
   gerr + tenant_invite list" where
  "list_invites_by_tenant io order_rows tid db =
     (case io of
        Some e \<Rightarrow> Inl (Wrapped ''list tenant invites'' e)
      | None \<Rightarrow> Inr (order_rows (filter (\<lambda>r. inv_tenant_id r = tid) (tenant_invites db))))"

text \<open>
  One INSERT ... ON CONFLICT (tenant_id, lower(email)): a conflicting row is kept and returned.
  \<open>pg_lower\<close> is the database's \<open>lower\<close>.
\<close>

definition upsert_invite ::
  "(string \<Rightarrow> string) \<Rightarrow> time \<Rightarrow> uuid \<Rightarrow> uuid \<Rightarrow> string \<Rightarrow> string \<Rightarrow> tenant_db \<Rightarrow> tenant_invite \<times> tenant_db"
where
  "upsert_invite pg_lower now new_id tid email created_by db =
     (case find (\<lambda>r. inv_tenant_id r = tid \<and> pg_lower (inv_email r) = pg_lower email)
        (tenant_invites db) of
        Some r \<Rightarrow> (r, db)
      | None \<Rightarrow>
          (let r = \<lparr>inv_id = new_id, inv_tenant_id = tid, inv_email = email,
                    inv_created_by = created_by, inv_created_at = now\<rparr>
           in (r, db\<lparr>tenant_invites := tenant_invites db @ [r]\<rparr>)))"

definition err_no_rows :: gerr where
  "err_no_rows = Sentinel ''pgx.ErrNoRows'' ''no rows in result set''"

text \<open>
  \<open>CreateMany\<close>: each email with the driver's error and the id drawn for it. The rows written
  before an error stay.
\<close>

fun create_many_invites ::
  "(string \<Rightarrow> string) \<Rightarrow> (string \<Rightarrow> string) \<Rightarrow> time \<Rightarrow> uuid \<Rightarrow> string \<Rightarrow>
   (string \<times> gerr option \<times> uuid) list \<Rightarrow> tenant_invite list \<Rightarrow> tenant_db \<Rightarrow>
   (gerr + tenant_invite list) \<times> tenant_db" where
  "create_many_invites lcase pg_lower now tid created_by [] out db = (Inr out, db)"
| "create_many_invites lcase pg_lower now tid created_by ((email, io, new_id) # rest) out db =
     (let normalized = trim_space (to_lower lcase email) in
      if normalized = [] then create_many_invites lcase pg_lower now tid created_by rest out db
      else (case io of
          Some e \<Rightarrow>
            (if errors_is e err_no_rows then create_many_invites lcase pg_lower now tid created_by rest out db
             else (Inl (Wrapped ''insert tenant invite'' e), db))
        | None \<Rightarrow>
            (case upsert_invite pg_lower now new_id tid normalized created_by db of
               (rec, db') \<Rightarrow>
                 create_many_invites lcase pg_lower now tid created_by rest (out @ [rec]) db')))"

section \<open>controller/tenant.go\<close>

definition token_prefix :: string where "token_prefix = ''mssn_''"

definition err_invalid_slug :: gerr where
  "err_invalid_slug = Sentinel ''controller.ErrInvalidSlug''
     ''slug must be 3-63 chars, lowercase, alphanumeric or dash''"
definition err_invalid_name :: gerr where
  "err_invalid_name = Sentinel ''controller.ErrInvalidName'' ''name must be 1-200 chars''"
definition err_invalid_label :: gerr where
  "err_invalid_label = Sentinel ''controller.ErrInvalidLabel'' ''label must be 1-100 chars''"

definition in_range :: "char \<Rightarrow> char \<Rightarrow> char \<Rightarrow> bool" where
  "in_range lo hi c = ((of_char lo :: nat) \<le> of_char c \<and> (of_char c :: nat) \<le> of_char hi)"

definition lower_or_digit :: "char \<Rightarrow> bool" where
  "lower_or_digit c = (in_range (CHR ''a'') (CHR ''z'') c \<or> in_range (CHR ''0'') (CHR ''9'') c)"

text \<open>The anchored expression \<open>[a-z0-9](?:[a-z0-9-]{1,61}[a-z0-9])?\<close>.\<close>

definition slug_matches :: "string \<Rightarrow> bool" where
  "slug_matches s =
     (case s of
        [] \<Rightarrow> False
      | c # rest \<Rightarrow>
          lower_or_digit c \<and>
          (rest = [] \<or>
           (1 \<le> length (butlast rest) \<and> length (butlast rest) \<le> 61 \<and>
            list_all (\<lambda>d. lower_or_digit d \<or> d = CHR ''-'') (butlast rest) \<and>
            lower_or_digit (last rest))))"

definition create_tenant ::
  "gerr option \<Rightarrow> gerr option \<Rightarrow> gerr option \<Rightarrow> time \<Rightarrow> uuid \<Rightarrow> string \<Rightarrow> string \<Rightarrow> string \<Rightarrow>
   tenant_db \<Rightarrow> (gerr + tenant) \<times> tenant_db" where
  "create_tenant io1 io2 io3 now new_id owner_clerk_id slug name db =
     (if \<not> slug_matches slug then (Inl err_invalid_slug, db)
      else if length name < 1 \<or> length name > 200 then (Inl err_invalid_name, db)
      else create_with_owner io1 io2 io3 now new_id slug name owner_clerk_id db)"

definition ensure_membership :: "gerr option \<Rightarrow> uuid \<Rightarrow> string \<Rightarrow> tenant_db \<Rightarrow> gerr + tenant_user" where
  "ensure_membership io tid clerk_user_id db = get_membership io tid clerk_user_id db"

definition update_name ::
  "gerr option \<Rightarrow> uuid \<Rightarrow> string \<Rightarrow> tenant_db \<Rightarrow> (gerr + tenant) \<times> tenant_db" where
  "update_name io tid name db =
     (if length name < 1 \<or> length name > 200 then (Inl err_invalid_name, db)
      else update_name_repo io tid name db)"

text \<open>base64.RawURLEncoding: three bytes to four characters, without padding.\<close>

definition base64url_alphabet :: string where
  "base64url_alphabet = ''ABCDEFGHIJKLMNOPQRSTUVWXYZabcdefghijklmnopqrstuvwxyz0123456789-_''"

definition base64url_char :: "nat \<Rightarrow> char" where
  "base64url_char n = base64url_alphabet ! (n mod 64)"

fun base64url_encode :: "nat list \<Rightarrow> string" where
  "base64url_encode (a # b # c # rest) =
     [base64url_char (a div 4), base64url_char ((a mod 4) * 16 + b div 16),
      base64url_char ((b mod 16) * 4 + c div 64), base64url_char (c mod 64)] @ base64url_encode rest"
| "base64url_encode [a, b] =
     [base64url_char (a div 4), base64url_char ((a mod 4) * 16 + b div 16),
      base64url_char ((b mod 16) * 4)]"
| "base64url_encode [a] = [base64url_char (a div 4), base64url_char ((a mod 4) * 16)]"
| "base64url_encode [] = []"

text \<open>\<open>random\<close> is what \<open>rand.Read\<close> gives: an error or the 32 bytes.\<close>

definition generate_token :: "gerr + nat list \<Rightarrow> gerr + string" where
  "generate_token random =
     (case random of Inl e \<Rightarrow> Inl e | Inr buf \<Rightarrow> Inr (token_prefix @ base64url_encode buf))"

definition hash_token :: "(string \<Rightarrow> string) \<Rightarrow> string \<Rightarrow> string" where
  "hash_token sha plaintext = sha plaintext"

definition issue_agent_token ::
  "(string \<Rightarrow> string) \<Rightarrow> gerr + nat list \<Rightarrow> gerr option \<Rightarrow> time \<Rightarrow> uuid \<Rightarrow> uuid \<Rightarrow> string \<Rightarrow> tenant_db \<Rightarrow>
   (gerr + tenant_token \<times> string) \<times> tenant_db" where
  "issue_agent_token sha random io now new_id tid label db =
     (if length label < 1 \<or> length label > 100 then (Inl err_invalid_label, db)
      else (case generate_token random of
          Inl e \<Rightarrow> (Inl (Wrapped ''generate token'' e), db)
        | Inr plaintext \<Rightarrow>
            (case create_token io now new_id tid label (hash_token sha plaintext) db of
               (Inl e, db') \<Rightarrow> (Inl e, db')
             | (Inr rec, db') \<Rightarrow> (Inr (rec, plaintext), db'))))"

definition revoke_agent_token ::
  "gerr option \<Rightarrow> time \<Rightarrow> uuid \<Rightarrow> uuid \<Rightarrow> tenant_db \<Rightarrow> gerr option \<times> tenant_db" where
  "revoke_agent_token io now tid token_id db = revoke_token io now tid token_id db"

section \<open>auth/auth.go and auth/agent.go\<close>

definition bearer_token_from_header :: "string \<Rightarrow> string option" where
  "bearer_token_from_header header =
     (if \<not> has_prefix header ''Bearer '' then None
      else (let token = trim_space (trim_prefix header ''Bearer '') in
            if token = [] then None else Some token))"

record agent_identity =
  ag_token_id :: uuid
  ag_tenant_id :: uuid
  ag_label :: string

text \<open>What the middleware does with a request: an error response, or the next handler runs.\<close>

datatype 'i auth_outcome = Rejected int string | Served 'i

text \<open>\<open>RequireAuth\<close>; the verifier (Clerk) is the argument.\<close>

definition require_auth :: "(string \<Rightarrow> gerr + string) \<Rightarrow> string \<Rightarrow> string auth_outcome" where
  "require_auth verify header =
     (case bearer_token_from_header header of
        None \<Rightarrow> Rejected 401 ''missing bearer token''
      | Some token \<Rightarrow>
          (case verify token of
             Inl _ \<Rightarrow> Rejected 401 ''invalid token''
           | Inr user \<Rightarrow> Served user))"

text \<open>
  \<open>RequireAgentToken\<close> over any token store: \<open>lookup\<close> and \<open>touch\<close> are its two calls on the store
  \<open>'s\<close>.
\<close>

definition require_agent_token_with ::
  "(string \<Rightarrow> string) \<Rightarrow> (string \<Rightarrow> 's \<Rightarrow> gerr + tenant_token) \<Rightarrow> (uuid \<Rightarrow> 's \<Rightarrow> gerr option \<times> 's) \<Rightarrow>
   string \<Rightarrow> 's \<Rightarrow> agent_identity auth_outcome \<times> 's" where
  "require_agent_token_with sha lookup touch header db =
     (case bearer_token_from_header header of
        None \<Rightarrow> (Rejected 401 ''missing bearer token'', db)
      | Some token \<Rightarrow>
          (case lookup (sha token) db of
             Inl err \<Rightarrow>
               (if errors_is err err_not_found then (Rejected 401 ''invalid token'', db)
                else (Rejected 500 ''token lookup failed'', db))
           | Inr rec \<Rightarrow>
               (case touch (tok_id rec) db of
                  (Some err, db') \<Rightarrow>
                    (if errors_is err err_not_found then (Rejected 401 ''invalid token'', db')
                     else (Rejected 500 ''token touch failed'', db'))
                | (None, db') \<Rightarrow>
                    (Served \<lparr>ag_token_id = tok_id rec, ag_tenant_id = tok_tenant_id rec,
                             ag_label = tok_label rec\<rparr>, db'))))"

definition require_agent_token ::
  "(string \<Rightarrow> string) \<Rightarrow> gerr option \<Rightarrow> gerr option \<Rightarrow> time \<Rightarrow> string \<Rightarrow> tenant_db \<Rightarrow>
   agent_identity auth_outcome \<times> tenant_db" where
  "require_agent_token sha io1 io2 now =
     require_agent_token_with sha (lookup_active_by_hash io1) (touch_last_used io2 now)"

section \<open>The tables' invariant\<close>

definition tokens_ok :: "token_row list \<Rightarrow> bool" where
  "tokens_ok rows \<longleftrightarrow> distinct (map tok_id rows) \<and>
     distinct (map row_token_hash (filter token_active rows))"

lemma token_of_row_simps [simp]:
  "tok_id (token_of_row r) = tok_id r" "tok_tenant_id (token_of_row r) = tok_tenant_id r"
  "tok_label (token_of_row r) = tok_label r" "tok_revoked_at (token_of_row r) = tok_revoked_at r"
  by (simp_all add: token_of_row_def tenant_token.truncate_def)

lemma filter_active_revoked:
  "map row_token_hash (filter token_active (update_where m (\<lambda>r. r\<lparr>tok_revoked_at := Some t\<rparr>) rows)) =
   map row_token_hash (filter (\<lambda>r. token_active r \<and> \<not> m r) rows)"
  by (induction rows) (auto simp: token_active_def)

lemma distinct_map_filter_sub:
  "distinct (map f (filter p xs)) \<Longrightarrow> distinct (map f (filter (\<lambda>x. p x \<and> q x) xs))"
  by (induction xs) (auto split: if_splits)

lemma tokens_ok_revoke:
  "tokens_ok rows \<Longrightarrow> tokens_ok (update_where m (\<lambda>r. r\<lparr>tok_revoked_at := Some t\<rparr>) rows)"
  unfolding tokens_ok_def filter_active_revoked
  by (simp add: map_update_where_key distinct_map_filter_sub)

lemma tokens_ok_touch:
  "tokens_ok rows \<Longrightarrow> tokens_ok (update_where m (\<lambda>r. r\<lparr>tok_last_used_at := Some t\<rparr>) rows)"
proof -
  have "map row_token_hash (filter token_active (update_where m (\<lambda>r. r\<lparr>tok_last_used_at := Some t\<rparr>) rows))
      = map row_token_hash (filter token_active rows)"
    by (induction rows) (auto simp: token_active_def)
  then show "tokens_ok rows \<Longrightarrow> tokens_ok (update_where m (\<lambda>r. r\<lparr>tok_last_used_at := Some t\<rparr>) rows)"
    by (simp add: tokens_ok_def map_update_where_key)
qed

text \<open>A token row by its id, and what each operation does to the revoked ones.\<close>

definition is_revoked :: "uuid \<Rightarrow> tenant_db \<Rightarrow> bool" where
  "is_revoked i db \<longleftrightarrow> (\<exists>r \<in> set (tenant_tokens db). tok_id r = i) \<and>
     (\<forall>r \<in> set (tenant_tokens db). tok_id r = i \<longrightarrow> tok_revoked_at r \<noteq> None)"

datatype token_op =
    OpCreate "gerr option" time uuid uuid string string
  | OpRevoke "gerr option" time uuid uuid
  | OpTouch "gerr option" time uuid

fun apply_token_op :: "token_op \<Rightarrow> tenant_db \<Rightarrow> tenant_db" where
  "apply_token_op (OpCreate io now new_id tid label hash) db = snd (create_token io now new_id tid label hash db)"
| "apply_token_op (OpRevoke io now tid i) db = snd (revoke_token io now tid i db)"
| "apply_token_op (OpTouch io now i) db = snd (touch_last_used io now i db)"

lemma tokens_ok_op: "tokens_ok (tenant_tokens db) \<Longrightarrow> tokens_ok (tenant_tokens (apply_token_op op db))"
proof (cases op)
  case (OpCreate io now new_id tid label hash)
  then show "tokens_ok (tenant_tokens db) \<Longrightarrow> ?thesis"
    by (auto simp: create_token_def Let_def tokens_ok_def list_ex_iff token_active_def
        split: option.splits)
qed (auto simp: revoke_token_def touch_last_used_def Let_def tokens_ok_revoke tokens_ok_touch
    split: option.splits)

lemma is_revoked_update_where:
  assumes "is_revoked i db" "\<And>r. tok_id (f r) = tok_id r"
    and "\<And>r. tok_revoked_at r \<noteq> None \<Longrightarrow> tok_revoked_at (f r) \<noteq> None"
  shows "is_revoked i (db\<lparr>tenant_tokens := update_where m f (tenant_tokens db)\<rparr>)"
proof -
  obtain r where r: "r \<in> set (tenant_tokens db)" "tok_id r = i"
    using assms(1) by (auto simp: is_revoked_def)
  then have "(if m r then f r else r) \<in> set (update_where m f (tenant_tokens db))"
    by (auto simp: in_set_update_where)
  moreover have "tok_id (if m r then f r else r) = i" using r assms(2) by simp
  moreover have "tok_revoked_at y \<noteq> None"
    if "y \<in> set (update_where m f (tenant_tokens db))" "tok_id y = i" for y
  proof -
    from that(1) obtain x where x: "x \<in> set (tenant_tokens db)" "y = (if m x then f x else x)"
      by (auto simp: in_set_update_where)
    with that(2) assms(2) have "tok_id x = i" by (simp split: if_splits)
    with assms(1) x(1) have "tok_revoked_at x \<noteq> None" by (simp add: is_revoked_def)
    with x(2) assms(3) show ?thesis by (simp split: if_splits)
  qed
  ultimately show ?thesis unfolding is_revoked_def by auto
qed

lemma is_revoked_op: "is_revoked i db \<Longrightarrow> is_revoked i (apply_token_op op db)"
proof (cases op)
  case (OpCreate io now new_id tid label hash)
  then show "is_revoked i db \<Longrightarrow> ?thesis"
    by (auto simp: create_token_def Let_def is_revoked_def list_ex_iff split: option.splits)
qed (auto simp: revoke_token_def touch_last_used_def Let_def is_revoked_update_where
    split: option.splits)

lemma is_revoked_history:
  "is_revoked i db \<Longrightarrow> is_revoked i (fold apply_token_op ops db)"
  by (induction ops arbitrary: db) (auto intro: is_revoked_op)

lemma is_revoked_revoke:
  assumes "revoke_token io now tid i db = (None, db')" "tokens_ok (tenant_tokens db)"
  shows "is_revoked i db'"
proof -
  obtain r where r: "r \<in> set (tenant_tokens db)" "tok_id r = i" "tok_tenant_id r = tid"
      "tok_revoked_at r = None" and
    db': "db' = db\<lparr>tenant_tokens := update_where
      (\<lambda>r. tok_id r = i \<and> tok_tenant_id r = tid \<and> tok_revoked_at r = None)
      (\<lambda>r. r\<lparr>tok_revoked_at := Some now\<rparr>) (tenant_tokens db)\<rparr>"
    using assms(1)
    by (auto simp: revoke_token_def Let_def list_ex_iff split: option.splits if_splits)
  have only: "x = r" if "x \<in> set (tenant_tokens db)" "tok_id x = i" for x
    using distinct_map_same_key [of tok_id "tenant_tokens db" x r] assms(2) that r
    by (simp add: tokens_ok_def)
  show ?thesis
    unfolding is_revoked_def db'
  proof (intro conjI ballI impI)
    show "\<exists>x \<in> set (tenant_tokens (db\<lparr>tenant_tokens := update_where
        (\<lambda>r. tok_id r = i \<and> tok_tenant_id r = tid \<and> tok_revoked_at r = None)
        (\<lambda>r. r\<lparr>tok_revoked_at := Some now\<rparr>) (tenant_tokens db)\<rparr>)). tok_id x = i"
      using r by (intro bexI [of _ "r\<lparr>tok_revoked_at := Some now\<rparr>"]) (auto simp: in_set_update_where)
    fix y assume y: "y \<in> set (tenant_tokens (db\<lparr>tenant_tokens := update_where
        (\<lambda>r. tok_id r = i \<and> tok_tenant_id r = tid \<and> tok_revoked_at r = None)
        (\<lambda>r. r\<lparr>tok_revoked_at := Some now\<rparr>) (tenant_tokens db)\<rparr>))" "tok_id y = i"
    then obtain x where x: "x \<in> set (tenant_tokens db)" "y = (if tok_id x = i \<and> tok_tenant_id x = tid
        \<and> tok_revoked_at x = None then x\<lparr>tok_revoked_at := Some now\<rparr> else x)"
      by (auto simp: in_set_update_where)
    with y(2) have "tok_id x = i" by (simp split: if_splits)
    with only x(1) have "x = r" by blast
    with x(2) r show "tok_revoked_at y \<noteq> None" by simp
  qed
qed

section \<open>The contract of a token store\<close>

locale agent_token_store =
  fixes lookup :: "string \<Rightarrow> 's \<Rightarrow> gerr + tenant_token"
    and touch :: "uuid \<Rightarrow> 's \<Rightarrow> gerr option \<times> 's"
    and live :: "'s \<Rightarrow> string \<Rightarrow> tenant_token \<Rightarrow> bool"
  assumes lookup_live: "lookup h s = Inr t \<Longrightarrow> live s h t"
    and touch_keeps: "touch i s = (Some e, s') \<Longrightarrow> s' = s"
begin

text \<open>A request is served only for a live token whose hash is that of the presented one.\<close>

lemma served_live:
  assumes "require_agent_token_with sha lookup touch header s = (Served ag, s')"
  shows "\<exists>token t. bearer_token_from_header header = Some token \<and> live s (sha token) t \<and>
    ag = \<lparr>ag_token_id = tok_id t, ag_tenant_id = tok_tenant_id t, ag_label = tok_label t\<rparr>"
  using assms lookup_live
  by (fastforce simp: require_agent_token_with_def split: option.splits sum.splits prod.splits if_splits)

lemma rejected_keeps:
  assumes "require_agent_token_with sha lookup touch header s = (Rejected code msg, s')"
  shows "s' = s"
  using assms touch_keeps
  by (auto simp: require_agent_token_with_def split: option.splits sum.splits prod.splits if_splits)

end

definition token_live :: "tenant_db \<Rightarrow> string \<Rightarrow> tenant_token \<Rightarrow> bool" where
  "token_live db h t \<longleftrightarrow>
     (\<exists>r \<in> set (tenant_tokens db). token_of_row r = t \<and> row_token_hash r = h \<and> tok_revoked_at r = None)"

interpretation token_repo: agent_token_store
  "lookup_active_by_hash io1" "touch_last_used io2 now" token_live for io1 io2 now
proof unfold_locales
  show "token_live s h t" if "lookup_active_by_hash io1 h s = Inr t" for h s t
    using that
    by (auto simp: lookup_active_by_hash_def token_live_def split: option.splits dest: find_Some_in_set)
  show "s' = s" if "touch_last_used io2 now i s = (Some e, s')" for i s e s'
    using that by (auto simp: touch_last_used_def Let_def split: option.splits if_splits)
qed

section \<open>Properties\<close>

text \<open>
  C14. A revoked token never authenticates again: after a successful revocation and any later
  history of token operations, no request, whatever its header, is served under that token.
\<close>

theorem revoked_token_never_serves:
  assumes "revoke_agent_token io now tid i db = (None, db1)" "tokens_ok (tenant_tokens db)"
    and "fst (require_agent_token sha io1 io2 t header (fold apply_token_op ops db1)) = Served ag"
  shows "ag_token_id ag \<noteq> i"
proof -
  have rev: "is_revoked i (fold apply_token_op ops db1)"
    using is_revoked_history is_revoked_revoke assms(1,2) by (simp add: revoke_agent_token_def)
  obtain db' where "require_agent_token_with sha (lookup_active_by_hash io1) (touch_last_used io2 t)
      header (fold apply_token_op ops db1) = (Served ag, db')"
    using assms(3) by (metis prod.collapse require_agent_token_def)
  from token_repo.served_live [OF this] rev show ?thesis
    by (auto simp: token_live_def is_revoked_def)
qed

definition example_row :: token_row where
  "example_row = \<lparr>tok_id = 5, tok_tenant_id = 1, tok_label = ''edge'', tok_created_at = 0,
     tok_last_used_at = None, tok_revoked_at = None, row_token_hash = ''h''\<rparr>"

definition example_db :: tenant_db where
  "example_db = empty_db\<lparr>tenant_tokens := [example_row, example_row\<lparr>tok_id := 6, row_token_hash := ''k''\<rparr>]\<rparr>"

theorem revoked_token_never_serves_witness:
  "ag_token_id (case fst (require_agent_token id None None 9 ''Bearer k''
      (snd (revoke_agent_token None 3 1 5 example_db))) of Served ag \<Rightarrow> ag) \<noteq> 5"
proof -
  have r: "revoke_agent_token None 3 1 5 example_db = (None, snd (revoke_agent_token None 3 1 5 example_db))"
    by code_simp
  have ok: "tokens_ok (tenant_tokens example_db)" by code_simp
  have "fst (require_agent_token id None None 9 ''Bearer k'' (fold apply_token_op []
      (snd (revoke_agent_token None 3 1 5 example_db)))) =
      Served \<lparr>ag_token_id = 6, ag_tenant_id = 1, ag_label = ''edge''\<rparr>"
    by code_simp
  from revoked_token_never_serves [OF r ok this] show ?thesis by code_simp
qed

lemma base64url_plain: "list_all plain_char (base64url_encode bs)"
proof -
  have "list_all plain_char base64url_alphabet" "length base64url_alphabet = 64" by code_simp+
  then have "plain_char (base64url_char n)" for n by (simp add: base64url_char_def list_all_length)
  then show ?thesis by (induction bs rule: base64url_encode.induct) simp_all
qed

lemma generate_token_plain:
  assumes "generate_token random = Inr p"
  shows "trim_space p = p" and "p \<noteq> []"
proof -
  obtain bs where p: "p = token_prefix @ base64url_encode bs"
    using assms by (auto simp: generate_token_def split: sum.splits)
  have pre: "list_all plain_char token_prefix" "token_prefix \<noteq> []" by code_simp+
  then have all: "list_all plain_char p" using base64url_plain by (simp add: p)
  show ne: "p \<noteq> []" using pre by (simp add: p)
  have "plain_char (hd p)" "plain_char (last p)" using all ne by (auto simp: list_all_iff)
  then show "trim_space p = p" by (intro trim_space_plain) simp
qed

lemma bearer_roundtrip:
  assumes "trim_space p = p" "p \<noteq> []"
  shows "bearer_token_from_header (''Bearer '' @ p) = Some p"
proof -
  have "has_prefix (''Bearer '' @ p) ''Bearer ''" by (simp add: has_prefix_def)
  moreover have "trim_prefix (''Bearer '' @ p) ''Bearer '' = p"
    by (simp add: trim_prefix_def has_prefix_def)
  ultimately show ?thesis using assms by (simp add: bearer_token_from_header_def Let_def)
qed

text \<open>
  Issuing and authenticating round trip: the plaintext returned by \<open>IssueAgentToken\<close>, sent
  as a bearer token, is served under the new token's id, tenant and label; and the plaintext is
  not stored, only its hash.
\<close>

theorem issued_token_authenticates:
  assumes "issue_agent_token sha random io now new_id tid label db = (Inr (rec, plaintext), db')"
  shows "fst (require_agent_token sha None None t (''Bearer '' @ plaintext) db') =
      Served \<lparr>ag_token_id = new_id, ag_tenant_id = tid, ag_label = label\<rparr> \<and>
    map row_token_hash (tenant_tokens db') = map row_token_hash (tenant_tokens db) @ [sha plaintext]"
proof -
  obtain g: "generate_token random = Inr plaintext" and
    c: "create_token io now new_id tid label (sha plaintext) db = (Inr rec, db')"
    using assms by (auto simp: issue_agent_token_def hash_token_def split: if_splits sum.splits prod.splits)
  let ?r = "\<lparr>tok_id = new_id, tok_tenant_id = tid, tok_label = label, tok_created_at = now,
    tok_last_used_at = None, tok_revoked_at = None, row_token_hash = sha plaintext\<rparr>"
  have new: "\<not> list_ex (\<lambda>r. tok_id r = new_id \<or> (token_active r \<and> row_token_hash r = sha plaintext))
      (tenant_tokens db)" and db': "db' = db\<lparr>tenant_tokens := tenant_tokens db @ [?r]\<rparr>"
    using c by (auto simp: create_token_def Let_def split: option.splits if_splits)
  have "find (\<lambda>r. row_token_hash r = sha plaintext \<and> tok_revoked_at r = None)
      (tenant_tokens db @ [?r]) = Some ?r"
    using new by (intro find_append_new) (auto simp: token_active_def list_ex_iff)
  then have "lookup_active_by_hash None (sha plaintext) db' = Inr (token_of_row ?r)"
    by (simp add: lookup_active_by_hash_def db')
  moreover have "fst (touch_last_used None t new_id db') = None"
    by (simp add: touch_last_used_def db' Let_def)
  ultimately show ?thesis
    using bearer_roundtrip [OF generate_token_plain [OF g]]
    by (auto simp: require_agent_token_def require_agent_token_with_def db' split: prod.splits)
qed

theorem issued_token_authenticates_witness:
  "(case issue_agent_token id (Inr [255, 0, 17, 9]) None 3 42 1 ''edge'' example_db of
      (Inr (rec, plaintext), db') \<Rightarrow>
        fst (require_agent_token id None None 4 (''Bearer '' @ plaintext) db') =
          Served \<lparr>ag_token_id = 42, ag_tenant_id = 1, ag_label = ''edge''\<rparr>
    | _ \<Rightarrow> False)"
proof -
  let ?i = "issue_agent_token id (Inr [255, 0, 17, 9]) None 3 42 1 ''edge'' example_db"
  have "\<exists>rec p db'. ?i = (Inr (rec, p), db')"
  proof -
    have "\<not> isl (fst ?i)" by code_simp
    then show ?thesis by (metis prod.collapse sum.collapse(2))
  qed
  then obtain rec p db' where "?i = (Inr (rec, p), db')" by blast
  from issued_token_authenticates [OF this] this show ?thesis by simp
qed

text \<open>
  Revocation is scoped by tenant: it succeeds exactly when the tenant has that token
  unrevoked, is refused as "not found" otherwise without a change, and never touches a row of
  another token or another tenant.
\<close>

theorem revoke_scoped_by_tenant:
  "(let r = revoke_agent_token None now tid i db in
    (fst r = None) = list_ex (\<lambda>x. tok_id x = i \<and> tok_tenant_id x = tid \<and> tok_revoked_at x = None)
       (tenant_tokens db) \<and>
    fst r \<in> {None, Some err_not_found} \<and> (fst r = None \<or> snd r = db) \<and>
    filter (\<lambda>x. \<not> (tok_id x = i \<and> tok_tenant_id x = tid)) (tenant_tokens (snd r)) =
    filter (\<lambda>x. \<not> (tok_id x = i \<and> tok_tenant_id x = tid)) (tenant_tokens db))"
proof -
  have "filter (\<lambda>x. \<not> (tok_id x = i \<and> tok_tenant_id x = tid))
      (update_where (\<lambda>r. tok_id r = i \<and> tok_tenant_id r = tid \<and> tok_revoked_at r = None)
        (\<lambda>r. r\<lparr>tok_revoked_at := Some now\<rparr>) rows) =
    filter (\<lambda>x. \<not> (tok_id x = i \<and> tok_tenant_id x = tid)) rows" for rows :: "token_row list"
    by (induction rows) auto
  then show ?thesis by (simp add: revoke_agent_token_def revoke_token_def Let_def)
qed

text \<open>
  The slugs accepted for a tenant are the lower-case alphanumeric words of length 1 or 3 to
  63 whose inner characters may be dashes: a single character is accepted although the error
  message asks for at least three.
\<close>

theorem slug_language:
  "slug_matches s \<longleftrightarrow>
     (length s = 1 \<or> (3 \<le> length s \<and> length s \<le> 63)) \<and>
     list_all (\<lambda>c. lower_or_digit c \<or> c = CHR ''-'') s \<and>
     lower_or_digit (hd s) \<and> lower_or_digit (last s)"
proof (cases s)
  case (Cons c rest)
  show ?thesis
  proof (cases rest rule: rev_cases)
    case (snoc mid d)
    with Cons show ?thesis by (auto simp: slug_matches_def)
  qed (use Cons in \<open>auto simp: slug_matches_def\<close>)
qed (simp add: slug_matches_def)

text \<open>
  Creating a tenant is all or nothing: an error (an invalid slug or name, a slug in use, a
  failing statement or commit) leaves the tables unchanged, and a success makes the creator the
  owner of a tenant that then appears in the creator's list.
\<close>

theorem create_tenant_atomic:
  "(case create_tenant io1 io2 io3 now new_id owner slug name db of
      (Inl e, db') \<Rightarrow> db' = db
    | (Inr t, db') \<Rightarrow>
        slug_matches (tenant_slug t) \<and> tenant_slug t \<notin> set (map tenant_slug (tenants db)) \<and>
        map_error (\<lambda>_. ()) (ensure_membership None (tenant_id t) owner db') =
          Inr \<lparr>tu_tenant_id = tenant_id t, tu_clerk_user_id = owner, tu_role = RoleOwner,
               tu_created_at = now\<rparr> \<and>
        (case list_for_user None owner db' of Inr ts \<Rightarrow> t \<in> set ts | Inl _ \<Rightarrow> False))"
  by (auto simp: create_tenant_def create_with_owner_def Let_def ensure_membership_def
      get_membership_def list_for_user_def find_append_new list_ex_iff
      split: option.splits if_splits prod.splits sum.splits)

lemma upsert_invite_extends:
  "upsert_invite lo now i tid e by db = (r, db') \<Longrightarrow>
     \<exists>new. db' = db\<lparr>tenant_invites := tenant_invites db @ new\<rparr> \<and>
       find (\<lambda>x. inv_tenant_id x = tid \<and> lo (inv_email x) = lo e) (tenant_invites db') = Some r"
proof (cases "find (\<lambda>x. inv_tenant_id x = tid \<and> lo (inv_email x) = lo e) (tenant_invites db)")
  case (Some x)
  moreover assume "upsert_invite lo now i tid e by db = (r, db')"
  ultimately show ?thesis by (intro exI [of _ "[]"]) (simp add: upsert_invite_def)
qed (auto simp: upsert_invite_def Let_def find_append)

lemma create_many_extends:
  "create_many_invites lc lo now tid by es out db = (res, db') \<Longrightarrow>
     \<exists>new. db' = db\<lparr>tenant_invites := tenant_invites db @ new\<rparr>"
proof (induction lc lo now tid "by" es out db rule: create_many_invites.induct)
  case (1 lc lo now tid "by" out db)
  then show ?case by (intro exI [of _ "[]"]) simp
next
  case (2 lc lo now tid "by" email io i rest out db)
  show ?case
  proof (cases "trim_space (to_lower lc email) = [] \<or> io \<noteq> None")
    case True
    then show ?thesis
      using 2 by (cases "trim_space (to_lower lc email) = []"; cases io)
        (auto simp: Let_def split: if_splits intro: exI [of _ "[]"])
  next
    case False
    obtain r db1 where u: "upsert_invite lo now i tid (trim_space (to_lower lc email)) by db = (r, db1)"
      by fastforce
    obtain new where "db1 = db\<lparr>tenant_invites := tenant_invites db @ new\<rparr>"
      using upsert_invite_extends [OF u] by blast
    moreover obtain new' where "db' = db1\<lparr>tenant_invites := tenant_invites db1 @ new'\<rparr>"
      using 2(2) [OF refl, of r db1] 2(4) False u by (auto simp: Let_def)
    ultimately show ?thesis by (intro exI [of _ "new @ new'"]) simp
  qed
qed

lemma create_many_settled:
  assumes "\<forall>(e, io, i) \<in> set es. trim_space (to_lower lc e) = [] \<or>
      (\<exists>r. find (\<lambda>x. inv_tenant_id x = tid \<and> lo (inv_email x) = lo (trim_space (to_lower lc e)))
         (tenant_invites db) = Some r)"
    and "\<forall>(e, io, i) \<in> set es. io = None"
  shows "snd (create_many_invites lc lo now tid by es out db) = db"
  using assms
proof (induction lc lo now tid "by" es out db rule: create_many_invites.induct)
  case (2 lc lo now tid "by" email io i rest out db)
  show ?case
  proof (cases "trim_space (to_lower lc email) = []")
    case True
    with 2 show ?thesis by (simp add: Let_def)
  next
    case False
    with 2(4) obtain r where r: "find (\<lambda>x. inv_tenant_id x = tid \<and>
        lo (inv_email x) = lo (trim_space (to_lower lc email))) (tenant_invites db) = Some r"
      by auto
    then have u: "upsert_invite lo now i tid (trim_space (to_lower lc email)) by db = (r, db)"
      by (simp add: upsert_invite_def)
    from 2(5) have "io = None" by simp
    with False u 2(2) [OF refl False _ u [symmetric]] 2(4,5) show ?thesis by (simp add: Let_def)
  qed
qed simp

lemma create_many_stores:
  assumes "create_many_invites lc lo now tid by es out db = (Inr rows, db')" "(e, None, i) \<in> set es"
    "trim_space (to_lower lc e) \<noteq> []"
  shows "\<exists>r. find (\<lambda>x. inv_tenant_id x = tid \<and> lo (inv_email x) = lo (trim_space (to_lower lc e)))
         (tenant_invites db') = Some r"
  using assms
proof (induction lc lo now tid "by" es out db rule: create_many_invites.induct)
  case (2 lc lo now tid "by" email io' i' rest out db)
  show ?case
  proof (cases "trim_space (to_lower lc email) = []")
    case True
    with 2 show ?thesis by (auto simp: Let_def)
  next
    case False
    obtain r db1 where u: "upsert_invite lo now i' tid (trim_space (to_lower lc email)) by db = (r, db1)"
      by fastforce
    show ?thesis
    proof (cases io')
      case (Some x)
      with 2(4) False have skip: "errors_is x err_no_rows"
        "create_many_invites lc lo now tid by rest out db = (Inr rows, db')"
        by (auto simp: Let_def split: if_splits)
      with 2(3) [OF refl False Some] 2(5,6) Some show ?thesis by auto
    next
      case io: None
      with False have rest: "create_many_invites lc lo now tid by rest (out @ [r]) db1 = (Inr rows, db')"
        using 2(4) False u by (simp add: Let_def)
      show ?thesis
      proof (cases "(e, None, i) \<in> set rest")
        case True
        with 2(2) [OF refl False io u [symmetric] rest] 2(6) show ?thesis by simp
      next
        case hd: False
        then have "e = email" using 2(5) by simp
        moreover obtain new where "db' = db1\<lparr>tenant_invites := tenant_invites db1 @ new\<rparr>"
          using create_many_extends [OF rest] by blast
        moreover have "find (\<lambda>x. inv_tenant_id x = tid \<and> lo (inv_email x) =
            lo (trim_space (to_lower lc email))) (tenant_invites db1) = Some r"
          using upsert_invite_extends [OF u] by blast
        ultimately show ?thesis using find_append_first by fastforce
      qed
    qed
  qed
qed simp

text \<open>
  Inviting is idempotent: sending the same addresses again, after all of them were stored,
  returns the same rows and stores nothing, whatever ids are drawn.
\<close>

theorem inviting_is_idempotent:
  assumes "create_many_invites lc lo now tid by es [] db = (Inr rows, db')"
    and "map fst es' = map fst es" "list_all (\<lambda>(e, io, i). io = None) es"
    and "list_all (\<lambda>(e, io, i). io = None) es'"
  shows "snd (create_many_invites lc lo now' tid by' es' [] db') = db'"
proof (rule create_many_settled)
  show "\<forall>(e, io, i) \<in> set es'. trim_space (to_lower lc e) = [] \<or>
      (\<exists>r. find (\<lambda>x. inv_tenant_id x = tid \<and> lo (inv_email x) = lo (trim_space (to_lower lc e)))
         (tenant_invites db') = Some r)"
  proof (rule ballI)
    fix x assume "x \<in> set es'"
    moreover obtain e io i where x: "x = (e, io, i)" by (cases x)
    ultimately have "e \<in> set (map fst es)" using assms(2) by (metis fst_conv image_eqI set_map)
    then obtain i' where "(e, None, i') \<in> set es" using assms(3) by (fastforce simp: list_all_iff)
    from create_many_stores [OF assms(1) this] x
    show "case x of (e, io, i) \<Rightarrow> trim_space (to_lower lc e) = [] \<or>
      (\<exists>r. find (\<lambda>x. inv_tenant_id x = tid \<and> lo (inv_email x) = lo (trim_space (to_lower lc e)))
         (tenant_invites db') = Some r)" by auto
  qed
  show "\<forall>(e, io, i) \<in> set es'. io = None" using assms(4) by (auto simp: list_all_iff)
qed

theorem inviting_is_idempotent_witness:
  "(let db = snd (create_many_invites id id 5 1 ''u'' [('' Kim@x.kr'', None, 3), ([], None, 4)] [] empty_db)
    in snd (create_many_invites id id 6 1 ''v'' [('' Kim@x.kr'', None, 8), ([], None, 9)] [] db) = db \<and>
       map inv_email (tenant_invites db) = [''kim@x.kr''])"
proof -
  let ?c = "create_many_invites id id 5 1 ''u'' [('' Kim@x.kr'', None, 3), ([], None, 4)] [] empty_db"
  have "\<not> isl (fst ?c)" by code_simp
  then have c: "?c = (Inr (projr (fst ?c)), snd ?c)" by (metis prod.collapse sum.collapse(2))
  have "map inv_email (tenant_invites (snd ?c)) = [''kim@x.kr'']" by code_simp
  with inviting_is_idempotent [OF c, of "[('' Kim@x.kr'', None, 8), ([], None, 9)]" 6 "''v''"]
  show ?thesis by (simp add: Let_def)
qed

end
