(* ===== verification/EdgeMysql.thy ===== *)
theory EdgeMysql
  imports AgentSessions SqlGuard
begin

text \<open>
  edgeagent/gateway/mysql/mysql.go and edgeagent/runtime/mysql.go: the edge agent's access to
  the customer's database. The MySQL driver is third-party code: \<open>mysql_ops\<close> holds its calls on
  a world \<open>'w\<close>. The SQL guard in front of it is the argument \<open>validate\<close>, and the properties
  instantiate it with the guard of SqlGuard.
\<close>

section \<open>Grants\<close>

definition allowed_privileges :: "string list" where
  "allowed_privileges = [''USAGE'', ''SELECT'', ''SHOW VIEW'']"

definition normalize_privilege :: "(string \<Rightarrow> string) \<Rightarrow> string \<Rightarrow> string" where
  "normalize_privilege ucase value = join (string_fields (trim_space (to_upper ucase value))) '' ''"

text \<open>\<open>None\<close> is a run-time panic, \<open>Some (Inl e)\<close> the returned error.\<close>

fun check_privileges :: "(string \<Rightarrow> string) \<Rightarrow> string list \<Rightarrow> bool \<Rightarrow> gerr + bool" where
  "check_privileges ucase [] has_select = Inr has_select"
| "check_privileges ucase (privilege # rest) has_select =
     (let name = normalize_privilege ucase privilege in
      if name = ''ALL PRIVILEGES'' then Inl (ErrNew ''ALL PRIVILEGES is not allowed'')
      else if name \<notin> set allowed_privileges then
        Inl (ErrNew (''privilege '' @ go_quote name @ '' is not allowed''))
      else check_privileges ucase rest (has_select \<or> name = ''SELECT''))"

text \<open>
  One iteration of \<open>ValidateGrants\<close>. The slice \<open>normalized[len("GRANT "):onIndex]\<close> panics when
  " ON " starts before the end of "GRANT ".
\<close>

definition check_grant :: "(string \<Rightarrow> string) \<Rightarrow> string \<Rightarrow> bool \<Rightarrow> (gerr + bool) option" where
  "check_grant ucase grant has_select =
     (let normalized = to_upper ucase (trim_space grant) in
      if normalized = [] then Some (Inl (ErrNew ''grant output contained an empty row''))
      else if contains normalized ''WITH GRANT OPTION'' then
        Some (Inl (ErrNew ''WITH GRANT OPTION is not allowed''))
      else if \<not> has_prefix normalized ''GRANT '' then
        Some (Inl (ErrNew (''unsupported grant format: '' @ go_quote grant)))
      else (case index_of normalized '' ON '' of
          None \<Rightarrow> Some (Inl (ErrNew (''malformed grant: '' @ go_quote grant)))
        | Some on_index \<Rightarrow>
            (if on_index < length ''GRANT '' then None
             else Some (check_privileges ucase
                    (split_byte (CHR '','') (slice normalized (length ''GRANT '') on_index)) has_select))))"

fun check_grants :: "(string \<Rightarrow> string) \<Rightarrow> string list \<Rightarrow> bool \<Rightarrow> (gerr + bool) option" where
  "check_grants ucase [] has_select = Some (Inr has_select)"
| "check_grants ucase (grant # rest) has_select =
     (case check_grant ucase grant has_select of
        None \<Rightarrow> None
      | Some (Inl e) \<Rightarrow> Some (Inl e)
      | Some (Inr has_select') \<Rightarrow> check_grants ucase rest has_select')"

definition validate_grants :: "(string \<Rightarrow> string) \<Rightarrow> string list \<Rightarrow> gerr option option" where
  "validate_grants ucase grants =
     (case check_grants ucase grants False of
        None \<Rightarrow> None
      | Some (Inl e) \<Rightarrow> Some (Some e)
      | Some (Inr has_select) \<Rightarrow>
          Some (if has_select then None else Some (ErrNew ''at least one SELECT grant is required'')))"

section \<open>Values\<close>

text \<open>The dynamic types \<open>normalizeValue\<close> tells apart; a float is opaque.\<close>

datatype raw_value =
    RawNil
  | RawBool bool
  | RawInt int
  | RawUint nat
  | RawFloat nat
  | RawString string
  | RawBytes string
  | RawTime time
  | RawOther string

record value_env =
  ve_ucase :: "string \<Rightarrow> string"
  ve_parse_float :: "string \<Rightarrow> nat option"
  ve_format_time :: "string \<Rightarrow> time \<Rightarrow> string"

definition normalize_time_value :: "value_env \<Rightarrow> time \<Rightarrow> string \<Rightarrow> string" where
  "normalize_time_value env t type_name =
     (let n = normalize_privilege (ve_ucase env) type_name in
      if n = ''DATE'' then ve_format_time env ''2006-01-02'' t
      else if n = ''TIME'' then ve_format_time env ''15:04:05'' t
      else ve_format_time env ''2006-01-02T15:04:05.999999999Z07:00'' t)"

definition normalize_bytes_value :: "value_env \<Rightarrow> string \<Rightarrow> string \<Rightarrow> int option \<Rightarrow> go_any" where
  "normalize_bytes_value env value type_name decimal_digits =
     (let n = normalize_privilege (ve_ucase env) type_name in
      if n \<in> {''TINYINT'', ''SMALLINT'', ''MEDIUMINT'', ''INT'', ''INTEGER'', ''BIGINT''} then
        (case parse_int64 value of Some i \<Rightarrow> GoInt i | None \<Rightarrow> GoString value)
      else if n \<in> {''FLOAT'', ''DOUBLE'', ''REAL''} then
        (case ve_parse_float env value of Some f \<Rightarrow> GoOpaque f | None \<Rightarrow> GoString value)
      else if n \<in> {''DECIMAL'', ''NEWDECIMAL'', ''NUMERIC''} then
        (if decimal_digits = Some 0
         then (case parse_int64 value of Some i \<Rightarrow> GoInt i | None \<Rightarrow> GoString value)
         else GoString value)
      else GoString value)"

definition normalize_value :: "value_env \<Rightarrow> raw_value \<Rightarrow> string \<Rightarrow> int option \<Rightarrow> go_any" where
  "normalize_value env value type_name decimal_scale = (case value of
     RawNil \<Rightarrow> GoNil
   | RawBool b \<Rightarrow> GoBool b
   | RawInt i \<Rightarrow> GoInt i
   | RawUint n \<Rightarrow> (if int n \<le> 2 ^ 63 - 1 then GoInt (int n) else GoString (itoa_nat n))
   | RawFloat f \<Rightarrow> GoOpaque f
   | RawString s \<Rightarrow> GoString s
   | RawBytes s \<Rightarrow> normalize_bytes_value env s type_name decimal_scale
   | RawTime t \<Rightarrow> GoString (normalize_time_value env t type_name)
   | RawOther s \<Rightarrow> GoString s)"

section \<open>The gateway\<close>

text \<open>What the driver hands back for a query: columns, their types, rows, and late errors.\<close>

record raw_rows =
  rr_columns :: "gerr + string list"
  rr_types :: "gerr + (string \<times> int option) list"
  rr_rows :: "(gerr + raw_value list) list"
  rr_err :: "gerr option"
  rr_close :: "gerr option"

record 'w mysql_ops =
  my_conn :: "'w \<Rightarrow> gerr option \<times> 'w"
  my_set_limit :: "'w \<Rightarrow> gerr option \<times> 'w"
  my_query :: "string \<Rightarrow> 'w \<Rightarrow> (gerr + raw_rows) \<times> 'w"
  my_deadline_passed :: "'w \<Rightarrow> bool"
  my_close_conn :: "'w \<Rightarrow> gerr option \<times> 'w"
  my_elapsed_ms :: "'w \<Rightarrow> int"

record gateway_result =
  gr_columns :: "string list"
  gr_rows :: "(string \<rightharpoonup> go_any) list"
  gr_elapsed_ms :: int
  gr_database_user :: string
  gr_database_name :: string
  gr_rewritten_sql :: string
  gr_limit_injected :: bool

record gateway =
  gw_id :: nat
  gw_database_user :: string
  gw_database_name :: string

definition append_close_error :: "string \<Rightarrow> gerr option \<Rightarrow> gerr + 'a \<Rightarrow> gerr + 'a" where
  "append_close_error label close_err res =
     (case close_err of
        None \<Rightarrow> res
      | Some e \<Rightarrow>
          (case res of
             Inr _ \<Rightarrow> Inl (Wrapped label e)
           | Inl target \<Rightarrow> Inl (JoinedError target (Wrapped label e))))"

fun decode_row :: "value_env \<Rightarrow> string list \<Rightarrow> (string \<times> int option) list \<Rightarrow> raw_value list \<Rightarrow>
    (string \<rightharpoonup> go_any) \<Rightarrow> (string \<rightharpoonup> go_any)" where
  "decode_row env (c # cs) ((ty, scale) # tys) (v # vs) row =
     decode_row env cs tys vs (row(c \<mapsto> normalize_value env v ty scale))"
| "decode_row env _ _ _ row = row"

fun scan_loop_rows :: "value_env \<Rightarrow> string list \<Rightarrow> (string \<times> int option) list \<Rightarrow>
    (gerr + raw_value list) list \<Rightarrow> (string \<rightharpoonup> go_any) list \<Rightarrow> gerr + (string \<rightharpoonup> go_any) list" where
  "scan_loop_rows env cols tys [] decoded = Inr decoded"
| "scan_loop_rows env cols tys (Inl e # rest) decoded = Inl (Wrapped ''scan row'' e)"
| "scan_loop_rows env cols tys (Inr vs # rest) decoded =
     scan_loop_rows env cols tys rest (decoded @ [decode_row env cols tys vs Map.empty])"

definition scan_rows :: "value_env \<Rightarrow> raw_rows \<Rightarrow> gerr + (string \<rightharpoonup> go_any) list \<times> string list" where
  "scan_rows env rows =
     (case rr_columns rows of
        Inl e \<Rightarrow> Inl (Wrapped ''list columns'' e)
      | Inr cols \<Rightarrow>
          (case rr_types rows of
             Inl e \<Rightarrow> Inl (Wrapped ''list column types'' e)
           | Inr tys \<Rightarrow>
               (case scan_loop_rows env cols tys (rr_rows rows) [] of
                  Inl e \<Rightarrow> Inl e
                | Inr decoded \<Rightarrow>
                    (case rr_err rows of
                       Some e \<Rightarrow> Inl (Wrapped ''iterate rows'' e)
                     | None \<Rightarrow> Inr (decoded, cols)))))"

definition query_timed_out :: "(string \<Rightarrow> string) \<Rightarrow> gerr \<Rightarrow> bool" where
  "query_timed_out lcase err =
     (let message = to_lower lcase (err_text err) in
      contains message ''i/o timeout'' \<or> contains message ''invalid connection'' \<or>
      contains message ''maximum statement execution time exceeded'' \<or>
      contains message ''interrupted'')"

definition gateway_execute_query ::
  "(string \<Rightarrow> gerr + guard_result) \<Rightarrow> (string \<Rightarrow> string) \<Rightarrow> value_env \<Rightarrow> 'w mysql_ops \<Rightarrow> gateway \<Rightarrow>
   string \<Rightarrow> 'w \<Rightarrow> (gerr + gateway_result) \<times> 'w" where
  "gateway_execute_query validate lcase env ops g sql_text w =
    (case validate sql_text of
       Inl e \<Rightarrow> (Inl (Wrapped ''validate sqlguard result'' e), w)
     | Inr guarded \<Rightarrow>
       (if \<not> OK guarded then
          (Inl (permission_denied (Reason guarded) (BlockedConstructs guarded)), w)
        else (case my_conn ops w of
          (Some e, w1) \<Rightarrow> (Inl (Wrapped ''acquire mysql connection'' e), w1)
        | (None, w1) \<Rightarrow>
          (case (case my_set_limit ops w1 of
             (Some e, w2) \<Rightarrow> (Inl (Wrapped ''set max_execution_time'' e), w2)
           | (None, w2) \<Rightarrow>
             (case my_query ops (RewrittenSQL guarded) w2 of
                (Inl e, w3) \<Rightarrow>
                  (if my_deadline_passed ops w3 then
                     (Inl (Wrapped ''execute query'' ContextDeadlineExceeded), w3)
                   else if query_timed_out lcase e then
                     (Inl (Wrapped ''execute query'' ContextDeadlineExceeded), w3)
                   else (Inl (Wrapped ''execute query'' e), w3))
              | (Inr rows, w3) \<Rightarrow>
                  (append_close_error ''close query rows'' (rr_close rows)
                     (case scan_rows env rows of
                        Inl e \<Rightarrow> Inl e
                      | Inr (decoded, cols) \<Rightarrow>
                          Inr \<lparr>gr_columns = cols, gr_rows = decoded,
                               gr_elapsed_ms = my_elapsed_ms ops w3,
                               gr_database_user = gw_database_user g,
                               gr_database_name = gw_database_name g,
                               gr_rewritten_sql = RewrittenSQL guarded,
                               gr_limit_injected = LimitInjected guarded\<rparr>), w3)))
           of (res, w4) \<Rightarrow>
             (case my_close_conn ops w4 of
                (close_err, w5) \<Rightarrow>
                  (append_close_error ''close mysql connection'' close_err res, w5))))))"

section \<open>Opening a gateway\<close>

text \<open>
  The DSN codec is the driver's: \<open>dc_parse\<close> and \<open>dc_format\<close> on \<open>mysql_config\<close>, the fields the
  gateway sets and an opaque remainder.
\<close>

record mysql_config =
  mc_parse_time :: bool
  mc_multi_statements :: bool
  mc_timeout :: duration
  mc_read_timeout :: duration
  mc_write_timeout :: duration
  mc_loc_utc :: bool
  mc_rest :: string

record dsn_codec =
  dc_parse :: "string \<Rightarrow> gerr + mysql_config"
  dc_format :: "mysql_config \<Rightarrow> string"

definition connect_timeout :: duration where "connect_timeout = seconds 5"
definition query_timeout :: duration where "query_timeout = seconds 30"
definition schema_timeout :: duration where "schema_timeout = seconds 55"

definition normalize_dsn :: "dsn_codec \<Rightarrow> string \<Rightarrow> gerr + string" where
  "normalize_dsn codec raw =
     (case dc_parse codec (trim_space raw) of
        Inl e \<Rightarrow> Inl (Wrapped ''parse mysql dsn'' e)
      | Inr cfg \<Rightarrow> Inr (dc_format codec
          (cfg\<lparr>mc_parse_time := True, mc_multi_statements := False, mc_timeout := connect_timeout,
               mc_read_timeout := query_timeout, mc_write_timeout := connect_timeout,
               mc_loc_utc := True\<rparr>)))"

text \<open>SHOW GRANTS as the driver delivers it: rows or scan errors, the late error, the close.\<close>

record grant_rows =
  sg_rows :: "(gerr + string) list"
  sg_err :: "gerr option"
  sg_close :: "gerr option"

record 'w connect_ops =
  co_open :: "string \<Rightarrow> 'w \<Rightarrow> (gerr + nat) \<times> 'w"
  co_ping :: "nat \<Rightarrow> 'w \<Rightarrow> gerr option \<times> 'w"
  co_identity :: "nat \<Rightarrow> 'w \<Rightarrow> (gerr + string \<times> string option) \<times> 'w"
  co_grants :: "nat \<Rightarrow> 'w \<Rightarrow> (gerr + grant_rows) \<times> 'w"
  co_close :: "nat \<Rightarrow> 'w \<Rightarrow> gerr option \<times> 'w"

fun collect_grants :: "(gerr + string) list \<Rightarrow> string list \<Rightarrow> gerr + string list" where
  "collect_grants [] grants = Inr grants"
| "collect_grants (Inl e # rest) grants = Inl (Wrapped ''scan show grants'' e)"
| "collect_grants (Inr g # rest) grants = collect_grants rest (grants @ [g])"

definition load_grants :: "'w connect_ops \<Rightarrow> nat \<Rightarrow> 'w \<Rightarrow> (gerr + string list) \<times> 'w" where
  "load_grants ops db w =
     (case co_grants ops db w of
        (Inl e, w') \<Rightarrow> (Inl (Wrapped ''show grants'' e), w')
      | (Inr rows, w') \<Rightarrow>
          (append_close_error ''close grant rows'' (sg_close rows)
             (case collect_grants (sg_rows rows) [] of
                Inl e \<Rightarrow> Inl e
              | Inr grants \<Rightarrow>
                  (case sg_err rows of
                     Some e \<Rightarrow> Inl (Wrapped ''iterate show grants'' e)
                   | None \<Rightarrow> Inr grants)), w'))"

definition validate_connection ::
  "(string \<Rightarrow> string) \<Rightarrow> 'w connect_ops \<Rightarrow> nat \<Rightarrow> 'w \<Rightarrow> (gerr + string \<times> string) option \<times> 'w" where
  "validate_connection ucase ops db w =
     (case co_identity ops db w of
        (Inl e, w1) \<Rightarrow> (Some (Inl (Wrapped ''read mysql identity'' e)), w1)
      | (Inr (user, name), w1) \<Rightarrow>
          (case load_grants ops db w1 of
             (Inl e, w2) \<Rightarrow> (Some (Inl e), w2)
           | (Inr grants, w2) \<Rightarrow>
               (case validate_grants ucase grants of
                  None \<Rightarrow> (None, w2)
                | Some (Some e) \<Rightarrow> (Some (Inl (Wrapped ''validate mysql grants'' e)), w2)
                | Some None \<Rightarrow> (Some (Inr (user, case name of None \<Rightarrow> [] | Some n \<Rightarrow> n)), w2))))"

definition open_gateway ::
  "(string \<Rightarrow> string) \<Rightarrow> dsn_codec \<Rightarrow> 'w connect_ops \<Rightarrow> string \<Rightarrow> 'w \<Rightarrow> (gerr + gateway) option \<times> 'w" where
  "open_gateway ucase codec ops raw_dsn w =
     (case normalize_dsn codec raw_dsn of
        Inl e \<Rightarrow> (Some (Inl e), w)
      | Inr dsn \<Rightarrow>
          (case co_open ops dsn w of
             (Inl e, w1) \<Rightarrow> (Some (Inl (Wrapped ''open mysql'' e)), w1)
           | (Inr db, w1) \<Rightarrow>
               (case co_ping ops db w1 of
                  (Some e, w2) \<Rightarrow> (Some (Inl (Wrapped ''ping mysql'' e)), snd (co_close ops db w2))
                | (None, w2) \<Rightarrow>
                    (case validate_connection ucase ops db w2 of
                       (None, w3) \<Rightarrow> (None, w3)
                     | (Some (Inl e), w3) \<Rightarrow> (Some (Inl e), snd (co_close ops db w3))
                     | (Some (Inr (user, name)), w3) \<Rightarrow>
                         (Some (Inr \<lparr>gw_id = db, gw_database_user = user, gw_database_name = name\<rparr>),
                          w3)))))"

section \<open>The runtime\<close>

definition err_database_not_configured :: gerr where
  "err_database_not_configured =
     Sentinel ''runtime.ErrDatabaseNotConfigured'' ''database not configured''"

record mysql_runtime =
  rt_dsn_path :: string
  rt_gateway :: "gateway option"

record 'w file_ops =
  fo_mkdir :: "string \<Rightarrow> 'w \<Rightarrow> gerr option \<times> 'w"
  fo_write :: "string \<Rightarrow> string \<Rightarrow> 'w \<Rightarrow> gerr option \<times> 'w"
  fo_dir :: "string \<Rightarrow> string"

text \<open>Everything the runtime calls.\<close>

record 'w runtime_env =
  re_validate :: "string \<Rightarrow> gerr + guard_result"
  re_ucase :: "string \<Rightarrow> string"
  re_lcase :: "string \<Rightarrow> string"
  re_values :: value_env
  re_codec :: dsn_codec
  re_connect :: "'w connect_ops"
  re_mysql :: "gateway \<Rightarrow> 'w mysql_ops"
  re_files :: "'w file_ops"
  re_elapsed_ms :: "'w \<Rightarrow> int"

definition new_mysql_runtime ::
  "'w runtime_env \<Rightarrow> string \<Rightarrow> string \<Rightarrow> 'w \<Rightarrow> (gerr + mysql_runtime) option \<times> 'w" where
  "new_mysql_runtime env dsn_path initial_dsn w =
     (if trim_space initial_dsn = [] then
        (Some (Inr \<lparr>rt_dsn_path = dsn_path, rt_gateway = None\<rparr>), w)
      else (case open_gateway (re_ucase env) (re_codec env) (re_connect env) initial_dsn w of
          (None, w') \<Rightarrow> (None, w')
        | (Some (Inl e), w') \<Rightarrow> (Some (Inl (Wrapped ''open initial mysql gateway'' e)), w')
        | (Some (Inr g), w') \<Rightarrow> (Some (Inr \<lparr>rt_dsn_path = dsn_path, rt_gateway = Some g\<rparr>), w')))"

definition close_runtime :: "'w runtime_env \<Rightarrow> mysql_runtime \<Rightarrow> 'w \<Rightarrow> gerr option \<times> mysql_runtime \<times> 'w" where
  "close_runtime env r w =
     (case rt_gateway r of
        None \<Rightarrow> (None, r, w)
      | Some g \<Rightarrow>
          (case co_close (re_connect env) (gw_id g) w of
             (e, w') \<Rightarrow> (e, r\<lparr>rt_gateway := None\<rparr>, w')))"

record query_result =
  qres_columns :: "string list"
  qres_rows :: "(string \<rightharpoonup> go_any) list"
  qres_elapsed_ms :: int
  qres_database_user :: string
  qres_database_name :: string

definition runtime_execute_query ::
  "'w runtime_env \<Rightarrow> mysql_runtime \<Rightarrow> string \<Rightarrow> 'w \<Rightarrow> (gerr + query_result) \<times> 'w" where
  "runtime_execute_query env r sql w =
     (case rt_gateway r of
        None \<Rightarrow> (Inl (internal_error (err_text err_database_not_configured)
                  (Some err_database_not_configured)), w)
      | Some g \<Rightarrow>
          (case gateway_execute_query (re_validate env) (re_lcase env) (re_values env)
                  (re_mysql env g) g sql w of
             (Inl e, w') \<Rightarrow> (Inl e, w')
           | (Inr res, w') \<Rightarrow>
               (Inr \<lparr>qres_columns = gr_columns res, qres_rows = gr_rows res,
                     qres_elapsed_ms = gr_elapsed_ms res,
                     qres_database_user = gr_database_user res,
                     qres_database_name = gr_database_name res\<rparr>, w')))"

definition write_dsn :: "'w runtime_env \<Rightarrow> mysql_runtime \<Rightarrow> string \<Rightarrow> 'w \<Rightarrow> gerr option \<times> 'w" where
  "write_dsn env r dsn w =
     (if rt_dsn_path r = [] then (Some (ErrNew ''dsn path is not configured''), w)
      else
        (let dir = fo_dir (re_files env) (rt_dsn_path r) in
         case (if dir \<noteq> [] then fo_mkdir (re_files env) dir w else (None, w)) of
           (Some e, w1) \<Rightarrow> (Some (Wrapped ''create dsn directory'' e), w1)
         | (None, w1) \<Rightarrow>
             (case fo_write (re_files env) (rt_dsn_path r) (dsn @ [CHR 0x0A]) w1 of
                (Some e, w2) \<Rightarrow> (Some (Wrapped ''write dsn file'' e), w2)
              | (None, w2) \<Rightarrow> (None, w2))))"

definition classify_configure_database_error :: "(string \<Rightarrow> string) \<Rightarrow> gerr \<Rightarrow> configure_error_code" where
  "classify_configure_database_error lcase err =
     (if errors_is err ContextDeadlineExceeded then ConfigTimeout
      else if errors_is err err_database_not_configured then ConfigConnectFailed
      else
        (let message = to_lower lcase (err_text err) in
         if contains message ''parse mysql dsn'' then ConfigInvalidDSN
         else if contains message ''access denied'' then ConfigAuthFailed
         else if contains message ''validate mysql grants'' \<or> contains message ''show grants'' \<or>
                 contains message ''at least one select grant'' \<or> contains message ''not allowed''
         then ConfigPrivilegeError
         else if contains message ''timeout'' \<or> contains message ''deadline exceeded'' \<or>
                 contains message ''i/o timeout''
         then ConfigTimeout
         else ConfigConnectFailed))"

record configure_result =
  cfg_elapsed_ms :: int
  cfg_database_user :: string
  cfg_database_name :: string
  cfg_error :: string
  cfg_error_code :: configure_error_code

definition configure_failure :: "'w runtime_env \<Rightarrow> 'w \<Rightarrow> string \<Rightarrow> configure_error_code \<Rightarrow> configure_result" where
  "configure_failure env w err code =
     \<lparr>cfg_elapsed_ms = re_elapsed_ms env w, cfg_database_user = [], cfg_database_name = [],
      cfg_error = err, cfg_error_code = code\<rparr>"

text \<open>\<open>ConfigureDatabase\<close> never returns a Go error; \<open>None\<close> is a panic in \<open>ValidateGrants\<close>.\<close>

definition configure_database ::
  "'w runtime_env \<Rightarrow> mysql_runtime \<Rightarrow> string \<Rightarrow> 'w \<Rightarrow> configure_result option \<times> mysql_runtime \<times> 'w" where
  "configure_database env r dsn w =
    (let trimmed = trim_space dsn in
     if trimmed = [] then (Some (configure_failure env w ''dsn is required'' ConfigInvalidDSN), r, w)
     else (case normalize_dsn (re_codec env) trimmed of
       Inl e \<Rightarrow> (Some (configure_failure env w (err_text e) ConfigInvalidDSN), r, w)
     | Inr normalized \<Rightarrow>
       (case open_gateway (re_ucase env) (re_codec env) (re_connect env) normalized w of
          (None, w1) \<Rightarrow> (None, r, w1)
        | (Some (Inl e), w1) \<Rightarrow>
            (Some (configure_failure env w1 (err_text e)
               (classify_configure_database_error (re_lcase env) e)), r, w1)
        | (Some (Inr new_gateway), w1) \<Rightarrow>
          (case gateway_execute_query (re_validate env) (re_lcase env) (re_values env)
                  (re_mysql env new_gateway) new_gateway ''SELECT 1'' w1 of
             (Inl e, w2) \<Rightarrow>
               (Some (configure_failure env w2 (err_text e)
                  (classify_configure_database_error (re_lcase env) e)), r,
                snd (co_close (re_connect env) (gw_id new_gateway) w2))
           | (Inr select_result, w2) \<Rightarrow>
             (case write_dsn env r normalized w2 of
                (Some e, w3) \<Rightarrow>
                  (Some ((configure_failure env w3 (err_text e) ConfigWriteConfig)
                     \<lparr>cfg_database_user := gr_database_user select_result,
                      cfg_database_name := gr_database_name select_result\<rparr>), r,
                   snd (co_close (re_connect env) (gw_id new_gateway) w3))
              | (None, w3) \<Rightarrow>
                (let w4 = (case rt_gateway r of
                             None \<Rightarrow> w3
                           | Some old \<Rightarrow> snd (co_close (re_connect env) (gw_id old) w3))
                 in (Some \<lparr>cfg_elapsed_ms = re_elapsed_ms env w4,
                           cfg_database_user = gr_database_user select_result,
                           cfg_database_name = gr_database_name select_result,
                           cfg_error = [], cfg_error_code = ConfigUnspecified\<rparr>,
                     r\<lparr>rt_gateway := Some new_gateway\<rparr>, w4)))))))"

section \<open>Lemmas\<close>

lemma check_privileges_Inr:
  "check_privileges u ps b = Inr b' \<longleftrightarrow>
     (\<forall>p \<in> set ps. normalize_privilege u p \<in> set allowed_privileges) \<and>
     b' = (b \<or> (\<exists>p \<in> set ps. normalize_privilege u p = ''SELECT''))"
  by (induction ps arbitrary: b) (auto simp: Let_def allowed_privileges_def)

text \<open>The privileges of a grant: the comma-separated names between "GRANT " and the first " ON ".\<close>

definition grant_privileges :: "(string \<Rightarrow> string) \<Rightarrow> string \<Rightarrow> string list option" where
  "grant_privileges u grant =
     (let n = to_upper u (trim_space grant) in
      case index_of n '' ON '' of
        Some i \<Rightarrow> if has_prefix n ''GRANT '' \<and> length ''GRANT '' \<le> i
                 then Some (map (normalize_privilege u) (split_byte (CHR '','') (slice n (length ''GRANT '') i)))
                 else None
      | None \<Rightarrow> None)"

definition read_only_grant :: "(string \<Rightarrow> string) \<Rightarrow> string \<Rightarrow> bool" where
  "read_only_grant u grant \<longleftrightarrow>
     \<not> contains (to_upper u (trim_space grant)) ''WITH GRANT OPTION'' \<and>
     (\<exists>ps. grant_privileges u grant = Some ps \<and> set ps \<subseteq> set allowed_privileges)"

lemma check_grant_Inr:
  "check_grant u g b = Some (Inr b') \<longleftrightarrow>
     read_only_grant u g \<and>
     b' = (b \<or> (\<exists>ps. grant_privileges u g = Some ps \<and> ''SELECT'' \<in> set ps))"
proof -
  have pre: "has_prefix n ''GRANT '' \<Longrightarrow> n \<noteq> []" for n by (auto simp: has_prefix_def)
  define k where "k = length ''GRANT ''"
  show ?thesis
    using pre [of "to_upper u (trim_space g)"]
    unfolding check_grant_def read_only_grant_def grant_privileges_def Let_def k_def [symmetric]
    by (auto simp: check_privileges_Inr not_less image_iff eq_commute [of "''SELECT''"]
        split: option.splits if_splits)
qed

lemma check_grants_Inr:
  "check_grants u gs b = Some (Inr b') \<longleftrightarrow>
     (\<forall>g \<in> set gs. read_only_grant u g) \<and>
     b' = (b \<or> (\<exists>g \<in> set gs. \<exists>ps. grant_privileges u g = Some ps \<and> ''SELECT'' \<in> set ps))"
proof (induction gs arbitrary: b)
  case (Cons g gs)
  note grant = check_grant_Inr [of u g b]
  show ?case
  proof (cases "read_only_grant u g")
    case True
    with grant have "check_grant u g b =
        Some (Inr (b \<or> (\<exists>ps. grant_privileges u g = Some ps \<and> ''SELECT'' \<in> set ps)))" by blast
    then show ?thesis using True by (auto simp: Cons.IH)
  next
    case False
    with grant show ?thesis by (auto split: option.splits sum.splits)
  qed
qed auto

section \<open>What the gateway does with its SQL\<close>

context sql_validator
begin

lemma execute_denied:
  assumes "validate s = Inr r" "\<not> OK r"
  shows "gateway_execute_query validate lcase env ops g s w =
           (Inl (permission_denied (Reason r) (BlockedConstructs r)), w)"
  using assms by (simp add: gateway_execute_query_def)

lemma execute_only_admissible:
  assumes "\<And>q w. admissible s q \<Longrightarrow> my_query ops q w = run q w"
  shows "gateway_execute_query validate lcase env (ops\<lparr>my_query := run\<rparr>) g s w =
         gateway_execute_query validate lcase env ops g s w"
proof (rule validate_cases [of s])
  fix r assume "validate s = Inr r" "OK r" "admissible s (RewrittenSQL r)"
  moreover from this assms have "run (RewrittenSQL r) = my_query ops (RewrittenSQL r)"
    by (simp add: fun_eq_iff)
  ultimately show ?thesis
    by (auto simp: gateway_execute_query_def split: option.splits prod.splits sum.splits)
qed (auto simp: gateway_execute_query_def)

end

section \<open>Opening and swapping\<close>

lemma collect_grants_Inr:
  "collect_grants rows acc = Inr gs \<longleftrightarrow> (\<exists>hs. rows = map Inr hs \<and> gs = acc @ hs)"
proof (induction rows acc rule: collect_grants.induct)
  case (3 g rest grants)
  then show ?case by (auto simp: Cons_eq_map_conv)
qed auto

lemma append_close_error_Inr [simp]:
  "append_close_error label ce res = Inr x \<longleftrightarrow> ce = None \<and> res = Inr x"
  by (auto simp: append_close_error_def split: option.splits sum.splits)

lemma load_grants_Inr:
  assumes "load_grants ops db w = (Inr gs, w')"
  obtains rows where "co_grants ops db w = (Inr rows, w')" "sg_rows rows = map Inr gs"
    "sg_err rows = None" "sg_close rows = None"
  using assms
  by (auto simp: load_grants_def collect_grants_Inr split: prod.splits sum.splits option.splits)

lemma validate_grants_ok:
  "validate_grants u gs = Some None \<longleftrightarrow>
     (\<forall>g \<in> set gs. read_only_grant u g) \<and>
     (\<exists>g \<in> set gs. \<exists>ps. grant_privileges u g = Some ps \<and> ''SELECT'' \<in> set ps)"
proof -
  have "validate_grants u gs = Some None \<longleftrightarrow> check_grants u gs False = Some (Inr True)"
    by (auto simp: validate_grants_def split: option.splits sum.splits if_splits)
  then show ?thesis by (simp add: check_grants_Inr)
qed

lemma validate_connection_Inr:
  assumes "validate_connection u ops db w = (Some (Inr (user, name)), w')"
  obtains w1 rows gs where "co_grants ops db w1 = (Inr rows, w')" "sg_rows rows = map Inr gs"
    "validate_grants u gs = Some None"
  using assms
  by (auto simp: validate_connection_def elim!: load_grants_Inr
      split: prod.splits sum.splits option.splits)

lemma open_gateway_Inr:
  assumes "open_gateway u codec ops raw w = (Some (Inr g), w')"
  obtains dsn w1 w2 w3 where "normalize_dsn codec raw = Inr dsn"
    "co_open ops dsn w = (Inr (gw_id g), w1)" "co_ping ops (gw_id g) w1 = (None, w2)"
    "validate_connection u ops (gw_id g) w2 = (Some (Inr (gw_database_user g, gw_database_name g)), w')"
  using assms
  by (auto simp: open_gateway_def split: prod.splits sum.splits option.splits)

lemma normalize_dsn_Inr:
  assumes "normalize_dsn codec raw = Inr dsn"
  obtains cfg where "dsn = dc_format codec cfg" "mc_parse_time cfg" "\<not> mc_multi_statements cfg"
    "mc_loc_utc cfg"
proof -
  from assms obtain c where c: "dc_parse codec (trim_space raw) = Inr c"
    by (auto simp: normalize_dsn_def split: sum.splits)
  show ?thesis
    by (rule that [of "c\<lparr>mc_parse_time := True, mc_multi_statements := False,
          mc_timeout := connect_timeout, mc_read_timeout := query_timeout,
          mc_write_timeout := connect_timeout, mc_loc_utc := True\<rparr>"])
      (use assms c in \<open>auto simp: normalize_dsn_def\<close>)
qed

text \<open>
  The pools the driver holds open, as a set of their numbers: opening adds a fresh one, closing
  removes it and no other call changes the set.
\<close>

definition tracks_pools :: "('w \<Rightarrow> nat set) \<Rightarrow> 'w runtime_env \<Rightarrow> bool" where
  "tracks_pools live env \<longleftrightarrow>
     (let co = re_connect env in
      (\<forall>dsn w. case co_open co dsn w of
          (Inl _, w') \<Rightarrow> live w' = live w
        | (Inr db, w') \<Rightarrow> db \<notin> live w \<and> live w' = insert db (live w)) \<and>
      (\<forall>db w. live (snd (co_close co db w)) = live w - {db}) \<and>
      (\<forall>db w. live (snd (co_ping co db w)) = live w) \<and>
      (\<forall>db w. live (snd (co_identity co db w)) = live w) \<and>
      (\<forall>db w. live (snd (co_grants co db w)) = live w) \<and>
      (\<forall>g w. live (snd (my_conn (re_mysql env g) w)) = live w) \<and>
      (\<forall>g w. live (snd (my_set_limit (re_mysql env g) w)) = live w) \<and>
      (\<forall>g q w. live (snd (my_query (re_mysql env g) q w)) = live w) \<and>
      (\<forall>g w. live (snd (my_close_conn (re_mysql env g) w)) = live w) \<and>
      (\<forall>p w. live (snd (fo_mkdir (re_files env) p w)) = live w) \<and>
      (\<forall>p d w. live (snd (fo_write (re_files env) p d w)) = live w))"

definition runtime_pools :: "mysql_runtime \<Rightarrow> nat set" where
  "runtime_pools r = set_option (map_option gw_id (rt_gateway r))"

lemma tracks_poolsD:
  assumes "tracks_pools live env"
  shows "co_open (re_connect env) dsn w = (Inl e, w') \<Longrightarrow> live w' = live w"
    and "co_open (re_connect env) dsn w = (Inr db, w') \<Longrightarrow> db \<notin> live w \<and> live w' = insert db (live w)"
    and "co_close (re_connect env) db w = (ce, w') \<Longrightarrow> live w' = live w - {db}"
    and "live (snd (co_close (re_connect env) db w)) = live w - {db}"
    and "co_ping (re_connect env) db w = (pe, w') \<Longrightarrow> live w' = live w"
    and "co_identity (re_connect env) db w = (ie, w') \<Longrightarrow> live w' = live w"
    and "co_grants (re_connect env) db w = (ge, w') \<Longrightarrow> live w' = live w"
    and "my_conn (re_mysql env g) w = (ne, w') \<Longrightarrow> live w' = live w"
    and "my_set_limit (re_mysql env g) w = (le, w') \<Longrightarrow> live w' = live w"
    and "my_query (re_mysql env g) q w = (qe, w') \<Longrightarrow> live w' = live w"
    and "my_close_conn (re_mysql env g) w = (cle, w') \<Longrightarrow> live w' = live w"
    and "fo_mkdir (re_files env) p w = (me, w') \<Longrightarrow> live w' = live w"
    and "fo_write (re_files env) p d w = (we, w') \<Longrightarrow> live w' = live w"
proof -
  note T = assms [unfolded tracks_pools_def Let_def]
  have opened: "case co_open (re_connect env) dsn w of
          (Inl _, w') \<Rightarrow> live w' = live w
        | (Inr db, w') \<Rightarrow> db \<notin> live w \<and> live w' = insert db (live w)"
    by (rule conjunct1 [OF T, THEN spec, THEN spec])
  show "co_open (re_connect env) dsn w = (Inl e, w') \<Longrightarrow> live w' = live w"
    and "co_open (re_connect env) dsn w = (Inr db, w') \<Longrightarrow> db \<notin> live w \<and> live w' = insert db (live w)"
    using opened by auto
qed (use assms in \<open>auto simp: tracks_pools_def Let_def dest: sndI\<close>)

lemma validate_connection_live:
  assumes "tracks_pools live env" "validate_connection u (re_connect env) db w = (res, w')"
  shows "live w' = live w"
  using assms(2) tracks_poolsD(6,7) [OF assms(1)]
  by (auto simp: validate_connection_def load_grants_def
      split: prod.splits sum.splits option.splits)

lemma open_gateway_live:
  assumes T: "tracks_pools live env"
    and run: "open_gateway u codec (re_connect env) raw w = (Some res, w')"
  shows "(case res of Inl e \<Rightarrow> live w' = live w
          | Inr g \<Rightarrow> gw_id g \<notin> live w \<and> live w' = insert (gw_id g) (live w))"
  using run tracks_poolsD(1,2,4,5) [OF T] validate_connection_live [OF T]
  by (auto simp: open_gateway_def split: prod.splits sum.splits option.splits)

lemma gateway_execute_query_live:
  assumes "tracks_pools live env"
    "gateway_execute_query v l vs (re_mysql env g) g' q w = (res, w')"
  shows "live w' = live w"
  using assms(2) tracks_poolsD(8-11) [OF assms(1)]
  by (auto simp: gateway_execute_query_def split: prod.splits sum.splits option.splits if_splits)

lemma write_dsn_live:
  assumes "tracks_pools live env" "write_dsn env r dsn w = (res, w')"
  shows "live w' = live w"
  using assms(2) tracks_poolsD(12,13) [OF assms(1)]
  by (auto simp: write_dsn_def Let_def split: prod.splits option.splits if_splits)

text \<open>What a call of \<open>ConfigureDatabase\<close> can do: keep the runtime, or install a checked gateway.\<close>

lemma configure_database_cases:
  assumes "configure_database env r dsn w = (res, r', w')"
  obtains (kept) "r' = r" "\<And>c. res = Some c \<Longrightarrow> cfg_error_code c \<noteq> ConfigUnspecified"
    | (swapped) c g n w1 w2 w3 out where "res = Some c" "cfg_error_code c = ConfigUnspecified"
      "r' = r\<lparr>rt_gateway := Some g\<rparr>" "normalize_dsn (re_codec env) (trim_space dsn) = Inr n"
      "open_gateway (re_ucase env) (re_codec env) (re_connect env) n w = (Some (Inr g), w1)"
      "gateway_execute_query (re_validate env) (re_lcase env) (re_values env) (re_mysql env g) g
         ''SELECT 1'' w1 = (Inr out, w2)"
      "write_dsn env r n w2 = (None, w3)"
      "w' = (case rt_gateway r of None \<Rightarrow> w3
             | Some old \<Rightarrow> snd (co_close (re_connect env) (gw_id old) w3))"
proof -
  have unspec: "classify_configure_database_error l e \<noteq> ConfigUnspecified" for l e
    by (simp add: classify_configure_database_error_def Let_def)
  from assms show ?thesis
    by (auto simp: configure_database_def configure_failure_def Let_def unspec
        split: if_splits sum.splits prod.splits option.splits intro: kept swapped)
qed

lemma configure_database_live:
  assumes T: "tracks_pools live env"
    and run: "configure_database env r dsn w = (Some c, r', w')"
    and live: "live w = runtime_pools r"
  shows "live w' = runtime_pools r'"
proof -
  note opened = open_gateway_live [OF T, where u = "re_ucase env" and codec = "re_codec env"]
  note facts = opened gateway_execute_query_live [OF T] write_dsn_live [OF T] tracks_poolsD(4) [OF T]
  show ?thesis
    using run live
    by (auto simp: configure_database_def Let_def runtime_pools_def facts
        split: if_splits sum.splits prod.splits option.splits
        dest!: opened gateway_execute_query_live [OF T] write_dsn_live [OF T])
qed

section \<open>Properties\<close>

text \<open>
  C15. A set of SHOW GRANTS rows passes the check exactly when every row grants nothing but USAGE,
  SELECT and SHOW VIEW and has no GRANT OPTION, and at least one row grants SELECT.
\<close>

theorem grants_accepted_iff_read_only:
  "validate_grants u gs = Some None \<longleftrightarrow>
     (\<forall>g \<in> set gs. read_only_grant u g) \<and>
     (\<exists>g \<in> set gs. \<exists>ps. grant_privileges u g = Some ps \<and> ''SELECT'' \<in> set ps)"
  by (rule validate_grants_ok)

theorem grants_accepted_iff_read_only_witness:
  "read_only_grant id ''GRANT USAGE, SELECT ON app.* TO u''"
proof -
  have "validate_grants id [''GRANT USAGE, SELECT ON app.* TO u''] = Some None" by code_simp
  then show ?thesis unfolding grants_accepted_iff_read_only by simp
qed

text \<open>
  A row that puts " ON " right after "GRANT" makes the check panic: the slice between the
  prefix and " ON " has its end before its start.
\<close>

theorem grants_check_panics:
  "validate_grants id [''GRANT ON app.* TO u''] = None"
  by code_simp

text \<open>
  A gateway that \<open>Open\<close> returns runs with multi-statements off, and SHOW GRANTS on its
  connection returned only read-only grants, one of them SELECT.
\<close>

theorem open_gateway_read_only_account:
  assumes "open_gateway u codec ops raw w = (Some (Inr g), w')"
  shows "\<exists>cfg w1 w2 rows gs.
     co_open ops (dc_format codec cfg) w = (Inr (gw_id g), w1) \<and> \<not> mc_multi_statements cfg \<and>
     co_grants ops (gw_id g) w2 = (Inr rows, w') \<and> sg_rows rows = map Inr gs \<and>
     (\<forall>h \<in> set gs. read_only_grant u h) \<and>
     (\<exists>h \<in> set gs. \<exists>ps. grant_privileges u h = Some ps \<and> ''SELECT'' \<in> set ps)"
proof -
  from assms obtain dsn w1 w2 where o: "normalize_dsn codec raw = Inr dsn"
    "co_open ops dsn w = (Inr (gw_id g), w1)"
    "validate_connection u ops (gw_id g) w2 =
       (Some (Inr (gw_database_user g, gw_database_name g)), w')"
    by (blast elim: open_gateway_Inr)
  from o(3) obtain w3 rows gs where "co_grants ops (gw_id g) w3 = (Inr rows, w')"
    "sg_rows rows = map Inr gs" "validate_grants u gs = Some None"
    by (rule validate_connection_Inr)
  moreover from o(1) obtain cfg where "dsn = dc_format codec cfg" "\<not> mc_multi_statements cfg"
    by (rule normalize_dsn_Inr)
  ultimately show ?thesis using o(2) unfolding validate_grants_ok by blast
qed

text \<open>A driver whose world is the set of open pools.\<close>

definition example_codec :: dsn_codec where
  "example_codec =
     \<lparr>dc_parse = (\<lambda>s. Inr \<lparr>mc_parse_time = False, mc_multi_statements = True, mc_timeout = 0,
        mc_read_timeout = 0, mc_write_timeout = 0, mc_loc_utc = False, mc_rest = s\<rparr>),
      dc_format = mc_rest\<rparr>"

definition example_connect :: "nat list connect_ops" where
  "example_connect =
     \<lparr>co_open = (\<lambda>_ w. (Inr (Suc (sum_list w)), Suc (sum_list w) # w)),
      co_ping = (\<lambda>_ w. (None, w)),
      co_identity = (\<lambda>_ w. (Inr (''reader@%'', Some ''app''), w)),
      co_grants = (\<lambda>_ w. (Inr \<lparr>sg_rows = [Inr ''GRANT SELECT ON app.* TO u''], sg_err = None,
         sg_close = None\<rparr>, w)),
      co_close = (\<lambda>db w. (None, removeAll db w))\<rparr>"

definition example_mysql :: "nat list mysql_ops" where
  "example_mysql =
     \<lparr>my_conn = (\<lambda>w. (None, w)), my_set_limit = (\<lambda>w. (None, w)),
      my_query = (\<lambda>_ w. (Inr \<lparr>rr_columns = Inr [''1''], rr_types = Inr [(''BIGINT'', None)],
         rr_rows = [Inr [RawInt 1]], rr_err = None, rr_close = None\<rparr>, w)),
      my_deadline_passed = (\<lambda>_. False), my_close_conn = (\<lambda>w. (None, w)),
      my_elapsed_ms = (\<lambda>_. 3)\<rparr>"

definition example_env :: "nat list runtime_env" where
  "example_env =
     \<lparr>re_validate = validate_sql example_parser id, re_ucase = id, re_lcase = id,
      re_values = \<lparr>ve_ucase = id, ve_parse_float = (\<lambda>_. None), ve_format_time = (\<lambda>_ _. [])\<rparr>,
      re_codec = example_codec, re_connect = example_connect, re_mysql = (\<lambda>_. example_mysql),
      re_files = \<lparr>fo_mkdir = (\<lambda>_ w. (None, w)), fo_write = (\<lambda>_ _ w. (None, w)),
        fo_dir = (\<lambda>_. ''/etc'')\<rparr>,
      re_elapsed_ms = (\<lambda>_. 5)\<rparr>"

definition example_gateway :: gateway where
  "example_gateway = \<lparr>gw_id = 1, gw_database_user = ''reader@%'', gw_database_name = ''app''\<rparr>"

lemma example_opens:
  "open_gateway id example_codec example_connect ''dsn'' [] = (Some (Inr example_gateway), [1])"
  by code_simp

theorem open_gateway_read_only_account_witness:
  "\<exists>cfg. co_open example_connect (dc_format example_codec cfg) [] = (Inr 1, [1]) \<and>
     \<not> mc_multi_statements cfg"
  using open_gateway_read_only_account [OF example_opens]
  by (auto simp: example_gateway_def example_connect_def)

text \<open>
  C16. The only SQL the gateway hands to the driver is the guard's rewriting of a read-only
  statement: what the driver would do with any other text never matters. A denied statement
  returns PERMISSION_DENIED with the guard's reason and touches nothing.
\<close>

theorem gateway_runs_only_guarded_sql:
  assumes "\<And>q w. guard_admissible p u s q \<Longrightarrow> my_query ops q w = run q w"
  shows "gateway_execute_query (validate_sql p u) lcase env (ops\<lparr>my_query := run\<rparr>) g s w =
         gateway_execute_query (validate_sql p u) lcase env ops g s w \<and>
         (\<forall>r. validate_sql p u s = Inr r \<longrightarrow> \<not> OK r \<longrightarrow>
            gateway_execute_query (validate_sql p u) lcase env ops g s w =
              (Inl (permission_denied (Reason r) (BlockedConstructs r)), w))"
  by (intro conjI allI impI guard.execute_only_admissible guard.execute_denied assms)

theorem gateway_runs_only_guarded_sql_witness:
  "fst (gateway_execute_query (validate_sql example_parser id) id (re_values example_env)
     (example_mysql\<lparr>my_query := \<lambda>q w. if q = ''SELECT a FROM t LIMIT 1000''
        then my_query example_mysql q w else (Inl ContextCanceled, w)\<rparr>)
     example_gateway ''SELECT a'' [1]) =
   fst (gateway_execute_query (validate_sql example_parser id) id (re_values example_env)
     example_mysql example_gateway ''SELECT a'' [1]) \<and>
   gateway_execute_query (validate_sql example_parser id) id (re_values example_env)
     example_mysql example_gateway ''SELECT a -- b'' [1] =
       (Inl (permission_denied ''SQL comments are not allowed'' [''comment'']), [1])"
proof -
  have text_of: "bounded_text (kind_of example_select) ''SELECT a FROM t'' = ''SELECT a FROM t LIMIT 1000''"
    by code_simp
  have denied: "validate_sql example_parser id ''SELECT a -- b'' =
      Inr (deny ''SQL comments are not allowed'' [''comment''])"
    by code_simp
  have adm: "q = ''SELECT a FROM t LIMIT 1000''" if "guard_admissible example_parser id s q" for s q
    using that text_of by (auto simp: guard_admissible_def example_parser_def)
  note use = gateway_runs_only_guarded_sql [where p = example_parser and u = id
      and ops = example_mysql and g = example_gateway and w = "[1]" and lcase = id
      and env = "re_values example_env"]
  have "(\<lambda>q w. if q = ''SELECT a FROM t LIMIT 1000'' then my_query example_mysql q w
           else (Inl ContextCanceled, w)) q v = my_query example_mysql q v"
    if "guard_admissible example_parser id ''SELECT a'' q" for q v
    using adm [OF that] by simp
  from conjunct1 [OF use [OF this [symmetric]]]
    conjunct2 [OF use [of "''SELECT a -- b''" "my_query example_mysql"]] denied
  show ?thesis by (simp add: deny_def)
qed

text \<open>
  C17. Reconfiguring the database replaces the gateway only after the new one is open with a
  read-only account, has answered a probe query and its DSN is on disk; every failure leaves the
  runtime as it was and reports an error code.
\<close>

theorem configure_swaps_only_when_checked:
  assumes "configure_database env r dsn w = (res, r', w')"
  shows "(r' = r \<and> (\<forall>c. res = Some c \<longrightarrow> cfg_error_code c \<noteq> ConfigUnspecified)) \<or>
         (\<exists>c g n w1 w2 w3 out.
            res = Some c \<and> cfg_error_code c = ConfigUnspecified \<and> r' = r\<lparr>rt_gateway := Some g\<rparr> \<and>
            normalize_dsn (re_codec env) (trim_space dsn) = Inr n \<and>
            open_gateway (re_ucase env) (re_codec env) (re_connect env) n w = (Some (Inr g), w1) \<and>
            gateway_execute_query (re_validate env) (re_lcase env) (re_values env)
              (re_mysql env g) g ''SELECT 1'' w1 = (Inr out, w2) \<and>
            write_dsn env r n w2 = (None, w3))"
  using assms
proof (cases rule: configure_database_cases)
  case swapped
  then show ?thesis by blast
qed blast

lemma example_configures:
  "configure_database example_env \<lparr>rt_dsn_path = ''/etc/dsn'', rt_gateway = None\<rparr> ''dsn'' [] =
     (Some \<lparr>cfg_elapsed_ms = 5, cfg_database_user = ''reader@%'', cfg_database_name = ''app'',
        cfg_error = [], cfg_error_code = ConfigUnspecified\<rparr>,
      \<lparr>rt_dsn_path = ''/etc/dsn'', rt_gateway = Some example_gateway\<rparr>, [1])"
  by code_simp

theorem configure_swaps_only_when_checked_witness:
  "\<exists>g w1. open_gateway id example_codec example_connect ''dsn'' [] = (Some (Inr g), w1)"
proof -
  have n: "normalize_dsn example_codec (trim_space ''dsn'') = Inr ''dsn''" by code_simp
  from configure_swaps_only_when_checked [OF example_configures] n show ?thesis
    by (auto simp: example_env_def)
qed

text \<open>
  No connection pool leaks: when the driver's open pools are those of the runtime, they are
  again after a reconfiguration that returns, whichever step of it failed. The gateway it
  replaced is closed, and a gateway it did not install is closed too.
\<close>

theorem configure_leaks_no_pool:
  assumes "tracks_pools live env"
    and "configure_database env r dsn w = (Some c, r', w')"
    and "live w = runtime_pools r"
  shows "live w' = runtime_pools r'"
  using assms by (rule configure_database_live)

theorem configure_leaks_no_pool_witness:
  "tracks_pools set example_env \<and> set [1::nat] = runtime_pools
     \<lparr>rt_dsn_path = ''/etc/dsn'', rt_gateway = Some example_gateway\<rparr>"
proof -
  have fresh: "Suc (sum_list w) \<notin> set w" for w :: "nat list"
    using member_le_sum_list [of _ w] by fastforce
  have "tracks_pools set example_env"
    by (auto simp: tracks_pools_def example_env_def example_connect_def example_mysql_def
        Let_def fresh)
  from this configure_leaks_no_pool [OF this example_configures] show ?thesis
    by (simp add: runtime_pools_def)
qed

end
