(* ===== verification/EdgeAgent.thy ===== *)
theory EdgeAgent
  imports EdgeMysql
begin

text \<open>
  edgeagent/controller/agent.go: the service that runs beside the customer's database. It keeps
  a command stream to the control plane open, answers each command with one result and beats in
  between. What it calls (the clock, the client, the executor, the auditor) is a record
  \<open>edge_ops\<close> of functions on a world; a component the code holds as a possibly nil interface is
  an option. The four \<open>Submit...Request\<close> structs have the fields of the control plane's result
  types and reuse them.
\<close>

section \<open>Data\<close>

record control_message =
  cm_session_id :: string
  cm_command_id :: string
  cm_issued_at :: time
  cm_kind :: string
  cm_sql :: string
  cm_dsn :: string

record query_audit_event =
  qa_completed_at :: time
  qa_session_id :: string
  qa_command_id :: string
  qa_sql :: string
  qa_database_user :: string
  qa_database_name :: string
  qa_elapsed_ms :: int
  qa_row_count :: int
  qa_error_code :: string
  qa_error_reason :: string
  qa_blocked_constructs :: "string list"

record 'w edge_ops =
  eo_now :: "'w \<Rightarrow> time \<times> 'w"
  eo_submit :: "agent_result \<Rightarrow> 'w \<Rightarrow> gerr option \<times> 'w"
  eo_open :: "string \<Rightarrow> string \<Rightarrow> string \<Rightarrow> time \<Rightarrow> 'w \<Rightarrow> gerr option \<times> 'w"
  eo_ctx_err :: "'w \<Rightarrow> gerr option"
  eo_sleep :: "duration \<Rightarrow> 'w \<Rightarrow> gerr option \<times> 'w"
  eo_int63n :: "int \<Rightarrow> 'w \<Rightarrow> int \<times> 'w"
  eo_heartbeat :: "string \<Rightarrow> time \<Rightarrow> 'w \<Rightarrow> gerr option \<times> 'w"
  eo_audit :: "(query_audit_event \<Rightarrow> 'w \<Rightarrow> gerr option \<times> 'w) option"
  eo_query :: "(string \<Rightarrow> 'w \<Rightarrow> (gerr + query_result) \<times> 'w) option"
  eo_introspect :: "('w \<Rightarrow> (gerr + schema_blob \<times> int \<times> string \<times> string) \<times> 'w) option"
  eo_configure :: "(string \<Rightarrow> 'w \<Rightarrow> (gerr + configure_result) \<times> 'w) option"

record agent_service_config =
  ac_session_id :: string
  ac_hostname :: string
  ac_agent_version :: string
  ac_started_at :: time
  ac_heartbeat_interval :: duration
  ac_reconnect_base :: duration
  ac_reconnect_max :: duration

record agent_service =
  as_session_id :: string
  as_hostname :: string
  as_agent_version :: string
  as_started_at :: time
  as_heartbeat_interval :: duration
  as_reconnect_base :: duration
  as_reconnect_max :: duration

section \<open>Construction\<close>

text \<open>The host's name, a fresh uuid and the clock are read only when the config lacks them.\<close>

definition new_agent_service ::
  "bool \<Rightarrow> gerr + string \<Rightarrow> string \<Rightarrow> time \<Rightarrow> agent_service_config \<Rightarrow> gerr + agent_service" where
  "new_agent_service has_client os_hostname fresh_id now cfg =
     (if \<not> has_client then Inl (ErrNew ''client is required'')
      else (case (if ac_hostname cfg = [] then os_hostname else Inr (ac_hostname cfg)) of
        Inl e \<Rightarrow> Inl (Wrapped ''resolve hostname'' e)
      | Inr hostname \<Rightarrow>
        (let session_id = (if ac_session_id cfg = [] then fresh_id else ac_session_id cfg);
             started_at = (if ac_started_at cfg = time_zero then now else ac_started_at cfg);
             heartbeat = (if ac_heartbeat_interval cfg \<le> 0 then seconds 10
                          else ac_heartbeat_interval cfg);
             base = (if ac_reconnect_base cfg \<le> 0 then seconds 1 else ac_reconnect_base cfg);
             rmax = (if ac_reconnect_max cfg \<le> 0 then seconds 30 else ac_reconnect_max cfg)
         in if rmax < base then Inl (ErrNew ''reconnect max must be >= reconnect base'')
            else Inr \<lparr>as_session_id = session_id, as_hostname = hostname,
                      as_agent_version = ac_agent_version cfg, as_started_at = started_at,
                      as_heartbeat_interval = heartbeat, as_reconnect_base = base,
                      as_reconnect_max = rmax\<rparr>)))"

section \<open>Commands\<close>

fun first_non_empty :: "string list \<Rightarrow> string" where
  "first_non_empty [] = []"
| "first_non_empty (v # vs) = (if v \<noteq> [] then v else first_non_empty vs)"

definition record_query_audit :: "'w edge_ops \<Rightarrow> query_audit_event \<Rightarrow> 'w \<Rightarrow> 'w" where
  "record_query_audit ops event w =
     (case eo_audit ops of None \<Rightarrow> w | Some log \<Rightarrow> snd (log event w))"

definition empty_audit :: "control_message \<Rightarrow> time \<Rightarrow> query_audit_event" where
  "empty_audit c completed_at =
     \<lparr>qa_completed_at = completed_at, qa_session_id = cm_session_id c,
      qa_command_id = cm_command_id c, qa_sql = cm_sql c, qa_database_user = [],
      qa_database_name = [], qa_elapsed_ms = 0, qa_row_count = 0, qa_error_code = [],
      qa_error_reason = [], qa_blocked_constructs = []\<rparr>"

definition empty_query_request :: "control_message \<Rightarrow> time \<Rightarrow> execute_query_result" where
  "empty_query_request c completed_at =
     \<lparr>eq_session_id = cm_session_id c, eq_command_id = cm_command_id c,
      eq_completed_at = completed_at, eq_columns = [], eq_rows = [], eq_elapsed_ms = 0,
      eq_database_user = [], eq_database_name = [], eq_error = [], eq_error_code = [],
      eq_error_reason = [], eq_blocked_constructs = []\<rparr>"

definition failed_query_request ::
  "control_message \<Rightarrow> time \<Rightarrow> time \<Rightarrow> gerr \<Rightarrow> execute_query_result" where
  "failed_query_request c started_at completed_at err =
     (let req = (empty_query_request c completed_at)
            \<lparr>eq_elapsed_ms := milliseconds (time_sub completed_at started_at),
             eq_error := err_text err\<rparr>
      in case as_query_error err of
           Some (QueryError code reason blocked inner) \<Rightarrow>
             req\<lparr>eq_error_code := code, eq_error_reason := reason, eq_blocked_constructs := blocked\<rparr>
         | _ \<Rightarrow> req)"

definition handle_execute_query :: "'w edge_ops \<Rightarrow> control_message \<Rightarrow> 'w \<Rightarrow> gerr option \<times> 'w" where
  "handle_execute_query ops c w =
    (case eo_query ops of
       None \<Rightarrow>
         (case eo_now ops w of (completed_at, w1) \<Rightarrow>
            eo_submit ops (QueryR ((empty_query_request c completed_at)
                \<lparr>eq_error := ''query executor is not configured''\<rparr>))
              (record_query_audit ops ((empty_audit c completed_at)
                 \<lparr>qa_error_reason := ''query executor is not configured''\<rparr>) w1))
     | Some execute \<Rightarrow>
       (case eo_now ops w of (started_at, w1) \<Rightarrow>
       (case execute (cm_sql c) w1 of
          (Inl err, w2) \<Rightarrow>
            (case eo_now ops w2 of (completed_at, w3) \<Rightarrow>
              (let req = failed_query_request c started_at completed_at err in
               eo_submit ops (QueryR req)
                 (record_query_audit ops ((empty_audit c (eq_completed_at req))
                    \<lparr>qa_elapsed_ms := eq_elapsed_ms req,
                     qa_error_code := code_string (eq_error_code req),
                     qa_error_reason := first_non_empty [eq_error_reason req, eq_error req],
                     qa_blocked_constructs := eq_blocked_constructs req\<rparr>) w3)))
        | (Inr result, w2) \<Rightarrow>
            (case eo_now ops w2 of (completed_at, w3) \<Rightarrow>
               eo_submit ops (QueryR ((empty_query_request c completed_at)
                   \<lparr>eq_columns := qres_columns result, eq_rows := qres_rows result,
                    eq_elapsed_ms := qres_elapsed_ms result,
                    eq_database_user := qres_database_user result,
                    eq_database_name := qres_database_name result\<rparr>))
                 (record_query_audit ops ((empty_audit c completed_at)
                    \<lparr>qa_database_user := qres_database_user result,
                     qa_database_name := qres_database_name result,
                     qa_elapsed_ms := qres_elapsed_ms result,
                     qa_row_count := int (length (qres_rows result))\<rparr>) w3)))))"

definition empty_schema_blob :: schema_blob where
  "empty_schema_blob = \<lparr>sb_database_name = [], sb_tables = [], sb_columns = [],
     sb_primary_keys = [], sb_foreign_keys = []\<rparr>"

definition empty_schema_request :: "control_message \<Rightarrow> time \<Rightarrow> introspect_schema_result" where
  "empty_schema_request c completed_at =
     \<lparr>is_session_id = cm_session_id c, is_command_id = cm_command_id c,
      is_completed_at = completed_at, is_schema = empty_schema_blob, is_elapsed_ms = 0,
      is_database_user = [], is_database_name = [], is_error = []\<rparr>"

definition handle_introspect_schema :: "'w edge_ops \<Rightarrow> control_message \<Rightarrow> 'w \<Rightarrow> gerr option \<times> 'w" where
  "handle_introspect_schema ops c w =
    (case eo_introspect ops of
       None \<Rightarrow>
         (case eo_now ops w of (completed_at, w1) \<Rightarrow>
            eo_submit ops (SchemaR ((empty_schema_request c completed_at)
              \<lparr>is_error := ''schema introspector is not configured''\<rparr>)) w1)
     | Some run \<Rightarrow>
       (case eo_now ops w of (started_at, w1) \<Rightarrow>
       (case run w1 of
          (Inl err, w2) \<Rightarrow>
            (case eo_now ops w2 of (completed_at, w3) \<Rightarrow>
            (case eo_now ops w3 of (measured_at, w4) \<Rightarrow>
               eo_submit ops (SchemaR ((empty_schema_request c completed_at)
                 \<lparr>is_elapsed_ms := milliseconds (time_sub measured_at started_at),
                  is_error := err_text err\<rparr>)) w4))
        | (Inr (schema, elapsed_ms, database_user, database_name), w2) \<Rightarrow>
            (case eo_now ops w2 of (completed_at, w3) \<Rightarrow>
               eo_submit ops (SchemaR ((empty_schema_request c completed_at)
                 \<lparr>is_schema := schema, is_elapsed_ms := elapsed_ms,
                  is_database_user := database_user, is_database_name := database_name\<rparr>)) w3))))"

definition empty_configure_request :: "control_message \<Rightarrow> time \<Rightarrow> configure_database_result" where
  "empty_configure_request c completed_at =
     \<lparr>cd_session_id = cm_session_id c, cd_command_id = cm_command_id c,
      cd_completed_at = completed_at, cd_elapsed_ms = 0, cd_database_user = [],
      cd_database_name = [], cd_error = [], cd_error_code = ConfigUnspecified\<rparr>"

definition handle_configure_database :: "'w edge_ops \<Rightarrow> control_message \<Rightarrow> 'w \<Rightarrow> gerr option \<times> 'w" where
  "handle_configure_database ops c w =
    (case eo_configure ops of
       None \<Rightarrow>
         (case eo_now ops w of (completed_at, w1) \<Rightarrow>
            eo_submit ops (ConfigR ((empty_configure_request c completed_at)
              \<lparr>cd_error := ''database configurer is not configured''\<rparr>)) w1)
     | Some configure \<Rightarrow>
       (case eo_now ops w of (started_at, w1) \<Rightarrow>
       (case configure (cm_dsn c) w1 of
          (Inl err, w2) \<Rightarrow>
            (case eo_now ops w2 of (completed_at, w3) \<Rightarrow>
            (case eo_now ops w3 of (measured_at, w4) \<Rightarrow>
               eo_submit ops (ConfigR ((empty_configure_request c completed_at)
                 \<lparr>cd_elapsed_ms := milliseconds (time_sub measured_at started_at),
                  cd_error := err_text err\<rparr>)) w4))
        | (Inr result, w2) \<Rightarrow>
            (case eo_now ops w2 of (completed_at, w3) \<Rightarrow>
               eo_submit ops (ConfigR ((empty_configure_request c completed_at)
                 \<lparr>cd_elapsed_ms := cfg_elapsed_ms result,
                  cd_database_user := cfg_database_user result,
                  cd_database_name := cfg_database_name result,
                  cd_error := cfg_error result, cd_error_code := cfg_error_code result\<rparr>)) w3))))"

definition handle_ping :: "'w edge_ops \<Rightarrow> control_message \<Rightarrow> 'w \<Rightarrow> gerr option \<times> 'w" where
  "handle_ping ops c w =
    (case (if cm_issued_at c = time_zero then eo_now ops w else (cm_issued_at c, w)) of
       (issued_at, w1) \<Rightarrow>
     (case eo_now ops w1 of (read_at, w2) \<Rightarrow>
     (case eo_now ops w2 of (completed_at, w3) \<Rightarrow>
        eo_submit ops (PingR \<lparr>pr_session_id = cm_session_id c, pr_command_id = cm_command_id c,
          pr_completed_at = completed_at,
          pr_round_trip_ms = max 0 (milliseconds (time_sub read_at issued_at))\<rparr>) w3)))"

definition handle_command :: "'w edge_ops \<Rightarrow> control_message \<Rightarrow> 'w \<Rightarrow> gerr option \<times> 'w" where
  "handle_command ops c w =
    (if cm_kind c = [] then (None, w)
     else if cm_kind c = ''ping'' then handle_ping ops c w
     else if cm_kind c = ''execute_query'' then handle_execute_query ops c w
     else if cm_kind c = ''introspect_schema'' then handle_introspect_schema ops c w
     else if cm_kind c = ''configure_database'' then handle_configure_database ops c w
     else (Some (ErrNew (''unsupported command kind '' @ go_quote (cm_kind c))), w))"

section \<open>Sessions\<close>

text \<open>
  One session runs two goroutines in an errgroup: the heartbeat loop and the receive loop. The
  scheduler's choices are a list of events; a loop that has returned ignores its events. Each
  loop cancels the session context when it returns, and the group keeps the first error. The
  first heartbeat is sent without looking at the context.
\<close>

datatype session_event =
    HeartbeatTick
  | ContextDone
  | CommandArrives control_message
  | StreamEnds "gerr option"

record session_run =
  sr_beaten :: bool
  sr_heartbeating :: bool
  sr_receiving :: bool
  sr_cancelled :: bool
  sr_err :: "gerr option"

definition group_error :: "gerr \<Rightarrow> session_run \<Rightarrow> session_run" where
  "group_error e st =
     st\<lparr>sr_cancelled := True, sr_err := (case sr_err st of None \<Rightarrow> Some e | Some e' \<Rightarrow> Some e')\<rparr>"

definition run_heartbeat_step ::
  "agent_service \<Rightarrow> 'w edge_ops \<Rightarrow> session_run \<Rightarrow> 'w \<Rightarrow> session_run \<times> 'w" where
  "run_heartbeat_step s ops st w =
     (case eo_now ops w of (sent_at, w1) \<Rightarrow>
     (case eo_heartbeat ops (as_session_id s) sent_at w1 of
        (Some e, w2) \<Rightarrow> (group_error e (st\<lparr>sr_heartbeating := False\<rparr>), w2)
      | (None, w2) \<Rightarrow> (st\<lparr>sr_beaten := True\<rparr>, w2)))"

fun session_run_step ::
  "agent_service \<Rightarrow> 'w edge_ops \<Rightarrow> session_event \<Rightarrow> session_run \<times> 'w \<Rightarrow> session_run \<times> 'w" where
  "session_run_step s ops HeartbeatTick (st, w) =
     (if sr_heartbeating st then run_heartbeat_step s ops st w else (st, w))"
| "session_run_step s ops ContextDone (st, w) =
     (if sr_heartbeating st \<and> sr_beaten st \<and> (sr_cancelled st \<or> eo_ctx_err ops w \<noteq> None)
      then (st\<lparr>sr_heartbeating := False, sr_cancelled := True\<rparr>, w) else (st, w))"
| "session_run_step s ops (CommandArrives c) (st, w) =
     (if sr_receiving st then
        (case handle_command ops c w of
           (Some e, w1) \<Rightarrow> (group_error e (st\<lparr>sr_receiving := False\<rparr>), w1)
         | (None, w1) \<Rightarrow> (st, w1))
      else (st, w))"
| "session_run_step s ops (StreamEnds stream_err) (st, w) =
     (if sr_receiving st then
        (group_error
           (case stream_err of
              Some e \<Rightarrow> e
            | None \<Rightarrow> (case eo_ctx_err ops w of
                Some e \<Rightarrow> e
              | None \<Rightarrow> ErrNew ''command stream closed''))
           (st\<lparr>sr_receiving := False\<rparr>), w)
      else (st, w))"

definition initial_run :: session_run where
  "initial_run = \<lparr>sr_beaten = False, sr_heartbeating = True, sr_receiving = True,
     sr_cancelled = False, sr_err = None\<rparr>"

text \<open>\<open>None\<close> says that the schedule ends before both loops have returned.\<close>

definition run_session ::
  "agent_service \<Rightarrow> 'w edge_ops \<Rightarrow> session_event list \<Rightarrow> 'w \<Rightarrow> (bool \<times> gerr option) option \<times> 'w" where
  "run_session s ops events w =
     (case eo_open ops (as_session_id s) (as_hostname s) (as_agent_version s) (as_started_at s) w of
        (Some e, w1) \<Rightarrow> (Some (False, Some e), w1)
      | (None, w1) \<Rightarrow>
          (case fold (session_run_step s ops) events (initial_run, w1) of (st, w2) \<Rightarrow>
             if sr_heartbeating st \<or> sr_receiving st then (None, w2)
             else (case eo_ctx_err ops w2 of
                     Some e \<Rightarrow> (Some (True, Some e), w2)
                   | None \<Rightarrow> (Some (True, sr_err st), w2))))"

section \<open>Reconnecting\<close>

definition jitter :: "'w edge_ops \<Rightarrow> duration \<Rightarrow> 'w \<Rightarrow> duration \<times> 'w" where
  "jitter ops base w =
     (if base \<le> 0 then (0, w)
      else (let window = base div 5 in
            if window \<le> 0 then (base, w)
            else (case eo_int63n ops window w of (r, w') \<Rightarrow> (wrap64 (base + r), w'))))"

definition next_backoff :: "agent_service \<Rightarrow> bool \<Rightarrow> duration \<Rightarrow> duration" where
  "next_backoff s connected backoff =
     (if \<not> connected \<and> backoff < as_reconnect_max s then
        (let doubled = wrap64 (backoff * 2) in
         if doubled > as_reconnect_max s then as_reconnect_max s else doubled)
      else backoff)"

text \<open>
  \<open>Run\<close>, one schedule per session. It gives the delays slept so far and, when \<open>Run\<close> has not
  returned by then, the backoff of the next session.
\<close>

fun agent_run ::
  "agent_service \<Rightarrow> 'w edge_ops \<Rightarrow> session_event list list \<Rightarrow> duration \<Rightarrow> 'w \<Rightarrow>
   duration list \<times> duration option \<times> 'w" where
  "agent_run s ops [] backoff w = ([], Some backoff, w)"
| "agent_run s ops (events # rest) backoff w =
     (case run_session s ops events w of
        (None, w1) \<Rightarrow> ([], Some backoff, w1)
      | (Some (connected, err), w1) \<Rightarrow>
          (if eo_ctx_err ops w1 \<noteq> None then ([], None, w1)
           else
             (let backoff1 = (if connected then as_reconnect_base s else backoff) in
              case jitter ops backoff1 w1 of (delay, w2) \<Rightarrow>
             (case eo_sleep ops delay w2 of
                (Some e, w3) \<Rightarrow> ([delay], None, w3)
              | (None, w3) \<Rightarrow>
                  (case agent_run s ops rest (next_backoff s connected backoff1) w3 of
                     (delays, final, w4) \<Rightarrow> (delay # delays, final, w4))))))"

section \<open>Lemmas\<close>

text \<open>The trace of a handler: the same operations, logging every result and audit record.\<close>

datatype edge_trace = Submitted agent_result | Audited query_audit_event

definition lift_log :: "('w \<Rightarrow> 'a \<times> 'w) \<Rightarrow> 'w \<times> 'l \<Rightarrow> 'a \<times> ('w \<times> 'l)" where
  "lift_log f wl = (case f (fst wl) of (x, w') \<Rightarrow> (x, (w', snd wl)))"

definition log_ops :: "'w edge_ops \<Rightarrow> ('w \<times> edge_trace list) edge_ops" where
  "log_ops ops =
     \<lparr>eo_now = lift_log (eo_now ops),
      eo_submit = (\<lambda>r wl. lift_log (eo_submit ops r) (fst wl, snd wl @ [Submitted r])),
      eo_open = (\<lambda>i h v t. lift_log (eo_open ops i h v t)),
      eo_ctx_err = (\<lambda>wl. eo_ctx_err ops (fst wl)),
      eo_sleep = (\<lambda>d. lift_log (eo_sleep ops d)),
      eo_int63n = (\<lambda>n. lift_log (eo_int63n ops n)),
      eo_heartbeat = (\<lambda>i t. lift_log (eo_heartbeat ops i t)),
      eo_audit = map_option (\<lambda>log a wl. lift_log (log a) (fst wl, snd wl @ [Audited a])) (eo_audit ops),
      eo_query = map_option (\<lambda>run q. lift_log (run q)) (eo_query ops),
      eo_introspect = map_option lift_log (eo_introspect ops),
      eo_configure = map_option (\<lambda>run d. lift_log (run d)) (eo_configure ops)\<rparr>"

fun result_ids :: "agent_result \<Rightarrow> string \<times> string" where
  "result_ids (PingR r) = (pr_session_id r, pr_command_id r)"
| "result_ids (QueryR r) = (eq_session_id r, eq_command_id r)"
| "result_ids (SchemaR r) = (is_session_id r, is_command_id r)"
| "result_ids (ConfigR r) = (cd_session_id r, cd_command_id r)"

fun result_kind :: "agent_result \<Rightarrow> string" where
  "result_kind (PingR r) = ''ping''"
| "result_kind (QueryR r) = ''execute_query''"
| "result_kind (SchemaR r) = ''introspect_schema''"
| "result_kind (ConfigR r) = ''configure_database''"

definition edge_kinds :: "string list" where
  "edge_kinds = [''ping'', ''execute_query'', ''introspect_schema'', ''configure_database'']"

lemma lift_log_simp [simp]: "lift_log f (w, l) = (case f w of (x, w') \<Rightarrow> (x, (w', l)))"
  by (simp add: lift_log_def)

text \<open>What one command leaves in the trace.\<close>

definition answers :: "'w edge_ops \<Rightarrow> control_message \<Rightarrow> edge_trace list \<Rightarrow> bool" where
  "answers ops c tr \<longleftrightarrow>
     (\<exists>r. result_ids r = (cm_session_id c, cm_command_id c) \<and> result_kind r = cm_kind c \<and>
        (if cm_kind c = ''execute_query'' \<and> eo_audit ops \<noteq> None
         then \<exists>a. tr = [Audited a, Submitted r] \<and> qa_sql a = cm_sql c \<and>
                 (qa_session_id a, qa_command_id a) = (cm_session_id c, cm_command_id c)
         else tr = [Submitted r]))"

lemma failed_query_request_ids [simp]:
  "eq_session_id (failed_query_request c s t e) = cm_session_id c"
  "eq_command_id (failed_query_request c s t e) = cm_command_id c"
  by (auto simp: failed_query_request_def empty_query_request_def Let_def
      split: option.splits gerr.splits)

lemma handle_ping_answers:
  assumes "handle_ping (log_ops ops) c (w, l) = (e, (w', l'))" "cm_kind c = ''ping''"
  shows "\<exists>tr. l' = l @ tr \<and> answers ops c tr"
  using assms by (auto simp: handle_ping_def log_ops_def answers_def split: prod.splits if_splits)

lemma handle_execute_query_answers:
  assumes "handle_execute_query (log_ops ops) c (w, l) = (e, (w', l'))" "cm_kind c = ''execute_query''"
  shows "\<exists>tr. l' = l @ tr \<and> answers ops c tr"
  using assms
  by (auto simp: handle_execute_query_def log_ops_def answers_def record_query_audit_def Let_def
      empty_audit_def empty_query_request_def split: prod.splits option.splits sum.splits)

lemma handle_introspect_schema_answers:
  assumes "handle_introspect_schema (log_ops ops) c (w, l) = (e, (w', l'))"
    "cm_kind c = ''introspect_schema''"
  shows "\<exists>tr. l' = l @ tr \<and> answers ops c tr"
  using assms
  by (auto simp: handle_introspect_schema_def log_ops_def answers_def empty_schema_request_def
      split: prod.splits option.splits sum.splits)

lemma handle_configure_database_answers:
  assumes "handle_configure_database (log_ops ops) c (w, l) = (e, (w', l'))"
    "cm_kind c = ''configure_database''"
  shows "\<exists>tr. l' = l @ tr \<and> answers ops c tr"
  using assms
  by (auto simp: handle_configure_database_def log_ops_def answers_def empty_configure_request_def
      split: prod.splits option.splits sum.splits)

lemma handle_command_answers:
  assumes "handle_command (log_ops ops) c (w, l) = (e, (w', l'))" "cm_kind c \<in> set edge_kinds"
  shows "\<exists>tr. l' = l @ tr \<and> answers ops c tr"
  using assms handle_ping_answers handle_execute_query_answers handle_introspect_schema_answers
    handle_configure_database_answers
  by (simp add: handle_command_def edge_kinds_def split: if_splits)

lemma handle_command_other:
  assumes "cm_kind c \<notin> set edge_kinds"
  shows "snd (handle_command ops c w) = w"
    and "fst (handle_command ops c w) = None \<longleftrightarrow> cm_kind c = []"
  using assms by (auto simp: handle_command_def edge_kinds_def)

fun arrivals :: "session_event list \<Rightarrow> control_message list" where
  "arrivals [] = []"
| "arrivals (CommandArrives c # evs) = (if cm_kind c = [] then [] else [c]) @ arrivals evs"
| "arrivals (_ # evs) = arrivals evs"

lemma run_heartbeat_step_log:
  "run_heartbeat_step s (log_ops ops) st (w, l) = (st', (w', l')) \<Longrightarrow>
     l' = l \<and> sr_receiving st' = sr_receiving st"
  by (auto simp: run_heartbeat_step_def log_ops_def group_error_def split: prod.splits option.splits)

lemma session_step_quiet:
  assumes "session_run_step s (log_ops ops) ev (st, (w, l)) = (st', (w', l'))"
    and "\<not> sr_receiving st \<or> (\<forall>c. ev \<noteq> CommandArrives c)"
  shows "l' = l \<and> (\<not> sr_receiving st \<longrightarrow> \<not> sr_receiving st')"
  using assms
  by (cases ev) (auto simp: group_error_def split: if_splits dest: run_heartbeat_step_log)

lemma session_stopped_quiet:
  "fold (session_run_step s (log_ops ops)) evs (st, (w, l)) = (st', (w', l')) \<Longrightarrow> \<not> sr_receiving st \<Longrightarrow>
     l' = l \<and> \<not> sr_receiving st'"
proof (induction evs arbitrary: st w l)
  case (Cons ev evs)
  obtain st1 w1 l1 where step: "session_run_step s (log_ops ops) ev (st, (w, l)) = (st1, (w1, l1))"
    by (metis surj_pair)
  from session_step_quiet [OF step] Cons.prems(2) have "l1 = l" "\<not> sr_receiving st1" by auto
  with Cons.IH [of st1 w1 l1] Cons.prems(1) step show ?case by simp
qed simp

text \<open>The results of a session answer a prefix of its commands, one each and in order.\<close>

definition answers_prefix :: "'w edge_ops \<Rightarrow> control_message list \<Rightarrow> bool \<Rightarrow> edge_trace list \<Rightarrow> bool" where
  "answers_prefix ops cs complete tr \<longleftrightarrow>
     (\<exists>hs rest trs. cs = hs @ rest \<and> (complete \<longrightarrow> rest = []) \<and>
        list_all2 (answers ops) hs trs \<and> tr = concat trs)"

lemma answers_prefix_Nil: "(b \<longrightarrow> cs = []) \<Longrightarrow> answers_prefix ops cs b []"
  unfolding answers_prefix_def by (rule exI [of _ "[]"]) (auto intro: exI [of _ "[]"])

lemma answers_prefix_Cons:
  assumes "answers ops c tr" "answers_prefix ops cs b trs"
  shows "answers_prefix ops (c # cs) b (tr @ trs)"
proof -
  from assms(2) obtain hs rest ts where "cs = hs @ rest" "b \<longrightarrow> rest = []"
    "list_all2 (answers ops) hs ts" "trs = concat ts"
    unfolding answers_prefix_def by blast
  with assms(1) show ?thesis
    unfolding answers_prefix_def
    by (intro exI [of _ "c # hs"] exI [of _ rest] exI [of _ "tr # ts"]) simp
qed

lemma session_command_step:
  assumes "session_run_step s (log_ops ops) (CommandArrives c) (st, (w, l)) = (st', (w', l'))"
    and "sr_receiving st"
  obtains (ack) "l' = l" "st' = st" "cm_kind c = []"
    | (refused) "l' = l" "\<not> sr_receiving st'" "cm_kind c \<noteq> []"
    | (answered) tr where "l' = l @ tr" "answers ops c tr" "cm_kind c \<noteq> []"
proof -
  obtain e w1 l1 where run: "handle_command (log_ops ops) c (w, l) = (e, (w1, l1))"
    by (metis surj_pair)
  from assms run have st: "st' = (case e of None \<Rightarrow> st | Some e \<Rightarrow> group_error e (st\<lparr>sr_receiving := False\<rparr>))"
    and l: "l' = l1" by (auto split: option.splits)
  show ?thesis
  proof (cases "cm_kind c \<in> set edge_kinds")
    case True
    from handle_command_answers [OF run True] l True show ?thesis
      by (auto simp: edge_kinds_def intro: answered)
  next
    case False
    from handle_command_other [OF False, of "log_ops ops" "(w, l)"] run st l show ?thesis
      by (cases e) (auto simp: group_error_def intro: ack refused)
  qed
qed

lemma session_answers:
  "fold (session_run_step s (log_ops ops)) evs (st, (w, l)) = (st', (w', l')) \<Longrightarrow> sr_receiving st \<Longrightarrow>
     \<exists>tr. l' = l @ tr \<and> answers_prefix ops (arrivals evs) (sr_receiving st') tr"
proof (induction evs arbitrary: st w l)
  case Nil
  then show ?case by (auto intro: answers_prefix_Nil)
next
  case (Cons ev evs)
  obtain st1 w1 l1 where step: "session_run_step s (log_ops ops) ev (st, (w, l)) = (st1, (w1, l1))"
    by (metis surj_pair)
  from Cons.prems(1) step have rest: "fold (session_run_step s (log_ops ops)) evs (st1, (w1, l1)) = (st', (w', l'))"
    by simp
  show ?case
  proof (cases "\<exists>c. ev = CommandArrives c")
    case False
    with session_step_quiet [OF step] have l1: "l1 = l" by auto
    have arr: "arrivals (ev # evs) = arrivals evs" using False by (cases ev) auto
    show ?thesis
    proof (cases "sr_receiving st1")
      case True
      with Cons.IH [OF rest] l1 arr show ?thesis by simp
    next
      case nr: False
      with session_stopped_quiet [OF rest] l1 show ?thesis by (auto intro: answers_prefix_Nil)
    qed
  next
    case True
    then obtain c where ev: "ev = CommandArrives c" by blast
    from step [unfolded ev] Cons.prems(2) show ?thesis
    proof (cases rule: session_command_step)
      case ack
      with Cons.IH [OF rest] Cons.prems(2) ev show ?thesis by simp
    next
      case refused
      with session_stopped_quiet [OF rest] show ?thesis by (auto intro: answers_prefix_Nil)
    next
      case (answered tr)
      have "\<exists>tr'. l' = l1 @ tr' \<and> answers_prefix ops (arrivals evs) (sr_receiving st') tr'"
        using Cons.IH [OF rest] session_stopped_quiet [OF rest]
        by (cases "sr_receiving st1") (auto intro: answers_prefix_Nil)
      with answered ev show ?thesis by (auto intro: answers_prefix_Cons)
    qed
  qed
qed

section \<open>Backoff\<close>

definition sane_backoff :: "agent_service \<Rightarrow> bool" where
  "sane_backoff s \<longleftrightarrow>
     0 < as_reconnect_base s \<and> as_reconnect_base s \<le> as_reconnect_max s \<and> as_reconnect_max s \<le> 2 ^ 62"

lemma next_backoff_failed:
  assumes "sane_backoff s" "0 < b" "b \<le> as_reconnect_max s"
  shows "next_backoff s False b = min (2 * b) (as_reconnect_max s)"
proof (cases "b < as_reconnect_max s")
  case True
  with assms have "wrap64 (b * 2) = b * 2" by (intro wrap64_id) (auto simp: sane_backoff_def)
  with True show ?thesis by (simp add: next_backoff_def Let_def mult.commute)
next
  case False
  with assms show ?thesis by (simp add: next_backoff_def)
qed

lemma next_backoff_range:
  assumes "sane_backoff s" "as_reconnect_base s \<le> b" "b \<le> as_reconnect_max s"
  shows "as_reconnect_base s \<le> next_backoff s c b \<and> next_backoff s c b \<le> as_reconnect_max s"
proof (cases c)
  case True
  with assms show ?thesis by (simp add: next_backoff_def)
next
  case False
  with assms show ?thesis by (auto simp: next_backoff_failed sane_backoff_def)
qed

lemma jitter_range:
  assumes "sane_backoff s" "0 < b" "b \<le> as_reconnect_max s"
    and "\<And>n w. 0 < n \<Longrightarrow> 0 \<le> fst (eo_int63n ops n w) \<and> fst (eo_int63n ops n w) < n"
    and run: "jitter ops b w = (d, w')"
  shows "b \<le> d \<and> d \<le> b + b div 5"
proof (cases "b div 5 \<le> 0")
  case True
  with assms show ?thesis by (auto simp: jitter_def)
next
  case False
  obtain r w1 where r: "eo_int63n ops (b div 5) w = (r, w1)" by (metis surj_pair)
  with assms(4) [of "b div 5" w] False have range: "0 \<le> r" "r < b div 5" by auto
  moreover have "b div 5 \<le> b" using assms(2) by simp
  ultimately have "wrap64 (b + r) = b + r"
    using assms(1-3) by (intro wrap64_id) (auto simp: sane_backoff_def)
  with run r False range assms(2) show ?thesis by (auto simp: jitter_def)
qed

lemma agent_run_delays:
  assumes s: "sane_backoff s"
    and rand: "\<And>n w. 0 < n \<Longrightarrow> 0 \<le> fst (eo_int63n ops n w) \<and> fst (eo_int63n ops n w) < n"
  shows "agent_run s ops scheds b w = (ds, final, w') \<Longrightarrow>
     as_reconnect_base s \<le> b \<Longrightarrow> b \<le> as_reconnect_max s \<Longrightarrow>
     (\<forall>d \<in> set ds. as_reconnect_base s \<le> d \<and> d \<le> as_reconnect_max s + as_reconnect_max s div 5) \<and>
     (\<forall>b'. final = Some b' \<longrightarrow> as_reconnect_base s \<le> b' \<and> b' \<le> as_reconnect_max s)"
proof (induction scheds arbitrary: b w ds final w')
  case (Cons evs scheds)
  obtain res w1 where sess: "run_session s ops evs w = (res, w1)" by (metis surj_pair)
  show ?case
  proof (cases res)
    case None
    with sess Cons.prems show ?thesis by auto
  next
    case (Some ce)
    obtain c e where ce: "ce = (c, e)" by (metis surj_pair)
    define b1 where "b1 = (if c then as_reconnect_base s else b)"
    have b1: "as_reconnect_base s \<le> b1" "b1 \<le> as_reconnect_max s" "0 < b1"
      using Cons.prems s by (auto simp: b1_def sane_backoff_def)
    obtain d w2 where j: "jitter ops b1 w1 = (d, w2)" by (metis surj_pair)
    obtain se w3 where sl: "eo_sleep ops d w2 = (se, w3)" by (metis surj_pair)
    obtain ds' f' w4 where rec: "agent_run s ops scheds (next_backoff s c b1) w3 = (ds', f', w4)"
      by (metis surj_pair)
    have d: "as_reconnect_base s \<le> d" "d \<le> as_reconnect_max s + as_reconnect_max s div 5"
      using jitter_range [OF s b1(3,2) rand j] b1 zdiv_mono1 [of b1 "as_reconnect_max s" 5] by auto
    have ih: "(\<forall>d \<in> set ds'. as_reconnect_base s \<le> d \<and> d \<le> as_reconnect_max s + as_reconnect_max s div 5) \<and>
        (\<forall>b'. f' = Some b' \<longrightarrow> as_reconnect_base s \<le> b' \<and> b' \<le> as_reconnect_max s)"
      using Cons.IH [OF rec] next_backoff_range [OF s b1(1,2), of c] by auto
    show ?thesis
      using Cons.prems(1) sess Some ce j sl rec ih d
      by (auto simp: b1_def [symmetric] Let_def split: if_splits option.splits)
  qed
qed auto

lemma next_backoff_doubles:
  assumes "sane_backoff s"
  shows "(next_backoff s False ^^ k) (as_reconnect_base s) =
           min (as_reconnect_base s * 2 ^ k) (as_reconnect_max s)"
proof (induction k)
  case 0
  with assms show ?case by (simp add: sane_backoff_def)
next
  case (Suc k)
  let ?b = "min (as_reconnect_base s * 2 ^ k) (as_reconnect_max s)"
  have "0 < ?b" "?b \<le> as_reconnect_max s" using assms by (auto simp: sane_backoff_def)
  with assms have "next_backoff s False ?b = min (2 * ?b) (as_reconnect_max s)"
    by (rule next_backoff_failed)
  with Suc assms show ?case by (auto simp: sane_backoff_def min_def)
qed

lemma new_agent_service_sane:
  assumes run: "new_agent_service hc host fresh now cfg = Inr s" and bound: "ac_reconnect_max cfg \<le> 2 ^ 62"
  shows "sane_backoff s"
proof -
  define base where "base = (if ac_reconnect_base cfg \<le> 0 then seconds 1 else ac_reconnect_base cfg)"
  define rmax where "rmax = (if ac_reconnect_max cfg \<le> 0 then seconds 30 else ac_reconnect_max cfg)"
  have "0 < base" "rmax \<le> 2 ^ 62" using bound by (auto simp: base_def rmax_def seconds_def nanosecond_per_second_def)
  moreover have "base \<le> rmax" "as_reconnect_base s = base" "as_reconnect_max s = rmax"
    using run unfolding new_agent_service_def Let_def base_def [symmetric] rmax_def [symmetric]
    by (auto simp: not_less split: sum.split_asm if_split_asm)
  ultimately show ?thesis by (simp add: sane_backoff_def)
qed

section \<open>Properties\<close>

definition example_edge :: "unit edge_ops" where
  "example_edge =
     \<lparr>eo_now = (\<lambda>w. (7000000, w)), eo_submit = (\<lambda>_ w. (None, w)),
      eo_open = (\<lambda>_ _ _ _ w. (None, w)), eo_ctx_err = (\<lambda>_. None), eo_sleep = (\<lambda>_ w. (None, w)),
      eo_int63n = (\<lambda>n w. (n div 2, w)), eo_heartbeat = (\<lambda>_ _ w. (None, w)),
      eo_audit = Some (\<lambda>_ w. (None, w)),
      eo_query = Some (\<lambda>_ w. (Inl (permission_denied ''no'' [''comment'']), w)),
      eo_introspect = None, eo_configure = None\<rparr>"

definition example_message :: "string \<Rightarrow> control_message" where
  "example_message kind =
     \<lparr>cm_session_id = ''s1'', cm_command_id = ''c1'', cm_issued_at = 2000000, cm_kind = kind,
      cm_sql = ''DROP TABLE t'', cm_dsn = []\<rparr>"

definition example_service :: agent_service where
  "example_service =
     \<lparr>as_session_id = ''s1'', as_hostname = ''h'', as_agent_version = ''1'', as_started_at = 1,
      as_heartbeat_interval = seconds 10, as_reconnect_base = seconds 1, as_reconnect_max = seconds 30\<rparr>"

text \<open>
  C18. Whatever the scheduler does, the results an agent session submits answer its commands one
  each, in the order of arrival, under the ids of the command and with a result of its kind; a
  query is written to the local audit log before its result is sent. While the receive loop
  runs, no command is left unanswered.
\<close>

theorem session_answers_every_command:
  assumes "fold (session_run_step s (log_ops ops)) evs (initial_run, (w, [])) = (st, (w', trace))"
  shows "answers_prefix ops (arrivals evs) (sr_receiving st) trace"
  using session_answers [OF assms] by (simp add: initial_run_def)

theorem session_answers_every_command_witness:
  "answers_prefix example_edge
     [example_message ''ping'', example_message ''execute_query''] True
     [Submitted (PingR \<lparr>pr_session_id = ''s1'', pr_command_id = ''c1'', pr_completed_at = 7000000,
        pr_round_trip_ms = 5\<rparr>),
      Audited \<lparr>qa_completed_at = 7000000, qa_session_id = ''s1'', qa_command_id = ''c1'',
        qa_sql = ''DROP TABLE t'', qa_database_user = [], qa_database_name = [], qa_elapsed_ms = 0,
        qa_row_count = 0, qa_error_code = ''PERMISSION_DENIED'', qa_error_reason = ''no'',
        qa_blocked_constructs = [''comment'']\<rparr>,
      Submitted (QueryR \<lparr>eq_session_id = ''s1'', eq_command_id = ''c1'', eq_completed_at = 7000000,
        eq_columns = [], eq_rows = [], eq_elapsed_ms = 0, eq_database_user = [],
        eq_database_name = [], eq_error = ''no'', eq_error_code = ''PERMISSION_DENIED'',
        eq_error_reason = ''no'', eq_blocked_constructs = [''comment'']\<rparr>)]"
  using session_answers_every_command [of example_service example_edge
      "[HeartbeatTick, CommandArrives (example_message ''ping''), HeartbeatTick,
        CommandArrives (example_message ''execute_query'')]" "()"]
  by (simp add: example_edge_def example_message_def log_ops_def initial_run_def
      run_heartbeat_step_def handle_command_def handle_ping_def handle_execute_query_def
      record_query_audit_def empty_audit_def empty_query_request_def failed_query_request_def
      permission_denied_def as_query_error_def milliseconds_def time_sub_def duration_max_def
      duration_min_def code_string_def code_permission_denied_def Let_def)

text \<open>
  SQL that the guard denies never reaches the database: the agent answers the command with
  the code PERMISSION_DENIED and the guard's reason and blocked constructs, after auditing the
  text under the same code, and the database's world is untouched.
\<close>

theorem denied_sql_is_reported:
  assumes "eo_query ops = Some (runtime_execute_query env r)" "re_validate env = validate_sql p u"
    and "rt_gateway r = Some g" "validate_sql p u (cm_sql c) = Inr d" "\<not> OK d"
    and "eo_audit ops = Some log" "eo_now ops = (\<lambda>w. (now, w))"
    and "\<And>a w. snd (log a w) = w" "\<And>res w. eo_submit ops res w = (None, w)"
  shows "\<exists>a q. handle_execute_query (log_ops ops) c (w, tr) =
           (None, (w, tr @ [Audited a, Submitted (QueryR q)])) \<and>
         eq_error_code q = ''PERMISSION_DENIED'' \<and> qa_error_code a = ''PERMISSION_DENIED'' \<and>
         eq_error_reason q = Reason d \<and> eq_blocked_constructs q = BlockedConstructs d \<and>
         eq_rows q = [] \<and> qa_sql a = cm_sql c"
proof -
  have run: "runtime_execute_query env r (cm_sql c) v =
      (Inl (permission_denied (Reason d) (BlockedConstructs d)), v)" for v
    using assms(2,3) by (simp add: runtime_execute_query_def guard.execute_denied [OF assms(4,5)])
  have "\<exists>y. log a w = (y, w)" for a w using assms(8) [of a w] by (metis prod.collapse)
  then obtain y where y: "\<And>a w. log a w = (y a w, w)" by metis
  show ?thesis
    using assms(1,6,7,9) run y
    by (simp add: handle_execute_query_def log_ops_def record_query_audit_def Let_def
        failed_query_request_def empty_query_request_def empty_audit_def permission_denied_def
        as_query_error_def code_string_def code_permission_denied_def)
qed

text \<open>
  The delay before every reconnection of the agent lies between the base and the maximum plus
  a fifth of it, for every outcome of its sessions and every schedule of their loops, and the
  backoff itself never exceeds the maximum; maxima up to 2^62 ns do not overflow.
\<close>

theorem reconnect_delays_bounded:
  assumes "new_agent_service hc host fresh now cfg = Inr s" "ac_reconnect_max cfg \<le> 2 ^ 62"
    and "\<And>n w. 0 < n \<Longrightarrow> 0 \<le> fst (eo_int63n ops n w) \<and> fst (eo_int63n ops n w) < n"
    and "agent_run s ops scheds (as_reconnect_base s) w = (delays, final, w')"
  shows "(\<forall>d \<in> set delays. as_reconnect_base s \<le> d \<and>
             d \<le> as_reconnect_max s + as_reconnect_max s div 5) \<and>
         (\<forall>b. final = Some b \<longrightarrow> as_reconnect_base s \<le> b \<and> b \<le> as_reconnect_max s)"
proof -
  have s: "sane_backoff s" using assms(1,2) by (rule new_agent_service_sane)
  then have "as_reconnect_base s \<le> as_reconnect_max s" by (simp add: sane_backoff_def)
  from agent_run_delays [OF s assms(3,4) order_refl this] show ?thesis .
qed

text \<open>
  After k failed attempts in a row the backoff is the base doubled k times, capped at the
  maximum.
\<close>

theorem reconnect_backoff_doubles:
  assumes "new_agent_service hc host fresh now cfg = Inr s" "ac_reconnect_max cfg \<le> 2 ^ 62"
  shows "(next_backoff s False ^^ k) (as_reconnect_base s) =
           min (as_reconnect_base s * 2 ^ k) (as_reconnect_max s)"
  using new_agent_service_sane [OF assms] by (rule next_backoff_doubles)

definition example_config :: agent_service_config where
  "example_config =
     \<lparr>ac_session_id = ''s1'', ac_hostname = ''h'', ac_agent_version = ''1'', ac_started_at = 1,
      ac_heartbeat_interval = 0, ac_reconnect_base = 0, ac_reconnect_max = 0\<rparr>"

lemma example_config_service:
  "new_agent_service True (Inr ''h'') ''id'' 0 example_config = Inr example_service"
  by (simp add: new_agent_service_def example_config_def example_service_def Let_def seconds_def
      nanosecond_per_second_def)

theorem reconnect_delays_bounded_witness:
  "list_all (\<lambda>d. seconds 1 \<le> d) (fst (agent_run example_service
     (example_edge\<lparr>eo_open := \<lambda>_ _ _ _ w. (Some ContextCanceled, w)\<rparr>) [[], []] (seconds 1) ()))"
proof -
  let ?ops = "example_edge\<lparr>eo_open := \<lambda>_ _ _ _ w. (Some ContextCanceled, w)\<rparr>"
  have rand: "0 \<le> fst (eo_int63n ?ops n w) \<and> fst (eo_int63n ?ops n w) < n" if "0 < n" for n w
    using that by (simp add: example_edge_def)
  obtain ds f w where run: "agent_run example_service ?ops [[], []] (as_reconnect_base example_service) () =
      (ds, f, w)" by (metis surj_pair)
  from reconnect_delays_bounded [OF example_config_service _ rand run] run show ?thesis
    by (simp add: example_config_def example_service_def list_all_iff)
qed

theorem reconnect_backoff_doubles_witness:
  "(next_backoff example_service False ^^ 3) (seconds 1) = seconds 8"
  using reconnect_backoff_doubles [OF example_config_service, of 3]
  by (simp add: example_config_def example_service_def seconds_def nanosecond_per_second_def)

definition example_denying_env :: "unit runtime_env" where
  "example_denying_env =
     \<lparr>re_validate = validate_sql example_parser id, re_ucase = id, re_lcase = id,
      re_values = re_values example_env, re_codec = example_codec,
      re_connect = \<lparr>co_open = (\<lambda>_ w. (Inr 1, w)), co_ping = (\<lambda>_ w. (None, w)),
        co_identity = (\<lambda>_ w. (Inl ContextCanceled, w)), co_grants = (\<lambda>_ w. (Inl ContextCanceled, w)),
        co_close = (\<lambda>_ w. (None, w))\<rparr>,
      re_mysql = (\<lambda>_. \<lparr>my_conn = (\<lambda>w. (None, w)), my_set_limit = (\<lambda>w. (None, w)),
        my_query = (\<lambda>_ w. (Inl ContextCanceled, w)), my_deadline_passed = (\<lambda>_. False),
        my_close_conn = (\<lambda>w. (None, w)), my_elapsed_ms = (\<lambda>_. 0)\<rparr>),
      re_files = \<lparr>fo_mkdir = (\<lambda>_ w. (None, w)), fo_write = (\<lambda>_ _ w. (None, w)), fo_dir = id\<rparr>,
      re_elapsed_ms = (\<lambda>_. 0)\<rparr>"

definition example_denying_edge :: "unit edge_ops" where
  "example_denying_edge = example_edge\<lparr>eo_query := Some (runtime_execute_query example_denying_env
     \<lparr>rt_dsn_path = [], rt_gateway = Some example_gateway\<rparr>)\<rparr>"

theorem denied_sql_is_reported_witness:
  "\<exists>a q. handle_execute_query (log_ops example_denying_edge)
       ((example_message ''execute_query'')\<lparr>cm_sql := ''SELECT a -- b''\<rparr>) ((), []) =
     (None, ((), [Audited a, Submitted (QueryR q)])) \<and> eq_error_code q = ''PERMISSION_DENIED''"
proof -
  let ?c = "(example_message ''execute_query'')\<lparr>cm_sql := ''SELECT a -- b''\<rparr>"
  have denied: "validate_sql example_parser id (cm_sql ?c) =
      Inr (deny ''SQL comments are not allowed'' [''comment''])"
    by code_simp
  have v: "re_validate example_denying_env = validate_sql example_parser id"
    by (simp add: example_denying_env_def)
  have ops: "eo_query example_denying_edge = Some (runtime_execute_query example_denying_env
      \<lparr>rt_dsn_path = [], rt_gateway = Some example_gateway\<rparr>)"
    "eo_audit example_denying_edge = Some (\<lambda>_ w. (None, w))"
    "eo_now example_denying_edge = (\<lambda>w. (7000000, w))"
    "eo_submit example_denying_edge res w = (None, w)" for res w
    by (simp_all add: example_denying_edge_def example_edge_def)
  have "\<exists>a q. handle_execute_query (log_ops example_denying_edge) ?c ((), []) =
           (None, ((), [] @ [Audited a, Submitted (QueryR q)])) \<and>
         eq_error_code q = ''PERMISSION_DENIED'' \<and> qa_error_code a = ''PERMISSION_DENIED'' \<and>
         eq_error_reason q = Reason (deny ''SQL comments are not allowed'' [''comment'']) \<and>
         eq_blocked_constructs q = BlockedConstructs (deny ''SQL comments are not allowed'' [''comment'']) \<and>
         eq_rows q = [] \<and> qa_sql a = cm_sql ?c"
    by (rule denied_sql_is_reported [OF ops(1) v _ denied _ ops(2,3) _ ops(4)])
      (simp_all add: deny_def)
  then show ?thesis by auto
qed

end
