(* ===== verification/AgentWire.thy ===== *)
theory AgentWire
  imports AgentProtocol EdgeAgent Tenancy
begin

text \<open>
  Both ends of the agent protocol: edgeagent/gateway/controlplane/client.go, which turns the
  agent's requests into protobuf messages, and handler/agent.go, which reads them and calls the
  session manager. The generated message types are records and datatypes with their fields; a
  timestamp of a message is an optional instant. \<open>structpb\<close> is third-party: \<open>struct_codec\<close>
  holds \<open>NewValue\<close> and \<open>AsInterface\<close>. The iteration order of a row's map is the argument \<open>order\<close>.
\<close>

section \<open>Messages\<close>

datatype command_payload =
    PingCommand
  | ExecuteQueryCommand string
  | IntrospectSchemaCommand
  | ConfigureDatabaseCommand string

record command_proto =
  cp_session_id :: string
  cp_command_id :: string
  cp_issued_at :: "time option"
  cp_payload :: "command_payload option"

datatype query_code_proto = QueryCodeUnspecified | QueryCodePermissionDenied | QueryCodeInternal

datatype configure_code_proto =
    ConfigureCodeUnspecified | ConfigureCodeInvalidDSN | ConfigureCodeConnectFailed
  | ConfigureCodeAuthFailed | ConfigureCodePrivilegeInvalid | ConfigureCodeWriteConfigFailed
  | ConfigureCodeTimeout

record 'v query_result_proto =
  qp_columns :: "string list"
  qp_rows :: "(string \<rightharpoonup> 'v) list"
  qp_elapsed_ms :: int
  qp_database_user :: string
  qp_database_name :: string
  qp_error :: string
  qp_error_code :: query_code_proto
  qp_error_reason :: string
  qp_blocked_constructs :: "string list"

datatype table_proto = TableProto string string string string
datatype column_proto = ColumnProto string string string int string string bool bool string string
datatype primary_key_proto = PrimaryKeyProto string string string string int
datatype foreign_key_proto = ForeignKeyProto string string string string int string string string

record schema_proto =
  sp_database_name :: string
  sp_tables :: "table_proto list"
  sp_columns :: "column_proto list"
  sp_primary_keys :: "primary_key_proto list"
  sp_foreign_keys :: "foreign_key_proto list"

record schema_result_proto =
  srp_schema :: "schema_proto option"
  srp_elapsed_ms :: int
  srp_database_user :: string
  srp_database_name :: string
  srp_error :: string

record configure_result_proto =
  crp_elapsed_ms :: int
  crp_database_user :: string
  crp_database_name :: string
  crp_error :: string
  crp_error_code :: configure_code_proto

datatype 'v result_payload =
    PingPayload int
  | QueryPayload "'v query_result_proto"
  | SchemaPayload schema_result_proto
  | ConfigurePayload configure_result_proto

record 'v submit_request =
  sq_session_id :: string
  sq_command_id :: string
  sq_completed_at :: "time option"
  sq_result :: "'v result_payload option"

record 'v struct_codec =
  new_value :: "go_any \<Rightarrow> gerr + 'v"
  as_interface :: "'v \<Rightarrow> go_any"

section \<open>client.go: the agent's side\<close>

definition command_kind_of :: "command_proto \<Rightarrow> string" where
  "command_kind_of msg = (case cp_payload msg of
     Some PingCommand \<Rightarrow> ''ping''
   | Some (ExecuteQueryCommand _) \<Rightarrow> ''execute_query''
   | Some IntrospectSchemaCommand \<Rightarrow> ''introspect_schema''
   | Some (ConfigureDatabaseCommand _) \<Rightarrow> ''configure_database''
   | None \<Rightarrow> [])"

definition command_sql :: "command_proto \<Rightarrow> string" where
  "command_sql msg = (case cp_payload msg of Some (ExecuteQueryCommand sql) \<Rightarrow> sql | _ \<Rightarrow> [])"

definition command_dsn :: "command_proto \<Rightarrow> string" where
  "command_dsn msg = (case cp_payload msg of Some (ConfigureDatabaseCommand dsn) \<Rightarrow> dsn | _ \<Rightarrow> [])"

definition stream_message :: "command_proto \<Rightarrow> control_message" where
  "stream_message msg =
     \<lparr>cm_session_id = cp_session_id msg, cm_command_id = cp_command_id msg,
      cm_issued_at = (case cp_issued_at msg of Some t \<Rightarrow> t | None \<Rightarrow> time_zero),
      cm_kind = command_kind_of msg, cm_sql = command_sql msg, cm_dsn = command_dsn msg\<rparr>"

definition query_error_code_to_proto :: "string \<Rightarrow> query_code_proto" where
  "query_error_code_to_proto code =
     (if code = code_permission_denied then QueryCodePermissionDenied
      else if code = code_internal then QueryCodeInternal
      else QueryCodeUnspecified)"

fun configure_error_code_to_proto :: "configure_error_code \<Rightarrow> configure_code_proto" where
  "configure_error_code_to_proto ConfigInvalidDSN = ConfigureCodeInvalidDSN"
| "configure_error_code_to_proto ConfigConnectFailed = ConfigureCodeConnectFailed"
| "configure_error_code_to_proto ConfigAuthFailed = ConfigureCodeAuthFailed"
| "configure_error_code_to_proto ConfigPrivilegeError = ConfigureCodePrivilegeInvalid"
| "configure_error_code_to_proto ConfigWriteConfig = ConfigureCodeWriteConfigFailed"
| "configure_error_code_to_proto ConfigTimeout = ConfigureCodeTimeout"
| "configure_error_code_to_proto ConfigUnspecified = ConfigureCodeUnspecified"

fun row_values :: "'v struct_codec \<Rightarrow> (string \<rightharpoonup> go_any) \<Rightarrow> string list \<Rightarrow> (string \<rightharpoonup> 'v) \<Rightarrow>
    gerr + (string \<rightharpoonup> 'v)" where
  "row_values codec row [] values = Inr values"
| "row_values codec row (key # keys) values =
     (case row key of
        None \<Rightarrow> row_values codec row keys values
      | Some value \<Rightarrow>
          (case new_value codec value of
             Inl e \<Rightarrow> Inl (Wrapped (''convert row value '' @ go_quote key) e)
           | Inr v \<Rightarrow> row_values codec row keys (values(key \<mapsto> v))))"

definition query_result_to_proto ::
  "'v struct_codec \<Rightarrow> ((string \<rightharpoonup> go_any) \<Rightarrow> string list) \<Rightarrow> execute_query_result \<Rightarrow>
   gerr + 'v query_result_proto" where
  "query_result_to_proto codec order req =
     (case map_result (\<lambda>row. row_values codec row (order row) Map.empty) (eq_rows req) of
        Inl e \<Rightarrow> Inl e
      | Inr rows \<Rightarrow> Inr \<lparr>qp_columns = eq_columns req, qp_rows = rows,
          qp_elapsed_ms = eq_elapsed_ms req, qp_database_user = eq_database_user req,
          qp_database_name = eq_database_name req, qp_error = eq_error req,
          qp_error_code = query_error_code_to_proto (eq_error_code req),
          qp_error_reason = eq_error_reason req,
          qp_blocked_constructs = eq_blocked_constructs req\<rparr>)"

definition schema_blob_to_proto :: "schema_blob \<Rightarrow> schema_proto" where
  "schema_blob_to_proto blob =
     \<lparr>sp_database_name = sb_database_name blob,
      sp_tables = map (\<lambda>t. TableProto (st_table_schema t) (st_table_name t) (st_table_type t)
        (st_table_comment t)) (sb_tables blob),
      sp_columns = map (\<lambda>c. ColumnProto (sc_table_schema c) (sc_table_name c) (sc_column_name c)
        (sc_ordinal c) (sc_data_type c) (sc_column_type c) (sc_is_nullable c) (sc_has_default c)
        (sc_default_value c) (sc_column_comment c)) (sb_columns blob),
      sp_primary_keys = map (\<lambda>k. PrimaryKeyProto (pk_table_schema k) (pk_table_name k)
        (pk_constraint_name k) (pk_column_name k) (pk_ordinal k)) (sb_primary_keys blob),
      sp_foreign_keys = map (\<lambda>k. ForeignKeyProto (fk_table_schema k) (fk_table_name k)
        (fk_constraint_name k) (fk_column_name k) (fk_ordinal k) (fk_ref_table_schema k)
        (fk_ref_table_name k) (fk_ref_column_name k)) (sb_foreign_keys blob)\<rparr>"

definition schema_result_to_proto :: "introspect_schema_result \<Rightarrow> schema_result_proto" where
  "schema_result_to_proto req =
     \<lparr>srp_schema = Some (schema_blob_to_proto (is_schema req)), srp_elapsed_ms = is_elapsed_ms req,
      srp_database_user = is_database_user req, srp_database_name = is_database_name req,
      srp_error = is_error req\<rparr>"

definition configure_result_to_proto :: "configure_database_result \<Rightarrow> configure_result_proto" where
  "configure_result_to_proto req =
     \<lparr>crp_elapsed_ms = cd_elapsed_ms req, crp_database_user = cd_database_user req,
      crp_database_name = cd_database_name req, crp_error = cd_error req,
      crp_error_code = configure_error_code_to_proto (cd_error_code req)\<rparr>"

text \<open>The four \<open>Submit*Result\<close> of the client, up to the call of the generated stub.\<close>

fun client_request ::
  "'v struct_codec \<Rightarrow> ((string \<rightharpoonup> go_any) \<Rightarrow> string list) \<Rightarrow> agent_result \<Rightarrow> gerr + 'v submit_request" where
  "client_request codec order (PingR r) =
     Inr \<lparr>sq_session_id = pr_session_id r, sq_command_id = pr_command_id r,
          sq_completed_at = Some (pr_completed_at r), sq_result = Some (PingPayload (pr_round_trip_ms r))\<rparr>"
| "client_request codec order (QueryR r) =
     (case query_result_to_proto codec order r of
        Inl e \<Rightarrow> Inl e
      | Inr p \<Rightarrow> Inr \<lparr>sq_session_id = eq_session_id r, sq_command_id = eq_command_id r,
          sq_completed_at = Some (eq_completed_at r), sq_result = Some (QueryPayload p)\<rparr>)"
| "client_request codec order (SchemaR r) =
     Inr \<lparr>sq_session_id = is_session_id r, sq_command_id = is_command_id r,
          sq_completed_at = Some (is_completed_at r),
          sq_result = Some (SchemaPayload (schema_result_to_proto r))\<rparr>"
| "client_request codec order (ConfigR r) =
     Inr \<lparr>sq_session_id = cd_session_id r, sq_command_id = cd_command_id r,
          sq_completed_at = Some (cd_completed_at r),
          sq_result = Some (ConfigurePayload (configure_result_to_proto r))\<rparr>"

section \<open>handler/agent.go: the control plane's side\<close>

datatype rpc_code =
    CodeInvalidArgument | CodeNotFound | CodeFailedPrecondition | CodeInternal | CodeUnauthenticated
  | CodePermissionDenied | CodeUnavailable | CodeDeadlineExceeded | CodeCanceled | CodeAlreadyExists

record rpc_error =
  rpc_status :: rpc_code
  rpc_cause :: gerr

definition unauthenticated_error :: rpc_error where
  "unauthenticated_error = \<lparr>rpc_status = CodeUnauthenticated, rpc_cause = ErrNew ''unauthenticated''\<rparr>"

definition connect_error_for_session :: "gerr \<Rightarrow> rpc_error" where
  "connect_error_for_session err =
     (if errors_is err err_invalid_session_id \<or> errors_is err err_invalid_hostname
      then \<lparr>rpc_status = CodeInvalidArgument, rpc_cause = err\<rparr>
      else if errors_is err err_session_not_found \<or> errors_is err err_command_not_found
      then \<lparr>rpc_status = CodeNotFound, rpc_cause = err\<rparr>
      else if errors_is err err_session_not_active \<or> errors_is err err_command_rejected \<or>
              errors_is err err_tenant_not_connected
      then \<lparr>rpc_status = CodeFailedPrecondition, rpc_cause = err\<rparr>
      else \<lparr>rpc_status = CodeInternal, rpc_cause = ErrNew ''internal server error''\<rparr>)"

definition command_to_proto :: "agent_command \<Rightarrow> command_proto" where
  "command_to_proto command =
     \<lparr>cp_session_id = cmd_session_id command, cp_command_id = cmd_command_id command,
      cp_issued_at = Some (cmd_issued_at command),
      cp_payload = Some (case cmd_kind command of
          KindPing \<Rightarrow> PingCommand
        | KindExecuteQuery \<Rightarrow> ExecuteQueryCommand (cmd_sql command)
        | KindIntrospectSchema \<Rightarrow> IntrospectSchemaCommand
        | KindConfigureDatabase \<Rightarrow> ConfigureDatabaseCommand (cmd_dsn command))\<rparr>"

fun query_error_code_from_proto :: "query_code_proto \<Rightarrow> string" where
  "query_error_code_from_proto QueryCodePermissionDenied = code_permission_denied"
| "query_error_code_from_proto QueryCodeInternal = code_internal"
| "query_error_code_from_proto QueryCodeUnspecified = code_unspecified"

fun configure_error_code_from_proto :: "configure_code_proto \<Rightarrow> configure_error_code" where
  "configure_error_code_from_proto ConfigureCodeInvalidDSN = ConfigInvalidDSN"
| "configure_error_code_from_proto ConfigureCodeConnectFailed = ConfigConnectFailed"
| "configure_error_code_from_proto ConfigureCodeAuthFailed = ConfigAuthFailed"
| "configure_error_code_from_proto ConfigureCodePrivilegeInvalid = ConfigPrivilegeError"
| "configure_error_code_from_proto ConfigureCodeWriteConfigFailed = ConfigWriteConfig"
| "configure_error_code_from_proto ConfigureCodeTimeout = ConfigTimeout"
| "configure_error_code_from_proto ConfigureCodeUnspecified = ConfigUnspecified"

definition proto_rows_to_maps :: "'v struct_codec \<Rightarrow> (string \<rightharpoonup> 'v) list \<Rightarrow> (string \<rightharpoonup> go_any) list" where
  "proto_rows_to_maps codec rows = map (\<lambda>row key. map_option (as_interface codec) (row key)) rows"

fun table_from_proto :: "table_proto \<Rightarrow> schema_table" where
  "table_from_proto (TableProto s n t c) =
     \<lparr>st_table_schema = s, st_table_name = n, st_table_type = t, st_table_comment = c\<rparr>"

fun column_from_proto :: "column_proto \<Rightarrow> schema_column" where
  "column_from_proto (ColumnProto s t n i d ct nullable hasdef dv c) =
     \<lparr>sc_table_schema = s, sc_table_name = t, sc_column_name = n, sc_ordinal = i, sc_data_type = d,
      sc_column_type = ct, sc_is_nullable = nullable, sc_has_default = hasdef, sc_default_value = dv,
      sc_column_comment = c\<rparr>"

fun primary_key_from_proto :: "primary_key_proto \<Rightarrow> schema_primary_key" where
  "primary_key_from_proto (PrimaryKeyProto s t k c i) =
     \<lparr>pk_table_schema = s, pk_table_name = t, pk_constraint_name = k, pk_column_name = c, pk_ordinal = i\<rparr>"

fun foreign_key_from_proto :: "foreign_key_proto \<Rightarrow> schema_foreign_key" where
  "foreign_key_from_proto (ForeignKeyProto s t k c i rs rt rc) =
     \<lparr>fk_table_schema = s, fk_table_name = t, fk_constraint_name = k, fk_column_name = c, fk_ordinal = i,
      fk_ref_table_schema = rs, fk_ref_table_name = rt, fk_ref_column_name = rc\<rparr>"

definition proto_schema_to_model :: "schema_proto option \<Rightarrow> schema_blob" where
  "proto_schema_to_model inp = (case inp of
     None \<Rightarrow> empty_schema_blob
   | Some p \<Rightarrow>
      \<lparr>sb_database_name = sp_database_name p, sb_tables = map table_from_proto (sp_tables p),
       sb_columns = map column_from_proto (sp_columns p),
       sb_primary_keys = map primary_key_from_proto (sp_primary_keys p),
       sb_foreign_keys = map foreign_key_from_proto (sp_foreign_keys p)\<rparr>)"

text \<open>\<open>Heartbeat\<close>: the handler reads the clock at \<open>received\<close>, the manager later at \<open>now\<close>.\<close>

definition handler_heartbeat ::
  "agent_identity option \<Rightarrow> time \<Rightarrow> time \<Rightarrow> string \<Rightarrow> time option \<Rightarrow> manager \<Rightarrow> rpc_error option \<times> manager" where
  "handler_heartbeat agent received now sid sent m =
     (case agent of
        None \<Rightarrow> (Some unauthenticated_error, m)
      | Some ag \<Rightarrow>
          (case mark_heartbeat now (ag_token_id ag) sid (case sent of Some t \<Rightarrow> t | None \<Rightarrow> received) m of
             (Some e, m') \<Rightarrow> (Some (connect_error_for_session e), m')
           | (None, m') \<Rightarrow> (None, m')))"

text \<open>
  \<open>SubmitCommandResult\<close>. As in AgentSessions, a success is the waiter that was taken and the
  result to send on it.
\<close>

definition submit_command_result ::
  "'v struct_codec \<Rightarrow> agent_identity option \<Rightarrow> time \<Rightarrow> 'v submit_request \<Rightarrow> manager \<Rightarrow>
   (rpc_error + nat \<times> agent_result) \<times> manager" where
  "submit_command_result codec agent now req m =
    (case agent of
       None \<Rightarrow> (Inl unauthenticated_error, m)
     | Some ag \<Rightarrow>
       (let tid = ag_token_id ag;
            sid = sq_session_id req;
            cid = sq_command_id req;
            completed = (case sq_completed_at req of Some t \<Rightarrow> t | None \<Rightarrow> now)
        in case sq_result req of
             None \<Rightarrow> (Inl \<lparr>rpc_status = CodeInvalidArgument, rpc_cause = ErrNew ''missing result payload''\<rparr>, m)
           | Some body \<Rightarrow>
             (case (case body of
                 PingPayload ms \<Rightarrow> submit_ping_result now tid sid cid completed ms m
               | QueryPayload q \<Rightarrow>
                   submit_execute_query_result now tid sid cid completed (qp_columns q)
                     (proto_rows_to_maps codec (qp_rows q)) (qp_elapsed_ms q) (qp_database_user q)
                     (qp_database_name q) (qp_error q)
                     (query_error_code_from_proto (qp_error_code q)) (qp_error_reason q)
                     (qp_blocked_constructs q) m
               | SchemaPayload p \<Rightarrow>
                   submit_introspect_schema_result now tid sid cid completed
                     (proto_schema_to_model (srp_schema p)) (srp_elapsed_ms p)
                     (srp_database_user p) (srp_database_name p) (srp_error p) m
               | ConfigurePayload p \<Rightarrow>
                   submit_configure_database_result now tid sid cid completed (crp_elapsed_ms p)
                     (crp_database_user p) (crp_database_name p) (crp_error p)
                     (configure_error_code_from_proto (crp_error_code p)) m)
              of (Inl e, m') \<Rightarrow> (Inl (connect_error_for_session e), m')
               | (Inr sent, m') \<Rightarrow> (Inr sent, m'))))"

text \<open>
  \<open>OpenCommandStream\<close>: registration and the first frame, one turn of its \<open>select\<close> loop, and the
  deferred disconnect. Other goroutines run between the turns.
\<close>

definition stream_ack :: "string \<Rightarrow> command_proto" where
  "stream_ack sid = \<lparr>cp_session_id = sid, cp_command_id = [], cp_issued_at = None, cp_payload = None\<rparr>"

definition open_command_stream ::
  "agent_identity option \<Rightarrow> time \<Rightarrow> string \<Rightarrow> string \<Rightarrow> string \<Rightarrow> manager \<Rightarrow>
   (rpc_error + nat \<times> command_proto) \<times> manager" where
  "open_command_stream agent now sid hostname version m =
     (case agent of
        None \<Rightarrow> (Inl unauthenticated_error, m)
      | Some ag \<Rightarrow>
          (case register_session now
                  \<lparr>tok_id = ag_token_id ag, tok_tenant_id = ag_tenant_id ag, tok_label = ag_label ag,
                   tok_created_at = time_zero, tok_last_used_at = None, tok_revoked_at = None\<rparr>
                  sid hostname version m of
             (Inl e, m') \<Rightarrow> (Inl (connect_error_for_session e), m')
           | (Inr a, m') \<Rightarrow> (Inr (a, stream_ack sid), m')))"

datatype stream_choice = StreamContextDone gerr | StreamSessionDone | StreamCommand

datatype stream_outcome = StreamSend command_proto | StreamReturn "gerr option"

definition stream_select :: "nat \<Rightarrow> stream_choice \<Rightarrow> manager \<Rightarrow> (stream_outcome \<times> manager) option" where
  "stream_select a choice m = (case choice of
     StreamContextDone e \<Rightarrow>
       Some (StreamReturn (if errors_is e ContextCanceled then None else Some e), m)
   | StreamSessionDone \<Rightarrow>
       (case sessions m a of
          Some s \<Rightarrow> if done_closed s then Some (StreamReturn None, m) else None
        | None \<Rightarrow> None)
   | StreamCommand \<Rightarrow>
       (case next_command a m of
          Some (c, m') \<Rightarrow> Some (StreamSend (command_to_proto c), m')
        | None \<Rightarrow> None))"

text \<open>\<open>PingSession\<close> of the debug handler: the status and the error of the response.\<close>

definition debug_ping_response :: "string \<Rightarrow> gerr + ping_result \<Rightarrow> int \<times> string" where
  "debug_ping_response sid res =
     (if sid = [] then (400, ''missing session id'')
      else (case res of
          Inr _ \<Rightarrow> (200, [])
        | Inl err \<Rightarrow>
            (if errors_is err err_session_not_found then (404, err_text err)
             else if errors_is err err_session_not_active \<or> errors_is err err_command_rejected
             then (409, err_text err)
             else if errors_is err ContextDeadlineExceeded then (504, ''ping timed out'')
             else (500, ''internal server error''))))"

section \<open>Round trips\<close>

lemma from_proto_map [simp]:
  "map table_from_proto (sp_tables (schema_blob_to_proto b)) = sb_tables b"
  "map column_from_proto (sp_columns (schema_blob_to_proto b)) = sb_columns b"
  "map primary_key_from_proto (sp_primary_keys (schema_blob_to_proto b)) = sb_primary_keys b"
  "map foreign_key_from_proto (sp_foreign_keys (schema_blob_to_proto b)) = sb_foreign_keys b"
  by (auto simp: schema_blob_to_proto_def intro!: map_idI schema_table.equality
      schema_column.equality schema_primary_key.equality schema_foreign_key.equality)

lemma schema_round_trip [simp]: "proto_schema_to_model (Some (schema_blob_to_proto b)) = b"
  by (simp add: proto_schema_to_model_def) (simp add: schema_blob_to_proto_def)

lemma configure_code_round_trip [simp]:
  "configure_error_code_from_proto (configure_error_code_to_proto c) = c"
  by (cases c) simp_all

text \<open>A value as the control plane sees it.\<close>

definition wire_value :: "'v struct_codec \<Rightarrow> go_any \<Rightarrow> go_any" where
  "wire_value codec v = (case new_value codec v of Inr p \<Rightarrow> as_interface codec p | Inl _ \<Rightarrow> v)"

definition wire_code :: "string \<Rightarrow> string" where
  "wire_code code = (if code \<in> {code_permission_denied, code_internal} then code else code_unspecified)"

fun wire_result :: "'v struct_codec \<Rightarrow> agent_result \<Rightarrow> agent_result" where
  "wire_result codec (QueryR r) =
     QueryR (r\<lparr>eq_rows := map (\<lambda>row key. map_option (wire_value codec) (row key)) (eq_rows r),
               eq_error_code := wire_code (eq_error_code r)\<rparr>)"
| "wire_result codec r = r"

lemma query_code_round_trip [simp]:
  "query_error_code_from_proto (query_error_code_to_proto c) = wire_code c"
  by (simp add: query_error_code_to_proto_def wire_code_def)

lemma row_values_Inr:
  "row_values codec row keys acc = Inr out \<Longrightarrow>
     map_option (as_interface codec) (out k) =
       (if k \<in> set keys \<and> row k \<noteq> None then map_option (wire_value codec) (row k)
        else map_option (as_interface codec) (acc k))"
proof (induction keys arbitrary: acc)
  case (Cons key keys)
  show ?case
  proof (cases "row key")
    case None
    with Cons show ?thesis by (cases "k = key") auto
  next
    case (Some g)
    with Cons.prems obtain v where v: "new_value codec g = Inr v"
      by (auto split: sum.splits)
    with Some Cons show ?thesis by (auto simp: wire_value_def)
  qed
qed simp

lemma row_round_trip:
  assumes "row_values codec row keys Map.empty = Inr out" "dom row \<subseteq> set keys"
  shows "(\<lambda>key. map_option (as_interface codec) (out key)) = (\<lambda>key. map_option (wire_value codec) (row key))"
proof
  fix k
  have "row k = None" if "k \<notin> set keys" using assms(2) that by blast
  then show "map_option (as_interface codec) (out k) = map_option (wire_value codec) (row k)"
    unfolding row_values_Inr [OF assms(1), of k] by auto
qed

lemma rows_round_trip:
  assumes "map_result (\<lambda>row. row_values codec row (order row) Map.empty) rows = Inr out"
    and "\<And>row. row \<in> set rows \<Longrightarrow> dom row \<subseteq> set (order row)"
  shows "proto_rows_to_maps codec out = map (\<lambda>row key. map_option (wire_value codec) (row key)) rows"
proof -
  from assms(1) have conv: "list_all2 (\<lambda>row o'. row_values codec row (order row) Map.empty = Inr o') rows out"
    by (simp add: map_result_Inr_iff)
  then have len: "length out = length rows" by (simp add: list_all2_lengthD)
  show ?thesis
    unfolding proto_rows_to_maps_def
  proof (rule nth_equalityI; clarsimp simp: len)
    fix i assume i: "i < length rows"
    with conv len have "row_values codec (rows ! i) (order (rows ! i)) Map.empty = Inr (out ! i)"
      by (auto dest: list_all2_nthD)
    from row_round_trip [OF this assms(2)] i
    show "(\<lambda>key. map_option (as_interface codec) ((out ! i) key)) =
          (\<lambda>key. map_option (wire_value codec) ((rows ! i) key))" by simp
  qed
qed

fun result_command_kind :: "agent_result \<Rightarrow> command_kind" where
  "result_command_kind (PingR _) = KindPing"
| "result_command_kind (QueryR _) = KindExecuteQuery"
| "result_command_kind (SchemaR _) = KindIntrospectSchema"
| "result_command_kind (ConfigR _) = KindConfigureDatabase"

fun kind_name :: "command_kind \<Rightarrow> string" where
  "kind_name KindPing = ''ping''"
| "kind_name KindExecuteQuery = ''execute_query''"
| "kind_name KindIntrospectSchema = ''introspect_schema''"
| "kind_name KindConfigureDatabase = ''configure_database''"

lemma kind_name_in [simp]: "kind_name k \<in> set edge_kinds"
  by (cases k) (simp_all add: edge_kinds_def)

lemma kind_name_inj: "result_kind r = kind_name k \<Longrightarrow> result_command_kind r = k"
  by (cases r; cases k) simp_all

fun result_rows :: "agent_result \<Rightarrow> (string \<rightharpoonup> go_any) list" where
  "result_rows (QueryR r) = eq_rows r"
| "result_rows _ = []"

lemma submit_query_wire:
  assumes "query_result_to_proto codec order r = Inr p"
    and "\<And>row. row \<in> set (eq_rows r) \<Longrightarrow> dom row \<subseteq> set (order row)"
  shows "submit_execute_query_result now tid sid cid t (qp_columns p)
           (proto_rows_to_maps codec (qp_rows p)) (qp_elapsed_ms p) (qp_database_user p)
           (qp_database_name p) (qp_error p) (query_error_code_from_proto (qp_error_code p))
           (qp_error_reason p) (qp_blocked_constructs p) m =
         (case take_waiter now tid sid KindExecuteQuery cid m of
            (Inl e, m') \<Rightarrow> (Inl e, m')
          | (Inr w, m') \<Rightarrow>
              (Inr (w, wire_result codec
                 (QueryR (r\<lparr>eq_session_id := sid, eq_command_id := cid, eq_completed_at := t\<rparr>))), m'))"
proof -
  from assms(1) obtain rows where
    rows: "map_result (\<lambda>row. row_values codec row (order row) Map.empty) (eq_rows r) = Inr rows"
    by (auto simp: query_result_to_proto_def split: sum.splits)
  from rows_round_trip [OF this assms(2)] assms(1) rows show ?thesis
    by (auto simp: query_result_to_proto_def submit_execute_query_result_def
        split: prod.splits sum.splits)
qed

lemma submit_result_wire:
  assumes req: "client_request codec order r = Inr req"
    and order: "\<And>row. row \<in> set (result_rows r) \<Longrightarrow> dom row \<subseteq> set (order row)"
  shows "submit_command_result codec (Some ag) now req m =
           (case take_waiter now (ag_token_id ag) (fst (result_ids r)) (result_command_kind r)
                   (snd (result_ids r)) m of
              (Inl e, m') \<Rightarrow> (Inl (connect_error_for_session e), m')
            | (Inr w, m') \<Rightarrow> (Inr (w, wire_result codec r), m'))"
proof (cases r)
  case (QueryR q)
  with req obtain p where p: "query_result_to_proto codec order q = Inr p"
    by (auto split: sum.splits)
  have req': "req = \<lparr>sq_session_id = eq_session_id q, sq_command_id = eq_command_id q,
      sq_completed_at = Some (eq_completed_at q), sq_result = Some (QueryPayload p)\<rparr>"
    using req QueryR p by simp
  have rows: "dom row \<subseteq> set (order row)" if "row \<in> set (eq_rows q)" for row
    using order [of row] that QueryR by simp
  show ?thesis
    using submit_query_wire [OF p rows, of now "ag_token_id ag" "eq_session_id q" "eq_command_id q"
        "eq_completed_at q" m]
    unfolding req' QueryR by (auto simp: submit_command_result_def split: prod.splits sum.splits)
qed (use req in \<open>auto simp: submit_command_result_def submit_ping_result_def Let_def
      submit_introspect_schema_result_def submit_configure_database_result_def
      schema_result_to_proto_def configure_result_to_proto_def split: prod.splits sum.splits\<close>)

text \<open>
  A command crosses the wire unchanged: what the agent reads from the stream has the ids, the
  instant and the kind of the command the control plane queued, and the SQL or DSN of its kind.
\<close>

theorem command_wire_round_trip:
  "stream_message (command_to_proto c) =
     \<lparr>cm_session_id = cmd_session_id c, cm_command_id = cmd_command_id c,
      cm_issued_at = cmd_issued_at c, cm_kind = kind_name (cmd_kind c),
      cm_sql = (if cmd_kind c = KindExecuteQuery then cmd_sql c else []),
      cm_dsn = (if cmd_kind c = KindConfigureDatabase then cmd_dsn c else [])\<rparr>"
  by (cases "cmd_kind c")
    (simp_all add: stream_message_def command_to_proto_def command_kind_of_def command_sql_def
      command_dsn_def)

text \<open>
  C20. A result crosses the wire: what the handler submits for a request of the agent's client is
  the agent's result, under the waiter of its session, command id and kind. Only two things
  change: row values become what \<open>structpb\<close> makes of them, and an error code outside
  PERMISSION_DENIED and INTERNAL becomes UNSPECIFIED.
\<close>

theorem result_wire_round_trip:
  assumes "client_request codec order r = Inr req"
    and "\<And>row. row \<in> set (result_rows r) \<Longrightarrow> dom row \<subseteq> set (order row)"
  shows "submit_command_result codec (Some ag) now req m =
           (case take_waiter now (ag_token_id ag) (fst (result_ids r)) (result_command_kind r)
                   (snd (result_ids r)) m of
              (Inl e, m') \<Rightarrow> (Inl (connect_error_for_session e), m')
            | (Inr w, m') \<Rightarrow> (Inr (w, wire_result codec r), m'))"
  using assms by (rule submit_result_wire)

definition example_struct :: "go_any struct_codec" where
  "example_struct = \<lparr>new_value = (\<lambda>v. case v of GoOpaque _ \<Rightarrow> Inl (ErrNew ''invalid type'') | _ \<Rightarrow> Inr v),
     as_interface = id\<rparr>"

definition example_agent :: agent_identity where
  "example_agent = \<lparr>ag_token_id = 7, ag_tenant_id = 3, ag_label = ''edge''\<rparr>"

definition example_pending :: manager where
  "example_pending = snd (start_ping 10 10 ''c1'' ''s1'' example_manager)"

theorem result_wire_round_trip_witness:
  "fst (submit_command_result example_struct (Some example_agent) 11
      \<lparr>sq_session_id = ''s1'', sq_command_id = ''c1'', sq_completed_at = Some 11,
       sq_result = Some (PingPayload 1)\<rparr> example_pending) = Inr (0, example_ping)"
proof -
  have req: "client_request example_struct (\<lambda>_. []) example_ping = Inr
      \<lparr>sq_session_id = ''s1'', sq_command_id = ''c1'', sq_completed_at = Some 11,
       sq_result = Some (PingPayload 1)\<rparr>"
    by (simp add: example_ping_def)
  have tk: "fst (take_waiter 11 7 ''s1'' KindPing ''c1'' example_pending) = Inr 0" by code_simp
  then obtain m' where "take_waiter 11 7 ''s1'' KindPing ''c1'' example_pending = (Inr 0, m')"
    by (metis prod.collapse)
  then show ?thesis
    using result_wire_round_trip [OF req, where ag = example_agent and now = 11 and m = example_pending]
    by (simp add: example_ping_def example_agent_def)
qed

end
