(* ===== verification/Schemas.thy ===== *)
theory Schemas
  imports EdgeMysql Tenancy "HOL-Library.List_Lexorder" "HOL-Library.Char_ord"
    "HOL-Library.Product_Lexorder" "HOL-Library.Multiset"
begin

text \<open>
  Schema introspection and its versions: edgeagent/introspect/introspect.go with the gateway's
  and the runtime's \<open>IntrospectSchema\<close>, controller/schema.go and repository/schema.go. Go's
  \<open>sort.Slice\<close> leaves the order of equal elements open, so the sorts are a record \<open>sorters\<close> of
  functions that \<open>good_sorters\<close> constrains; JSON encoding and SHA-256 are arguments. Strings are
  compared bytewise, as Go does.
\<close>

section \<open>Sorting\<close>

definition table_less :: "schema_table \<Rightarrow> schema_table \<Rightarrow> bool" where
  "table_less left right =
     (if st_table_schema left \<noteq> st_table_schema right then st_table_schema left < st_table_schema right
      else st_table_name left < st_table_name right)"

definition column_less :: "schema_column \<Rightarrow> schema_column \<Rightarrow> bool" where
  "column_less left right =
     (if sc_table_schema left \<noteq> sc_table_schema right then sc_table_schema left < sc_table_schema right
      else if sc_table_name left \<noteq> sc_table_name right then sc_table_name left < sc_table_name right
      else sc_ordinal left < sc_ordinal right)"

definition primary_key_less :: "schema_primary_key \<Rightarrow> schema_primary_key \<Rightarrow> bool" where
  "primary_key_less left right =
     (if pk_table_schema left \<noteq> pk_table_schema right then pk_table_schema left < pk_table_schema right
      else if pk_table_name left \<noteq> pk_table_name right then pk_table_name left < pk_table_name right
      else if pk_constraint_name left \<noteq> pk_constraint_name right
      then pk_constraint_name left < pk_constraint_name right
      else pk_ordinal left < pk_ordinal right)"

definition foreign_key_less :: "schema_foreign_key \<Rightarrow> schema_foreign_key \<Rightarrow> bool" where
  "foreign_key_less left right =
     (if fk_table_schema left \<noteq> fk_table_schema right then fk_table_schema left < fk_table_schema right
      else if fk_table_name left \<noteq> fk_table_name right then fk_table_name left < fk_table_name right
      else if fk_constraint_name left \<noteq> fk_constraint_name right
      then fk_constraint_name left < fk_constraint_name right
      else fk_ordinal left < fk_ordinal right)"

record sorters =
  sort_tables :: "schema_table list \<Rightarrow> schema_table list"
  sort_columns :: "schema_column list \<Rightarrow> schema_column list"
  sort_primary_keys :: "schema_primary_key list \<Rightarrow> schema_primary_key list"
  sort_foreign_keys :: "schema_foreign_key list \<Rightarrow> schema_foreign_key list"

text \<open>What \<open>sort.Slice\<close> promises for the comparison \<open>lt\<close>.\<close>

definition is_sort :: "('a \<Rightarrow> 'a \<Rightarrow> bool) \<Rightarrow> ('a list \<Rightarrow> 'a list) \<Rightarrow> bool" where
  "is_sort lt f \<longleftrightarrow> (\<forall>xs. mset (f xs) = mset xs \<and> sorted_wrt (\<lambda>x y. \<not> lt y x) (f xs))"

definition good_sorters :: "sorters \<Rightarrow> bool" where
  "good_sorters s \<longleftrightarrow>
     is_sort table_less (sort_tables s) \<and> is_sort column_less (sort_columns s) \<and>
     is_sort primary_key_less (sort_primary_keys s) \<and> is_sort foreign_key_less (sort_foreign_keys s)"

definition sort_schema :: "sorters \<Rightarrow> schema_blob \<Rightarrow> schema_blob" where
  "sort_schema s blob =
     blob\<lparr>sb_tables := sort_tables s (sb_tables blob),
          sb_columns := sort_columns s (sb_columns blob),
          sb_primary_keys := sort_primary_keys s (sb_primary_keys blob),
          sb_foreign_keys := sort_foreign_keys s (sb_foreign_keys blob)\<rparr>"

section \<open>introspect.go\<close>

record 'a sql_rows =
  sr_rows :: "(gerr + 'a) list"
  sr_rows_err :: "gerr option"
  sr_rows_close :: "gerr option"

text \<open>A row of the columns query: the nullable flag and the default as the database has them.\<close>

record column_row =
  cr_column :: schema_column
  cr_is_nullable :: string
  cr_default :: "string option"

record 'w introspect_ops =
  io_tables :: "string \<Rightarrow> 'w \<Rightarrow> (gerr + schema_table sql_rows) \<times> 'w"
  io_columns :: "string \<Rightarrow> 'w \<Rightarrow> (gerr + column_row sql_rows) \<times> 'w"
  io_primary_keys :: "string \<Rightarrow> 'w \<Rightarrow> (gerr + schema_primary_key sql_rows) \<times> 'w"
  io_foreign_keys :: "string \<Rightarrow> 'w \<Rightarrow> (gerr + schema_foreign_key sql_rows) \<times> 'w"

text \<open>The loop over the rows and the deferred close, with the labels of the caller's errors.\<close>

fun scan_all :: "string \<Rightarrow> (gerr + 'a) list \<Rightarrow> 'a list \<Rightarrow> gerr + 'a list" where
  "scan_all label [] out = Inr out"
| "scan_all label (Inl e # rest) out = Inl (Wrapped label e)"
| "scan_all label (Inr x # rest) out = scan_all label rest (out @ [x])"

definition read_rows ::
  "string \<Rightarrow> string \<Rightarrow> string \<Rightarrow> string \<Rightarrow> (gerr + 'a sql_rows) \<times> 'w \<Rightarrow> (gerr + 'a list) \<times> 'w" where
  "read_rows query_label scan_label iterate_label close_label res =
     (case res of
        (Inl e, w) \<Rightarrow> (Inl (Wrapped query_label e), w)
      | (Inr rows, w) \<Rightarrow>
          (append_close_error close_label (sr_rows_close rows)
             (case scan_all scan_label (sr_rows rows) [] of
                Inl e \<Rightarrow> Inl e
              | Inr out \<Rightarrow>
                  (case sr_rows_err rows of
                     Some e \<Rightarrow> Inl (Wrapped iterate_label e)
                   | None \<Rightarrow> Inr out)), w))"

definition load_tables :: "'w introspect_ops \<Rightarrow> string \<Rightarrow> 'w \<Rightarrow> (gerr + schema_table list) \<times> 'w" where
  "load_tables ops db w =
     read_rows ''load tables'' ''scan table'' ''iterate tables'' ''close table rows'' (io_tables ops db w)"

definition column_of_row :: "column_row \<Rightarrow> schema_column" where
  "column_of_row r = (cr_column r)\<lparr>sc_is_nullable := (cr_is_nullable r = ''YES''),
     sc_has_default := (cr_default r \<noteq> None),
     sc_default_value := (case cr_default r of Some d \<Rightarrow> d | None \<Rightarrow> [])\<rparr>"

definition load_columns :: "'w introspect_ops \<Rightarrow> string \<Rightarrow> 'w \<Rightarrow> (gerr + schema_column list) \<times> 'w" where
  "load_columns ops db w =
     (case read_rows ''load columns'' ''scan column'' ''iterate columns'' ''close column rows''
             (io_columns ops db w) of
        (Inl e, w') \<Rightarrow> (Inl e, w')
      | (Inr rows, w') \<Rightarrow> (Inr (map column_of_row rows), w'))"

definition load_primary_keys ::
  "'w introspect_ops \<Rightarrow> string \<Rightarrow> 'w \<Rightarrow> (gerr + schema_primary_key list) \<times> 'w" where
  "load_primary_keys ops db w =
     read_rows ''load primary keys'' ''scan primary key'' ''iterate primary keys''
       ''close primary key rows'' (io_primary_keys ops db w)"

definition load_foreign_keys ::
  "'w introspect_ops \<Rightarrow> string \<Rightarrow> 'w \<Rightarrow> (gerr + schema_foreign_key list) \<times> 'w" where
  "load_foreign_keys ops db w =
     read_rows ''load foreign keys'' ''scan foreign key'' ''iterate foreign keys''
       ''close foreign key rows'' (io_foreign_keys ops db w)"

text \<open>\<open>Load\<close>; a nil database is \<open>None\<close>.\<close>

definition load_schema ::
  "sorters \<Rightarrow> 'w introspect_ops option \<Rightarrow> string \<Rightarrow> 'w \<Rightarrow> (gerr + schema_blob) \<times> 'w" where
  "load_schema sorters db_ops database_name w =
    (case db_ops of
       None \<Rightarrow> (Inl (ErrNew ''load schema: nil db''), w)
     | Some ops \<Rightarrow>
       (if database_name = [] then (Inl (ErrNew ''load schema: empty database name''), w)
        else (case load_tables ops database_name w of
          (Inl e, w1) \<Rightarrow> (Inl e, w1)
        | (Inr tables, w1) \<Rightarrow>
        (case load_columns ops database_name w1 of
          (Inl e, w2) \<Rightarrow> (Inl e, w2)
        | (Inr columns, w2) \<Rightarrow>
        (case load_primary_keys ops database_name w2 of
          (Inl e, w3) \<Rightarrow> (Inl e, w3)
        | (Inr primary_keys, w3) \<Rightarrow>
        (case load_foreign_keys ops database_name w3 of
          (Inl e, w4) \<Rightarrow> (Inl e, w4)
        | (Inr foreign_keys, w4) \<Rightarrow>
           (Inr (sort_schema sorters
              \<lparr>sb_database_name = database_name, sb_tables = tables, sb_columns = columns,
               sb_primary_keys = primary_keys, sb_foreign_keys = foreign_keys\<rparr>), w4)))))))"

definition gateway_introspect_schema ::
  "sorters \<Rightarrow> 'w introspect_ops \<Rightarrow> ('w \<Rightarrow> int) \<Rightarrow> gateway \<Rightarrow> 'w \<Rightarrow>
   (gerr + schema_blob \<times> int \<times> string \<times> string) \<times> 'w" where
  "gateway_introspect_schema sorters ops elapsed_ms g w =
     (case load_schema sorters (Some ops) (gw_database_name g) w of
        (Inl e, w') \<Rightarrow> (Inl e, w')
      | (Inr schema, w') \<Rightarrow>
          (Inr (schema, elapsed_ms w', gw_database_user g, gw_database_name g), w'))"

definition runtime_introspect_schema ::
  "sorters \<Rightarrow> (gateway \<Rightarrow> 'w introspect_ops) \<Rightarrow> ('w \<Rightarrow> int) \<Rightarrow> mysql_runtime \<Rightarrow> 'w \<Rightarrow>
   (gerr + schema_blob \<times> int \<times> string \<times> string) \<times> 'w" where
  "runtime_introspect_schema sorters ops elapsed_ms r w =
     (case rt_gateway r of
        None \<Rightarrow> (Inl err_database_not_configured, w)
      | Some g \<Rightarrow> gateway_introspect_schema sorters (ops g) elapsed_ms g w)"

section \<open>repository/schema.go\<close>

text \<open>
  The rows of tenant_schemas. \<open>LatestByTenant\<close> takes the row with the greatest capture instant,
  then creation instant, and of equal ones the first.
\<close>

definition schemas_by_recency :: "tenant_schema_version list \<Rightarrow> tenant_schema_version list" where
  "schemas_by_recency = sort_key (\<lambda>r. (- sv_captured_at r, - sv_created_at r))"

definition latest_schema ::
  "gerr option \<Rightarrow> uuid \<Rightarrow> tenant_schema_version list \<Rightarrow> gerr + tenant_schema_version" where
  "latest_schema io tid rows =
     (case io of
        Some e \<Rightarrow> Inl (Wrapped ''select latest tenant schema'' e)
      | None \<Rightarrow>
          (case schemas_by_recency (filter (\<lambda>r. sv_tenant_id r = tid) rows) of
             [] \<Rightarrow> Inl err_not_found
           | r # _ \<Rightarrow> Inr r))"

definition schema_by_tenant_and_id ::
  "gerr option \<Rightarrow> uuid \<Rightarrow> uuid \<Rightarrow> tenant_schema_version list \<Rightarrow> gerr + tenant_schema_version" where
  "schema_by_tenant_and_id io tid vid rows =
     (case io of
        Some e \<Rightarrow> Inl (Wrapped ''select tenant schema by id'' e)
      | None \<Rightarrow>
          (case find (\<lambda>r. sv_tenant_id r = tid \<and> sv_id r = vid) rows of
             None \<Rightarrow> Inl err_not_found
           | Some r \<Rightarrow> Inr r))"

text \<open>A \<open>JSONB\<close> column gives back the text it was given.\<close>

definition create_schema_version ::
  "gerr option \<Rightarrow> uuid \<Rightarrow> time \<Rightarrow> uuid \<Rightarrow> time \<Rightarrow> string \<Rightarrow> string \<Rightarrow> tenant_schema_version list \<Rightarrow>
   (gerr + tenant_schema_version) \<times> tenant_schema_version list" where
  "create_schema_version io new_id now tid captured_at schema_hash blob rows =
     (case io of
        Some e \<Rightarrow> (Inl (Wrapped ''insert tenant schema'' e), rows)
      | None \<Rightarrow>
          (let rec = \<lparr>sv_id = new_id, sv_tenant_id = tid, sv_captured_at = captured_at,
                      sv_schema_hash = schema_hash, sv_blob = blob, sv_created_at = now\<rparr>
           in if list_ex (\<lambda>r. sv_id r = new_id) rows
              then (Inl (Wrapped ''insert tenant schema'' unique_violation), rows) else (Inr rec, rows @ [rec])))"

section \<open>controller/schema.go\<close>

definition err_agent_schema_introspection_failed :: gerr where
  "err_agent_schema_introspection_failed =
     Sentinel ''controller.ErrAgentSchemaIntrospectionFailed'' ''agent schema introspection failed''"

record schema_capture_result =
  scr_version_id :: uuid
  scr_changed :: bool
  scr_captured_at :: time
  scr_schema_hash :: string
  scr_database_name :: string
  scr_table_count :: nat
  scr_column_count :: nat
  scr_foreign_key_count :: nat

definition normalize_schema_blob :: "sorters \<Rightarrow> schema_blob \<Rightarrow> schema_blob" where
  "normalize_schema_blob s blob = sort_schema s (clone_schema_blob blob)"

definition capture_report :: "bool \<Rightarrow> schema_blob \<Rightarrow> tenant_schema_version \<Rightarrow> schema_capture_result" where
  "capture_report changed normalized rec =
     \<lparr>scr_version_id = sv_id rec, scr_changed = changed, scr_captured_at = sv_captured_at rec,
      scr_schema_hash = sv_schema_hash rec, scr_database_name = sb_database_name normalized,
      scr_table_count = length (sb_tables normalized), scr_column_count = length (sb_columns normalized),
      scr_foreign_key_count = length (sb_foreign_keys normalized)\<rparr>"

record capture_env =
  ce_sorters :: sorters
  ce_marshal :: "schema_blob \<Rightarrow> gerr + string"
  ce_sha :: "string \<Rightarrow> string"

definition normalized_result :: "sorters \<Rightarrow> introspect_schema_result \<Rightarrow> schema_blob" where
  "normalized_result s result =
     (let normalized = normalize_schema_blob s (is_schema result) in
      if sb_database_name normalized = [] then normalized\<lparr>sb_database_name := is_database_name result\<rparr>
      else normalized)"

definition capture_schema ::
  "capture_env \<Rightarrow> gerr option \<Rightarrow> gerr option \<Rightarrow> uuid \<Rightarrow> time \<Rightarrow> uuid \<Rightarrow> gerr + introspect_schema_result \<Rightarrow>
   tenant_schema_version list \<Rightarrow> (gerr + schema_capture_result) \<times> tenant_schema_version list" where
  "capture_schema env io_latest io_create new_id now tid introspected rows =
    (case introspected of
       Inl e \<Rightarrow> (Inl e, rows)
     | Inr result \<Rightarrow>
       (if is_error result \<noteq> [] then
          (Inl (Annotated err_agent_schema_introspection_failed (is_error result)), rows)
        else
          (let normalized = normalized_result (ce_sorters env) result in
           case ce_marshal env normalized of
             Inl e \<Rightarrow> (Inl (Wrapped ''marshal schema blob'' e), rows)
           | Inr blob \<Rightarrow>
             (let hash = ce_sha env blob;
                  create = (let captured_at = (if is_completed_at result = time_zero then now
                                               else is_completed_at result) in
                    case create_schema_version io_create new_id now tid captured_at hash blob rows of
                      (Inl e, rows') \<Rightarrow> (Inl e, rows')
                    | (Inr created, rows') \<Rightarrow> (Inr (capture_report True normalized created), rows'))
              in case latest_schema io_latest tid rows of
                   Inr latest \<Rightarrow>
                     (if sv_schema_hash latest = hash
                      then (Inr (capture_report False normalized latest), rows)
                      else create)
                 | Inl e \<Rightarrow> if errors_is e err_not_found then create else (Inl e, rows)))))"

section \<open>Canonical order\<close>

text \<open>Each comparison is the lexicographic order of a key.\<close>

definition table_key :: "schema_table \<Rightarrow> string \<times> string" where
  "table_key t = (st_table_schema t, st_table_name t)"
definition column_key :: "schema_column \<Rightarrow> string \<times> string \<times> int" where
  "column_key c = (sc_table_schema c, sc_table_name c, sc_ordinal c)"
definition primary_key_key :: "schema_primary_key \<Rightarrow> string \<times> string \<times> string \<times> int" where
  "primary_key_key k = (pk_table_schema k, pk_table_name k, pk_constraint_name k, pk_ordinal k)"
definition foreign_key_key :: "schema_foreign_key \<Rightarrow> string \<times> string \<times> string \<times> int" where
  "foreign_key_key k = (fk_table_schema k, fk_table_name k, fk_constraint_name k, fk_ordinal k)"

lemma less_is_key_order:
  "table_less = (\<lambda>x y. table_key x < table_key y)"
  "column_less = (\<lambda>x y. column_key x < column_key y)"
  "primary_key_less = (\<lambda>x y. primary_key_key x < primary_key_key y)"
  "foreign_key_less = (\<lambda>x y. foreign_key_key x < foreign_key_key y)"
  by (auto simp: fun_eq_iff table_less_def column_less_def primary_key_less_def foreign_key_less_def
      table_key_def column_key_def primary_key_key_def foreign_key_key_def)

lemma is_sortD:
  assumes "is_sort (\<lambda>x y. key x < (key y :: 'k :: linorder)) f"
  shows "mset (f xs) = mset xs" and "sorted (map key (f xs))" and "set (f xs) = set xs"
    and "length (f xs) = length xs"
proof -
  show m: "mset (f xs) = mset xs" using assms by (simp add: is_sort_def)
  then show "set (f xs) = set xs" by (rule mset_eq_setD)
  from m show "length (f xs) = length xs" by (rule mset_eq_length)
  show "sorted (map key (f xs))"
    using assms by (simp add: is_sort_def sorted_map not_less)
qed

lemma is_sort_unique:
  fixes key :: "'a \<Rightarrow> 'k :: linorder"
  assumes "is_sort (\<lambda>x y. key x < key y) f" "is_sort (\<lambda>x y. key x < key y) g"
    and "mset xs = mset ys" "distinct (map key xs)"
  shows "f xs = g ys"
proof (rule map_sorted_distinct_set_unique [of key])
  have sets: "set (f xs) = set xs" "set (g ys) = set xs"
    using assms(1-3) mset_eq_setD [OF assms(3)] by (simp_all add: is_sortD)
  then show "set (f xs) = set (g ys)" by simp
  show "inj_on key (set (f xs) \<union> set (g ys))"
    using assms(4) sets by (simp add: distinct_map)
  have "mset (map key (f xs)) = mset (map key xs)" "mset (map key (g ys)) = mset (map key xs)"
    using assms(1-3) by (simp_all add: is_sortD)
  then show "distinct (map key (f xs))" "distinct (map key (g ys))"
    using assms(4) by (metis mset_eq_imp_distinct_iff)+
qed (use assms in \<open>simp_all add: is_sortD\<close>)

text \<open>The database numbers its columns and keys, so that no two rows of a section share a key.\<close>

definition keys_distinct :: "schema_blob \<Rightarrow> bool" where
  "keys_distinct b \<longleftrightarrow>
     distinct (map table_key (sb_tables b)) \<and> distinct (map column_key (sb_columns b)) \<and>
     distinct (map primary_key_key (sb_primary_keys b)) \<and>
     distinct (map foreign_key_key (sb_foreign_keys b))"

definition same_schema :: "schema_blob \<Rightarrow> schema_blob \<Rightarrow> bool" where
  "same_schema b c \<longleftrightarrow>
     sb_database_name b = sb_database_name c \<and> mset (sb_tables b) = mset (sb_tables c) \<and>
     mset (sb_columns b) = mset (sb_columns c) \<and>
     mset (sb_primary_keys b) = mset (sb_primary_keys c) \<and>
     mset (sb_foreign_keys b) = mset (sb_foreign_keys c)"

lemma good_sortersD:
  assumes "good_sorters s"
  shows "is_sort (\<lambda>x y. table_key x < table_key y) (sort_tables s)"
    and "is_sort (\<lambda>x y. column_key x < column_key y) (sort_columns s)"
    and "is_sort (\<lambda>x y. primary_key_key x < primary_key_key y) (sort_primary_keys s)"
    and "is_sort (\<lambda>x y. foreign_key_key x < foreign_key_key y) (sort_foreign_keys s)"
  using assms by (simp_all add: good_sorters_def less_is_key_order)

lemma sort_schema_canonical:
  assumes "good_sorters s" "good_sorters s'" "same_schema b c" "keys_distinct b"
  shows "sort_schema s b = sort_schema s' c"
proof -
  note g = good_sortersD [OF assms(1)] and g' = good_sortersD [OF assms(2)]
  have "sort_tables s (sb_tables b) = sort_tables s' (sb_tables c)"
    using assms(3,4) by (intro is_sort_unique [OF g(1) g'(1)]) (auto simp: same_schema_def keys_distinct_def)
  moreover have "sort_columns s (sb_columns b) = sort_columns s' (sb_columns c)"
    using assms(3,4) by (intro is_sort_unique [OF g(2) g'(2)]) (auto simp: same_schema_def keys_distinct_def)
  moreover have "sort_primary_keys s (sb_primary_keys b) = sort_primary_keys s' (sb_primary_keys c)"
    using assms(3,4) by (intro is_sort_unique [OF g(3) g'(3)]) (auto simp: same_schema_def keys_distinct_def)
  moreover have "sort_foreign_keys s (sb_foreign_keys b) = sort_foreign_keys s' (sb_foreign_keys c)"
    using assms(3,4) by (intro is_sort_unique [OF g(4) g'(4)]) (auto simp: same_schema_def keys_distinct_def)
  ultimately show ?thesis
    using assms(3) by (auto simp: sort_schema_def same_schema_def intro: schema_blob.equality)
qed

lemma sort_schema_same:
  assumes "good_sorters s"
  shows "same_schema (sort_schema s b) b"
  using good_sortersD [OF assms] by (simp add: same_schema_def sort_schema_def is_sortD(1))

lemma same_schema_sym: "same_schema b c \<Longrightarrow> same_schema c b"
  by (simp add: same_schema_def)

lemma same_schema_trans: "same_schema a b \<Longrightarrow> same_schema b c \<Longrightarrow> same_schema a c"
  by (simp add: same_schema_def)

lemma mset_map_distinct: "mset xs = mset ys \<Longrightarrow> distinct (map f xs) \<longleftrightarrow> distinct (map f ys)"
  by (metis mset_eq_imp_distinct_iff mset_map)

lemma keys_distinct_same: "same_schema b c \<Longrightarrow> keys_distinct b = keys_distinct c"
  using mset_map_distinct [of "sb_tables b" "sb_tables c" table_key]
    mset_map_distinct [of "sb_columns b" "sb_columns c" column_key]
    mset_map_distinct [of "sb_primary_keys b" "sb_primary_keys c" primary_key_key]
    mset_map_distinct [of "sb_foreign_keys b" "sb_foreign_keys c" foreign_key_key]
  unfolding same_schema_def keys_distinct_def by blast

section \<open>Introspection\<close>

lemma scan_all_Inr: "scan_all l rows acc = Inr out \<longleftrightarrow> (\<exists>xs. rows = map Inr xs \<and> out = acc @ xs)"
proof (induction l rows acc rule: scan_all.induct)
  case (3 label x rest out)
  then show ?case by (auto simp: Cons_eq_map_conv)
qed auto

lemma read_rows_Inr:
  assumes "read_rows q s i c res = (Inr out, w)"
  shows "\<exists>rows. res = (Inr rows, w) \<and> sr_rows rows = map Inr out \<and> sr_rows_err rows = None \<and>
           sr_rows_close rows = None"
  using assms
  by (auto simp: read_rows_def scan_all_Inr split: prod.splits sum.splits option.splits)

lemma load_schema_Inr:
  assumes "load_schema s dbo name w = (Inr b, w')"
  obtains ops ts cs pks fks w1 w2 w3 where "dbo = Some ops" "name \<noteq> []"
    "load_tables ops name w = (Inr ts, w1)" "load_columns ops name w1 = (Inr cs, w2)"
    "load_primary_keys ops name w2 = (Inr pks, w3)" "load_foreign_keys ops name w3 = (Inr fks, w')"
    "b = sort_schema s \<lparr>sb_database_name = name, sb_tables = ts, sb_columns = cs,
       sb_primary_keys = pks, sb_foreign_keys = fks\<rparr>"
  using assms by (auto simp: load_schema_def split: option.splits if_splits prod.splits sum.splits)

section \<open>Versions\<close>

lemma schemas_by_recency_hd:
  assumes "schemas_by_recency rows = r # rest"
  shows "r \<in> set rows"
    and "r' \<in> set rows \<Longrightarrow> (sv_captured_at r', sv_created_at r') \<le> (sv_captured_at r, sv_created_at r)"
proof -
  have set: "set (r # rest) = set rows" using assms by (metis schemas_by_recency_def set_sort)
  then show "r \<in> set rows" by auto
  have "sorted (map (\<lambda>r. (- sv_captured_at r, - sv_created_at r)) (r # rest))"
    using assms by (metis schemas_by_recency_def sorted_sort_key)
  then show "(sv_captured_at r', sv_created_at r') \<le> (sv_captured_at r, sv_created_at r)"
    if "r' \<in> set rows"
    using that set by (cases "r' = r") (auto simp: less_eq_prod_def)
qed

lemma latest_schema_newest:
  assumes "sv_tenant_id rec = tid"
    and "\<And>r. r \<in> set rows \<Longrightarrow> sv_tenant_id r = tid \<Longrightarrow>
      (sv_captured_at r, sv_created_at r) < (sv_captured_at rec, sv_created_at rec)"
  shows "latest_schema None tid (rows @ [rec]) = Inr rec"
proof -
  let ?rows = "filter (\<lambda>r. sv_tenant_id r = tid) (rows @ [rec])"
  have rec: "rec \<in> set ?rows" using assms(1) by simp
  then obtain r rest where sorted: "schemas_by_recency ?rows = r # rest"
    by (metis list.exhaust list.set(1) empty_iff schemas_by_recency_def set_sort)
  have "r = rec"
  proof (rule ccontr)
    assume "r \<noteq> rec"
    with schemas_by_recency_hd(1) [OF sorted] have "r \<in> set rows" "sv_tenant_id r = tid"
      by (auto split: if_splits)
    then have "(sv_captured_at r, sv_created_at r) < (sv_captured_at rec, sv_created_at rec)"
      by (rule assms(2))
    with schemas_by_recency_hd(2) [OF sorted rec] show False
      using leD by blast
  qed
  with sorted show ?thesis by (simp add: latest_schema_def)
qed

lemma latest_schema_in:
  "latest_schema io tid rows = Inr r \<Longrightarrow> r \<in> set rows \<and> sv_tenant_id r = tid"
  by (auto simp: latest_schema_def split: option.splits list.splits dest!: schemas_by_recency_hd(1))

lemma sort_key_hd:
  fixes f :: "'a \<Rightarrow> 'k :: linorder"
  assumes "sort_key f xs = r # rest"
  shows "r \<in> set xs" "x \<in> set xs \<Longrightarrow> f r \<le> f x" "hd (filter (\<lambda>x. f x = f r) xs) = r"
proof -
  have set: "set (r # rest) = set xs" using assms by (metis set_sort)
  then show "r \<in> set xs" by auto
  have "sorted (map f (r # rest))" using assms by (metis sorted_sort_key)
  then show "f r \<le> f x" if "x \<in> set xs" using that set by auto
  have "filter (\<lambda>x. f x = f r) (r # rest) = filter (\<lambda>x. f x = f r) xs"
    using sort_key_stable [of f "f r" xs] unfolding assms .
  from this [symmetric] show "hd (filter (\<lambda>x. f x = f r) xs) = r" by simp
qed

lemma sort_key_append_hd:
  fixes f :: "'a \<Rightarrow> 'k :: linorder"
  assumes "sort_key f xs = r # rest" "f r < f y"
  shows "\<exists>rest'. sort_key f (xs @ [y]) = r # rest'"
proof -
  have "length (sort_key f (xs @ [y])) \<noteq> 0" by simp
  then obtain r' rest' where r': "sort_key f (xs @ [y]) = r' # rest'"
    by (cases "sort_key f (xs @ [y])") auto
  note old = sort_key_hd [OF assms(1)] and new = sort_key_hd [OF r']
  have "f r' \<le> f r" using new(2) [of r] old(1) by simp
  moreover have "f r \<le> f r'"
    using new(1) old(2) [of r'] assms(2) \<open>f r' \<le> f r\<close> by auto
  ultimately have eq: "f r' = f r" by simp
  have "filter (\<lambda>x. f x = f r) xs \<noteq> []" using old(1) by (auto simp: filter_empty_conv)
  then have "hd (filter (\<lambda>x. f x = f r) (xs @ [y])) = hd (filter (\<lambda>x. f x = f r) xs)" by simp
  with new(3) old(3) eq have "r' = r" by simp
  with r' show ?thesis by blast
qed

lemma latest_schema_older:
  assumes "latest_schema None tid rows = Inr old" "sv_tenant_id rec = tid"
    "sv_captured_at rec < sv_captured_at old"
  shows "latest_schema None tid (rows @ [rec]) = Inr old"
proof -
  from assms(1) obtain rest where
    "sort_key (\<lambda>r. (- sv_captured_at r, - sv_created_at r)) (filter (\<lambda>r. sv_tenant_id r = tid) rows) = old # rest"
    by (auto simp: latest_schema_def schemas_by_recency_def split: list.splits)
  from sort_key_append_hd [OF this, of rec] assms(2,3) show ?thesis
    by (auto simp: latest_schema_def schemas_by_recency_def)
qed

lemma capture_schema_Inr:
  assumes "capture_schema env None None new_id now tid (Inr r) rows = (Inr c, rows')"
  obtains (same) latest blob where "is_error r = []"
      "ce_marshal env (normalized_result (ce_sorters env) r) = Inr blob"
      "latest_schema None tid rows = Inr latest" "sv_schema_hash latest = ce_sha env blob"
      "c = capture_report False (normalized_result (ce_sorters env) r) latest" "rows' = rows"
    | (created) rec blob where "is_error r = []"
      "ce_marshal env (normalized_result (ce_sorters env) r) = Inr blob"
      "rec = \<lparr>sv_id = new_id, sv_tenant_id = tid, sv_captured_at = (if is_completed_at r = time_zero
         then now else is_completed_at r), sv_schema_hash = ce_sha env blob, sv_blob = blob,
         sv_created_at = now\<rparr>"
      "c = capture_report True (normalized_result (ce_sorters env) r) rec" "rows' = rows @ [rec]"
      "\<And>latest. latest_schema None tid rows = Inr latest \<Longrightarrow> sv_schema_hash latest \<noteq> ce_sha env blob"
  using assms
  by (auto simp: capture_schema_def create_schema_version_def Let_def
      split: if_splits sum.splits intro: same created)

lemma capture_schema_same:
  assumes "is_error r = []" "ce_marshal env (normalized_result (ce_sorters env) r) = Inr blob"
    "latest_schema None tid rows = Inr latest" "sv_schema_hash latest = ce_sha env blob"
  shows "capture_schema env None None new_id now tid (Inr r) rows =
           (Inr (capture_report False (normalized_result (ce_sorters env) r) latest), rows)"
  using assms by (simp add: capture_schema_def Let_def)

lemma normalized_result_same:
  assumes "good_sorters s" "same_schema (is_schema r) (is_schema r')" "keys_distinct (is_schema r)"
    "is_database_name r = is_database_name r'"
  shows "normalized_result s r = normalized_result s r'"
  using sort_schema_canonical [OF assms(1,1,2,3)] assms(4)
  by (simp add: normalized_result_def normalize_schema_blob_def Let_def)

section \<open>Properties\<close>

text \<open>
  The agent's introspection is complete and in the control plane's normal form: it returns
  all rows of the four queries, each section sorted, and sorting them again on the control plane
  with any implementation of \<open>sort.Slice\<close> changes nothing.
\<close>

theorem introspection_in_normal_form:
  assumes run: "load_schema s db_ops name w = (Inr b, w')"
    and s: "good_sorters s" "good_sorters s'" and distinct: "keys_distinct b"
  shows "normalize_schema_blob s' b = b \<and> sorted (map table_key (sb_tables b)) \<and>
         sorted (map column_key (sb_columns b)) \<and>
         (\<exists>ops ts cs pks fks w1 w2 w3. db_ops = Some ops \<and>
            load_tables ops name w = (Inr ts, w1) \<and> load_columns ops name w1 = (Inr cs, w2) \<and>
            load_primary_keys ops name w2 = (Inr pks, w3) \<and>
            load_foreign_keys ops name w3 = (Inr fks, w') \<and>
            same_schema b \<lparr>sb_database_name = name, sb_tables = ts, sb_columns = cs,
              sb_primary_keys = pks, sb_foreign_keys = fks\<rparr>)"
proof -
  from run obtain ops ts cs pks fks w1 w2 w3 where l: "db_ops = Some ops"
    "load_tables ops name w = (Inr ts, w1)" "load_columns ops name w1 = (Inr cs, w2)"
    "load_primary_keys ops name w2 = (Inr pks, w3)" "load_foreign_keys ops name w3 = (Inr fks, w')"
    and b: "b = sort_schema s \<lparr>sb_database_name = name, sb_tables = ts, sb_columns = cs,
       sb_primary_keys = pks, sb_foreign_keys = fks\<rparr>" (is "b = sort_schema s ?raw")
    by (rule load_schema_Inr)
  have same: "same_schema b ?raw" unfolding b by (rule sort_schema_same [OF s(1)])
  have "sort_schema s' b = sort_schema s ?raw" by (rule sort_schema_canonical [OF s(2,1) same distinct])
  then have "normalize_schema_blob s' b = b"
    by (simp add: normalize_schema_blob_def b)
  moreover have "sorted (map table_key (sb_tables b))" "sorted (map column_key (sb_columns b))"
    using good_sortersD [OF s(1)] by (simp_all add: b sort_schema_def is_sortD(2))
  ultimately show ?thesis using l same by blast
qed

text \<open>
  Versions are created for changes only: after a capture that is the tenant's newest, a
  capture of the same schema, its rows in whatever order, creates nothing and reports the same
  version as unchanged.
\<close>

theorem recapture_creates_no_version:
  assumes "good_sorters (ce_sorters env)" "keys_distinct (is_schema r)"
    and "same_schema (is_schema r) (is_schema r')" "is_database_name r = is_database_name r'"
    and "is_error r' = []"
    and run: "capture_schema env None None i now tid (Inr r) rows = (Inr c, rows')"
    and newest: "\<And>x. x \<in> set rows \<Longrightarrow> scr_changed c \<Longrightarrow> sv_tenant_id x = tid \<Longrightarrow>
      (sv_captured_at x, sv_created_at x) < (scr_captured_at c, now)"
  shows "\<exists>c'. capture_schema env None None i' now' tid (Inr r') rows' = (Inr c', rows') \<and>
           \<not> scr_changed c' \<and> scr_version_id c' = scr_version_id c \<and>
           scr_schema_hash c' = scr_schema_hash c"
proof -
  have norm: "normalized_result (ce_sorters env) r' = normalized_result (ce_sorters env) r"
    using normalized_result_same assms(1-4) by metis
  from run show ?thesis
  proof (cases rule: capture_schema_Inr)
    case (same latest blob)
    with capture_schema_same [of r' env blob tid rows latest] assms(5) norm show ?thesis
      by (simp add: capture_report_def)
  next
    case (created rec blob)
    have "latest_schema None tid (rows @ [rec]) = Inr rec"
      using newest created by (intro latest_schema_newest) (auto simp: capture_report_def)
    with created capture_schema_same [of r' env blob tid "rows @ [rec]" rec] assms(5) norm
    show ?thesis by (simp add: capture_report_def)
  qed
qed

text \<open>
  A version is ranked by the agent's own clock: when the instant the agent reports lies before
  the tenant's latest capture, a changed schema is stored but the old version stays the latest,
  and capturing the same schema again stores it once more.
\<close>

theorem slow_agent_clock_hides_capture:
  assumes old: "latest_schema None tid rows = Inr old"
    and run: "capture_schema env None None i now tid (Inr r) rows = (Inr c, rows')"
    and "scr_changed c" "scr_captured_at c < sv_captured_at old"
    and fresh: "\<not> list_ex (\<lambda>r. sv_id r = i') rows'"
  shows "latest_schema None tid rows' = Inr old \<and>
         (\<exists>c'. fst (capture_schema env None None i' now' tid (Inr r) rows') = Inr c' \<and> scr_changed c' \<and>
            scr_version_id c' = i')"
  using run
proof (cases rule: capture_schema_Inr)
  case (created rec blob)
  have late: "latest_schema None tid rows' = Inr old"
    unfolding created(5) using assms(4) created(3,4)
    by (intro latest_schema_older [OF old]) (auto simp: capture_report_def)
  have "sv_schema_hash old \<noteq> ce_sha env blob" using created(6) old by blast
  with late created(1,2) fresh show ?thesis
    by (simp add: capture_schema_def create_schema_version_def capture_report_def Let_def)
qed (use assms(3) in \<open>simp add: capture_report_def\<close>)

definition example_sorters :: sorters where
  "example_sorters = \<lparr>sort_tables = sort_key table_key, sort_columns = sort_key column_key,
     sort_primary_keys = sort_key primary_key_key, sort_foreign_keys = sort_key foreign_key_key\<rparr>"

lemma sort_key_is_sort: "is_sort (\<lambda>x y. key x < (key y :: 'k :: linorder)) (sort_key key)"
proof -
  have "sorted_wrt (\<lambda>x y. key x \<le> key y) (sort_key key xs)" for xs
    using sorted_sort_key [of key xs] by (simp add: sorted_map)
  then show ?thesis by (simp add: is_sort_def not_less)
qed

lemma example_sorters_good: "good_sorters example_sorters"
  by (simp add: good_sorters_def less_is_key_order example_sorters_def sort_key_is_sort)

definition example_table :: "string \<Rightarrow> schema_table" where
  "example_table n = \<lparr>st_table_schema = ''app'', st_table_name = n, st_table_type = ''BASE TABLE'',
     st_table_comment = []\<rparr>"

definition example_introspect :: "unit introspect_ops" where
  "example_introspect =
     \<lparr>io_tables = (\<lambda>_ w. (Inr \<lparr>sr_rows = [Inr (example_table ''b''), Inr (example_table ''a'')],
        sr_rows_err = None, sr_rows_close = None\<rparr>, w)),
      io_columns = (\<lambda>_ w. (Inr \<lparr>sr_rows = [], sr_rows_err = None, sr_rows_close = None\<rparr>, w)),
      io_primary_keys = (\<lambda>_ w. (Inr \<lparr>sr_rows = [], sr_rows_err = None, sr_rows_close = None\<rparr>, w)),
      io_foreign_keys = (\<lambda>_ w. (Inr \<lparr>sr_rows = [], sr_rows_err = None, sr_rows_close = None\<rparr>, w))\<rparr>"

definition example_blob :: "string list \<Rightarrow> schema_blob" where
  "example_blob ns = \<lparr>sb_database_name = ''app'', sb_tables = map example_table ns, sb_columns = [],
     sb_primary_keys = [], sb_foreign_keys = []\<rparr>"

theorem introspection_in_normal_form_witness:
  "normalize_schema_blob example_sorters (example_blob [''a'', ''b'']) = example_blob [''a'', ''b'']"
proof -
  have run: "load_schema example_sorters (Some example_introspect) ''app'' () =
      (Inr (example_blob [''a'', ''b'']), ())"
    by code_simp
  have "keys_distinct (example_blob [''a'', ''b''])" by code_simp
  from introspection_in_normal_form [OF run example_sorters_good example_sorters_good this]
  show ?thesis by (rule conjunct1)
qed

definition example_result :: "string list \<Rightarrow> time \<Rightarrow> introspect_schema_result" where
  "example_result ns at = \<lparr>is_session_id = ''s'', is_command_id = ''c'', is_completed_at = at,
     is_schema = example_blob ns, is_elapsed_ms = 1, is_database_user = ''u'',
     is_database_name = ''app'', is_error = []\<rparr>"

definition example_capture_env :: capture_env where
  "example_capture_env = \<lparr>ce_sorters = example_sorters,
     ce_marshal = (\<lambda>b. Inr (concat (map st_table_name (sb_tables b)))), ce_sha = id\<rparr>"

theorem recapture_creates_no_version_witness:
  "\<exists>c' rows. capture_schema example_capture_env None None 8 6 3 (Inr (example_result [''b'', ''a''] 5)) rows =
     (Inr c', rows) \<and> scr_version_id c' = 7"
proof -
  have run: "capture_schema example_capture_env None None 7 5 3 (Inr (example_result [''a'', ''b''] 4)) [] =
      (Inr \<lparr>scr_version_id = 7, scr_changed = True, scr_captured_at = 4, scr_schema_hash = ''ab'',
         scr_database_name = ''app'', scr_table_count = 2, scr_column_count = 0,
         scr_foreign_key_count = 0\<rparr>,
       [\<lparr>sv_id = 7, sv_tenant_id = 3, sv_captured_at = 4, sv_schema_hash = ''ab'', sv_blob = ''ab'',
         sv_created_at = 5\<rparr>])"
    by code_simp
  have "good_sorters (ce_sorters example_capture_env)"
    by (simp add: example_capture_env_def example_sorters_good)
  moreover have "keys_distinct (is_schema (example_result [''a'', ''b''] 4))" by code_simp
  moreover have "same_schema (is_schema (example_result [''a'', ''b''] 4))
      (is_schema (example_result [''b'', ''a''] 5))"
    by (simp add: same_schema_def example_result_def example_blob_def)
  ultimately show ?thesis
    using recapture_creates_no_version [OF _ _ _ _ _ run, where r' = "example_result [''b'', ''a''] 5"
        and i' = 8 and now' = 6]
    by (simp add: example_result_def) blast
qed

theorem slow_agent_clock_hides_capture_witness:
  "\<exists>rows. latest_schema None 3 rows = Inr \<lparr>sv_id = 1, sv_tenant_id = 3, sv_captured_at = 9,
     sv_schema_hash = ''old'', sv_blob = [], sv_created_at = 1\<rparr> \<and> length rows = 2"
proof -
  let ?old = "\<lparr>sv_id = 1, sv_tenant_id = 3, sv_captured_at = 9, sv_schema_hash = ''old'', sv_blob = [],
      sv_created_at = 1\<rparr>"
  let ?run = "capture_schema example_capture_env None None 7 5 3 (Inr (example_result [''a''] 4)) [?old]"
  have run: "?run = (Inr \<lparr>scr_version_id = 7, scr_changed = True, scr_captured_at = 4,
      scr_schema_hash = ''a'', scr_database_name = ''app'', scr_table_count = 1,
      scr_column_count = 0, scr_foreign_key_count = 0\<rparr>,
     [?old, \<lparr>sv_id = 7, sv_tenant_id = 3, sv_captured_at = 4, sv_schema_hash = ''a'', sv_blob = ''a'',
         sv_created_at = 5\<rparr>])"
    by code_simp
  have old: "latest_schema None 3 [?old] = Inr ?old" by code_simp
  from slow_agent_clock_hides_capture [OF old run, of 8]
  show ?thesis by (intro exI [of _ "[?old, \<lparr>sv_id = 7, sv_tenant_id = 3, sv_captured_at = 4,
      sv_schema_hash = ''a'', sv_blob = ''a'', sv_created_at = 5\<rparr>]"]) simp
qed

end
