(* ===== verification/SemanticLayer.thy ===== *)
theory SemanticLayer
  imports Router Schemas
begin

text \<open>
  The semantic layer: repository/semantic_layer.go, whose table is a list of rows, and
  controller/semantic_layer.go. Every statement of a transaction may fail, and so may the commit:
  the arguments named \<open>io\<close> hold the database's errors, and a failure leaves the rows as they were.
  The JSON codec of a layer's content is \<open>content_codec\<close>; the language model is the argument
  \<open>complete\<close>. The prompts' Korean texts are fields of the configuration.
\<close>

section \<open>repository/semantic_layer.go\<close>

definition select_layer ::
  "gerr option \<Rightarrow> tenant_semantic_layer list \<Rightarrow> gerr + tenant_semantic_layer" where
  "select_layer io rows =
     (case io of
        Some e \<Rightarrow> Inl (Wrapped ''select semantic layer'' e)
      | None \<Rightarrow> (case rows of [] \<Rightarrow> Inl err_not_found | r # _ \<Rightarrow> Inr r))"

text \<open>ORDER BY approved_at DESC NULLS LAST, created_at DESC.\<close>

definition approval_order :: "tenant_semantic_layer \<Rightarrow> bool \<times> time \<times> time" where
  "approval_order r = (sl_approved_at r = None,
     case sl_approved_at r of Some t \<Rightarrow> - t | None \<Rightarrow> 0, - sl_created_at r)"

definition latest_draft_by_schema_version ::
  "gerr option \<Rightarrow> uuid \<Rightarrow> uuid \<Rightarrow> tenant_semantic_layer list \<Rightarrow> gerr + tenant_semantic_layer" where
  "latest_draft_by_schema_version io tid vid rows =
     select_layer io (sort_key (\<lambda>r. - sl_created_at r)
       (filter (\<lambda>r. sl_tenant_id r = tid \<and> sl_schema_version_id r = vid \<and> sl_status r = LayerDraft) rows))"

definition latest_approved_by_schema_version ::
  "gerr option \<Rightarrow> uuid \<Rightarrow> uuid \<Rightarrow> tenant_semantic_layer list \<Rightarrow> gerr + tenant_semantic_layer" where
  "latest_approved_by_schema_version io tid vid rows =
     select_layer io (sort_key approval_order
       (filter (\<lambda>r. sl_tenant_id r = tid \<and> sl_schema_version_id r = vid \<and> sl_status r = LayerApproved) rows))"

definition latest_approved_by_tenant ::
  "gerr option \<Rightarrow> uuid \<Rightarrow> tenant_semantic_layer list \<Rightarrow> gerr + tenant_semantic_layer" where
  "latest_approved_by_tenant io tid rows =
     select_layer io (sort_key approval_order
       (filter (\<lambda>r. sl_tenant_id r = tid \<and> sl_status r = LayerApproved) rows))"

definition list_approved_history_by_tenant ::
  "gerr option \<Rightarrow> uuid \<Rightarrow> tenant_semantic_layer list \<Rightarrow> gerr + tenant_semantic_layer list" where
  "list_approved_history_by_tenant io tid rows =
     (case io of
        Some e \<Rightarrow> Inl (Wrapped ''list semantic layer history'' e)
      | None \<Rightarrow> Inr (sort_key approval_order
          (filter (\<lambda>r. sl_tenant_id r = tid \<and> sl_approved_at r \<noteq> None) rows)))"

definition layer_by_id ::
  "gerr option \<Rightarrow> uuid \<Rightarrow> uuid \<Rightarrow> tenant_semantic_layer list \<Rightarrow> gerr + tenant_semantic_layer" where
  "layer_by_id io tid lid rows =
     select_layer io (filter (\<lambda>r. sl_tenant_id r = tid \<and> sl_id r = lid) rows)"

text \<open>The statements of the two transactions.\<close>

definition archive_drafts :: "uuid \<Rightarrow> uuid \<Rightarrow> tenant_semantic_layer list \<Rightarrow> tenant_semantic_layer list" where
  "archive_drafts tid vid =
     update_where (\<lambda>r. sl_tenant_id r = tid \<and> sl_schema_version_id r = vid \<and> sl_status r = LayerDraft)
       (\<lambda>r. r\<lparr>sl_status := LayerArchived\<rparr>)"

definition archive_peers ::
  "uuid \<Rightarrow> uuid \<Rightarrow> uuid \<Rightarrow> tenant_semantic_layer list \<Rightarrow> tenant_semantic_layer list" where
  "archive_peers tid vid lid =
     update_where (\<lambda>r. sl_tenant_id r = tid \<and> sl_schema_version_id r = vid \<and> sl_id r \<noteq> lid \<and>
         sl_status r \<in> {LayerDraft, LayerApproved})
       (\<lambda>r. r\<lparr>sl_status := LayerArchived\<rparr>)"

text \<open>
  The primary key and the two partial unique indexes, on the drafts and on the approved layers. A
  \<open>JSONB\<close> column gives back the text it was given.
\<close>

definition layer_conflict :: "tenant_semantic_layer \<Rightarrow> tenant_semantic_layer \<Rightarrow> bool" where
  "layer_conflict r s =
     (sl_id s = sl_id r \<or>
      sl_status r \<in> {LayerDraft, LayerApproved} \<and> sl_status s = sl_status r \<and>
      sl_tenant_id s = sl_tenant_id r \<and> sl_schema_version_id s = sl_schema_version_id r)"

definition insert_layer ::
  "gerr option \<Rightarrow> uuid \<Rightarrow> time \<Rightarrow> uuid \<Rightarrow> uuid \<Rightarrow> semantic_layer_status \<Rightarrow> string \<Rightarrow> time option \<Rightarrow> string option \<Rightarrow>
   tenant_semantic_layer list \<Rightarrow> gerr + tenant_semantic_layer \<times> tenant_semantic_layer list" where
  "insert_layer io new_id now tid vid status content approved_at approved_by rows =
     (case io of
        Some e \<Rightarrow> Inl (Wrapped ''insert semantic layer'' e)
      | None \<Rightarrow>
          (let rec = \<lparr>sl_id = new_id, sl_tenant_id = tid, sl_schema_version_id = vid, sl_status = status,
                      sl_content = content, sl_created_at = now, sl_approved_at = approved_at,
                      sl_approved_by = approved_by\<rparr>
           in if list_ex (layer_conflict rec) rows
              then Inl (Wrapped ''insert semantic layer'' unique_violation) else Inr (rec, rows @ [rec])))"

definition update_approval ::
  "gerr option \<Rightarrow> uuid \<Rightarrow> time \<Rightarrow> string \<Rightarrow> tenant_semantic_layer list \<Rightarrow>
   gerr + tenant_semantic_layer \<times> tenant_semantic_layer list" where
  "update_approval io lid approved_at approved_by rows =
     (case io of
        Some e \<Rightarrow> Inl (Wrapped ''approve semantic layer'' e)
      | None \<Rightarrow>
          (let rows' = update_where (\<lambda>r. sl_id r = lid)
                 (\<lambda>r. r\<lparr>sl_status := LayerApproved, sl_approved_at := Some approved_at,
                       sl_approved_by := Some approved_by\<rparr>) rows
           in case find (\<lambda>r. sl_id r = lid) rows' of
                None \<Rightarrow> Inl (Wrapped ''approve semantic layer'' err_not_found)
              | Some rec \<Rightarrow> Inr (rec, rows')))"

record layer_io =
  li_select :: "gerr option"
  li_archive :: "gerr option"
  li_write :: "gerr option"
  li_commit :: "gerr option"

definition no_io_errors :: layer_io where
  "no_io_errors = \<lparr>li_select = None, li_archive = None, li_write = None, li_commit = None\<rparr>"

definition create_draft_version ::
  "layer_io \<Rightarrow> uuid \<Rightarrow> time \<Rightarrow> uuid \<Rightarrow> uuid \<Rightarrow> string \<Rightarrow> tenant_semantic_layer list \<Rightarrow>
   (gerr + tenant_semantic_layer) \<times> tenant_semantic_layer list" where
  "create_draft_version io new_id now tid vid content rows =
     (case li_archive io of
        Some e \<Rightarrow> (Inl (Wrapped ''archive prior drafts'' e), rows)
      | None \<Rightarrow>
          (case insert_layer (li_write io) new_id now tid vid LayerDraft content None None
                  (archive_drafts tid vid rows) of
             Inl e \<Rightarrow> (Inl e, rows)
           | Inr (rec, rows') \<Rightarrow>
               (case li_commit io of Some e \<Rightarrow> (Inl e, rows) | None \<Rightarrow> (Inr rec, rows'))))"

definition approve_layer ::
  "layer_io \<Rightarrow> uuid \<Rightarrow> uuid \<Rightarrow> time \<Rightarrow> string \<Rightarrow> tenant_semantic_layer list \<Rightarrow>
   (gerr + tenant_semantic_layer) \<times> tenant_semantic_layer list" where
  "approve_layer io tid lid approved_at approved_by rows =
     (case layer_by_id (li_select io) tid lid rows of
        Inl e \<Rightarrow> (Inl e, rows)
      | Inr target \<Rightarrow>
          (case li_archive io of
             Some e \<Rightarrow> (Inl (Wrapped ''archive semantic layer peers'' e), rows)
           | None \<Rightarrow>
               (case update_approval (li_write io) (sl_id target) approved_at approved_by
                       (archive_peers tid (sl_schema_version_id target) (sl_id target) rows) of
                  Inl e \<Rightarrow> (Inl e, rows)
                | Inr (rec, rows') \<Rightarrow>
                    (case li_commit io of Some e \<Rightarrow> (Inl e, rows) | None \<Rightarrow> (Inr rec, rows')))))"

section \<open>controller/semantic_layer.go: contents\<close>

definition err_schema_version_not_found :: gerr where
  "err_schema_version_not_found = Sentinel ''controller.ErrSchemaVersionNotFound'' ''schema version not found''"
definition err_semantic_layer_not_found :: gerr where
  "err_semantic_layer_not_found = Sentinel ''controller.ErrSemanticLayerNotFound'' ''semantic layer not found''"
definition err_semantic_layer_archived :: gerr where
  "err_semantic_layer_archived = Sentinel ''controller.ErrSemanticLayerArchived'' ''semantic layer is archived''"
definition err_invalid_semantic_layer :: gerr where
  "err_invalid_semantic_layer =
     Sentinel ''controller.ErrInvalidSemanticLayer'' ''semantic layer content is invalid''"
definition err_semantic_layer_access_denied :: gerr where
  "err_semantic_layer_access_denied =
     Sentinel ''controller.ErrSemanticLayerAccessDenied'' ''not a member of this tenant''"

definition fq_table :: "string \<Rightarrow> string \<Rightarrow> string" where
  "fq_table schema table = schema @ ''.'' @ table"

definition fq_column :: "string \<Rightarrow> string \<Rightarrow> string \<Rightarrow> string" where
  "fq_column schema table column = schema @ ''.'' @ table @ ''.'' @ column"

fun validate_columns :: "semantic_column list \<Rightarrow> gerr option" where
  "validate_columns [] = None"
| "validate_columns (column # rest) =
     (if trim_space (smc_column_name column) = []
      then Some (Annotated err_invalid_semantic_layer ''column name is required'')
      else validate_columns rest)"

fun validate_tables :: "semantic_table list \<Rightarrow> gerr option" where
  "validate_tables [] = None"
| "validate_tables (table # rest) =
     (if trim_space (smt_table_schema table) = [] \<or> trim_space (smt_table_name table) = []
      then Some (Annotated err_invalid_semantic_layer ''table identifiers are required'')
      else if smt_columns table = [] then
        Some (Annotated err_invalid_semantic_layer
          (''table '' @ fq_table (smt_table_schema table) (smt_table_name table) @ '' must include columns''))
      else (case validate_columns (smt_columns table) of
              Some e \<Rightarrow> Some e
            | None \<Rightarrow> validate_tables rest))"

definition validate_semantic_layer_content :: "semantic_layer_content \<Rightarrow> gerr option" where
  "validate_semantic_layer_content content =
     (if slc_tables content = []
      then Some (Annotated err_invalid_semantic_layer ''at least one table is required'')
      else validate_tables (slc_tables content))"

definition normalize_strings :: "string list \<Rightarrow> string list" where
  "normalize_strings values = filter (\<lambda>v. v \<noteq> []) (map trim_space values)"

definition normalize_entities :: "semantic_entity list \<Rightarrow> semantic_entity list" where
  "normalize_entities entities =
     map (\<lambda>e. e\<lparr>ent_name := trim_space (ent_name e), ent_description := trim_space (ent_description e),
                ent_source_tables := normalize_strings (ent_source_tables e)\<rparr>)
       (filter (\<lambda>e. trim_space (ent_name e) \<noteq> []) entities)"

definition normalize_metrics :: "candidate_metric list \<Rightarrow> candidate_metric list" where
  "normalize_metrics metrics =
     map (\<lambda>m. m\<lparr>met_name := trim_space (met_name m), met_description := trim_space (met_description m),
                met_source_tables := normalize_strings (met_source_tables m)\<rparr>)
       (filter (\<lambda>m. trim_space (met_name m) \<noteq> []) metrics)"

text \<open>The two maps of descriptions, written in the order of the tables; the last one wins.\<close>

definition table_descriptions :: "(string \<Rightarrow> string) \<Rightarrow> semantic_table list \<Rightarrow> (string \<rightharpoonup> string)" where
  "table_descriptions f tables =
     foldl (\<lambda>m t. m(fq_table (smt_table_schema t) (smt_table_name t) \<mapsto> f (smt_description t)))
       Map.empty tables"

definition column_descriptions :: "(string \<Rightarrow> string) \<Rightarrow> semantic_table list \<Rightarrow> (string \<rightharpoonup> string)" where
  "column_descriptions f tables =
     foldl (\<lambda>m c. m(fq_column (smc_table_schema c) (smc_table_name c) (smc_column_name c)
              \<mapsto> f (smc_description c)))
       Map.empty (concat (map smt_columns tables))"

definition hydrate_column :: "(string \<rightharpoonup> string) \<Rightarrow> schema_column \<Rightarrow> semantic_column" where
  "hydrate_column descriptions c =
     \<lparr>smc_table_schema = sc_table_schema c, smc_table_name = sc_table_name c,
      smc_column_name = sc_column_name c, smc_ordinal = sc_ordinal c, smc_data_type = sc_data_type c,
      smc_column_type = sc_column_type c, smc_is_nullable = sc_is_nullable c,
      smc_column_comment = sc_column_comment c,
      smc_description = map_read descriptions
        (fq_column (sc_table_schema c) (sc_table_name c) (sc_column_name c))\<rparr>"

definition hydrate_semantic_layer_from_schema ::
  "schema_blob \<Rightarrow> semantic_layer_content \<Rightarrow> semantic_layer_content" where
  "hydrate_semantic_layer_from_schema schema generated =
     (let tds = table_descriptions trim_space (slc_tables generated);
          cds = column_descriptions trim_space (slc_tables generated);
          columns_by_table = (\<lambda>key. map (hydrate_column cds)
            (filter (\<lambda>c. fq_table (sc_table_schema c) (sc_table_name c) = key) (sb_columns schema)))
      in \<lparr>slc_tables = map (\<lambda>t. \<lparr>smt_table_schema = st_table_schema t, smt_table_name = st_table_name t,
             smt_table_type = st_table_type t, smt_table_comment = st_table_comment t,
             smt_description = map_read tds (fq_table (st_table_schema t) (st_table_name t)),
             smt_columns = columns_by_table (fq_table (st_table_schema t) (st_table_name t))\<rparr>)
             (sb_tables schema),
          slc_entities = normalize_entities (slc_entities generated),
          slc_metrics = normalize_metrics (slc_metrics generated)\<rparr>)"

definition merge_editable_descriptions ::
  "semantic_layer_content \<Rightarrow> semantic_layer_content \<Rightarrow> semantic_layer_content" where
  "merge_editable_descriptions base edited =
     (let tds = table_descriptions id (slc_tables edited);
          cds = column_descriptions id (slc_tables edited);
          merge_column = (\<lambda>c. case cds (fq_column (smc_table_schema c) (smc_table_name c) (smc_column_name c)) of
            Some d \<Rightarrow> c\<lparr>smc_description := d\<rparr> | None \<Rightarrow> c);
          merge_table = (\<lambda>t. (case tds (fq_table (smt_table_schema t) (smt_table_name t)) of
            Some d \<Rightarrow> t\<lparr>smt_description := d\<rparr> | None \<Rightarrow> t)\<lparr>smt_columns := map merge_column (smt_columns t)\<rparr>)
      in \<lparr>slc_tables = map merge_table (slc_tables base), slc_entities = slc_entities base,
          slc_metrics = slc_metrics base\<rparr>)"

section \<open>controller/semantic_layer.go: operations\<close>

record content_codec =
  cc_decode_content :: "string \<Rightarrow> gerr + semantic_layer_content"
  cc_encode_content :: "semantic_layer_content \<Rightarrow> gerr + string"
  cc_decode_schema :: "string \<Rightarrow> gerr + schema_blob"

record semantic_layer_config =
  slg_model :: string
  slg_provider_models :: "(string \<times> string) list"
  slg_max_tokens :: int
  slg_system_prompt :: string
  slg_user_prompt :: string

record semantic_layer_controller =
  slk_model :: string
  slk_provider_models :: "string \<rightharpoonup> string"
  slk_max_tokens :: int
  slk_system_prompt :: string
  slk_user_prompt :: string

definition new_semantic_layer_controller :: "semantic_layer_config \<Rightarrow> semantic_layer_controller" where
  "new_semantic_layer_controller cfg =
     \<lparr>slk_model = (if trim_space (slg_model cfg) = [] then ''claude-sonnet-4-6'' else trim_space (slg_model cfg)),
      slk_provider_models = clone_provider_models (slg_provider_models cfg),
      slk_max_tokens = (if slg_max_tokens cfg \<le> 0 then 16384 else slg_max_tokens cfg),
      slk_system_prompt = slg_system_prompt cfg, slk_user_prompt = slg_user_prompt cfg\<rparr>"

record semantic_layer_record =
  slr_layer :: tenant_semantic_layer
  slr_content :: semantic_layer_content

record get_semantic_layer_result =
  gsl_has_schema :: bool
  gsl_needs_draft :: bool
  gsl_latest_schema :: "tenant_schema_version option"
  gsl_current_layer :: "semantic_layer_record option"
  gsl_approved_baseline :: "semantic_layer_record option"

text \<open>The tables the controller reads and writes.\<close>

record layer_world =
  lw_tenants :: tenant_db
  lw_schemas :: "tenant_schema_version list"
  lw_layers :: "tenant_semantic_layer list"

definition layer_membership :: "gerr option \<Rightarrow> uuid \<Rightarrow> string \<Rightarrow> layer_world \<Rightarrow> gerr option" where
  "layer_membership io tid user w =
     (case ensure_membership io tid user (lw_tenants w) of
        Inl e \<Rightarrow> if errors_is e err_not_found then Some err_semantic_layer_access_denied else Some e
      | Inr _ \<Rightarrow> None)"

definition decode_semantic_layer_record ::
  "content_codec \<Rightarrow> tenant_semantic_layer \<Rightarrow> gerr + semantic_layer_record" where
  "decode_semantic_layer_record codec layer =
     (case cc_decode_content codec (sl_content layer) of
        Inl e \<Rightarrow> Inl (Wrapped ''unmarshal semantic layer content'' e)
      | Inr content \<Rightarrow>
          (case validate_semantic_layer_content content of
             Some e \<Rightarrow> Inl e
           | None \<Rightarrow> Inr \<lparr>slr_layer = layer, slr_content = content\<rparr>))"

definition get_semantic_layer ::
  "content_codec \<Rightarrow> gerr option \<Rightarrow> gerr option \<Rightarrow> gerr option \<Rightarrow> gerr option \<Rightarrow> uuid \<Rightarrow> string \<Rightarrow>
   layer_world \<Rightarrow> gerr + get_semantic_layer_result" where
  "get_semantic_layer codec io1 io2 io3 io4 tid user w =
    (case layer_membership io1 tid user w of
       Some e \<Rightarrow> Inl e
     | None \<Rightarrow>
       (case latest_schema io2 tid (lw_schemas w) of
          Inl e \<Rightarrow>
            (if errors_is e err_not_found then
               Inr \<lparr>gsl_has_schema = False, gsl_needs_draft = False, gsl_latest_schema = None,
                    gsl_current_layer = None, gsl_approved_baseline = None\<rparr>
             else Inl e)
        | Inr schema \<Rightarrow>
          (case (case latest_draft_by_schema_version io3 tid (sv_id schema) (lw_layers w) of
                   Inr draft \<Rightarrow> (case decode_semantic_layer_record codec draft of Inl e \<Rightarrow> Inl e | Inr r \<Rightarrow> Inr (Some r))
                 | Inl e \<Rightarrow> if errors_is e err_not_found then Inr None else Inl e)
           of Inl e \<Rightarrow> Inl e
            | Inr current \<Rightarrow>
              (case (case latest_approved_by_schema_version io4 tid (sv_id schema) (lw_layers w) of
                       Inr approved \<Rightarrow> (case decode_semantic_layer_record codec approved of Inl e \<Rightarrow> Inl e | Inr r \<Rightarrow> Inr (Some r))
                     | Inl e \<Rightarrow> if errors_is e err_not_found then Inr None else Inl e)
               of Inl e \<Rightarrow> Inl e
                | Inr approved \<Rightarrow>
                  (let current' = (case current of None \<Rightarrow> approved | Some _ \<Rightarrow> current);
                       baseline = (case (current, approved) of
                           (Some c, Some a) \<Rightarrow>
                             if sl_id (slr_layer c) \<noteq> sl_id (slr_layer a) then Some a else None
                         | _ \<Rightarrow> None)
                   in Inr \<lparr>gsl_has_schema = True, gsl_needs_draft = (current' = None),
                           gsl_latest_schema = Some schema, gsl_current_layer = current',
                           gsl_approved_baseline = baseline\<rparr>)))))"

definition semantic_layer_output_schema :: json where
  "semantic_layer_output_schema =
    (let string_schema = jtype ''string'';
         table_ref_array = JObject [(''type'', JString ''array''), (''items'', jtype ''string'')];
         column_schema = JObject
           [(''type'', JString ''object''),
            (''properties'', JObject
               [(''table_schema'', string_schema), (''table_name'', string_schema),
                (''column_name'', string_schema), (''ordinal_position'', jtype ''integer''),
                (''data_type'', string_schema), (''column_type'', string_schema),
                (''is_nullable'', jtype ''boolean''), (''column_comment'', string_schema),
                (''description'', string_schema)]),
            (''required'', jstrings [''table_schema'', ''table_name'', ''column_name'',
               ''ordinal_position'', ''data_type'', ''column_type'', ''is_nullable'',
               ''column_comment'', ''description'']),
            (''additionalProperties'', JBool False)];
         table_schema = JObject
           [(''type'', JString ''object''),
            (''properties'', JObject
               [(''table_schema'', string_schema), (''table_name'', string_schema),
                (''table_type'', string_schema), (''table_comment'', string_schema),
                (''description'', string_schema),
                (''columns'', JObject [(''type'', JString ''array''), (''items'', column_schema)])]),
            (''required'', jstrings [''table_schema'', ''table_name'', ''table_type'',
               ''table_comment'', ''description'', ''columns'']),
            (''additionalProperties'', JBool False)];
         named_schema = JObject
           [(''type'', JString ''object''),
            (''properties'', JObject
               [(''name'', string_schema), (''description'', string_schema),
                (''source_tables'', table_ref_array)]),
            (''required'', jstrings [''name'', ''description'', ''source_tables'']),
            (''additionalProperties'', JBool False)]
     in JObject
          [(''type'', JString ''object''),
           (''properties'', JObject
              [(''tables'', JObject [(''type'', JString ''array''), (''items'', table_schema)]),
               (''entities'', JObject [(''type'', JString ''array''), (''items'', named_schema)]),
               (''candidate_metrics'', JObject [(''type'', JString ''array''), (''items'', named_schema)])]),
           (''required'', jstrings [''tables'', ''entities'', ''candidate_metrics'']),
           (''additionalProperties'', JBool False)])"

definition build_semantic_layer_user_prompt :: "semantic_layer_controller \<Rightarrow> string \<Rightarrow> string" where
  "build_semantic_layer_user_prompt c blob = trim_space (slk_user_prompt c) @ [CHR 0x0A] @ blob"

definition draft_request :: "semantic_layer_controller \<Rightarrow> string \<Rightarrow> completion_request" where
  "draft_request c blob =
     \<lparr>req_system = slk_system_prompt c,
      req_messages = [\<lparr>msg_role = ''user'', msg_content = [],
        msg_cached_content = build_semantic_layer_user_prompt c blob\<rparr>],
      req_operation = ''semantic_layer.draft'', req_model = slk_model c,
      req_provider_models = slk_provider_models c,
      req_max_tokens = slk_max_tokens c,
      req_output_format = Some (''semantic_layer_content'', semantic_layer_output_schema),
      req_cache_control = Some (''ephemeral'', ''1h'')\<rparr>"

definition draft_semantic_layer ::
  "content_codec \<Rightarrow> semantic_layer_controller \<Rightarrow> (completion_request \<Rightarrow> gerr + completion_response) \<Rightarrow>
   gerr option \<Rightarrow> gerr option \<Rightarrow> layer_io \<Rightarrow> uuid \<Rightarrow> time \<Rightarrow> uuid \<Rightarrow> string \<Rightarrow> uuid \<Rightarrow> layer_world \<Rightarrow>
   (gerr + semantic_layer_record \<times> llm_usage) \<times> layer_world" where
  "draft_semantic_layer codec c complete io1 io2 io new_id now tid user vid w =
    (case layer_membership io1 tid user w of
       Some e \<Rightarrow> (Inl e, w)
     | None \<Rightarrow>
       (case schema_by_tenant_and_id io2 tid vid (lw_schemas w) of
          Inl e \<Rightarrow>
            (Inl (if errors_is e err_not_found then err_schema_version_not_found else e), w)
        | Inr version \<Rightarrow>
          (case cc_decode_schema codec (sv_blob version) of
             Inl e \<Rightarrow> (Inl (Wrapped ''unmarshal schema blob'' e), w)
           | Inr schema \<Rightarrow>
             (case complete (draft_request c (sv_blob version)) of
                Inl e \<Rightarrow> (Inl e, w)
              | Inr completion \<Rightarrow>
                (case cc_decode_content codec (resp_content completion) of
                   Inl e \<Rightarrow> (Inl (Wrapped ''decode semantic layer output'' e), w)
                 | Inr generated \<Rightarrow>
                   (let content = hydrate_semantic_layer_from_schema schema generated in
                    case validate_semantic_layer_content content of
                      Some e \<Rightarrow> (Inl e, w)
                    | None \<Rightarrow>
                      (case cc_encode_content codec content of
                         Inl e \<Rightarrow> (Inl (Wrapped ''marshal semantic layer content'' e), w)
                       | Inr content_json \<Rightarrow>
                         (case create_draft_version io new_id now tid vid content_json (lw_layers w) of
                            (Inl e, rows) \<Rightarrow> (Inl e, w\<lparr>lw_layers := rows\<rparr>)
                          | (Inr layer, rows) \<Rightarrow>
                              (Inr (\<lparr>slr_layer = layer, slr_content = content\<rparr>, resp_usage completion),
                               w\<lparr>lw_layers := rows\<rparr>)))))))))"

definition update_semantic_layer ::
  "content_codec \<Rightarrow> gerr option \<Rightarrow> gerr option \<Rightarrow> layer_io \<Rightarrow> uuid \<Rightarrow> time \<Rightarrow> uuid \<Rightarrow> string \<Rightarrow> uuid \<Rightarrow>
   semantic_layer_content \<Rightarrow> layer_world \<Rightarrow> (gerr + semantic_layer_record) \<times> layer_world" where
  "update_semantic_layer codec io1 io2 io new_id now tid user lid content w =
    (case layer_membership io1 tid user w of
       Some e \<Rightarrow> (Inl e, w)
     | None \<Rightarrow>
       (case layer_by_id io2 tid lid (lw_layers w) of
          Inl e \<Rightarrow>
            (Inl (if errors_is e err_not_found then err_semantic_layer_not_found else e), w)
        | Inr base_layer \<Rightarrow>
          (if sl_status base_layer = LayerArchived then (Inl err_semantic_layer_archived, w)
           else (case decode_semantic_layer_record codec base_layer of
             Inl e \<Rightarrow> (Inl e, w)
           | Inr base_record \<Rightarrow>
             (let merged = merge_editable_descriptions (slr_content base_record) content in
              case validate_semantic_layer_content merged of
                Some e \<Rightarrow> (Inl e, w)
              | None \<Rightarrow>
                (case cc_encode_content codec merged of
                   Inl e \<Rightarrow> (Inl (Wrapped ''marshal semantic layer content'' e), w)
                 | Inr content_json \<Rightarrow>
                   (case create_draft_version io new_id now tid (sl_schema_version_id base_layer)
                           content_json (lw_layers w) of
                      (Inl e, rows) \<Rightarrow> (Inl e, w\<lparr>lw_layers := rows\<rparr>)
                    | (Inr updated, rows) \<Rightarrow>
                        (Inr \<lparr>slr_layer = updated, slr_content = merged\<rparr>, w\<lparr>lw_layers := rows\<rparr>))))))))"

definition approve_semantic_layer ::
  "content_codec \<Rightarrow> gerr option \<Rightarrow> gerr option \<Rightarrow> layer_io \<Rightarrow> time \<Rightarrow> uuid \<Rightarrow> string \<Rightarrow> uuid \<Rightarrow>
   layer_world \<Rightarrow> (gerr + semantic_layer_record) \<times> layer_world" where
  "approve_semantic_layer codec io1 io2 io now tid user lid w =
    (case layer_membership io1 tid user w of
       Some e \<Rightarrow> (Inl e, w)
     | None \<Rightarrow>
       (case layer_by_id io2 tid lid (lw_layers w) of
          Inl e \<Rightarrow>
            (Inl (if errors_is e err_not_found then err_semantic_layer_not_found else e), w)
        | Inr layer \<Rightarrow>
          (case sl_status layer of
             LayerArchived \<Rightarrow> (Inl err_semantic_layer_archived, w)
           | LayerApproved \<Rightarrow> (decode_semantic_layer_record codec layer, w)
           | LayerDraft \<Rightarrow>
             (case approve_layer io tid lid now user (lw_layers w) of
                (Inl e, rows) \<Rightarrow> (Inl e, w\<lparr>lw_layers := rows\<rparr>)
              | (Inr approved, rows) \<Rightarrow>
                  (decode_semantic_layer_record codec approved, w\<lparr>lw_layers := rows\<rparr>)))))"

section \<open>Slots\<close>

text \<open>
  For a tenant and a schema version the table has two slots that matter, the draft and the
  approved layer.
\<close>

definition in_slot :: "semantic_layer_status \<Rightarrow> uuid \<Rightarrow> uuid \<Rightarrow> tenant_semantic_layer \<Rightarrow> bool" where
  "in_slot st tid vid r \<longleftrightarrow> sl_tenant_id r = tid \<and> sl_schema_version_id r = vid \<and> sl_status r = st"

definition layers_ok :: "tenant_semantic_layer list \<Rightarrow> bool" where
  "layers_ok rows \<longleftrightarrow> distinct (map sl_id rows) \<and>
     (\<forall>st tid vid. st \<noteq> LayerArchived \<longrightarrow> length (filter (in_slot st tid vid) rows) \<le> 1) \<and>
     (\<forall>r \<in> set rows. sl_status r = LayerApproved \<longrightarrow> sl_approved_at r \<noteq> None)"

definition slot :: "semantic_layer_status \<Rightarrow> uuid \<Rightarrow> uuid \<Rightarrow> tenant_semantic_layer list \<Rightarrow>
    tenant_semantic_layer option" where
  "slot st tid vid rows = find (in_slot st tid vid) rows"

text \<open>The abstract store: for each slot the content it holds.\<close>

definition layer_slots ::
  "tenant_semantic_layer list \<Rightarrow> uuid \<times> uuid \<Rightarrow> string option \<times> string option" where
  "layer_slots rows = (\<lambda>(tid, vid). (map_option sl_content (slot LayerDraft tid vid rows),
     map_option sl_content (slot LayerApproved tid vid rows)))"

lemma in_slot_simps [simp]:
  "in_slot st tid vid (r\<lparr>sl_status := LayerArchived\<rparr>) \<longleftrightarrow>
     st = LayerArchived \<and> sl_tenant_id r = tid \<and> sl_schema_version_id r = vid"
  by (auto simp: in_slot_def)

lemma filter_archive_drafts:
  assumes "st \<noteq> LayerArchived"
  shows "filter (in_slot st tid vid) (archive_drafts t v rows) =
           (if st = LayerDraft \<and> tid = t \<and> vid = v then [] else filter (in_slot st tid vid) rows)"
  using assms by (induction rows) (auto simp: archive_drafts_def in_slot_def)

lemma find_filter: "find P xs = (case filter P xs of [] \<Rightarrow> None | x # _ \<Rightarrow> Some x)"
  by (induction xs) auto

lemma slot_filter: "slot st tid vid rows = (case filter (in_slot st tid vid) rows of [] \<Rightarrow> None | r # _ \<Rightarrow> Some r)"
  unfolding slot_def by (rule find_filter)

lemma create_draft_version_Inr:
  assumes "create_draft_version io new_id now tid vid content rows = (Inr rec, rows')"
  shows "rec = \<lparr>sl_id = new_id, sl_tenant_id = tid, sl_schema_version_id = vid, sl_status = LayerDraft,
           sl_content = content, sl_created_at = now, sl_approved_at = None, sl_approved_by = None\<rparr>"
    and "rows' = archive_drafts tid vid rows @ [rec]"
  using assms
  by (auto simp: create_draft_version_def insert_layer_def Let_def split: option.splits if_splits)

lemma create_draft_version_Inl:
  "create_draft_version io new_id now tid vid content rows = (Inl e, rows') \<Longrightarrow> rows' = rows"
  by (auto simp: create_draft_version_def insert_layer_def Let_def split: option.splits if_splits)

lemma create_draft_slots:
  assumes "create_draft_version io new_id now tid vid content rows = (Inr rec, rows')"
    and "st \<noteq> LayerArchived"
  shows "filter (in_slot st t v) rows' =
           (if st = LayerDraft \<and> t = tid \<and> v = vid then [rec] else filter (in_slot st t v) rows)"
proof -
  note r = create_draft_version_Inr [OF assms(1)]
  have "in_slot st t v rec \<longleftrightarrow> st = LayerDraft \<and> t = tid \<and> v = vid" by (auto simp: r(1) in_slot_def)
  then show ?thesis unfolding r(2) using filter_archive_drafts [OF assms(2)] by auto
qed

lemma archive_drafts_ids [simp]: "map sl_id (archive_drafts t v rows) = map sl_id rows"
  by (simp add: archive_drafts_def map_update_where_key)

lemma layers_ok_create:
  assumes ok: "layers_ok rows" and run: "create_draft_version io new_id now tid vid content rows = (res, rows')"
  shows "layers_ok rows'"
proof (cases res)
  case (Inl e)
  with run ok create_draft_version_Inl show ?thesis by blast
next
  case (Inr rec)
  with run have run': "create_draft_version io new_id now tid vid content rows = (Inr rec, rows')" by simp
  note r = create_draft_version_Inr [OF run']
  have "\<not> list_ex (\<lambda>r. sl_id r = new_id) (archive_drafts tid vid rows)"
    using run' by (auto simp: create_draft_version_def insert_layer_def Let_def layer_conflict_def list_ex_iff
        split: option.splits if_splits)
  then have "new_id \<notin> sl_id ` set (archive_drafts tid vid rows)" by (auto simp: list_ex_iff)
  then have "new_id \<notin> set (map sl_id rows)" by (metis archive_drafts_ids image_set)
  then have "distinct (map sl_id rows')" using ok r by (simp add: layers_ok_def)
  moreover have "length (filter (in_slot st t v) rows') \<le> 1" if "st \<noteq> LayerArchived" for st t v
    using create_draft_slots [OF run' that, of t v] ok that by (simp add: layers_ok_def)
  moreover have "sl_approved_at x \<noteq> None" if "x \<in> set rows'" "sl_status x = LayerApproved" for x
    using that ok r unfolding layers_ok_def
    by (auto simp: archive_drafts_def in_set_update_where split: if_splits)
  ultimately show ?thesis by (simp add: layers_ok_def)
qed

section \<open>Approving\<close>

definition approved_row :: "time \<Rightarrow> string \<Rightarrow> tenant_semantic_layer \<Rightarrow> tenant_semantic_layer" where
  "approved_row at by r = r\<lparr>sl_status := LayerApproved, sl_approved_at := Some at, sl_approved_by := Some by\<rparr>"

definition approve_row :: "uuid \<Rightarrow> uuid \<Rightarrow> uuid \<Rightarrow> time \<Rightarrow> string \<Rightarrow> tenant_semantic_layer \<Rightarrow> tenant_semantic_layer" where
  "approve_row tid vid lid at by r =
     (if sl_id r = lid then approved_row at by r
      else if sl_tenant_id r = tid \<and> sl_schema_version_id r = vid \<and> sl_status r \<in> {LayerDraft, LayerApproved}
      then r\<lparr>sl_status := LayerArchived\<rparr> else r)"

lemma approve_row_simps [simp]:
  "sl_id (approve_row tid vid lid at by r) = sl_id r"
  "sl_tenant_id (approve_row tid vid lid at by r) = sl_tenant_id r"
  "sl_schema_version_id (approve_row tid vid lid at by r) = sl_schema_version_id r"
  "sl_content (approve_row tid vid lid at by r) = sl_content r"
  by (simp_all add: approve_row_def approved_row_def)

lemma layer_by_id_Inr:
  "layer_by_id io tid lid rows = Inr r \<Longrightarrow> r \<in> set rows \<and> sl_tenant_id r = tid \<and> sl_id r = lid"
  by (auto simp: layer_by_id_def select_layer_def filter_eq_Cons_iff split: option.splits list.splits)

lemma approve_layer_Inr:
  assumes "approve_layer io tid lid at by rows = (Inr rec, rows')"
  obtains target where "layer_by_id (li_select io) tid lid rows = Inr target"
    "rows' = map (approve_row tid (sl_schema_version_id target) lid at by) rows"
    "rec \<in> set rows'" "sl_id rec = lid"
proof -
  from assms obtain target where t: "layer_by_id (li_select io) tid lid rows = Inr target"
    and u: "update_approval (li_write io) (sl_id target) at by
              (archive_peers tid (sl_schema_version_id target) (sl_id target) rows) = Inr (rec, rows')"
    by (auto simp: approve_layer_def split: sum.splits option.splits prod.splits)
  from layer_by_id_Inr [OF t] have lid: "sl_id target = lid" by simp
  have "update_where (\<lambda>r. sl_id r = lid) (\<lambda>r. r\<lparr>sl_status := LayerApproved, sl_approved_at := Some at,
      sl_approved_by := Some by\<rparr>) (archive_peers tid v lid rows) =
      map (approve_row tid v lid at by) rows" for v
    by (auto simp: archive_peers_def update_where_def approve_row_def approved_row_def)
  with u lid show ?thesis
    by (intro that [OF t]) (auto simp: update_approval_def Let_def
        split: option.splits dest!: find_Some_in_set)
qed

lemma approve_layer_Inl: "approve_layer io tid lid at by rows = (Inl e, rows') \<Longrightarrow> rows' = rows"
  by (auto simp: approve_layer_def split: sum.splits option.splits prod.splits)

lemma filter_map_eq: "filter P (map f xs) = map f (filter (P \<circ> f) xs)"
  by (induction xs) auto

lemma filter_unique_key:
  assumes "distinct (map k xs)" "x \<in> set xs" "P x" "\<And>y. y \<in> set xs \<Longrightarrow> P y \<Longrightarrow> k y = k x"
  shows "filter P xs = [x]"
proof -
  let ?ys = "filter (\<lambda>y. k y = k x) xs"
  have "x \<in> set ?ys" "length ?ys \<le> 1" using assms(2) filter_key_unique [OF assms(1)] by auto
  then have ys: "?ys = [x]" by (cases ?ys) auto
  have "filter P xs = filter P ?ys" using assms(4) by (auto intro: filter_cong)
  with ys assms(3) show ?thesis by simp
qed

lemma approve_slots:
  assumes ok: "distinct (map sl_id rows)" and run: "approve_layer io tid lid at by rows = (Inr rec, rows')"
    and target: "layer_by_id (li_select io) tid lid rows = Inr target"
    and st: "st \<noteq> LayerArchived"
  shows "filter (in_slot st t v) rows' =
    (if t = tid \<and> v = sl_schema_version_id target
     then if st = LayerApproved then [approved_row at by target] else []
     else filter (in_slot st t v) rows)"
proof -
  let ?v = "sl_schema_version_id target"
  let ?g = "approve_row tid ?v lid at by"
  from run target have rows': "rows' = map ?g rows" by (auto elim!: approve_layer_Inr)
  note tgt = layer_by_id_Inr [OF target]
  have same: "r = target" if "r \<in> set rows" "sl_id r = lid" for r
    using that tgt ok by (metis distinct_map inj_onD)
  have slot: "in_slot st t v (?g r) \<longleftrightarrow> (if t = tid \<and> v = ?v then st = LayerApproved \<and> r = target
      else in_slot st t v r)" if "r \<in> set rows" for r
    using same [OF that] that tgt st
    by (cases "sl_id r = lid"; cases "sl_status r")
      (auto simp: in_slot_def approve_row_def approved_row_def)
  show ?thesis
  proof (cases "t = tid \<and> v = ?v")
    case True
    have "filter (in_slot st t v \<circ> ?g) rows = (if st = LayerApproved then [target] else [])"
      using slot True tgt filter_unique_key [OF ok, of target "in_slot st t v \<circ> ?g"]
      by (auto simp: filter_empty_conv)
    with True tgt show ?thesis by (auto simp: rows' filter_map_eq approve_row_def)
  next
    case False
    have "filter (in_slot st t v \<circ> ?g) rows = filter (in_slot st t v) rows"
      using slot False by (auto intro: filter_cong)
    moreover have "map ?g (filter (in_slot st t v) rows) = filter (in_slot st t v) rows"
      using False same tgt by (intro map_idI) (auto simp: in_slot_def approve_row_def)
    ultimately show ?thesis using False by (auto simp: rows' filter_map_eq)
  qed
qed

lemma layers_ok_approve:
  assumes ok: "layers_ok rows" and run: "approve_layer io tid lid at by rows = (res, rows')"
  shows "layers_ok rows'"
proof (cases res)
  case (Inl e)
  with run ok approve_layer_Inl show ?thesis by blast
next
  case (Inr rec)
  with run have run': "approve_layer io tid lid at by rows = (Inr rec, rows')" by simp
  then obtain target where target: "layer_by_id (li_select io) tid lid rows = Inr target"
    and rows': "rows' = map (approve_row tid (sl_schema_version_id target) lid at by) rows"
    by (rule approve_layer_Inr)
  have ids: "distinct (map sl_id rows)" using ok by (simp add: layers_ok_def)
  have "map sl_id rows' = map sl_id rows" by (simp add: rows')
  then have "distinct (map sl_id rows')" using ids by simp
  moreover have "length (filter (in_slot st t v) rows') \<le> 1" if "st \<noteq> LayerArchived" for st t v
    using approve_slots [OF ids run' target that, of t v] ok that by (simp add: layers_ok_def)
  moreover have "sl_approved_at x \<noteq> None" if "x \<in> set rows'" "sl_status x = LayerApproved" for x
    using that ok by (auto simp: rows' layers_ok_def approve_row_def approved_row_def split: if_splits)
  ultimately show ?thesis by (simp add: layers_ok_def)
qed

text \<open>Histories of the table: drafts stored by \<open>Draft\<close> and \<open>Update\<close>, and approvals.\<close>

datatype layer_op =
    CreateDraft layer_io uuid time uuid uuid string
  | ApproveLayer layer_io uuid uuid time string

fun apply_layer_op :: "layer_op \<Rightarrow> tenant_semantic_layer list \<Rightarrow> tenant_semantic_layer list" where
  "apply_layer_op (CreateDraft io i now tid vid content) rows =
     snd (create_draft_version io i now tid vid content rows)"
| "apply_layer_op (ApproveLayer io tid lid at by) rows = snd (approve_layer io tid lid at by rows)"

inductive layers_reachable :: "tenant_semantic_layer list \<Rightarrow> bool" where
  empty: "layers_reachable []"
| step: "layers_reachable rows \<Longrightarrow> layers_reachable (apply_layer_op op rows)"

lemma layers_ok_op: "layers_ok rows \<Longrightarrow> layers_ok (apply_layer_op op rows)"
  by (cases op) (auto intro: layers_ok_create [OF _ prod.collapse [symmetric]]
      layers_ok_approve [OF _ prod.collapse [symmetric]])

lemma layers_ok_reachable: "layers_reachable rows \<Longrightarrow> layers_ok rows"
proof (induction rule: layers_reachable.induct)
  case empty
  then show ?case by (simp add: layers_ok_def)
qed (rule layers_ok_op)

lemma create_refines:
  assumes "create_draft_version io i now tid vid content rows = (Inr rec, rows')"
  shows "layer_slots rows' = (layer_slots rows)((tid, vid) := (Some content, snd (layer_slots rows (tid, vid))))"
  using create_draft_slots [OF assms] create_draft_version_Inr(1) [OF assms]
  by (auto simp: layer_slots_def slot_filter fun_eq_iff)

lemma approve_refines:
  assumes "distinct (map sl_id rows)" "approve_layer io tid lid at by rows = (Inr rec, rows')"
    and "layer_by_id (li_select io) tid lid rows = Inr target"
  shows "layer_slots rows' =
           (layer_slots rows)((tid, sl_schema_version_id target) := (None, Some (sl_content target)))"
  using approve_slots [OF assms]
  by (auto simp: layer_slots_def slot_filter fun_eq_iff approved_row_def)

lemma length_one_sort: "length xs \<le> 1 \<Longrightarrow> sort_key f xs = xs"
  by (cases xs) auto

lemma latest_by_slot:
  assumes "layers_ok rows"
  shows "latest_draft_by_schema_version None tid vid rows =
           (case slot LayerDraft tid vid rows of None \<Rightarrow> Inl err_not_found | Some r \<Rightarrow> Inr r)"
    and "latest_approved_by_schema_version None tid vid rows =
           (case slot LayerApproved tid vid rows of None \<Rightarrow> Inl err_not_found | Some r \<Rightarrow> Inr r)"
proof -
  have len: "length (filter (in_slot LayerDraft tid vid) rows) \<le> 1"
    "length (filter (in_slot LayerApproved tid vid) rows) \<le> 1"
    using assms by (auto simp: layers_ok_def)
  have eq: "(\<lambda>r. sl_tenant_id r = tid \<and> sl_schema_version_id r = vid \<and> sl_status r = st) = in_slot st tid vid"
    for st by (simp add: in_slot_def fun_eq_iff)
  show "latest_draft_by_schema_version None tid vid rows =
           (case slot LayerDraft tid vid rows of None \<Rightarrow> Inl err_not_found | Some r \<Rightarrow> Inr r)"
    and "latest_approved_by_schema_version None tid vid rows =
           (case slot LayerApproved tid vid rows of None \<Rightarrow> Inl err_not_found | Some r \<Rightarrow> Inr r)"
    using len by (auto simp: latest_draft_by_schema_version_def latest_approved_by_schema_version_def eq
        length_one_sort select_layer_def slot_filter split: list.splits)
qed

section \<open>Contents\<close>

definition column_ids :: "semantic_column \<Rightarrow> string \<times> string \<times> string \<times> int \<times> string \<times> string \<times> bool \<times> string" where
  "column_ids c = (smc_table_schema c, smc_table_name c, smc_column_name c, smc_ordinal c,
     smc_data_type c, smc_column_type c, smc_is_nullable c, smc_column_comment c)"

definition table_ids where
  "table_ids t = (smt_table_schema t, smt_table_name t, smt_table_type t, smt_table_comment t,
     map column_ids (smt_columns t))"

lemma column_ids_hydrate:
  "column_ids (hydrate_column ds c) = (sc_table_schema c, sc_table_name c, sc_column_name c,
     sc_ordinal c, sc_data_type c, sc_column_type c, sc_is_nullable c, sc_column_comment c)"
  by (simp add: column_ids_def hydrate_column_def)

lemma hydrate_ids:
  "map table_ids (slc_tables (hydrate_semantic_layer_from_schema schema generated)) =
     map table_ids (slc_tables (hydrate_semantic_layer_from_schema schema
       \<lparr>slc_tables = [], slc_entities = [], slc_metrics = []\<rparr>))"
  by (simp add: hydrate_semantic_layer_from_schema_def Let_def table_ids_def column_ids_hydrate o_def)

lemma merge_ids:
  "map table_ids (slc_tables (merge_editable_descriptions base edited)) = map table_ids (slc_tables base)"
  by (auto simp: merge_editable_descriptions_def Let_def table_ids_def column_ids_def
      split: option.splits)

lemma validate_columns_ids:
  "map column_ids cs = map column_ids ds \<Longrightarrow> validate_columns cs = validate_columns ds"
proof (induction cs arbitrary: ds)
  case (Cons c cs)
  then show ?case by (cases ds) (auto simp: column_ids_def)
qed simp

lemma validate_tables_ids:
  "map table_ids ts = map table_ids us \<Longrightarrow> validate_tables ts = validate_tables us"
proof (induction ts arbitrary: us)
  case (Cons t ts)
  then obtain u us' where us: "us = u # us'" "table_ids t = table_ids u" "map table_ids ts = map table_ids us'"
    by (cases us) auto
  from us(2) have cols: "map column_ids (smt_columns t) = map column_ids (smt_columns u)"
    and "smt_table_schema t = smt_table_schema u" "smt_table_name t = smt_table_name u"
    by (auto simp: table_ids_def)
  moreover from cols have "smt_columns t = [] \<longleftrightarrow> smt_columns u = []"
    by (metis map_is_Nil_conv)
  ultimately show ?case using Cons.IH [OF us(3)] validate_columns_ids [OF cols] us(1)
    by (simp split: option.split)
qed simp

lemma validate_content_ids:
  "map table_ids (slc_tables c) = map table_ids (slc_tables d) \<Longrightarrow>
     validate_semantic_layer_content c = validate_semantic_layer_content d"
  using validate_tables_ids [of "slc_tables c" "slc_tables d"]
  by (auto simp: validate_semantic_layer_content_def)

lemma layer_membership_None:
  "layer_membership io tid user w = None \<longleftrightarrow> (\<exists>m. ensure_membership io tid user (lw_tenants w) = Inr m)"
  by (auto simp: layer_membership_def split: sum.splits if_splits)

lemma draft_semantic_layer_Inr:
  assumes "draft_semantic_layer codec c complete io1 io2 io i now tid user vid w = (Inr (rec, usage), w')"
  obtains version schema generated completion content_json where
    "layer_membership io1 tid user w = None"
    "schema_by_tenant_and_id io2 tid vid (lw_schemas w) = Inr version"
    "cc_decode_schema codec (sv_blob version) = Inr schema"
    "complete (draft_request c (sv_blob version)) = Inr completion"
    "cc_decode_content codec (resp_content completion) = Inr generated"
    "slr_content rec = hydrate_semantic_layer_from_schema schema generated"
    "validate_semantic_layer_content (slr_content rec) = None"
    "cc_encode_content codec (slr_content rec) = Inr content_json"
    "create_draft_version io i now tid vid content_json (lw_layers w) = (Inr (slr_layer rec), lw_layers w')"
  using assms
  by (auto simp: draft_semantic_layer_def Let_def split: option.splits sum.splits prod.splits)

lemma update_semantic_layer_Inr:
  assumes "update_semantic_layer codec io1 io2 io i now tid user lid content w = (Inr rec, w')"
  obtains base base_record content_json where
    "layer_membership io1 tid user w = None"
    "layer_by_id io2 tid lid (lw_layers w) = Inr base" "sl_status base \<noteq> LayerArchived"
    "decode_semantic_layer_record codec base = Inr base_record"
    "slr_content rec = merge_editable_descriptions (slr_content base_record) content"
    "cc_encode_content codec (slr_content rec) = Inr content_json"
    "create_draft_version io i now tid (sl_schema_version_id base) content_json (lw_layers w) =
       (Inr (slr_layer rec), lw_layers w')"
  using assms
  by (auto simp: update_semantic_layer_def Let_def split: option.splits sum.splits prod.splits if_splits)

lemma filter_map_same:
  assumes "\<And>x. x \<in> set xs \<Longrightarrow> P (f x) = P x" "\<And>x. x \<in> set xs \<Longrightarrow> P x \<Longrightarrow> f x = x"
  shows "filter P (map f xs) = filter P xs"
proof -
  have "filter (P \<circ> f) xs = filter P xs" using assms(1) by (auto intro: filter_cong)
  moreover have "map f (filter P xs) = filter P xs" using assms(2) by (intro map_idI) auto
  ultimately show ?thesis by (simp add: filter_map_eq)
qed

lemma create_draft_other_tenants:
  "create_draft_version io i now tid vid content rows = (res, rows') \<Longrightarrow>
     filter (\<lambda>r. sl_tenant_id r \<noteq> tid) rows' = filter (\<lambda>r. sl_tenant_id r \<noteq> tid) rows"
proof (cases res)
  case (Inr rec)
  assume run: "create_draft_version io i now tid vid content rows = (res, rows')"
  note r = create_draft_version_Inr [OF run [unfolded Inr]]
  have "filter (\<lambda>r. sl_tenant_id r \<noteq> tid) (archive_drafts tid vid rows) = filter (\<lambda>r. sl_tenant_id r \<noteq> tid) rows"
    unfolding archive_drafts_def update_where_def by (rule filter_map_same) auto
  with r show ?thesis by simp
qed (use create_draft_version_Inl in blast)

lemma approve_other_tenants:
  assumes "distinct (map sl_id rows)" "approve_layer io tid lid at by rows = (res, rows')"
  shows "filter (\<lambda>r. sl_tenant_id r \<noteq> tid) rows' = filter (\<lambda>r. sl_tenant_id r \<noteq> tid) rows"
proof (cases res)
  case (Inr rec)
  from assms(2) [unfolded Inr] obtain target where
    t: "layer_by_id (li_select io) tid lid rows = Inr target"
    and rows': "rows' = map (approve_row tid (sl_schema_version_id target) lid at by) rows"
    by (rule approve_layer_Inr)
  note tgt = layer_by_id_Inr [OF t]
  have "approve_row tid (sl_schema_version_id target) lid at by r = r"
    if "r \<in> set rows" "sl_tenant_id r \<noteq> tid" for r
  proof -
    have "sl_id r \<noteq> lid"
      using distinct_map_same_key [OF assms(1) that(1), of target] that(2) tgt by auto
    with that(2) show ?thesis by (simp add: approve_row_def)
  qed
  then show ?thesis unfolding rows' by (intro filter_map_same) simp_all
qed (use assms(2) approve_layer_Inl in blast)

lemma approve_layer_succeeds:
  assumes "layer_by_id None tid lid rows = Inr target"
  shows "\<exists>rec rows'. approve_layer no_io_errors tid lid at by rows = (Inr rec, rows')"
proof -
  let ?f = "\<lambda>r. r\<lparr>sl_status := LayerApproved, sl_approved_at := Some at, sl_approved_by := Some by\<rparr>"
  let ?rows = "update_where (\<lambda>r. sl_id r = sl_id target) ?f
      (archive_peers tid (sl_schema_version_id target) (sl_id target) rows)"
  have "map sl_id ?rows = map sl_id rows"
    by (simp add: archive_peers_def map_update_where_key)
  moreover have "sl_id target \<in> set (map sl_id rows)" using layer_by_id_Inr [OF assms] by auto
  ultimately have "sl_id target \<in> set (map sl_id ?rows)" by simp
  then have "find (\<lambda>r. sl_id r = sl_id target) ?rows \<noteq> None" by (auto simp: find_None_iff)
  then obtain r where "find (\<lambda>r. sl_id r = sl_id target) ?rows = Some r" by blast
  with assms show ?thesis
    by (simp add: approve_layer_def no_io_errors_def update_approval_def Let_def)
qed

section \<open>Properties\<close>

text \<open>
  After any history of drafts and approvals, with failures anywhere in their transactions, a
  tenant has at most one draft and at most one approved layer per schema version, ids are unique
  and an approved layer has its approval instant: what the table's partial unique indexes
  demand, so that no statement of the code can violate them.
\<close>

theorem one_draft_one_approved:
  assumes "layers_reachable rows"
  shows "distinct (map sl_id rows) \<and>
         (\<forall>st tid vid. st \<noteq> LayerArchived \<longrightarrow> length (filter (in_slot st tid vid) rows) \<le> 1) \<and>
         (\<forall>r \<in> set rows. sl_status r = LayerApproved \<longrightarrow> sl_approved_at r \<noteq> None)"
  using layers_ok_reachable [OF assms] unfolding layers_ok_def .

text \<open>
  C21. The table of layers implements a store of two slots per tenant and schema version: a new
  draft replaces the draft and keeps the approved layer, an approval moves the layer's content to
  the approved slot and empties the draft, a failure changes no slot, and the two queries read
  the slots.
\<close>

theorem layer_table_refines_slots:
  assumes "layers_reachable rows"
  shows "(\<forall>io i now tid vid content rec rows'.
            create_draft_version io i now tid vid content rows = (Inr rec, rows') \<longrightarrow>
            layer_slots rows' =
              (layer_slots rows)((tid, vid) := (Some content, snd (layer_slots rows (tid, vid))))) \<and>
         (\<forall>io tid lid at by rec rows' target.
            approve_layer io tid lid at by rows = (Inr rec, rows') \<longrightarrow>
            layer_by_id (li_select io) tid lid rows = Inr target \<longrightarrow>
            layer_slots rows' =
              (layer_slots rows)((tid, sl_schema_version_id target) := (None, Some (sl_content target)))) \<and>
         (\<forall>op e. fst (case op of CreateDraft io i now tid vid c \<Rightarrow> create_draft_version io i now tid vid c rows
                     | ApproveLayer io tid lid at by \<Rightarrow> approve_layer io tid lid at by rows) = Inl e \<longrightarrow>
            apply_layer_op op rows = rows) \<and>
         (\<forall>tid vid. layer_slots rows (tid, vid) =
            (case latest_draft_by_schema_version None tid vid rows of Inr r \<Rightarrow> Some (sl_content r) | Inl _ \<Rightarrow> None,
             case latest_approved_by_schema_version None tid vid rows of Inr r \<Rightarrow> Some (sl_content r) | Inl _ \<Rightarrow> None))"
proof -
  have ok: "layers_ok rows" using assms by (rule layers_ok_reachable)
  then have ids: "distinct (map sl_id rows)" by (simp add: layers_ok_def)
  have fails: "apply_layer_op op rows = rows"
    if "fst (case op of CreateDraft io i now tid vid c \<Rightarrow> create_draft_version io i now tid vid c rows
          | ApproveLayer io tid lid at by \<Rightarrow> approve_layer io tid lid at by rows) = Inl e" for op e
    using that by (cases op)
      (auto intro: create_draft_version_Inl [OF prod_eqI] approve_layer_Inl [OF prod_eqI])
  have reads: "layer_slots rows (tid, vid) =
      (case latest_draft_by_schema_version None tid vid rows of Inr r \<Rightarrow> Some (sl_content r) | Inl _ \<Rightarrow> None,
       case latest_approved_by_schema_version None tid vid rows of Inr r \<Rightarrow> Some (sl_content r) | Inl _ \<Rightarrow> None)"
    for tid vid
    by (simp add: latest_by_slot [OF ok] layer_slots_def split: option.split)
  show ?thesis using create_refines approve_refines [OF ids] fails reads by blast
qed

text \<open>
  C22. The language model cannot change the schema: the tables and columns of a stored draft, with
  their types and comments, are those of the captured schema in its order, and the model's output
  supplies descriptions only. An edit in turn changes descriptions only.
\<close>

theorem model_writes_descriptions_only:
  "(\<forall>codec c complete io1 io2 io i now tid user vid w rec usage w'.
      draft_semantic_layer codec c complete io1 io2 io i now tid user vid w = (Inr (rec, usage), w') \<longrightarrow>
      (\<exists>version schema. schema_by_tenant_and_id io2 tid vid (lw_schemas w) = Inr version \<and>
         cc_decode_schema codec (sv_blob version) = Inr schema \<and>
         map table_ids (slc_tables (slr_content rec)) =
           map (\<lambda>t. (st_table_schema t, st_table_name t, st_table_type t, st_table_comment t,
                  map (\<lambda>c. (sc_table_schema c, sc_table_name c, sc_column_name c, sc_ordinal c,
                         sc_data_type c, sc_column_type c, sc_is_nullable c, sc_column_comment c))
                    (filter (\<lambda>c. fq_table (sc_table_schema c) (sc_table_name c) =
                                 fq_table (st_table_schema t) (st_table_name t)) (sb_columns schema))))
             (sb_tables schema))) \<and>
   (\<forall>codec io1 io2 io i now tid user lid content w rec w'.
      update_semantic_layer codec io1 io2 io i now tid user lid content w = (Inr rec, w') \<longrightarrow>
      (\<exists>base base_record. layer_by_id io2 tid lid (lw_layers w) = Inr base \<and>
         sl_status base \<noteq> LayerArchived \<and> decode_semantic_layer_record codec base = Inr base_record \<and>
         map table_ids (slc_tables (slr_content rec)) = map table_ids (slc_tables (slr_content base_record)) \<and>
         slc_entities (slr_content rec) = slc_entities (slr_content base_record) \<and>
         slc_metrics (slr_content rec) = slc_metrics (slr_content base_record)))"
proof (intro conjI allI impI, goal_cases)
  case (1 codec c complete io1 io2 io i now tid user vid w rec usage w')
  then show ?case
    by (auto elim!: draft_semantic_layer_Inr simp: hydrate_semantic_layer_from_schema_def Let_def
        table_ids_def column_ids_hydrate o_def)
next
  case (2 codec io1 io2 io i now tid user lid content w rec w')
  then obtain base base_record where "layer_by_id io2 tid lid (lw_layers w) = Inr base"
    "sl_status base \<noteq> LayerArchived" "decode_semantic_layer_record codec base = Inr base_record"
    "slr_content rec = merge_editable_descriptions (slr_content base_record) content"
    by (rule update_semantic_layer_Inr)
  moreover have "slc_entities (merge_editable_descriptions b c) = slc_entities b"
    "slc_metrics (merge_editable_descriptions b c) = slc_metrics b" for b c
    by (simp_all add: merge_editable_descriptions_def Let_def)
  ultimately show ?case by (auto simp: merge_ids)
qed

text \<open>
  The approval's transaction does not look at the status it overwrites: a layer that was
  archived after the controller's check, by a newer draft for instance, is approved all the same,
  and the newer draft is archived in its place.
\<close>

theorem approval_overwrites_newer_draft:
  assumes "layers_ok rows" "layer_by_id None tid lid rows = Inr target" "sl_status target = LayerArchived"
  shows "\<exists>rec rows'. approve_layer no_io_errors tid lid at by rows = (Inr rec, rows') \<and>
           rec = approved_row at by target \<and>
           slot LayerDraft tid (sl_schema_version_id target) rows' = None"
proof -
  have ids: "distinct (map sl_id rows)" using assms(1) by (simp add: layers_ok_def)
  note tgt = layer_by_id_Inr [OF assms(2)]
  obtain rec rows' where run: "approve_layer no_io_errors tid lid at by rows = (Inr rec, rows')"
    using approve_layer_succeeds [OF assms(2)] by blast
  from run obtain t' where t': "layer_by_id None tid lid rows = Inr t'"
    and rows': "rows' = map (approve_row tid (sl_schema_version_id t') lid at by) rows"
    and rec: "rec \<in> set rows'" "sl_id rec = lid"
    by (rule approve_layer_Inr) (auto simp: no_io_errors_def)
  with assms(2) have [simp]: "t' = target" by simp
  from rec rows' obtain r where r: "r \<in> set rows"
    "rec = approve_row tid (sl_schema_version_id target) lid at by r" by auto
  then have "sl_id r = lid" using rec(2) by simp
  with tgt r(1) have "r = target" using distinct_map_same_key [OF ids r(1), of target] by simp
  with r tgt have "rec = approved_row at by target" by (simp add: approve_row_def)
  moreover have "slot LayerDraft tid (sl_schema_version_id target) rows' = None"
    using approve_slots [OF ids run, of target LayerDraft] assms(2)
    by (simp add: slot_filter no_io_errors_def)
  ultimately show ?thesis using run by blast
qed

definition example_layers :: "tenant_semantic_layer list" where
  "example_layers = apply_layer_op (CreateDraft no_io_errors 2 20 3 5 ''b'')
     (apply_layer_op (CreateDraft no_io_errors 1 10 3 5 ''a'') [])"

lemma example_layers_rows:
  "example_layers =
     [\<lparr>sl_id = 1, sl_tenant_id = 3, sl_schema_version_id = 5, sl_status = LayerArchived, sl_content = ''a'',
       sl_created_at = 10, sl_approved_at = None, sl_approved_by = None\<rparr>,
      \<lparr>sl_id = 2, sl_tenant_id = 3, sl_schema_version_id = 5, sl_status = LayerDraft, sl_content = ''b'',
       sl_created_at = 20, sl_approved_at = None, sl_approved_by = None\<rparr>]"
  by code_simp

lemma example_layers_reachable: "layers_reachable example_layers"
  unfolding example_layers_def by (intro layers_reachable.intros)

theorem one_draft_one_approved_witness:
  "length (filter (in_slot LayerDraft 3 5) example_layers) \<le> 1"
  using one_draft_one_approved [OF example_layers_reachable] by blast

theorem layer_table_refines_slots_witness:
  "layer_slots example_layers (3, 5) = (Some ''b'', None) \<and>
   layer_slots (snd (approve_layer no_io_errors 3 2 30 ''u'' example_layers)) (3, 5) = (None, Some ''b'')"
proof -
  have now: "layer_slots example_layers (3, 5) = (Some ''b'', None)" by code_simp
  have target: "layer_by_id (li_select no_io_errors) 3 2 example_layers = Inr (example_layers ! 1)"
    by code_simp
  then obtain rec rows' where run: "approve_layer no_io_errors 3 2 30 ''u'' example_layers = (Inr rec, rows')"
    using approve_layer_succeeds [of 3 2 example_layers "example_layers ! 1" 30 "''u''"]
    by (auto simp: no_io_errors_def)
  have "layer_slots rows' =
      (layer_slots example_layers)((3, sl_schema_version_id (example_layers ! 1)) :=
        (None, Some (sl_content (example_layers ! 1))))"
    using layer_table_refines_slots [OF example_layers_reachable] run target by blast
  moreover have "sl_schema_version_id (example_layers ! 1) = 5" "sl_content (example_layers ! 1) = ''b''"
    by (simp_all add: example_layers_rows)
  ultimately show ?thesis using now run by simp
qed

definition example_content :: semantic_layer_content where
  "example_content =
     \<lparr>slc_tables = [\<lparr>smt_table_schema = ''app'', smt_table_name = ''t'', smt_table_type = ''BASE TABLE'',
        smt_table_comment = [], smt_description = ''old'',
        smt_columns = [\<lparr>smc_table_schema = ''app'', smc_table_name = ''t'', smc_column_name = ''c'',
          smc_ordinal = 1, smc_data_type = ''int'', smc_column_type = ''int'', smc_is_nullable = False,
          smc_column_comment = [], smc_description = ''x''\<rparr>]\<rparr>],
      slc_entities = [], slc_metrics = []\<rparr>"

definition example_codec_content :: content_codec where
  "example_codec_content = \<lparr>cc_decode_content = (\<lambda>_. Inr example_content),
     cc_encode_content = (\<lambda>_. Inr ''json''), cc_decode_schema = (\<lambda>_. Inl (ErrNew ''no''))\<rparr>"

definition example_layer_world :: layer_world where
  "example_layer_world = \<lparr>lw_tenants = empty_db\<lparr>tenant_users := [\<lparr>tu_tenant_id = 3,
       tu_clerk_user_id = ''u'', tu_role = RoleOwner, tu_created_at = 0\<rparr>]\<rparr>,
     lw_schemas = [], lw_layers = example_layers\<rparr>"

theorem model_writes_descriptions_only_witness:
  "\<exists>rec w'. update_semantic_layer example_codec_content None None no_io_errors 9 40 3 ''u'' 2
      (example_content\<lparr>slc_tables := []\<rparr>) example_layer_world = (Inr rec, w') \<and>
     map table_ids (slc_tables (slr_content rec)) = map table_ids (slc_tables example_content)"
proof -
  let ?run = "update_semantic_layer example_codec_content None None no_io_errors 9 40 3 ''u'' 2
      (example_content\<lparr>slc_tables := []\<rparr>) example_layer_world"
  have "\<not> isl (fst ?run)" by code_simp
  then obtain rec w' where run: "?run = (Inr rec, w')"
    by (cases ?run; cases "fst ?run") auto
  obtain base base_record where "layer_by_id None 3 2 (lw_layers example_layer_world) = Inr base"
    "decode_semantic_layer_record example_codec_content base = Inr base_record"
    "map table_ids (slc_tables (slr_content rec)) = map table_ids (slc_tables (slr_content base_record))"
    using conjunct2 [OF model_writes_descriptions_only, rule_format, OF run] by blast
  moreover from this(2) have "slr_content base_record = example_content"
    by (auto simp: decode_semantic_layer_record_def example_codec_content_def split: option.splits)
  ultimately show ?thesis using run by auto
qed

theorem approval_overwrites_newer_draft_witness:
  "slot LayerDraft 3 5 example_layers \<noteq> None \<and>
   slot LayerDraft 3 5 (snd (approve_layer no_io_errors 3 1 30 ''u'' example_layers)) = None"
proof -
  have ok: "layers_ok example_layers" by (rule layers_ok_reachable [OF example_layers_reachable])
  have target: "layer_by_id None 3 1 example_layers = Inr (example_layers ! 0)" by code_simp
  have "sl_status (example_layers ! 0) = LayerArchived" "sl_schema_version_id (example_layers ! 0) = 5"
    by (simp_all add: example_layers_rows)
  with approval_overwrites_newer_draft [OF ok target, of 30 "''u''"]
  have "slot LayerDraft 3 5 (snd (approve_layer no_io_errors 3 1 30 ''u'' example_layers)) = None"
    by auto
  moreover have "slot LayerDraft 3 5 example_layers \<noteq> None" by code_simp
  ultimately show ?thesis by blast
qed

text \<open>The output schema asks for all properties it names and no others, at every level.\<close>

lemma semantic_layer_output_schema_strict: "strict_schema 6 semantic_layer_output_schema"
  by code_simp

end
