(* ===== verification/Messages.thy ===== *)
theory Messages
  imports AgentSessions SqlGuard
begin

text \<open>
  controller/locale_messages.go, with \<open>databaseErrorMessageKO\<close> of controller/onboarding.go: the
  texts shown to users, in English and in Korean. A Go string literal is its UTF-8 bytes; a Korean
  literal is written by its code points and encoded by \<open>utf8\<close>.
\<close>

section \<open>UTF-8\<close>

definition utf8_char :: "nat \<Rightarrow> string" where
  "utf8_char n =
     (if n < 0x80 then [char_of n]
      else if n < 0x800 then [char_of (0xC0 + n div 64), char_of (0x80 + n mod 64)]
      else if n < 0x10000 then
        [char_of (0xE0 + n div 4096), char_of (0x80 + (n div 64) mod 64), char_of (0x80 + n mod 64)]
      else [char_of (0xF0 + n div 262144), char_of (0x80 + (n div 4096) mod 64),
            char_of (0x80 + (n div 64) mod 64), char_of (0x80 + n mod 64)])"

definition utf8 :: "nat list \<Rightarrow> string" where
  "utf8 ns = concat (map utf8_char ns)"

lemma utf8_char_nonempty [simp]: "utf8_char n \<noteq> []"
  by (simp add: utf8_char_def)

lemma utf8_empty_iff [simp]: "utf8 ns = [] \<longleftrightarrow> ns = []"
  by (cases ns) (simp_all add: utf8_def)

section \<open>Database configuration\<close>

fun database_error_message_en :: "configure_error_code \<Rightarrow> string" where
  "database_error_message_en ConfigInvalidDSN =
     ''The connection string format is invalid. Please double-check the value you '' @
      ''pasted.''"
| "database_error_message_en ConfigConnectFailed =
     ''Could not connect to the MySQL server. Please check the host, port, firewall, '' @
      ''and network access.''"
| "database_error_message_en ConfigAuthFailed =
     ''MySQL authentication failed. Please verify the username and password you '' @
      ''created.''"
| "database_error_message_en ConfigPrivilegeError =
     ''Read-only privilege check failed. Please ensure only SELECT privileges are '' @
      ''granted.''"
| "database_error_message_en ConfigWriteConfig =
     ''Failed to save the agent configuration file. Please check the Docker volume '' @
      ''path and write permissions.''"
| "database_error_message_en ConfigTimeout =
     ''The database verification timed out. Please check the network and server '' @
      ''responsiveness.''"
| "database_error_message_en ConfigUnspecified =
     ''Database connection verification failed. Please review your inputs and MySQL '' @
      ''permissions.''"

fun database_error_message_ko :: "configure_error_code \<Rightarrow> string" where
  "database_error_message_ko ConfigInvalidDSN =
     utf8 [
      50672, 44208, 32, 47928, 51088, 50676, 32, 54805, 49885, 51060, 32, 50732, 48148, 47476,
      51648, 32, 50506, 49845, 45768, 45796, 46, 32, 48373, 49324, 54620, 32, 44050, 51012, 32,
      45796, 49884, 32, 54869, 51064, 54644, 32, 51452, 49464, 50836, 46]"
| "database_error_message_ko ConfigConnectFailed =
     utf8 [
      77, 121, 83, 81, 76, 32, 49436, 48260, 50640, 32, 50672, 44208, 54616, 51648, 32, 47803,
      54664, 49845, 45768, 45796, 46, 32, 54840, 49828, 53944, 44, 32, 54252, 53944, 44, 32,
      48169, 54868, 48317, 44, 32, 45348, 53944, 50892, 53356, 32, 51217, 44540, 51012, 32,
      54869, 51064, 54644, 32, 51452, 49464, 50836, 46]"
| "database_error_message_ko ConfigAuthFailed =
     utf8 [
      77, 121, 83, 81, 76, 32, 51064, 51613, 50640, 32, 49892, 54056, 54664, 49845, 45768,
      45796, 46, 32, 49373, 49457, 54620, 32, 49324, 50857, 51088, 50752, 32, 48708, 48128,
      48264, 54840, 47484, 32, 45796, 49884, 32, 54869, 51064, 54644, 32, 51452, 49464, 50836,
      46]"
| "database_error_message_ko ConfigPrivilegeError =
     utf8 [
      51069, 44592, 32, 51204, 50857, 32, 44428, 54620, 32, 54869, 51064, 50640, 32, 49892,
      54056, 54664, 49845, 45768, 45796, 46, 32, 83, 69, 76, 69, 67, 84, 32, 44428, 54620,
      47564, 32, 48512, 50668, 46104, 50632, 45716, 51648, 32, 54869, 51064, 54644, 32, 51452,
      49464, 50836, 46]"
| "database_error_message_ko ConfigWriteConfig =
     utf8 [
      50640, 51060, 51204, 53944, 32, 47196, 52972, 32, 49444, 51221, 32, 54028, 51068, 51012,
      32, 51200, 51109, 54616, 51648, 32, 47803, 54664, 49845, 45768, 45796, 46, 32, 68, 111,
      99, 107, 101, 114, 32, 48380, 47464, 32, 44221, 47196, 50752, 32, 50416, 44592, 32,
      44428, 54620, 51012, 32, 54869, 51064, 54644, 32, 51452, 49464, 50836, 46]"
| "database_error_message_ko ConfigTimeout =
     utf8 [
      45936, 51060, 53552, 48288, 51060, 49828, 32, 54869, 51064, 32, 49884, 44036, 51060, 32,
      52488, 44284, 46104, 50632, 49845, 45768, 45796, 46, 32, 45348, 53944, 50892, 53356, 32,
      49345, 53468, 50752, 32, 49436, 48260, 32, 51025, 45813, 32, 49549, 46020, 47484, 32,
      54869, 51064, 54644, 32, 51452, 49464, 50836, 46]"
| "database_error_message_ko ConfigUnspecified =
     utf8 [
      45936, 51060, 53552, 48288, 51060, 49828, 32, 50672, 44208, 32, 54869, 51064, 50640, 32,
      49892, 54056, 54664, 49845, 45768, 45796, 46, 32, 51077, 47141, 44050, 44284, 32, 77,
      121, 83, 81, 76, 32, 44428, 54620, 51012, 32, 45796, 49884, 32, 54869, 51064, 54644, 32,
      51452, 49464, 50836, 46]"

definition database_error_message :: "configure_error_code \<Rightarrow> locale_tag \<Rightarrow> string" where
  "database_error_message code loc =
     (if loc = LocaleEnglish then database_error_message_en code
      else database_error_message_ko code)"

text \<open>The string values of the constants of \<open>AgentConfigureDatabaseErrorCode\<close>.\<close>

fun config_code_text :: "configure_error_code \<Rightarrow> string" where
  "config_code_text ConfigUnspecified = []"
| "config_code_text ConfigInvalidDSN = ''INVALID_DSN''"
| "config_code_text ConfigConnectFailed = ''CONNECT_FAILED''"
| "config_code_text ConfigAuthFailed = ''AUTH_FAILED''"
| "config_code_text ConfigPrivilegeError = ''PRIVILEGE_INVALID''"
| "config_code_text ConfigWriteConfig = ''WRITE_CONFIG_FAILED''"
| "config_code_text ConfigTimeout = ''TIMEOUT''"

lemma database_error_message_nonempty [simp]: "database_error_message code loc \<noteq> []"
  by (cases code) (simp_all add: database_error_message_def)

section \<open>Query warnings\<close>

definition warn_summary_failed :: "locale_tag \<Rightarrow> gerr \<Rightarrow> string" where
  "warn_summary_failed loc err =
     (if loc = LocaleEnglish then
        ''Summary generation failed: '' @ err_text err
      else utf8 [
      50836, 50557, 32, 49373, 49457, 50640, 32, 49892, 54056, 54664, 49845, 45768, 45796, 58,
      32] @ err_text err)"

definition warn_limit_injected :: "locale_tag \<Rightarrow> string" where
  "warn_limit_injected loc =
     (if loc = LocaleEnglish then
        ''A LIMIT of '' @ itoa default_row_limit @ '' was automatically applied for safety.''
      else utf8 [
      50504, 51204, 51012, 32, 50948, 54644, 32, 76, 73, 77, 73, 84, 32] @
      itoa default_row_limit @ utf8 [
      51012, 40, 47484, 41, 32, 51088, 46041, 32, 51201, 50857, 54664, 49845, 45768, 45796, 46])"

definition warn_used_draft_layer :: "locale_tag \<Rightarrow> string" where
  "warn_used_draft_layer loc =
     (if loc = LocaleEnglish then
        ''No approved semantic layer found; the draft layer was used instead.''
      else utf8 [
      49849, 51064, 46108, 32, 49884, 47592, 54001, 32, 47112, 51060, 50612, 44032, 32, 50630,
      50612, 32, 52488, 50504, 40, 100, 114, 97, 102, 116, 41, 32, 47112, 51060, 50612, 47484,
      32, 49324, 50857, 54664, 49845, 45768, 45796, 46])"

definition warn_used_raw_schema :: "locale_tag \<Rightarrow> string" where
  "warn_used_raw_schema loc =
     (if loc = LocaleEnglish then
        ''No semantic layer found; SQL was generated from the raw schema only. Accuracy '' @
      ''may be lower.''
      else utf8 [
      49884, 47592, 54001, 32, 47112, 51060, 50612, 44032, 32, 50630, 50612, 32, 50896, 48376,
      32, 49828, 53412, 47560, 47564, 51004, 47196, 32, 83, 81, 76, 51012, 32, 49373, 49457,
      54664, 49845, 45768, 45796, 46, 32, 51221, 54869, 46020, 44032, 32, 45230, 51012, 32,
      49688, 32, 51080, 49845, 45768, 45796, 46])"

end
