(* ===== verification/Onboarding.thy ===== *)
theory Onboarding
  imports SemanticLayer Messages
begin

text \<open>
  controller/onboarding.go over repository/onboarding.go: the seven steps of setting up a
  workspace. The tables are lists of rows. A call of an operation is given by an environment: the
  error each database statement may return, the clocks, what the session manager holds at each
  look, what the agent answers, the random bytes and the ids drawn. JSON and UUID texts are
  functions of the environment. \<open>Upsert n\<close> and the n-th look at the sessions are numbered within
  one call, since \<open>EnsureInstallBundle\<close> makes several.
\<close>

section \<open>Constants and errors\<close>

definition onboarding_step_welcome :: int where "onboarding_step_welcome = 1"
definition onboarding_step_agent_install :: int where "onboarding_step_agent_install = 2"
definition onboarding_step_database :: int where "onboarding_step_database = 3"
definition onboarding_step_schema :: int where "onboarding_step_schema = 4"
definition onboarding_step_semantic :: int where "onboarding_step_semantic = 5"
definition onboarding_step_starter :: int where "onboarding_step_starter = 6"
definition onboarding_step_done :: int where "onboarding_step_done = 7"

lemmas onboarding_steps [onboarding_simps] =
  onboarding_step_welcome_def onboarding_step_agent_install_def onboarding_step_database_def
  onboarding_step_schema_def onboarding_step_semantic_def onboarding_step_starter_def
  onboarding_step_done_def

definition default_db_port :: int where "default_db_port = 3306"
definition default_database_username :: string where "default_database_username = ''okta_ai_ro''"
definition default_onboarding_token_label :: string where
  "default_onboarding_token_label = ''onboarding-agent''"
definition default_edge_agent_version :: string where "default_edge_agent_version = ''v0.1.0''"
definition default_edge_agent_image :: string where
  "default_edge_agent_image = ''registry.digitalocean.com/mission/edge-agent:v0.1.0''"

definition err_onboarding_access_denied :: gerr where
  "err_onboarding_access_denied =
     Sentinel ''controller.ErrOnboardingAccessDenied'' ''not a member of this tenant''"
definition err_onboarding_owner_required :: gerr where
  "err_onboarding_owner_required = Sentinel ''controller.ErrOnboardingOwnerRequired'' ''owner role required''"
definition err_onboarding_invalid_step :: gerr where
  "err_onboarding_invalid_step =
     Sentinel ''controller.ErrOnboardingInvalidStep'' ''onboarding step is not available yet''"
definition err_onboarding_step_locked :: gerr where
  "err_onboarding_step_locked =
     Sentinel ''controller.ErrOnboardingStepLocked'' ''earlier onboarding steps are locked after approval''"
definition err_onboarding_invalid_workspace_name :: gerr where
  "err_onboarding_invalid_workspace_name =
     Sentinel ''controller.ErrOnboardingInvalidWorkspaceName'' ''workspace name is required''"
definition err_onboarding_primary_language_required :: gerr where
  "err_onboarding_primary_language_required =
     Sentinel ''controller.ErrOnboardingPrimaryLanguageRequired''
       ''primary language must be confirmed as Korean''"
definition err_onboarding_invalid_semantic_layer :: gerr where
  "err_onboarding_invalid_semantic_layer =
     Sentinel ''controller.ErrOnboardingInvalidSemanticLayer'' ''semantic layer is not approved''"
definition err_onboarding_invite_email_invalid :: gerr where
  "err_onboarding_invite_email_invalid =
     Sentinel ''controller.ErrOnboardingInviteEmailInvalid'' ''one or more invite emails are invalid''"

section \<open>Texts\<close>

definition max_step :: "int \<Rightarrow> int \<Rightarrow> int" where
  "max_step left right = (if left > right then left else right)"

fun first_non_blank :: "string list \<Rightarrow> string" where
  "first_non_blank [] = []"
| "first_non_blank (v # vs) =
     (if trim_space v \<noteq> [] then trim_space v else first_non_blank vs)"

fun slug_chars :: "bool \<Rightarrow> string \<Rightarrow> string" where
  "slug_chars last_dash [] = []"
| "slug_chars last_dash (r # rs) =
     (if lower_or_digit r then r # slug_chars False rs
      else if \<not> last_dash then CHR ''-'' # slug_chars True rs
      else slug_chars last_dash rs)"

text \<open>\<open>strings.Trim\<close> and \<open>strings.TrimRight\<close> with a one-character cutset.\<close>

definition trim_right_char :: "char \<Rightarrow> string \<Rightarrow> string" where
  "trim_right_char c s = rev (dropWhile (\<lambda>x. x = c) (rev s))"

definition trim_char :: "char \<Rightarrow> string \<Rightarrow> string" where
  "trim_char c s = trim_right_char c (dropWhile (\<lambda>x. x = c) s)"

definition slugify_workspace_name :: "(string \<Rightarrow> string) \<Rightarrow> string \<Rightarrow> string \<Rightarrow> string" where
  "slugify_workspace_name lcase name fallback =
     (let slug = trim_char (CHR ''-'') (slug_chars False (to_lower lcase (trim_space name)));
          slug = (if slug = [] then trim_space (to_lower lcase fallback) else slug)
      in if slug = [] then ''workspace'' else slug)"

text \<open>\<open>random\<close> is what \<open>rand.Read\<close> gives: an error or the 18 bytes.\<close>

definition generate_database_password :: "gerr + nat list \<Rightarrow> gerr + string" where
  "generate_database_password random =
     (case random of
        Inl e \<Rightarrow> Inl e
      | Inr buf \<Rightarrow> Inr (trim_right_char (CHR ''='') (base64url_encode buf)))"

definition parse_optional_uuid :: "(string \<Rightarrow> gerr + uuid) \<Rightarrow> string \<Rightarrow> gerr + uuid" where
  "parse_optional_uuid parse raw =
     (if trim_space raw = [] then Inl (ErrNew ''empty uuid'') else parse raw)"

definition escape_mysql_identifier :: "string \<Rightarrow> string" where
  "escape_mysql_identifier identifier = replace_byte (trim_space identifier) (CHR 0x60) [CHR 0x60, CHR 0x60]"

definition build_database_setup_sql :: "string \<Rightarrow> string \<Rightarrow> string" where
  "build_database_setup_sql database_name password =
     (let database_name = trim_space database_name; password = trim_space password in
      if database_name = [] \<or> password = [] then []
      else ''CREATE USER '' @ [CHR 0x27] @ default_database_username @ [CHR 0x27] @ ''@'' @
        [CHR 0x27] @ ''%'' @ [CHR 0x27] @ '' IDENTIFIED BY '' @ [CHR 0x27] @ password @ [CHR 0x27] @
        '';'' @ [CHR 0x0A] @ ''GRANT SELECT, SHOW VIEW ON '' @ [CHR 0x60] @
        escape_mysql_identifier database_name @ [CHR 0x60] @ ''.* TO '' @ [CHR 0x27] @
        default_database_username @ [CHR 0x27] @ ''@'' @ [CHR 0x27] @ ''%'' @ [CHR 0x27] @ '';'' @
        [CHR 0x0A] @ ''FLUSH PRIVILEGES;'')"

definition build_docker_run_command ::
  "string \<Rightarrow> string \<Rightarrow> string \<Rightarrow> string \<Rightarrow> string \<Rightarrow> string" where
  "build_docker_run_command install_slug control_plane_url tenant_token agent_version edge_agent_image =
     (let nl = '' '' @ [CHR 0x5C, CHR 0x0A] in
      ''docker run -d --name '' @ install_slug @ ''-agent'' @ nl @
      ''  --restart unless-stopped'' @ nl @
      ''  -e CONTROL_PLANE_URL='' @ control_plane_url @ nl @
      ''  -e TENANT_TOKEN='' @ tenant_token @ nl @
      ''  -e AGENT_VERSION='' @ agent_version @ nl @
      ''  -v /etc/'' @ install_slug @ ''-agent:/etc/agent'' @ nl @
      ''  -v /var/lib/'' @ install_slug @ ''-agent:/var/lib/agent'' @ nl @
      ''  '' @ edge_agent_image)"

text \<open>\<open>strings.FieldsFunc\<close> on ASCII separators: the maximal runs without one.\<close>

fun fields_func :: "(char \<Rightarrow> bool) \<Rightarrow> string \<Rightarrow> string \<Rightarrow> string list" where
  "fields_func sep cur [] = (if cur = [] then [] else [cur])"
| "fields_func sep cur (c # s) =
     (if sep c then (if cur = [] then [] else [cur]) @ fields_func sep [] s
      else fields_func sep (cur @ [c]) s)"

text \<open>\<open>emailRE\<close>; its \<open>\s\<close> is tab, newline, form feed, carriage return and blank.\<close>

definition re_space :: "char \<Rightarrow> bool" where
  "re_space c = (c \<in> {CHR 0x09, CHR 0x0A, CHR 0x0C, CHR 0x0D, CHR 0x20})"

definition email_matches :: "string \<Rightarrow> bool" where
  "email_matches s =
     (\<not> list_ex re_space s \<and>
      (case split_byte (CHR ''@'') s of
         [user, domain] \<Rightarrow> user \<noteq> [] \<and> CHR ''.'' \<in> set (butlast (tl domain))
       | _ \<Rightarrow> False))"

definition invite_separator :: "char \<Rightarrow> bool" where
  "invite_separator r = (r = CHR '','' \<or> r = CHR 0x0A \<or> r = CHR '';'')"

definition normalize_invite_emails :: "string list \<Rightarrow> gerr + string list" where
  "normalize_invite_emails values =
     (let items = filter (\<lambda>t. t \<noteq> []) (map trim_space (concat (map (fields_func invite_separator []) values)))
      in if list_all email_matches items then Inr items else Inl err_onboarding_invite_email_invalid)"

section \<open>repository/onboarding.go\<close>

datatype db_call =
    ListWorkspacesCall | GetByTenantCall | UpsertCall nat | UpdateNameCall | IssueTokenCall
  | ListInvitesCall | InsertInviteCall nat | LayerByIdCall | LatestSchemaCall | CreateSchemaCall

record onboarding_world =
  wd_tenants :: tenant_db
  wd_states :: "tenant_onboarding_state list"
  wd_layers :: "tenant_semantic_layer list"
  wd_schemas :: "tenant_schema_version list"

definition onboarding_get_by_tenant ::
  "gerr option \<Rightarrow> uuid \<Rightarrow> tenant_onboarding_state list \<Rightarrow> gerr + tenant_onboarding_state" where
  "onboarding_get_by_tenant io tid rows =
     (case io of
        Some e \<Rightarrow> Inl (Wrapped ''select onboarding state'' e)
      | None \<Rightarrow> (case find (\<lambda>r. os_tenant_id r = tid) rows of
            None \<Rightarrow> Inl err_not_found
          | Some r \<Rightarrow> Inr r))"

text \<open>
  \<open>Upsert\<close>: the primary key is the tenant, and the table's CHECK keeps the step between 1 and 7.
  \<open>jsonb\<close> is the text PostgreSQL gives back for a stored JSON value.
\<close>

definition step_check_violation :: gerr where
  "step_check_violation = ErrNew ''new row violates check constraint''"

definition onboarding_upsert ::
  "gerr option \<Rightarrow> time \<Rightarrow> (string \<Rightarrow> string) \<Rightarrow> uuid \<Rightarrow> int \<Rightarrow> string \<Rightarrow> time option \<Rightarrow>
   tenant_onboarding_state list \<Rightarrow> (gerr + tenant_onboarding_state) \<times> tenant_onboarding_state list" where
  "onboarding_upsert io now jsonb tid current_step body completed_at rows =
     (case io of
        Some e \<Rightarrow> (Inl (Wrapped ''upsert onboarding state'' e), rows)
      | None \<Rightarrow>
          (if current_step < 1 \<or> 7 < current_step
           then (Inl (Wrapped ''upsert onboarding state'' step_check_violation), rows)
           else (case find (\<lambda>r. os_tenant_id r = tid) rows of
               Some old \<Rightarrow>
                 (let upd = (\<lambda>r. r\<lparr>os_current_step := current_step, os_payload := jsonb body,
                                os_completed_at := completed_at, os_updated_at := now\<rparr>)
                  in (Inr (upd old), update_where (\<lambda>r. os_tenant_id r = tid) upd rows))
             | None \<Rightarrow>
                 (let rec = \<lparr>os_tenant_id = tid, os_current_step = current_step,
                             os_payload = jsonb body, os_completed_at = completed_at,
                             os_created_at = now, os_updated_at = now\<rparr>
                  in (Inr rec, rows @ [rec])))))"

text \<open>\<open>ListWorkspacesForUser\<close>: the three-way join, most recently updated first.\<close>

definition workspace_row ::
  "tenant_onboarding_state list \<Rightarrow> tenant \<Rightarrow> tenant_user \<Rightarrow> onboarding_workspace" where
  "workspace_row states t u =
     (let st = find (\<lambda>r. os_tenant_id r = tenant_id t) states in
      \<lparr>ow_tenant_id = tenant_id t, ow_slug = tenant_slug t, ow_name = tenant_name t,
       ow_role = tu_role u,
       ow_complete = (case st of None \<Rightarrow> False | Some r \<Rightarrow> os_completed_at r \<noteq> None),
       ow_current_step = (case st of None \<Rightarrow> 1 | Some r \<Rightarrow> os_current_step r),
       ow_updated_at = (case st of None \<Rightarrow> tenant_created_at t | Some r \<Rightarrow> os_updated_at r)\<rparr>)"

definition list_workspaces_for_user ::
  "gerr option \<Rightarrow> string \<Rightarrow> onboarding_world \<Rightarrow> gerr + onboarding_workspace list" where
  "list_workspaces_for_user io clerk_user_id w =
     (case io of
        Some e \<Rightarrow> Inl (Wrapped ''list onboarding workspaces'' e)
      | None \<Rightarrow>
          Inr (map snd (sort_key (\<lambda>(t, ws). (- ow_updated_at ws, - tenant_created_at t))
            (concat (map (\<lambda>t. map (\<lambda>u. (t, workspace_row (wd_states w) t u))
                (filter (\<lambda>u. tu_tenant_id u = tenant_id t \<and> tu_clerk_user_id u = clerk_user_id)
                  (tenant_users (wd_tenants w)))) (tenants (wd_tenants w)))))))"

section \<open>controller/onboarding.go\<close>

record onboarding_config =
  oc_edge_agent_image :: string
  oc_edge_agent_version :: string
  oc_public_control_plane_url :: string

record onboarding_controller =
  ctl_edge_agent_image :: string
  ctl_edge_agent_version :: string
  ctl_public_control_plane_url :: string

definition new_onboarding_controller :: "onboarding_config \<Rightarrow> onboarding_controller" where
  "new_onboarding_controller cfg =
     (let image = trim_space (oc_edge_agent_image cfg);
          version = trim_space (oc_edge_agent_version cfg)
      in \<lparr>ctl_edge_agent_image = (if image = [] then default_edge_agent_image else image),
          ctl_edge_agent_version = (if version = [] then default_edge_agent_version else version),
          ctl_public_control_plane_url = trim_space (oc_public_control_plane_url cfg)\<rparr>)"

text \<open>
  What one call sees: \<open>oe_configure\<close> is the session manager's \<open>ConfigureDatabase\<close>,
  \<open>oe_introspected\<close> its \<open>IntrospectSchema\<close> as the schema controller receives it, and
  \<open>oe_sessions n\<close> the clock, the tokens in the order the map is ranged over and the manager at the
  n-th look.
\<close>

record onboarding_env =
  oe_controller :: onboarding_controller
  oe_io :: "db_call \<Rightarrow> gerr option"
  oe_now :: time
  oe_view_now :: time
  oe_db_now :: "nat \<Rightarrow> time"
  oe_sessions :: "nat \<Rightarrow> time \<times> uuid list \<times> manager"
  oe_marshal :: "onboarding_payload \<Rightarrow> gerr + string"
  oe_unmarshal :: "string \<Rightarrow> gerr + onboarding_payload"
  oe_jsonb :: "string \<Rightarrow> string"
  oe_uuid_string :: "uuid \<Rightarrow> string"
  oe_uuid_parse :: "string \<Rightarrow> gerr + uuid"
  oe_lcase :: "string \<Rightarrow> string"
  oe_pg_lower :: "string \<Rightarrow> string"
  oe_sha :: "string \<Rightarrow> string"
  oe_token_random :: "gerr + nat list"
  oe_token_id :: uuid
  oe_password_random :: "gerr + nat list"
  oe_configure :: "uuid \<Rightarrow> string \<Rightarrow> gerr + configure_database_result"
  oe_capture :: capture_env
  oe_introspected :: "uuid \<Rightarrow> gerr + introspect_schema_result"
  oe_version_id :: uuid
  oe_invite_order :: "tenant_invite list \<Rightarrow> tenant_invite list"
  oe_invite_id :: "nat \<Rightarrow> uuid"

record onboarding_state_view =
  ov_workspace :: onboarding_workspace
  ov_state :: tenant_onboarding_state
  ov_payload :: onboarding_payload
  ov_docker_run_command :: string
  ov_agent_connected :: bool
  ov_agent_timed_out :: bool
  ov_db_setup_sql :: string
  ov_invites :: "tenant_invite list"
  ov_can_edit :: bool
  ov_waiting_for_owner :: bool

definition empty_payload :: onboarding_payload where
  "empty_payload =
     \<lparr>ob_primary_language = [], ob_workspace_name = [], ob_install_slug = [], ob_agent_token_id = [],
      ob_agent_token_plain = [], ob_agent_wait_started = None, ob_agent_session_id = [],
      ob_agent_connected_at = None, ob_database_host = [], ob_database_port = 0,
      ob_database_name = [], ob_database_username = [], ob_generated_password = [],
      ob_db_verified_at = None, ob_db_error_code = [], ob_db_error_message_ko = [],
      ob_schema_version_id = [], ob_schema_table_count = 0, ob_schema_column_count = 0,
      ob_schema_fk_count = 0, ob_semantic_layer_id = [], ob_semantic_approved = None\<rparr>"

definition list_workspaces ::
  "onboarding_env \<Rightarrow> string \<Rightarrow> onboarding_world \<Rightarrow> gerr + onboarding_workspace list" where
  "list_workspaces env clerk_user_id w =
     list_workspaces_for_user (oe_io env ListWorkspacesCall) clerk_user_id w"

definition load_workspace ::
  "onboarding_env \<Rightarrow> uuid \<Rightarrow> string \<Rightarrow> onboarding_world \<Rightarrow> gerr + onboarding_workspace" where
  "load_workspace env tid clerk_user_id w =
     (case list_workspaces_for_user (oe_io env ListWorkspacesCall) clerk_user_id w of
        Inl e \<Rightarrow> Inl e
      | Inr workspaces \<Rightarrow>
          (case find (\<lambda>ws. ow_tenant_id ws = tid) workspaces of
             Some ws \<Rightarrow> Inr ws
           | None \<Rightarrow> Inl err_onboarding_access_denied))"

definition decode_onboarding_payload ::
  "onboarding_env \<Rightarrow> string \<Rightarrow> gerr + onboarding_payload" where
  "decode_onboarding_payload env body =
     (if body = [] then Inr empty_payload
      else (case oe_unmarshal env body of
          Inl e \<Rightarrow> Inl (Wrapped ''decode onboarding payload'' e)
        | Inr p \<Rightarrow> Inr p))"

text \<open>The zero \<open>time.Time\<close> of the fields of a state that is not stored is \<open>time_zero\<close>.\<close>

definition load_record ::
  "onboarding_env \<Rightarrow> uuid \<Rightarrow> onboarding_world \<Rightarrow> gerr + tenant_onboarding_state \<times> onboarding_payload" where
  "load_record env tid w =
     (case onboarding_get_by_tenant (oe_io env GetByTenantCall) tid (wd_states w) of
        Inl e \<Rightarrow>
          (if errors_is e err_not_found
           then Inr (\<lparr>os_tenant_id = tid, os_current_step = onboarding_step_welcome,
                      os_payload = ''{}'', os_completed_at = None, os_created_at = time_zero,
                      os_updated_at = time_zero\<rparr>, empty_payload)
           else Inl e)
      | Inr rec \<Rightarrow>
          (case decode_onboarding_payload env (os_payload rec) of
             Inl e \<Rightarrow> Inl e
           | Inr p \<Rightarrow>
               Inr (if os_current_step rec = 0
                    then rec\<lparr>os_current_step := onboarding_step_welcome\<rparr> else rec, p)))"

definition persist_state ::
  "onboarding_env \<Rightarrow> nat \<Rightarrow> uuid \<Rightarrow> int \<Rightarrow> onboarding_payload \<Rightarrow> time option \<Rightarrow> onboarding_world \<Rightarrow>
   (gerr + tenant_onboarding_state \<times> onboarding_payload) \<times> onboarding_world" where
  "persist_state env n tid current_step p completed_at w =
     (case oe_marshal env p of
        Inl e \<Rightarrow> (Inl (Wrapped ''marshal onboarding payload'' e), w)
      | Inr body \<Rightarrow>
          (case onboarding_upsert (oe_io env (UpsertCall n)) (oe_db_now env n) (oe_jsonb env) tid
              current_step body completed_at (wd_states w) of
             (Inl e, rows) \<Rightarrow> (Inl e, w\<lparr>wd_states := rows\<rparr>)
           | (Inr rec, rows) \<Rightarrow>
               (case decode_onboarding_payload env (os_payload rec) of
                  Inl e \<Rightarrow> (Inl e, w\<lparr>wd_states := rows\<rparr>)
                | Inr decoded \<Rightarrow> (Inr (rec, decoded), w\<lparr>wd_states := rows\<rparr>))))"

definition build_state_view ::
  "onboarding_env \<Rightarrow> onboarding_workspace \<Rightarrow> tenant_onboarding_state \<Rightarrow> onboarding_payload \<Rightarrow>
   onboarding_world \<Rightarrow> gerr + onboarding_state_view" where
  "build_state_view env ws rec p w =
     (case list_invites_by_tenant (oe_io env ListInvitesCall) (oe_invite_order env) (ow_tenant_id ws)
         (wd_tenants w) of
        Inl e \<Rightarrow> Inl e
      | Inr invites \<Rightarrow>
          (let c = oe_controller env;
               connected = (ob_agent_session_id p \<noteq> [] \<and> ob_agent_connected_at p \<noteq> None)
           in Inr \<lparr>ov_workspace = ws, ov_state = rec, ov_payload = p,
               ov_docker_run_command =
                 (if ob_install_slug p \<noteq> [] \<and> ob_agent_token_plain p \<noteq> [] \<and>
                     ctl_public_control_plane_url c \<noteq> []
                  then build_docker_run_command (ob_install_slug p) (ctl_public_control_plane_url c)
                    (ob_agent_token_plain p) (ctl_edge_agent_version c) (ctl_edge_agent_image c)
                  else []),
               ov_agent_connected = connected,
               ov_agent_timed_out =
                 (case ob_agent_wait_started p of
                    Some started \<Rightarrow>
                      \<not> connected \<and> time_sub (oe_view_now env) started \<ge> seconds 300
                  | None \<Rightarrow> False),
               ov_db_setup_sql =
                 build_database_setup_sql (ob_database_name p) (ob_generated_password p),
               ov_invites = invites,
               ov_can_edit = (ow_role ws = RoleOwner),
               ov_waiting_for_owner = (ow_role ws = RoleMember \<and> \<not> ow_complete ws)\<rparr>))"

definition latest_online_agent_session ::
  "onboarding_env \<Rightarrow> nat \<Rightarrow> uuid \<Rightarrow> string \<Rightarrow> session_snapshot option" where
  "latest_online_agent_session env n tenant raw_token_id =
     (case oe_sessions env n of (now, tokens, m) \<Rightarrow>
        (let online = (\<lambda>r. case r of Some s \<Rightarrow> if sn_status s = StatusOnline then Some s else None
                                   | None \<Rightarrow> None);
             by_token = (case parse_optional_uuid (oe_uuid_parse env) raw_token_id of
                 Inr token \<Rightarrow> online (latest_session_for_token now token m)
               | Inl _ \<Rightarrow> None)
         in case by_token of
              Some s \<Rightarrow> Some s
            | None \<Rightarrow> online (latest_session_for_tenant now tokens tenant m)))"

text \<open>The fields a look at the sessions sets, the step it leads to, and whether anything changed.\<close>

definition refresh_payload ::
  "onboarding_env \<Rightarrow> session_snapshot option \<Rightarrow> int \<Rightarrow> onboarding_payload \<Rightarrow>
   onboarding_payload \<times> int \<times> bool" where
  "refresh_payload env found step p =
     (case found of
        Some s \<Rightarrow>
          (let tok = oe_uuid_string env (sn_token_id s) in
           (p\<lparr>ob_agent_token_id := tok, ob_agent_session_id := sn_session_id s,
              ob_agent_connected_at := Some (sn_connected_at s), ob_agent_token_plain := []\<rparr>,
            if step < onboarding_step_database then onboarding_step_database else step,
            ob_agent_token_id p \<noteq> tok \<or> ob_agent_session_id p \<noteq> sn_session_id s \<or>
            ob_agent_connected_at p \<noteq> Some (sn_connected_at s) \<or> ob_agent_token_plain p \<noteq> [] \<or>
            step < onboarding_step_database))
      | None \<Rightarrow>
          (p\<lparr>ob_agent_session_id := [], ob_agent_connected_at := None\<rparr>, step,
           ob_agent_session_id p \<noteq> [] \<or> ob_agent_connected_at p \<noteq> None))"

definition refresh_agent_connection ::
  "onboarding_env \<Rightarrow> nat \<Rightarrow> onboarding_workspace \<Rightarrow> tenant_onboarding_state \<Rightarrow> onboarding_payload \<Rightarrow>
   onboarding_world \<Rightarrow>
   (gerr + tenant_onboarding_state \<times> onboarding_payload \<times> onboarding_workspace) \<times> onboarding_world" where
  "refresh_agent_connection env n ws rec p w =
     (case refresh_payload env
         (latest_online_agent_session env n (os_tenant_id rec) (ob_agent_token_id p))
         (os_current_step rec) p of
        (p', step, changed) \<Rightarrow>
          (if \<not> changed then (Inr (rec, p, ws), w)
           else (case persist_state env n (os_tenant_id rec) step p' (os_completed_at rec) w of
               (Inl e, w') \<Rightarrow> (Inl e, w')
             | (Inr (rec', p''), w') \<Rightarrow>
                 (Inr (rec', p'', ws\<lparr>ow_current_step := os_current_step rec',
                                    ow_updated_at := os_updated_at rec'\<rparr>), w'))))"

text \<open>The head of every operation of an owner: workspace, role, record.\<close>

definition owner_record ::
  "onboarding_env \<Rightarrow> uuid \<Rightarrow> string \<Rightarrow> onboarding_world \<Rightarrow>
   (onboarding_workspace \<Rightarrow> tenant_onboarding_state \<Rightarrow> onboarding_payload \<Rightarrow>
     (gerr + 'v) \<times> onboarding_world) \<Rightarrow> (gerr + 'v) \<times> onboarding_world" where
  "owner_record env tid clerk_user_id w k =
     (case load_workspace env tid clerk_user_id w of
        Inl e \<Rightarrow> (Inl e, w)
      | Inr ws \<Rightarrow>
          (if ow_role ws \<noteq> RoleOwner then (Inl err_onboarding_owner_required, w)
           else (case load_record env tid w of
               Inl e \<Rightarrow> (Inl e, w)
             | Inr (rec, p) \<Rightarrow> k ws rec p)))"

text \<open>The tail of most operations: store the state, set the workspace's step and show the result.\<close>

definition save_and_view ::
  "onboarding_env \<Rightarrow> onboarding_workspace \<Rightarrow> uuid \<Rightarrow> int \<Rightarrow> onboarding_payload \<Rightarrow> time option \<Rightarrow>
   onboarding_world \<Rightarrow> (gerr + onboarding_state_view) \<times> onboarding_world" where
  "save_and_view env ws tid step p completed_at w =
     (case persist_state env 0 tid step p completed_at w of
        (Inl e, w') \<Rightarrow> (Inl e, w')
      | (Inr (rec, p'), w') \<Rightarrow>
          (build_state_view env (ws\<lparr>ow_current_step := os_current_step rec\<rparr>) rec p' w', w'))"

definition get_state ::
  "onboarding_env \<Rightarrow> uuid \<Rightarrow> string \<Rightarrow> onboarding_world \<Rightarrow> (gerr + onboarding_state_view) \<times> onboarding_world" where
  "get_state env tid clerk_user_id w =
     (case load_workspace env tid clerk_user_id w of
        Inl e \<Rightarrow> (Inl e, w)
      | Inr ws \<Rightarrow>
          (case load_record env tid w of
             Inl e \<Rightarrow> (Inl e, w)
           | Inr (rec, p) \<Rightarrow>
               (case refresh_agent_connection env 0 ws rec p w of
                  (Inl e, w') \<Rightarrow> (Inl e, w')
                | (Inr (rec', p', ws'), w') \<Rightarrow> (build_state_view env ws' rec' p' w', w'))))"

definition save_welcome ::
  "onboarding_env \<Rightarrow> uuid \<Rightarrow> string \<Rightarrow> string \<Rightarrow> string \<Rightarrow> bool \<Rightarrow> bool \<Rightarrow> onboarding_world \<Rightarrow>
   (gerr + onboarding_state_view) \<times> onboarding_world" where
  "save_welcome env tid clerk_user_id workspace_name primary_language confirm auto_save w =
     owner_record env tid clerk_user_id w (\<lambda>ws rec p.
       if os_current_step rec \<ge> onboarding_step_starter then (Inl err_onboarding_step_locked, w)
       else let trimmed = trim_space workspace_name in
       if \<not> auto_save \<and> trimmed = [] then (Inl err_onboarding_invalid_workspace_name, w)
       else if confirm \<and> primary_language \<noteq> ''ko'' then
         (Inl err_onboarding_primary_language_required, w)
       else
         let p1 = (if trimmed \<noteq> [] then p\<lparr>ob_workspace_name := trimmed,
               ob_install_slug := slugify_workspace_name (oe_lcase env) trimmed (ow_slug ws)\<rparr> else p);
             p2 = (if primary_language \<noteq> [] then p1\<lparr>ob_primary_language := primary_language\<rparr> else p1);
             step = (if os_current_step rec = 0 then onboarding_step_welcome else os_current_step rec)
         in if confirm then
           (if ob_primary_language p2 \<noteq> ''ko'' then (Inl err_onboarding_primary_language_required, w)
            else if ob_workspace_name p2 = [] then (Inl err_onboarding_invalid_workspace_name, w)
            else (case update_name (oe_io env UpdateNameCall) tid (ob_workspace_name p2) (wd_tenants w) of
                (Inl e, db) \<Rightarrow> (Inl e, w\<lparr>wd_tenants := db\<rparr>)
              | (Inr _, db) \<Rightarrow>
                  save_and_view env (ws\<lparr>ow_name := ob_workspace_name p2\<rparr>) tid
                    onboarding_step_agent_install p2 (os_completed_at rec) (w\<lparr>wd_tenants := db\<rparr>)))
         else save_and_view env ws tid step p2 (os_completed_at rec) w)"

text \<open>\<open>EnsureInstallBundle\<close>: look at the sessions, issue a token when there is none, store, look again.\<close>

definition ensure_token ::
  "onboarding_env \<Rightarrow> uuid \<Rightarrow> onboarding_payload \<Rightarrow> onboarding_world \<Rightarrow>
   (gerr + onboarding_payload) \<times> onboarding_world" where
  "ensure_token env tid p w =
     (if ob_agent_token_id p \<noteq> [] then (Inr p, w)
      else (case issue_agent_token (oe_sha env) (oe_token_random env) (oe_io env IssueTokenCall)
            (oe_now env) (oe_token_id env) tid default_onboarding_token_label (wd_tenants w) of
          (Inl e, db) \<Rightarrow> (Inl e, w\<lparr>wd_tenants := db\<rparr>)
        | (Inr (token, plaintext), db) \<Rightarrow>
            (Inr (p\<lparr>ob_agent_token_id := oe_uuid_string env (tok_id token),
                    ob_agent_token_plain := plaintext\<rparr>), w\<lparr>wd_tenants := db\<rparr>)))"

definition ensure_install_bundle ::
  "onboarding_env \<Rightarrow> uuid \<Rightarrow> string \<Rightarrow> onboarding_world \<Rightarrow> (gerr + onboarding_state_view) \<times> onboarding_world" where
  "ensure_install_bundle env tid clerk_user_id w =
     owner_record env tid clerk_user_id w (\<lambda>ws rec p.
       if os_current_step rec < onboarding_step_agent_install then (Inl err_onboarding_invalid_step, w)
       else if os_current_step rec \<ge> onboarding_step_starter then (Inl err_onboarding_step_locked, w)
       else
         let p1 = (if ob_install_slug p = []
               then p\<lparr>ob_install_slug := slugify_workspace_name (oe_lcase env)
                     (first_non_blank [ob_workspace_name p, ow_name ws]) (ow_slug ws)\<rparr> else p);
             p2 = (if ob_agent_wait_started p1 = None
               then p1\<lparr>ob_agent_wait_started := Some (oe_now env)\<rparr> else p1)
         in case refresh_agent_connection env 0 ws rec p2 w of
              (Inl e, w1) \<Rightarrow> (Inl e, w1)
            | (Inr (rec1, p3, ws1), w1) \<Rightarrow>
                (case ensure_token env tid p3 w1 of
                   (Inl e, w2) \<Rightarrow> (Inl e, w2)
                 | (Inr p4, w2) \<Rightarrow>
                     (case persist_state env 1 tid
                         (max_step (os_current_step rec1) onboarding_step_agent_install) p4
                         (os_completed_at rec1) w2 of
                        (Inl e, w3) \<Rightarrow> (Inl e, w3)
                      | (Inr (rec2, p5), w3) \<Rightarrow>
                          (case refresh_agent_connection env 2
                              (ws1\<lparr>ow_current_step := os_current_step rec2\<rparr>) rec2 p5 w3 of
                             (Inl e, w4) \<Rightarrow> (Inl e, w4)
                           | (Inr (rec3, p6, ws3), w4) \<Rightarrow> (build_state_view env ws3 rec3 p6 w4, w4)))))"

definition get_agent_connection_status ::
  "onboarding_env \<Rightarrow> uuid \<Rightarrow> string \<Rightarrow> onboarding_world \<Rightarrow> (gerr + onboarding_state_view) \<times> onboarding_world" where
  "get_agent_connection_status env tid clerk_user_id w =
     owner_record env tid clerk_user_id w (\<lambda>ws rec p.
       if os_current_step rec < onboarding_step_agent_install then (Inl err_onboarding_invalid_step, w)
       else (case refresh_agent_connection env 0 ws rec p w of
           (Inl e, w') \<Rightarrow> (Inl e, w')
         | (Inr (rec', p', ws'), w') \<Rightarrow> (build_state_view env ws' rec' p' w', w')))"

text \<open>The fields \<open>ConfigureDatabase\<close> fills in before it asks the agent.\<close>

definition database_fields :: "string \<Rightarrow> int \<Rightarrow> string \<Rightarrow> onboarding_payload \<Rightarrow> onboarding_payload" where
  "database_fields host port database_name p =
     (let port' = (if port > 0 then port else ob_database_port p) in
      p\<lparr>ob_database_host := trim_space (first_non_blank [host, ob_database_host p]),
        ob_database_name := trim_space (first_non_blank [database_name, ob_database_name p]),
        ob_database_port := (if port' \<le> 0 then default_db_port else port'),
        ob_database_username := (if ob_database_username p = [] then default_database_username
                                 else ob_database_username p)\<rparr>)"

definition database_configured :: "onboarding_env \<Rightarrow> configure_database_result \<Rightarrow> onboarding_payload \<Rightarrow> onboarding_payload" where
  "database_configured env result p =
     p\<lparr>ob_database_username := first_non_blank [cd_database_user result, ob_database_username p],
       ob_database_name := first_non_blank [cd_database_name result, ob_database_name p],
       ob_db_verified_at := Some (if cd_completed_at result = time_zero then oe_now env
                                  else cd_completed_at result),
       ob_db_error_code := [], ob_db_error_message_ko := []\<rparr>"

definition onboarding_configure_database ::
  "onboarding_env \<Rightarrow> uuid \<Rightarrow> string \<Rightarrow> string \<Rightarrow> int \<Rightarrow> string \<Rightarrow> string \<Rightarrow> locale_tag \<Rightarrow> onboarding_world \<Rightarrow>
   (gerr + onboarding_state_view) \<times> onboarding_world" where
  "onboarding_configure_database env tid clerk_user_id host port database_name connection_string loc w =
     owner_record env tid clerk_user_id w (\<lambda>ws rec p.
       if os_current_step rec < onboarding_step_database then (Inl err_onboarding_invalid_step, w)
       else if os_current_step rec \<ge> onboarding_step_starter then (Inl err_onboarding_step_locked, w)
       else
         let p1 = database_fields host port database_name p in
         case (if ob_generated_password p1 = [] then
                 map_error (Wrapped ''generate database password'')
                   (generate_database_password (oe_password_random env))
               else Inr (ob_generated_password p1)) of
           Inl e \<Rightarrow> (Inl e, w)
         | Inr password \<Rightarrow>
           (let p2 = p1\<lparr>ob_generated_password := password\<rparr> in
            if ob_database_name p2 = [] then (Inl err_onboarding_invalid_workspace_name, w)
            else if trim_space connection_string = [] then
              save_and_view env ws tid onboarding_step_database p2 (os_completed_at rec) w
            else (case parse_optional_uuid (oe_uuid_parse env) (ob_agent_token_id p2) of
                Inl _ \<Rightarrow> (Inl err_onboarding_invalid_step, w)
              | Inr token \<Rightarrow>
                  (case oe_configure env token (trim_space connection_string) of
                     Inl e \<Rightarrow> (Inl e, w)
                   | Inr result \<Rightarrow>
                       (if cd_error result \<noteq> [] \<or> cd_error_code result \<noteq> ConfigUnspecified then
                          save_and_view env ws tid onboarding_step_database
                            (p2\<lparr>ob_db_error_code := config_code_text (cd_error_code result),
                               ob_db_error_message_ko :=
                                 database_error_message (cd_error_code result) loc\<rparr>)
                            (os_completed_at rec) w
                        else
                          save_and_view env ws tid onboarding_step_schema
                            (database_configured env result p2) (os_completed_at rec) w)))))"

text \<open>A conversion \<open>int32(n)\<close> keeps the low 32 bits.\<close>

definition wrap32 :: "int \<Rightarrow> int" where
  "wrap32 x = (x + 2 ^ 31) mod 2 ^ 32 - 2 ^ 31"

definition run_schema_introspection ::
  "onboarding_env \<Rightarrow> uuid \<Rightarrow> string \<Rightarrow> onboarding_world \<Rightarrow> (gerr + onboarding_state_view) \<times> onboarding_world" where
  "run_schema_introspection env tid clerk_user_id w =
     owner_record env tid clerk_user_id w (\<lambda>ws rec p.
       if os_current_step rec < onboarding_step_schema then (Inl err_onboarding_invalid_step, w)
       else if os_current_step rec \<ge> onboarding_step_starter then (Inl err_onboarding_step_locked, w)
       else (case capture_schema (oe_capture env) (oe_io env LatestSchemaCall)
             (oe_io env CreateSchemaCall) (oe_version_id env) (oe_now env) tid
             (oe_introspected env tid) (wd_schemas w) of
           (Inl e, rows) \<Rightarrow> (Inl e, w\<lparr>wd_schemas := rows\<rparr>)
         | (Inr result, rows) \<Rightarrow>
             save_and_view env ws tid onboarding_step_semantic
               (p\<lparr>ob_schema_version_id := oe_uuid_string env (scr_version_id result),
                  ob_schema_table_count := wrap32 (int (scr_table_count result)),
                  ob_schema_column_count := wrap32 (int (scr_column_count result)),
                  ob_schema_fk_count := wrap32 (int (scr_foreign_key_count result))\<rparr>)
               (os_completed_at rec) (w\<lparr>wd_schemas := rows\<rparr>)))"

definition mark_semantic_approved ::
  "onboarding_env \<Rightarrow> uuid \<Rightarrow> string \<Rightarrow> uuid \<Rightarrow> onboarding_world \<Rightarrow>
   (gerr + onboarding_state_view) \<times> onboarding_world" where
  "mark_semantic_approved env tid clerk_user_id semantic_layer_id w =
     owner_record env tid clerk_user_id w (\<lambda>ws rec p.
       if os_current_step rec < onboarding_step_semantic then (Inl err_onboarding_invalid_step, w)
       else if os_current_step rec \<ge> onboarding_step_starter then (Inl err_onboarding_step_locked, w)
       else (case layer_by_id (oe_io env LayerByIdCall) tid semantic_layer_id (wd_layers w) of
           Inl e \<Rightarrow>
             (Inl (if errors_is e err_not_found then err_onboarding_invalid_semantic_layer else e), w)
         | Inr layer \<Rightarrow>
             (if sl_status layer \<noteq> LayerApproved then (Inl err_onboarding_invalid_semantic_layer, w)
              else save_and_view env ws tid onboarding_step_starter
                (p\<lparr>ob_semantic_layer_id := oe_uuid_string env semantic_layer_id,
                   ob_semantic_approved := Some (case sl_approved_at layer of
                       Some approved \<Rightarrow> approved | None \<Rightarrow> oe_now env)\<rparr>)
                (os_completed_at rec) w)))"

definition complete_starter_step ::
  "onboarding_env \<Rightarrow> uuid \<Rightarrow> string \<Rightarrow> onboarding_world \<Rightarrow> (gerr + onboarding_state_view) \<times> onboarding_world" where
  "complete_starter_step env tid clerk_user_id w =
     owner_record env tid clerk_user_id w (\<lambda>ws rec p.
       if os_current_step rec < onboarding_step_starter then (Inl err_onboarding_invalid_step, w)
       else save_and_view env ws tid onboarding_step_done p (os_completed_at rec) w)"

definition complete_onboarding ::
  "onboarding_env \<Rightarrow> uuid \<Rightarrow> string \<Rightarrow> onboarding_world \<Rightarrow> (gerr + onboarding_state_view) \<times> onboarding_world" where
  "complete_onboarding env tid clerk_user_id w =
     owner_record env tid clerk_user_id w (\<lambda>ws rec p.
       if os_current_step rec < onboarding_step_done then (Inl err_onboarding_invalid_step, w)
       else
         let completed = (case os_completed_at rec of Some t \<Rightarrow> t | None \<Rightarrow> oe_now env) in
         case persist_state env 0 tid onboarding_step_done p (Some completed) w of
           (Inl e, w') \<Rightarrow> (Inl e, w')
         | (Inr (rec', p'), w') \<Rightarrow>
             (build_state_view env (ws\<lparr>ow_complete := True, ow_current_step := os_current_step rec',
                ow_updated_at := os_updated_at rec'\<rparr>) rec' p' w', w'))"

definition create_invites ::
  "onboarding_env \<Rightarrow> uuid \<Rightarrow> string \<Rightarrow> string list \<Rightarrow> onboarding_world \<Rightarrow>
   (gerr + onboarding_state_view \<times> tenant_invite list) \<times> onboarding_world" where
  "create_invites env tid clerk_user_id emails w =
     owner_record env tid clerk_user_id w (\<lambda>ws rec p.
       if os_current_step rec < onboarding_step_done then (Inl err_onboarding_invalid_step, w)
       else (case normalize_invite_emails emails of
           Inl e \<Rightarrow> (Inl e, w)
         | Inr normalized \<Rightarrow>
             (case create_many_invites (oe_lcase env) (oe_pg_lower env) (oe_now env) tid clerk_user_id
                 (map (\<lambda>(i, email). (email, oe_io env (InsertInviteCall i), oe_invite_id env i))
                   (enumerate 0 normalized)) [] (wd_tenants w) of
                (Inl e, db) \<Rightarrow> (Inl e, w\<lparr>wd_tenants := db\<rparr>)
              | (Inr created, db) \<Rightarrow>
                  (let w' = w\<lparr>wd_tenants := db\<rparr> in
                   case build_state_view env ws rec p w' of
                     Inl e \<Rightarrow> (Inl e, w')
                   | Inr view \<Rightarrow> (Inr (view, created), w')))))"

section \<open>The abstract machine of the steps\<close>

text \<open>
  A tenant's progress is its step and its completion instant; a tenant without a row is at the
  first step. \<open>op_guard\<close> and \<open>op_result\<close> say from which steps an operation is available and where
  it leads. A call that fails may have stored its result before failing, never anything else.
\<close>

datatype onboarding_op =
    GetState
  | SaveWelcome string string bool bool
  | EnsureInstallBundle
  | GetAgentConnectionStatus
  | ConfigureDatabase string int string string locale_tag
  | RunSchemaIntrospection
  | MarkSemanticApproved uuid
  | CompleteStarterStep
  | CompleteOnboarding
  | CreateInvites "string list"

fun run_onboarding ::
  "onboarding_op \<Rightarrow> onboarding_env \<Rightarrow> uuid \<Rightarrow> string \<Rightarrow> onboarding_world \<Rightarrow>
   (gerr + onboarding_state_view) \<times> onboarding_world" where
  "run_onboarding GetState env tid u w = get_state env tid u w"
| "run_onboarding (SaveWelcome name lang confirm auto) env tid u w =
     save_welcome env tid u name lang confirm auto w"
| "run_onboarding EnsureInstallBundle env tid u w = ensure_install_bundle env tid u w"
| "run_onboarding GetAgentConnectionStatus env tid u w = get_agent_connection_status env tid u w"
| "run_onboarding (ConfigureDatabase host port name conn loc) env tid u w =
     onboarding_configure_database env tid u host port name conn loc w"
| "run_onboarding RunSchemaIntrospection env tid u w = run_schema_introspection env tid u w"
| "run_onboarding (MarkSemanticApproved lid) env tid u w = mark_semantic_approved env tid u lid w"
| "run_onboarding CompleteStarterStep env tid u w = complete_starter_step env tid u w"
| "run_onboarding CompleteOnboarding env tid u w = complete_onboarding env tid u w"
| "run_onboarding (CreateInvites emails) env tid u w =
     (case create_invites env tid u emails w of
        (Inl e, w') \<Rightarrow> (Inl e, w') | (Inr (view, _), w') \<Rightarrow> (Inr view, w'))"

fun op_guard :: "onboarding_op \<Rightarrow> int \<Rightarrow> bool" where
  "op_guard GetState s = True"
| "op_guard (SaveWelcome _ _ _ _) s = (s < 6)"
| "op_guard EnsureInstallBundle s = (2 \<le> s \<and> s < 6)"
| "op_guard GetAgentConnectionStatus s = (2 \<le> s)"
| "op_guard (ConfigureDatabase _ _ _ _ _) s = (3 \<le> s \<and> s < 6)"
| "op_guard RunSchemaIntrospection s = (4 \<le> s \<and> s < 6)"
| "op_guard (MarkSemanticApproved _) s = (5 \<le> s \<and> s < 6)"
| "op_guard CompleteStarterStep s = (6 \<le> s)"
| "op_guard CompleteOnboarding s = (7 \<le> s)"
| "op_guard (CreateInvites _) s = (7 \<le> s)"

fun op_result :: "onboarding_op \<Rightarrow> int \<times> time option \<Rightarrow> int \<times> time option \<Rightarrow> bool" where
  "op_result GetState (s, c) y = (y = (s, c) \<or> (s < 3 \<and> y = (3, c)))"
| "op_result (SaveWelcome _ _ confirm _) (s, c) y = (y = (if confirm then 2 else s, c))"
| "op_result EnsureInstallBundle (s, c) y = (y = (s, c) \<or> (s < 3 \<and> y = (3, c)))"
| "op_result GetAgentConnectionStatus (s, c) y = (y = (s, c) \<or> (s < 3 \<and> y = (3, c)))"
| "op_result (ConfigureDatabase _ _ _ _ _) (s, c) y = (y = (3, c) \<or> y = (4, c))"
| "op_result RunSchemaIntrospection (s, c) y = (y = (5, c))"
| "op_result (MarkSemanticApproved _) (s, c) y = (y = (6, c))"
| "op_result CompleteStarterStep (s, c) y = (y = (7, c))"
| "op_result CompleteOnboarding (s, c) y =
     (fst y = 7 \<and> (case c of None \<Rightarrow> snd y \<noteq> None | Some t \<Rightarrow> snd y = Some t))"
| "op_result (CreateInvites _) (s, c) y = (y = (s, c))"

definition onboarding_move ::
  "onboarding_op \<Rightarrow> bool \<Rightarrow> int \<times> time option \<Rightarrow> int \<times> time option \<Rightarrow> bool" where
  "onboarding_move op ok x y = ((op_guard op (fst x) \<and> op_result op x y) \<or> (\<not> ok \<and> y = x))"

definition progress :: "uuid \<Rightarrow> onboarding_world \<Rightarrow> int \<times> time option" where
  "progress tid w =
     (case find (\<lambda>r. os_tenant_id r = tid) (wd_states w) of
        None \<Rightarrow> (1, None)
      | Some r \<Rightarrow> (os_current_step r, os_completed_at r))"

definition states_ok :: "onboarding_world \<Rightarrow> bool" where
  "states_ok w =
     (distinct (map os_tenant_id (wd_states w)) \<and>
      list_all (\<lambda>r. 1 \<le> os_current_step r \<and> os_current_step r \<le> 7) (wd_states w))"

text \<open>The table stays well-formed and the rows of the other tenants are as before.\<close>

definition only_row :: "uuid \<Rightarrow> onboarding_world \<Rightarrow> onboarding_world \<Rightarrow> bool" where
  "only_row tid w w' =
     (states_ok w' \<and>
      filter (\<lambda>r. os_tenant_id r \<noteq> tid) (wd_states w') = filter (\<lambda>r. os_tenant_id r \<noteq> tid) (wd_states w))"

lemma only_row_refl: "states_ok w \<Longrightarrow> only_row tid w w"
  by (simp add: only_row_def)

lemma only_row_trans: "only_row tid w w1 \<Longrightarrow> only_row tid w1 w2 \<Longrightarrow> only_row tid w w2"
  by (simp add: only_row_def)

lemma only_row_same_states:
  "wd_states w = wd_states v \<Longrightarrow> only_row tid v w' \<longleftrightarrow> only_row tid w w'"
  by (simp add: only_row_def)

lemma progress_same_states: "wd_states w = wd_states v \<Longrightarrow> progress tid w = progress tid v"
  by (simp add: progress_def)

lemma states_ok_same: "wd_states w = wd_states v \<Longrightarrow> states_ok w = states_ok v"
  by (simp add: states_ok_def)

lemma progress_bounds: "states_ok w \<Longrightarrow> 1 \<le> fst (progress tid w) \<and> fst (progress tid w) \<le> 7"
  by (auto simp: progress_def states_ok_def list_all_iff split: option.splits dest!: find_Some_in_set)

lemma find_update_key:
  assumes "\<And>r. k (f r) = k r" and "find (\<lambda>r. k r = v) xs = Some x"
  shows "find (\<lambda>r. k r = v) (update_where (\<lambda>r. k r = v) f xs) = Some (f x)"
  using assms by (induction xs) (auto split: if_splits)

lemma filter_update_other:
  "(\<And>r. k (f r) = k r) \<Longrightarrow>
     filter (\<lambda>r. k r \<noteq> v) (update_where (\<lambda>r. k r = v) f xs) = filter (\<lambda>r. k r \<noteq> v) xs"
  by (induction xs) auto

lemma map_key_update_where: "(\<And>r. k (f r) = k r) \<Longrightarrow> map k (update_where p f xs) = map k xs"
  by (induction xs) auto

lemma upsert_effect:
  assumes ok: "states_ok w"
    and up: "onboarding_upsert io now jsonb tid step body c (wd_states w) = (r, rows)"
  shows "only_row tid w (w\<lparr>wd_states := rows\<rparr>) \<and>
    (case r of
       Inl e \<Rightarrow> rows = wd_states w
     | Inr rec \<Rightarrow> 1 \<le> step \<and> step \<le> 7 \<and> progress tid (w\<lparr>wd_states := rows\<rparr>) = (step, c) \<and>
         os_tenant_id rec = tid \<and> os_current_step rec = step \<and> os_completed_at rec = c \<and>
         os_payload rec = jsonb body)"
proof (cases r)
  case (Inl e)
  with up ok show ?thesis
    by (auto simp: onboarding_upsert_def only_row_def Let_def split: option.splits if_splits)
next
  case (Inr rec)
  then have step: "\<not> (step < 1 \<or> 7 < step)"
    using up by (auto simp: onboarding_upsert_def Let_def split: option.splits if_splits)
  show ?thesis
  proof (cases "find (\<lambda>r. os_tenant_id r = tid) (wd_states w)")
    case None
    then have new: "tid \<notin> os_tenant_id ` set (wd_states w)" by (auto simp: find_None_iff)
    let ?rec = "\<lparr>os_tenant_id = tid, os_current_step = step, os_payload = jsonb body,
        os_completed_at = c, os_created_at = now, os_updated_at = now\<rparr>"
    have rows: "rows = wd_states w @ [?rec]" "rec = ?rec"
      using up Inr None step by (auto simp: onboarding_upsert_def Let_def split: option.splits)
    have "find (\<lambda>r. os_tenant_id r = tid) rows = Some ?rec"
      using None rows by (simp add: find_append)
    with rows new ok step Inr show ?thesis
      by (auto simp: only_row_def progress_def states_ok_def)
  next
    case (Some old)
    let ?f = "\<lambda>r. r\<lparr>os_current_step := step, os_payload := jsonb body, os_completed_at := c,
        os_updated_at := now\<rparr>"
    let ?p = "\<lambda>r :: tenant_onboarding_state. os_tenant_id r = tid"
    have old: "os_tenant_id old = tid" using Some find_Some_in_set by fastforce
    have rows: "rows = update_where ?p ?f (wd_states w)" "rec = ?f old"
      using up Inr Some step by (auto simp: onboarding_upsert_def Let_def split: option.splits)
    have f: "find ?p rows = Some (?f old)"
      unfolding rows(1) by (rule find_update_key [OF _ Some]) simp
    have "list_all (\<lambda>r. 1 \<le> os_current_step r \<and> os_current_step r \<le> 7) rows"
      using ok step rows(1) by (auto simp: list_all_iff states_ok_def in_set_update_where)
    moreover have "map os_tenant_id rows = map os_tenant_id (wd_states w)"
      unfolding rows(1) by (rule map_key_update_where) simp
    moreover have "filter (\<lambda>r. os_tenant_id r \<noteq> tid) rows = filter (\<lambda>r. os_tenant_id r \<noteq> tid) (wd_states w)"
      unfolding rows(1) by (rule filter_update_other) simp
    ultimately show ?thesis
      using f ok step Inr rows(2) old by (simp add: only_row_def progress_def states_ok_def)
  qed
qed

lemma persist_effect:
  assumes "persist_state env n tid step p c w = (r, w')" and "states_ok w"
  shows "only_row tid w w' \<and> wd_tenants w' = wd_tenants w \<and>
    (progress tid w' = progress tid w \<or> progress tid w' = (step, c)) \<and>
    (\<forall>rec q. r = Inr (rec, q) \<longrightarrow> os_tenant_id rec = tid \<and> os_current_step rec = step \<and>
       os_completed_at rec = c \<and> progress tid w' = (step, c))"
proof (cases "oe_marshal env p")
  case (Inl e)
  with assms show ?thesis by (auto simp: persist_state_def intro: only_row_refl)
next
  case (Inr body)
  obtain u rows where up: "onboarding_upsert (oe_io env (UpsertCall n)) (oe_db_now env n) (oe_jsonb env)
      tid step body c (wd_states w) = (u, rows)" by fastforce
  from upsert_effect [OF assms(2) up] assms(1) Inr up show ?thesis
    by (cases u) (auto simp: persist_state_def progress_def split: sum.splits)
qed

text \<open>
  The driver's own errors never wrap the repository's \<open>ErrNotFound\<close>, which the repository makes of
  \<open>pgx.ErrNoRows\<close>.
\<close>

definition foreign_errors :: "onboarding_env \<Rightarrow> bool" where
  "foreign_errors env =
     (case oe_io env GetByTenantCall of None \<Rightarrow> True | Some e \<Rightarrow> \<not> errors_is e err_not_found)"

lemma load_record_effect:
  assumes "load_record env tid w = Inr (rec, p)" "states_ok w" "foreign_errors env"
  shows "os_tenant_id rec = tid" "(os_current_step rec, os_completed_at rec) = progress tid w"
proof -
  have nf: "\<not> errors_is (Wrapped t e) err_not_found" if "\<not> errors_is e err_not_found" for t e
    using that by (simp add: err_not_found_def)
  have "1 \<le> os_current_step r" if "find (\<lambda>r. os_tenant_id r = tid) (wd_states w) = Some r" for r
    using that assms(2) find_Some_in_set [OF that] by (auto simp: states_ok_def list_all_iff)
  with assms nf show "os_tenant_id rec = tid" "(os_current_step rec, os_completed_at rec) = progress tid w"
    by (auto simp: load_record_def onboarding_get_by_tenant_def progress_def onboarding_steps
        foreign_errors_def split: option.splits sum.splits if_splits dest!: find_Some_in_set)
qed

lemma build_state_view_state: "build_state_view env ws rec p w = Inr v \<Longrightarrow> ov_state v = rec"
  by (auto simp: build_state_view_def Let_def split: sum.splits)

lemma owner_recordE:
  assumes "owner_record env tid u w k = (r, w')"
  obtains (err) e where "r = Inl e" "w' = w"
  | (ok) ws rec p where "load_workspace env tid u w = Inr ws" "ow_role ws = RoleOwner"
      "load_record env tid w = Inr (rec, p)" "k ws rec p = (r, w')"
  using assms by (auto simp: owner_record_def split: sum.splits if_splits)

text \<open>What a call leaves: only the tenant's row moved, to \<open>y\<close>, which the view shows on success.\<close>

definition call_leaves ::
  "uuid \<Rightarrow> onboarding_world \<Rightarrow> (gerr + onboarding_state_view) \<times> onboarding_world \<Rightarrow>
   (bool \<Rightarrow> int \<times> time option \<Rightarrow> bool) \<Rightarrow> bool" where
  "call_leaves tid w out R =
     (only_row tid w (snd out) \<and>
      (case fst out of
         Inl _ \<Rightarrow> R False (progress tid (snd out))
       | Inr v \<Rightarrow> R True (progress tid (snd out)) \<and>
           (os_current_step (ov_state v), os_completed_at (ov_state v)) = progress tid (snd out)))"

lemma call_leaves_same:
  "states_ok w \<Longrightarrow> wd_states w' = wd_states w \<Longrightarrow> R False (progress tid w) \<Longrightarrow>
     call_leaves tid w (Inl e, w') R"
  by (auto simp: call_leaves_def only_row_def states_ok_def progress_def)

lemma call_leaves_view:
  assumes "only_row tid w w'" "progress tid w' = y"
    "(os_current_step rec, os_completed_at rec) = y" "R True y" "R False y"
  shows "call_leaves tid w (build_state_view env ws rec p w', w') R"
  using assms build_state_view_state [of env ws rec p w']
  by (auto simp: call_leaves_def split: sum.splits)

lemma save_and_view_leaves:
  assumes ok: "states_ok w" and same: "wd_states v = wd_states w"
    and R: "R False (progress tid w)" "R False (step, c)" "R True (step, c)"
  shows "call_leaves tid w (save_and_view env ws tid step p c v) R"
proof -
  obtain r w' where ps: "persist_state env 0 tid step p c v = (r, w')" by fastforce
  have okv: "states_ok v" using ok same by (simp add: states_ok_def)
  note eff = persist_effect [OF ps okv]
  have only: "only_row tid w w'" using eff only_row_same_states [OF same [symmetric]] by blast
  have pv: "progress tid v = progress tid w" using same by (rule progress_same_states)
  show ?thesis
  proof (cases r)
    case (Inl e)
    with ps only eff pv R show ?thesis
      by (auto simp: save_and_view_def call_leaves_def)
  next
    case (Inr x)
    obtain rec q where x: "x = (rec, q)" by fastforce
    have "call_leaves tid w
        (build_state_view env (ws\<lparr>ow_current_step := os_current_step rec\<rparr>) rec q w', w') R"
      using only eff Inr x R by (intro call_leaves_view [where y = "(step, c)"]) auto
    with ps Inr x show ?thesis by (simp add: save_and_view_def)
  qed
qed

text \<open>A look at the sessions keeps the step, or takes it from before the database step to it.\<close>

definition refresh_to :: "int \<times> time option \<Rightarrow> int \<times> time option \<Rightarrow> bool" where
  "refresh_to x y = (y = x \<or> (fst x < 3 \<and> y = (3, snd x)))"

lemma refresh_effect:
  assumes rf: "refresh_agent_connection env n ws rec p w = (r, w')" and ok: "states_ok w"
    and rec: "os_tenant_id rec = tid" "(os_current_step rec, os_completed_at rec) = progress tid w"
  shows "only_row tid w w' \<and> wd_tenants w' = wd_tenants w \<and> refresh_to (progress tid w) (progress tid w') \<and>
    (\<forall>rec' p' ws'. r = Inr (rec', p', ws') \<longrightarrow> os_tenant_id rec' = tid \<and>
       (os_current_step rec', os_completed_at rec') = progress tid w')"
proof -
  let ?found = "latest_online_agent_session env n tid (ob_agent_token_id p)"
  obtain p1 step changed where
    rp: "refresh_payload env ?found (os_current_step rec) p = (p1, step, changed)"
    by (metis prod_cases3)
  have step: "step = os_current_step rec \<or> (os_current_step rec < 3 \<and> step = 3)"
    using rp by (auto simp: refresh_payload_def Let_def onboarding_steps split: option.splits if_splits)
  show ?thesis
  proof (cases changed)
    case False
    with rf rp rec ok show ?thesis
      by (auto simp: refresh_agent_connection_def refresh_to_def intro: only_row_refl)
  next
    case True
    obtain s w1 where ps: "persist_state env n tid step p1 (os_completed_at rec) w = (s, w1)" by fastforce
    note eff = persist_effect [OF ps ok]
    have "refresh_to (progress tid w) (progress tid w1)"
      using eff step unfolding rec(2) [symmetric] by (auto simp: refresh_to_def)
    moreover have "w' = w1" "\<And>rec' p' ws'. r = Inr (rec', p', ws') \<Longrightarrow> \<exists>q. s = Inr (rec', q)"
      using rf rp True ps unfolding refresh_agent_connection_def rec(1)
      by (simp_all split: sum.splits prod.splits)
    ultimately show ?thesis using eff by metis
  qed
qed

lemma refresh_view_leaves:
  assumes ok: "states_ok w"
    and rec: "os_tenant_id rec = tid" "(os_current_step rec, os_completed_at rec) = progress tid w"
    and R: "\<And>y b. refresh_to (progress tid w) y \<Longrightarrow> R b y"
  shows "call_leaves tid w
    (case refresh_agent_connection env n ws rec p w of
       (Inl e, w') \<Rightarrow> (Inl e, w')
     | (Inr (rec', p', ws'), w') \<Rightarrow> (build_state_view env ws' rec' p' w', w')) R"
proof -
  obtain r w' where rf: "refresh_agent_connection env n ws rec p w = (r, w')" by fastforce
  note eff = refresh_effect [OF rf ok rec]
  show ?thesis
  proof (cases r)
    case (Inl e)
    with rf eff R show ?thesis by (auto simp: call_leaves_def)
  next
    case (Inr x)
    obtain rec' p' ws' where x: "x = (rec', p', ws')" by (metis prod_cases3)
    have "call_leaves tid w (build_state_view env ws' rec' p' w', w') R"
      using eff Inr x R by (intro call_leaves_view [where y = "progress tid w'"]) auto
    with rf Inr x show ?thesis by simp
  qed
qed

lemma owner_leaves:
  assumes "states_ok w" "foreign_errors env" and "R False (progress tid w)"
    and "\<And>ws rec p. load_workspace env tid u w = Inr ws \<Longrightarrow> os_tenant_id rec = tid \<Longrightarrow>
      (os_current_step rec, os_completed_at rec) = progress tid w \<Longrightarrow>
      call_leaves tid w (k ws rec p) R"
  shows "call_leaves tid w (owner_record env tid u w k) R"
proof -
  obtain r w' where k: "owner_record env tid u w k = (r, w')" by fastforce
  then show ?thesis
  proof (cases rule: owner_recordE)
    case (err e)
    with k assms show ?thesis by (simp add: call_leaves_same)
  next
    case (ok ws rec p)
    with k assms(4) [of ws rec p] load_record_effect [OF ok(3) assms(1,2)] show ?thesis by simp
  qed
qed

text \<open>The forms in which the operations meet the abstract machine.\<close>

lemma move_stay [simp]: "onboarding_move op False x x"
  by (simp add: onboarding_move_def)

lemma move_result:
  "op_guard op (fst x) \<Longrightarrow> op_result op x y \<Longrightarrow> onboarding_move op ok x y"
  by (simp add: onboarding_move_def)

lemma load_workspace_tenant: "load_workspace env tid u w = Inr ws \<Longrightarrow> ow_tenant_id ws = tid"
  by (auto simp: load_workspace_def split: sum.splits option.splits dest!: find_Some_in_set)

lemma progress_parts:
  "(os_current_step rec, os_completed_at rec) = progress tid w \<Longrightarrow>
     fst (progress tid w) = os_current_step rec \<and> snd (progress tid w) = os_completed_at rec"
  by (metis fst_conv snd_conv)

lemma refresh_move:
  assumes "op = GetState \<or> op = EnsureInstallBundle \<or> op = GetAgentConnectionStatus"
    and "op_guard op (fst x)"
  shows "refresh_to x y \<Longrightarrow> onboarding_move op b x y"
proof -
  assume "refresh_to x y"
  with assms(1) have "op_result op x y" by (cases x) (auto simp: refresh_to_def)
  with assms(2) show ?thesis by (simp add: move_result)
qed

lemma leaves_get_state:
  assumes "states_ok w" "foreign_errors env"
  shows "call_leaves tid w (get_state env tid u w) (\<lambda>b. onboarding_move GetState b (progress tid w))"
proof -
  show ?thesis
  proof (cases "load_workspace env tid u w")
    case (Inl e)
    with assms show ?thesis by (simp add: get_state_def call_leaves_same)
  next
    case ws: (Inr ws)
    show ?thesis
    proof (cases "load_record env tid w")
      case (Inl e)
      with assms ws show ?thesis by (simp add: get_state_def call_leaves_same)
    next
      case (Inr x)
      obtain rec p where x: "x = (rec, p)" by fastforce
      have "call_leaves tid w (case refresh_agent_connection env 0 ws rec p w of
          (Inl e, w') \<Rightarrow> (Inl e, w')
        | (Inr (rec', p', ws'), w') \<Rightarrow> (build_state_view env ws' rec' p' w', w'))
        (\<lambda>b. onboarding_move GetState b (progress tid w))"
        using load_record_effect [OF Inr [unfolded x] assms]
        by (intro refresh_view_leaves assms refresh_move) simp_all
      with ws Inr x show ?thesis by (simp add: get_state_def)
    qed
  qed
qed

lemma leaves_get_agent_connection_status:
  assumes "states_ok w" "foreign_errors env"
  shows "call_leaves tid w (get_agent_connection_status env tid u w)
    (\<lambda>b. onboarding_move GetAgentConnectionStatus b (progress tid w))"
  unfolding get_agent_connection_status_def
proof (rule owner_leaves [OF assms], simp, goal_cases)
  case (1 ws rec p)
  show ?case
  proof (cases "os_current_step rec < onboarding_step_agent_install")
    case True
    with assms show ?thesis by (simp add: call_leaves_same)
  next
    case False
    then have "op_guard GetAgentConnectionStatus (fst (progress tid w))"
      using progress_parts [OF 1(3)] by (simp add: onboarding_steps)
    then show ?thesis
      using False by (simp) (intro refresh_view_leaves assms 1 refresh_move; simp)
  qed
qed

lemma leaves_save_welcome:
  assumes "states_ok w" "foreign_errors env"
  shows "call_leaves tid w (save_welcome env tid u name lang confirm auto_save w)
    (\<lambda>b. onboarding_move (SaveWelcome name lang confirm auto_save) b (progress tid w))"
  unfolding save_welcome_def
proof (rule owner_leaves [OF assms], simp, goal_cases)
  case (1 ws rec p)
  have step: "os_current_step rec \<noteq> 0"
    using progress_bounds [OF assms(1), of tid] progress_parts [OF 1(3)] by auto
  show ?case
  proof (cases "os_current_step rec \<ge> onboarding_step_starter")
    case True
    with assms show ?thesis by (simp add: call_leaves_same)
  next
    case False
    have mv: "onboarding_move (SaveWelcome name lang confirm auto_save) b (progress tid w)
        (if confirm then 2 else os_current_step rec, os_completed_at rec)" for b
      using False 1(3) [symmetric] by (auto simp: onboarding_steps intro!: move_result)
    from False step mv [where b = True] mv [where b = False] assms show ?thesis
      by (auto simp: Let_def onboarding_steps split: sum.splits prod.splits
          intro!: call_leaves_same save_and_view_leaves)
  qed
qed

lemma ensure_token_states: "ensure_token env tid p w = (r, w') \<Longrightarrow> wd_states w' = wd_states w"
  by (auto simp: ensure_token_def split: if_splits sum.splits prod.splits)

lemma refresh_to_refl [simp]: "refresh_to x x"
  by (simp add: refresh_to_def)

lemma refresh_to_trans: "refresh_to x y \<Longrightarrow> refresh_to y z \<Longrightarrow> refresh_to x z"
  by (auto simp: refresh_to_def)

lemma call_leaves_only:
  "only_row tid w w' \<Longrightarrow> call_leaves tid w' out R \<Longrightarrow> call_leaves tid w out R"
  by (auto simp: call_leaves_def intro: only_row_trans split: sum.splits)

lemma call_leaves_fail: "only_row tid w w' \<Longrightarrow> R False (progress tid w') \<Longrightarrow> call_leaves tid w (Inl e, w') R"
  by (simp add: call_leaves_def)

lemma leaves_ensure_install_bundle:
  assumes "states_ok w" "foreign_errors env"
  shows "call_leaves tid w (ensure_install_bundle env tid u w)
    (\<lambda>b. onboarding_move EnsureInstallBundle b (progress tid w))"
  unfolding ensure_install_bundle_def
proof (rule owner_leaves [OF assms], simp, goal_cases)
  case (1 ws rec p)
  note parts = progress_parts [OF 1(3)]
  show ?case
  proof (cases "os_current_step rec < onboarding_step_agent_install \<or>
      os_current_step rec \<ge> onboarding_step_starter")
    case True
    with assms show ?thesis by (auto simp: call_leaves_same)
  next
    case False
    let ?R = "\<lambda>b. onboarding_move EnsureInstallBundle b (progress tid w)"
    have guard: "op_guard EnsureInstallBundle (fst (progress tid w))"
      using False parts by (simp add: onboarding_steps)
    have R: "refresh_to (progress tid w) y \<Longrightarrow> ?R b y" for y b
      by (rule refresh_move [OF _ guard]) simp_all
    define p2 where "p2 = (let p1 = (if ob_install_slug p = []
        then p\<lparr>ob_install_slug := slugify_workspace_name (oe_lcase env)
          (first_non_blank [ob_workspace_name p, ow_name ws]) (ow_slug ws)\<rparr> else p)
      in if ob_agent_wait_started p1 = None then p1\<lparr>ob_agent_wait_started := Some (oe_now env)\<rparr> else p1)"
    obtain r1 w1 where rf: "refresh_agent_connection env 0 ws rec p2 w = (r1, w1)" by fastforce
    note eff1 = refresh_effect [OF rf assms(1) 1(2,3)]
    show ?thesis
    proof (cases r1)
      case (Inl e)
      with rf False eff1 R show ?thesis by (simp add: p2_def Let_def call_leaves_fail)
    next
      case (Inr x1)
      obtain rec1 p3 ws1 where x1: "x1 = (rec1, p3, ws1)" by (metis prod_cases3)
      have only1: "only_row tid w w1" and to1: "refresh_to (progress tid w) (progress tid w1)"
        and rec1: "(os_current_step rec1, os_completed_at rec1) = progress tid w1"
        using eff1 Inr x1 by auto
      have step1: "max_step (os_current_step rec1) onboarding_step_agent_install = os_current_step rec1"
        using to1 rec1 guard by (cases "progress tid w") (auto simp: refresh_to_def max_step_def onboarding_steps)
      obtain r2 w2 where et: "ensure_token env tid p3 w1 = (r2, w2)" by fastforce
      have st2: "wd_states w2 = wd_states w1" by (rule ensure_token_states [OF et])
      have only2: "only_row tid w w2" and pr2: "progress tid w2 = progress tid w1"
        using only1 st2 by (auto simp: only_row_def states_ok_def progress_def)
      show ?thesis
      proof (cases r2)
        case (Inl e)
        with rf False Inr x1 et only2 pr2 to1 R show ?thesis
          by (simp add: p2_def Let_def call_leaves_fail)
      next
        case r2: (Inr p4)
        obtain r3 w3 where ps: "persist_state env 1 tid (os_current_step rec1) p4 (os_completed_at rec1) w2
            = (r3, w3)" by fastforce
        have ok2: "states_ok w2" using only2 by (simp add: only_row_def)
        note eff3 = persist_effect [OF ps ok2]
        have only3: "only_row tid w w3" using only2 eff3 only_row_trans by blast
        have pr3: "progress tid w3 = progress tid w1" using eff3 rec1 pr2 by metis
        show ?thesis
        proof (cases r3)
          case (Inl e)
          with rf False Inr x1 et r2 step1 ps only3 pr3 to1 R show ?thesis
            by (simp add: p2_def Let_def call_leaves_fail)
        next
          case r3: (Inr x3)
          obtain rec2 p5 where x3: "x3 = (rec2, p5)" by fastforce
          have rec2: "os_tenant_id rec2 = tid" "(os_current_step rec2, os_completed_at rec2) = progress tid w3"
            using eff3 r3 x3 by auto
          have ok3: "states_ok w3" using only3 by (simp add: only_row_def)
          have "call_leaves tid w (case refresh_agent_connection env 2
              (ws1\<lparr>ow_current_step := os_current_step rec2\<rparr>) rec2 p5 w3 of
              (Inl e, w4) \<Rightarrow> (Inl e, w4)
            | (Inr (rec3, p6, ws3), w4) \<Rightarrow> (build_state_view env ws3 rec3 p6 w4, w4)) ?R"
            by (rule call_leaves_only [OF only3], rule refresh_view_leaves [OF ok3 rec2])
              (metis R pr3 refresh_to_trans to1)
          with rf False Inr x1 et r2 step1 ps r3 x3 show ?thesis
            by (simp add: p2_def Let_def)
        qed
      qed
    qed
  qed
qed

lemma move_leaves:
  assumes "states_ok w" "wd_states v = wd_states w"
    and "op_guard op (fst (progress tid w))" "op_result op (progress tid w) (step, c)"
  shows "call_leaves tid w (save_and_view env ws tid step p c v) (\<lambda>b. onboarding_move op b (progress tid w))"
  using assms by (intro save_and_view_leaves) (simp_all add: move_result)

lemma leaves_configure_database:
  assumes "states_ok w" "foreign_errors env"
  shows "call_leaves tid w (onboarding_configure_database env tid u host port name conn loc w)
    (\<lambda>b. onboarding_move (ConfigureDatabase host port name conn loc) b (progress tid w))"
  unfolding onboarding_configure_database_def
proof (rule owner_leaves [OF assms], simp, goal_cases)
  case (1 ws rec p)
  let ?op = "ConfigureDatabase host port name conn loc"
  show ?case
  proof (cases "os_current_step rec < onboarding_step_database \<or> os_current_step rec \<ge> onboarding_step_starter")
    case True
    with assms show ?thesis by (auto simp: call_leaves_same)
  next
    case False
    have guard: "op_guard ?op (fst (progress tid w))"
      using False progress_parts [OF 1(3)] by (simp add: onboarding_steps)
    have res: "op_result ?op (progress tid w) (onboarding_step_database, os_completed_at rec)"
      "op_result ?op (progress tid w) (onboarding_step_schema, os_completed_at rec)"
      by (simp_all add: onboarding_steps flip: 1(3))
    note [simp del] = op_guard.simps op_result.simps
    from False guard res assms show ?thesis
      by (auto simp: Let_def split: sum.splits intro!: call_leaves_same move_leaves)
  qed
qed

lemma leaves_run_schema_introspection:
  assumes "states_ok w" "foreign_errors env"
  shows "call_leaves tid w (run_schema_introspection env tid u w)
    (\<lambda>b. onboarding_move RunSchemaIntrospection b (progress tid w))"
  unfolding run_schema_introspection_def
proof (rule owner_leaves [OF assms], simp, goal_cases)
  case (1 ws rec p)
  have "op_result RunSchemaIntrospection (progress tid w) (onboarding_step_semantic, os_completed_at rec)"
    by (simp add: onboarding_steps flip: 1(3))
  with assms progress_parts [OF 1(3)] show ?case
    by (auto simp: onboarding_steps split: sum.splits prod.splits intro!: call_leaves_same move_leaves)
qed

lemma leaves_mark_semantic_approved:
  assumes "states_ok w" "foreign_errors env"
  shows "call_leaves tid w (mark_semantic_approved env tid u lid w)
    (\<lambda>b. onboarding_move (MarkSemanticApproved lid) b (progress tid w))"
  unfolding mark_semantic_approved_def
proof (rule owner_leaves [OF assms], simp, goal_cases)
  case (1 ws rec p)
  have "op_result (MarkSemanticApproved lid) (progress tid w) (onboarding_step_starter, os_completed_at rec)"
    by (simp add: onboarding_steps flip: 1(3))
  with assms progress_parts [OF 1(3)] show ?case
    by (auto simp: onboarding_steps split: sum.splits prod.splits intro!: call_leaves_same move_leaves)
qed

lemma leaves_complete_starter_step:
  assumes "states_ok w" "foreign_errors env"
  shows "call_leaves tid w (complete_starter_step env tid u w)
    (\<lambda>b. onboarding_move CompleteStarterStep b (progress tid w))"
  unfolding complete_starter_step_def
proof (rule owner_leaves [OF assms], simp, goal_cases)
  case (1 ws rec p)
  have "op_result CompleteStarterStep (progress tid w) (onboarding_step_done, os_completed_at rec)"
    by (simp add: onboarding_steps flip: 1(3))
  with assms progress_parts [OF 1(3)] show ?case
    by (auto simp: onboarding_steps split: sum.splits prod.splits intro!: call_leaves_same move_leaves)
qed

lemma leaves_complete_onboarding:
  assumes "states_ok w" "foreign_errors env"
  shows "call_leaves tid w (complete_onboarding env tid u w)
    (\<lambda>b. onboarding_move CompleteOnboarding b (progress tid w))"
  unfolding complete_onboarding_def
proof (rule owner_leaves [OF assms], simp, goal_cases)
  case (1 ws rec p)
  let ?t = "case os_completed_at rec of Some t \<Rightarrow> t | None \<Rightarrow> oe_now env"
  obtain r w' where ps: "persist_state env 0 tid onboarding_step_done p (Some ?t) w = (r, w')" by fastforce
  note eff = persist_effect [OF ps assms(1)]
  show ?case
  proof (cases "os_current_step rec < onboarding_step_done")
    case True
    with assms show ?thesis by (simp add: call_leaves_same)
  next
    case False
    have mv: "onboarding_move CompleteOnboarding b (progress tid w) (onboarding_step_done, Some ?t)" for b
      using False by (intro move_result; simp add: onboarding_steps flip: 1(3) split: option.splits)
    show ?thesis
    proof (cases r)
      case (Inl e)
      with False ps eff mv show ?thesis by (auto simp: call_leaves_def)
    next
      case (Inr x)
      obtain rec' p' where x: "x = (rec', p')" by fastforce
      have "call_leaves tid w (build_state_view env (ws\<lparr>ow_complete := True,
          ow_current_step := os_current_step rec', ow_updated_at := os_updated_at rec'\<rparr>) rec' p' w', w')
          (\<lambda>b. onboarding_move CompleteOnboarding b (progress tid w))"
        using eff Inr x mv by (intro call_leaves_view [where y = "(onboarding_step_done, Some ?t)"]) auto
      with False ps Inr x show ?thesis by simp
    qed
  qed
qed

lemma leaves_create_invites:
  assumes "states_ok w" "foreign_errors env"
  shows "call_leaves tid w (run_onboarding (CreateInvites emails) env tid u w)
    (\<lambda>b. onboarding_move (CreateInvites emails) b (progress tid w))"
proof -
  obtain r w' where run: "create_invites env tid u emails w = (r, w')" by fastforce
  from run have "wd_states w' = wd_states w \<and> (\<forall>v created. r = Inr (v, created) \<longrightarrow>
      7 \<le> fst (progress tid w) \<and>
      (os_current_step (ov_state v), os_completed_at (ov_state v)) = progress tid w)"
    unfolding create_invites_def
  proof (cases rule: owner_recordE)
    case (ok ws rec p)
    note parts = load_record_effect(2) [OF ok(3) assms]
    have st: "ov_state v = rec" if "build_state_view env ws rec p x = Inr v" for x v
      using that by (rule build_state_view_state)
    have "7 \<le> os_current_step rec \<and> ov_state v = rec" if "r = Inr (v, created)" for v created
      using ok(4) that by (auto simp: Let_def onboarding_steps split: if_splits sum.splits prod.splits dest!: st)
    moreover have "wd_states w' = wd_states w"
      using ok(4) by (auto simp: Let_def split: if_splits sum.splits prod.splits)
    ultimately show ?thesis using parts by (metis fst_conv)
  qed simp
  moreover from this have "progress tid w' = progress tid w" using progress_same_states by blast
  moreover have "onboarding_move (CreateInvites emails) True (progress tid w) (progress tid w)"
    if "7 \<le> fst (progress tid w)"
    using that by (cases "progress tid w") (simp add: onboarding_move_def)
  ultimately show ?thesis
    using run assms by (auto simp: call_leaves_def only_row_def states_ok_def split: sum.splits)
qed

lemma onboarding_call_leaves:
  assumes "states_ok w" "foreign_errors env"
  shows "call_leaves tid w (run_onboarding op env tid u w) (\<lambda>b. onboarding_move op b (progress tid w))"
proof (cases op)
  case (CreateInvites emails)
  then show ?thesis using leaves_create_invites [OF assms] by simp
qed (simp_all add: assms leaves_get_state leaves_save_welcome leaves_ensure_install_bundle
    leaves_get_agent_connection_status leaves_configure_database leaves_run_schema_introspection
    leaves_mark_semantic_approved leaves_complete_starter_step leaves_complete_onboarding
    del: run_onboarding.simps(10))

section \<open>Sequences of calls\<close>

type_synonym onboarding_call = "onboarding_op \<times> onboarding_env \<times> uuid \<times> string"

fun run_onboarding_calls :: "onboarding_call list \<Rightarrow> onboarding_world \<Rightarrow> onboarding_world" where
  "run_onboarding_calls [] w = w"
| "run_onboarding_calls ((op, env, tid, u) # calls) w =
     run_onboarding_calls calls (snd (run_onboarding op env tid u w))"

text \<open>Completed tenants are at the last step.\<close>

fun progress_ok :: "int \<times> time option \<Rightarrow> bool" where
  "progress_ok (s, c) = (1 \<le> s \<and> s \<le> 7 \<and> (c \<noteq> None \<longrightarrow> s = 7))"

text \<open>After the approval of the semantic layer nothing goes back, and a completion stays.\<close>

fun progress_kept :: "int \<times> time option \<Rightarrow> int \<times> time option \<Rightarrow> bool" where
  "progress_kept (s, c) (s', c') = ((6 \<le> s \<longrightarrow> s \<le> s') \<and> (c \<noteq> None \<longrightarrow> c' = c))"

lemma progress_kept_refl [simp]: "progress_kept x x"
  by (cases x) simp

lemma progress_kept_trans: "progress_kept x y \<Longrightarrow> progress_kept y z \<Longrightarrow> progress_kept x z"
  by (cases x; cases y; cases z) auto

lemma move_progress:
  assumes "onboarding_move op b x y" "progress_ok x"
  shows "progress_ok y \<and> progress_kept x y"
  using assms by (cases x; cases y; cases op)
    (auto simp: onboarding_move_def split: if_splits option.splits)

lemma only_row_other:
  assumes "only_row tid w w'" "t \<noteq> tid"
  shows "progress t w' = progress t w"
proof -
  have "find (\<lambda>r. os_tenant_id r = t) rows =
      find (\<lambda>r. os_tenant_id r = t) (filter (\<lambda>r. os_tenant_id r \<noteq> tid) rows)" for rows :: "tenant_onboarding_state list"
    using assms(2) by (induction rows) auto
  from this [of "wd_states w"] this [of "wd_states w'"] assms(1) show ?thesis
    by (simp add: progress_def only_row_def)
qed

lemma call_progress:
  assumes "states_ok w" "foreign_errors env" "\<And>t. progress_ok (progress t w)"
  shows "states_ok (snd (run_onboarding op env tid u w)) \<and>
    progress_ok (progress t (snd (run_onboarding op env tid u w))) \<and>
    progress_kept (progress t w) (progress t (snd (run_onboarding op env tid u w)))"
proof -
  let ?w = "snd (run_onboarding op env tid u w)"
  from onboarding_call_leaves [OF assms(1,2), of tid op u]
  have only: "only_row tid w ?w" and "\<exists>b. onboarding_move op b (progress tid w) (progress tid ?w)"
    by (auto simp: call_leaves_def split: sum.splits)
  with move_progress assms(3) have "progress_ok (progress tid ?w) \<and>
    progress_kept (progress tid w) (progress tid ?w)" by blast
  moreover have "progress t ?w = progress t w" if "t \<noteq> tid" using only_row_other [OF only that] .
  ultimately show ?thesis using only assms(3) [of t] by (cases "t = tid") (auto simp: only_row_def)
qed

lemma calls_progress:
  "states_ok w \<Longrightarrow> list_all (\<lambda>(op, env, tid, u). foreign_errors env) calls \<Longrightarrow>
     (\<And>t. progress_ok (progress t w)) \<Longrightarrow>
     states_ok (run_onboarding_calls calls w) \<and> progress_ok (progress t (run_onboarding_calls calls w)) \<and>
     progress_kept (progress t w) (progress t (run_onboarding_calls calls w))"
proof (induction calls arbitrary: w)
  case (Cons call calls)
  obtain op env tid u where call: "call = (op, env, tid, u)" by (metis prod_cases4)
  let ?w = "snd (run_onboarding op env tid u w)"
  have foreign: "foreign_errors env" using Cons.prems(2) call by simp
  note step = call_progress [OF Cons.prems(1) foreign Cons.prems(3)]
  have "states_ok (run_onboarding_calls calls ?w) \<and> progress_ok (progress t (run_onboarding_calls calls ?w)) \<and>
      progress_kept (progress t ?w) (progress t (run_onboarding_calls calls ?w))"
    using Cons.IH [of ?w] step Cons.prems(2) call by simp
  with step [where t = t and op = op and tid = tid and u = u] progress_kept_trans call
  show ?case by simp blast
qed simp

lemma progress_ok_empty: "wd_states w = [] \<Longrightarrow> states_ok w \<and> progress_ok (progress t w)"
  by (simp add: states_ok_def progress_def)

section \<open>Owners\<close>

definition is_owner :: "uuid \<Rightarrow> string \<Rightarrow> onboarding_world \<Rightarrow> bool" where
  "is_owner tid u w = list_ex (\<lambda>v. tu_tenant_id v = tid \<and> tu_clerk_user_id v = u \<and> tu_role v = RoleOwner)
     (tenant_users (wd_tenants w))"

lemma load_workspace_owner:
  assumes "load_workspace env tid u w = Inr ws" "ow_role ws = RoleOwner"
  shows "is_owner tid u w"
proof -
  from assms(1) obtain l where l: "list_workspaces_for_user (oe_io env ListWorkspacesCall) u w = Inr l"
    "ws \<in> set l" "ow_tenant_id ws = tid"
    by (auto simp: load_workspace_def split: sum.splits option.splits dest!: find_Some_in_set)
  from l(1) l(2) obtain t v where "v \<in> set (tenant_users (wd_tenants w))" "tu_tenant_id v = tenant_id t"
    "tu_clerk_user_id v = u" "ws = workspace_row (wd_states w) t v"
    by (auto simp: list_workspaces_for_user_def split: option.splits)
  with assms(2) l(3) show ?thesis
    by (auto simp: is_owner_def list_ex_iff workspace_row_def Let_def)
qed

lemma owner_record_rejects:
  assumes "\<not> is_owner tid u w"
  shows "\<exists>e. owner_record env tid u w k = (Inl e, w)"
  using assms load_workspace_owner [of env tid u w]
  by (auto simp: owner_record_def split: sum.splits)

lemmas owner_operations = save_welcome_def ensure_install_bundle_def get_agent_connection_status_def
  onboarding_configure_database_def run_schema_introspection_def mark_semantic_approved_def
  complete_starter_step_def complete_onboarding_def create_invites_def

lemma operation_rejects:
  assumes "\<not> is_owner tid u w" "op \<noteq> GetState"
  shows "\<exists>e. run_onboarding op env tid u w = (Inl e, w)"
proof -
  note rej = owner_record_rejects [OF assms(1)]
  show ?thesis
  proof (cases op)
    case (CreateInvites emails)
    obtain e where "create_invites env tid u emails w = (Inl e, w)"
      using rej unfolding create_invites_def by blast
    with CreateInvites show ?thesis by simp
  qed (use assms(2) in \<open>simp_all add: owner_operations rej\<close>)
qed

section \<open>Texts put into commands\<close>

lemma slug_chars_set: "c \<in> set (slug_chars b s) \<Longrightarrow> lower_or_digit c \<or> c = CHR ''-''"
  by (induction b s rule: slug_chars.induct) (auto split: if_splits)

lemma trim_char_facts:
  "set (trim_char c s) \<subseteq> set s"
  "trim_char c s \<noteq> [] \<Longrightarrow> hd (trim_char c s) \<noteq> c \<and> last (trim_char c s) \<noteq> c"
proof -
  define d where "d = dropWhile (\<lambda>x. x = c) s"
  let ?t = "dropWhile (\<lambda>x. x = c) (rev d)"
  have t: "trim_char c s = rev ?t" by (simp add: trim_char_def trim_right_char_def d_def)
  show "set (trim_char c s) \<subseteq> set s"
    unfolding t d_def by (auto dest!: set_dropWhileD)
  assume "trim_char c s \<noteq> []"
  then have ne: "?t \<noteq> []" unfolding t by simp
  then have l: "hd ?t \<noteq> c" by (rule hd_dropWhile)
  obtain u where u: "rev d = u @ ?t" by (metis takeWhile_dropWhile_id)
  then have d: "d = rev ?t @ rev u" by (metis rev_append rev_rev_ident)
  have "hd (rev ?t @ rev u) = hd (rev ?t)" using ne by simp
  moreover have "d \<noteq> []" using ne by auto
  then have "hd d \<noteq> c" unfolding d_def by (rule hd_dropWhile)
  ultimately have "hd (rev ?t) \<noteq> c" by (metis d)
  then show "hd (trim_char c s) \<noteq> c \<and> last (trim_char c s) \<noteq> c"
    unfolding t using l ne by (simp add: last_rev)
qed

lemma lower_or_digit_plain: "lower_or_digit c \<Longrightarrow> plain_char c"
  by (auto simp: lower_or_digit_def in_range_def plain_char_def)

lemma lower_or_digit_lower: "lower_or_digit c \<Longrightarrow> ascii_lower_char c = c \<and> (of_char c :: nat) < 128"
  by (auto simp: lower_or_digit_def in_range_def ascii_lower_char_def)

definition command_word :: "string \<Rightarrow> bool" where
  "command_word s =
     (s \<noteq> [] \<and> list_all (\<lambda>c. lower_or_digit c \<or> c = CHR ''-'') s \<and>
      hd s \<noteq> CHR ''-'' \<and> last s \<noteq> CHR ''-'')"

lemma slug_matches_word: "slug_matches s \<Longrightarrow> command_word s"
proof -
  assume m: "slug_matches s"
  then obtain c r where s: "s = c # r" by (cases s) (auto simp: slug_matches_def)
  have nd: "d \<noteq> CHR ''-''" if "lower_or_digit d" for d
    using that by (auto simp: lower_or_digit_def in_range_def)
  show ?thesis
  proof (cases "r = []")
    case True
    with m s nd show ?thesis by (simp add: slug_matches_def command_word_def)
  next
    case False
    then have "r = butlast r @ [last r]" by simp
    moreover have "list_all (\<lambda>d. lower_or_digit d \<or> d = CHR ''-'') (butlast r)" "lower_or_digit (last r)"
      "lower_or_digit c"
      using m s False by (simp_all add: slug_matches_def)
    ultimately have "list_all (\<lambda>d. lower_or_digit d \<or> d = CHR ''-'') s"
      unfolding s by (metis list_all_append list.pred_inject)
    with s False nd \<open>lower_or_digit (last r)\<close> \<open>lower_or_digit c\<close> show ?thesis
      by (auto simp: command_word_def)
  qed
qed

lemma command_word_lower:
  assumes "command_word s"
  shows "trim_space (to_lower l s) = s"
proof -
  have all: "lower_or_digit c \<or> c = CHR ''-''" if "c \<in> set s" for c
    using that assms by (simp add: command_word_def list_all_iff)
  have dash: "ascii_lower_char (CHR ''-'') = CHR ''-'' \<and> (of_char (CHR ''-'') :: nat) < 128"
    by (simp add: ascii_lower_char_def)
  have c: "ascii_lower_char c = c" "(of_char c :: nat) < 128" if "c \<in> set s" for c
    using all [OF that] dash lower_or_digit_lower [of c] by blast+
  have "map ascii_lower_char s = s" by (rule map_idI) (rule c(1))
  moreover have "is_ascii s" using c(2) by (simp add: is_ascii_def list_all_iff)
  ultimately have "to_lower l s = s" by (simp add: to_lower_def)
  moreover have "hd s \<in> set s" "last s \<in> set s" using assms by (auto simp: command_word_def)
  then have "plain_char (hd s) \<and> plain_char (last s)"
    using all assms lower_or_digit_plain unfolding command_word_def by blast
  then have "trim_space s = s" by (intro trim_space_plain) simp
  ultimately show ?thesis by simp
qed

lemma slugify_word:
  assumes "slug_matches fallback"
  shows "command_word (slugify_workspace_name l name fallback)"
proof -
  let ?t = "trim_char (CHR ''-'') (slug_chars False (to_lower l (trim_space name)))"
  note fb = slug_matches_word [OF assms]
  have t: "command_word ?t" if "?t \<noteq> []"
    using that trim_char_facts [where c = "CHR ''-''" and s = "slug_chars False (to_lower l (trim_space name))"]
      slug_chars_set by (fastforce simp: command_word_def list_all_iff)
  show ?thesis
  proof (cases "?t = []")
    case True
    then have "slugify_workspace_name l name fallback = fallback"
      using command_word_lower [OF fb] fb by (simp add: slugify_workspace_name_def command_word_def)
    with fb show ?thesis by simp
  next
    case False
    with t show ?thesis by (simp add: slugify_workspace_name_def)
  qed
qed

text \<open>MySQL's reading of an identifier after the opening backquote: a doubled backquote is one.\<close>

fun read_backquoted :: "string \<Rightarrow> (string \<times> string) option" where
  "read_backquoted [] = None"
| "read_backquoted (c # s) =
     (if c = CHR 0x60 then
        (case s of
           [] \<Rightarrow> Some ([], [])
         | d # r \<Rightarrow> if d = CHR 0x60 then map_option (\<lambda>(i, rest). (CHR 0x60 # i, rest)) (read_backquoted r)
                   else Some ([], s))
      else map_option (\<lambda>(i, rest). (c # i, rest)) (read_backquoted s))"

lemma read_backquoted_replace:
  assumes "rest = [] \<or> hd rest \<noteq> CHR 0x60"
  shows "read_backquoted (replace_byte s (CHR 0x60) [CHR 0x60, CHR 0x60] @ CHR 0x60 # rest) = Some (s, rest)"
  using assms by (induction s) (auto simp: replace_byte_def split: list.splits)

lemma length_base64url_alphabet: "length base64url_alphabet = 64"
  by code_simp

lemma base64url_char_in: "base64url_char n \<in> set base64url_alphabet"
  unfolding base64url_char_def by (rule nth_mem) (simp add: length_base64url_alphabet)

lemma base64url_encode_in: "c \<in> set (base64url_encode b) \<Longrightarrow> c \<in> set base64url_alphabet"
  by (induction b rule: base64url_encode.induct) (auto simp: base64url_char_in)

lemma base64url_encode_empty [simp]: "base64url_encode b = [] \<longleftrightarrow> b = []"
  by (cases b rule: base64url_encode.cases) auto

lemma alphabet_harmless:
  "c \<in> set base64url_alphabet \<Longrightarrow>
     plain_char c \<and> c \<noteq> CHR ''='' \<and> c \<noteq> CHR 0x27 \<and> c \<noteq> CHR 0x5C"
  by (auto simp: base64url_alphabet_def plain_char_def)

lemma generated_password:
  assumes "generate_database_password (Inr buf) = Inr pw" "buf \<noteq> []"
  shows "pw = base64url_encode buf" "trim_space pw = pw" "pw \<noteq> []"
    "list_all (\<lambda>c. c \<in> set base64url_alphabet) pw"
proof -
  let ?b = "base64url_encode buf"
  have ne: "?b \<noteq> []" and alph: "set ?b \<subseteq> set base64url_alphabet"
    using assms(2) base64url_encode_in by auto
  then have lst: "last ?b \<in> set base64url_alphabet" "hd ?b \<in> set base64url_alphabet" by auto
  then have "last ?b \<noteq> CHR ''=''" using alphabet_harmless by blast
  with ne have "trim_right_char (CHR ''='') ?b = ?b"
    by (cases ?b rule: rev_cases) (simp_all add: trim_right_char_def)
  with assms(1) show pw: "pw = ?b" by (simp add: generate_database_password_def)
  show "trim_space pw = pw"
    unfolding pw using lst alphabet_harmless by (intro trim_space_plain) blast
  show "pw \<noteq> []" "list_all (\<lambda>c. c \<in> set base64url_alphabet) pw"
    using pw ne alph by (auto simp: list_all_iff)
qed

section \<open>Properties\<close>

text \<open>
  C23. The onboarding operations implement a machine on a tenant's step and completion instant: a
  call that succeeds was available at the step and leads where the machine says, and the state it
  shows is the stored one; a call that fails left the progress as it was or stored that same
  result before failing. The rows of other tenants are never touched and the table stays within
  its constraints, whatever the database, the agent and the sessions answer.
\<close>

theorem onboarding_refines_machine:
  assumes "states_ok w" "foreign_errors env"
    and "run_onboarding op env tid user w = (out, w')"
  shows "only_row tid w w' \<and>
    (case out of
       Inl e \<Rightarrow> onboarding_move op False (progress tid w) (progress tid w')
     | Inr v \<Rightarrow> onboarding_move op True (progress tid w) (progress tid w') \<and>
         (os_current_step (ov_state v), os_completed_at (ov_state v)) = progress tid w')"
  using onboarding_call_leaves [OF assms(1,2), of tid op user] assms(3)
  by (simp add: call_leaves_def split: sum.splits)

text \<open>
  C24. Over any sequence of onboarding calls of any users, from a table without rows, every tenant
  is at one of the seven steps and completed only at the last one; and from any point of the
  sequence on, a tenant that had reached the starter questions does not go back and a completion
  keeps its instant.
\<close>

theorem onboarding_progress_never_lost:
  assumes "wd_states w = []"
    and "list_all (\<lambda>(op, env, tid, user). foreign_errors env) (calls @ later)"
  shows "progress_ok (progress t (run_onboarding_calls calls w)) \<and>
    progress_kept (progress t (run_onboarding_calls calls w))
      (progress t (run_onboarding_calls later (run_onboarding_calls calls w)))"
proof -
  have ok: "states_ok w" "\<And>t. progress_ok (progress t w)"
    using progress_ok_empty [OF assms(1)] by auto
  have first: "list_all (\<lambda>(op, env, tid, user). foreign_errors env) calls" and
    second: "list_all (\<lambda>(op, env, tid, user). foreign_errors env) later"
    using assms(2) by simp_all
  note mid = calls_progress [OF ok(1) first ok(2)]
  from calls_progress [OF _ second, of "run_onboarding_calls calls w" t] mid
  show ?thesis by blast
qed

text \<open>
  Only an owner of the tenant works on its onboarding: for anyone else every operation but
  \<open>GetState\<close> ends in an error and changes nothing at all.
\<close>

theorem onboarding_needs_owner:
  assumes "\<not> is_owner tid user w" "op \<noteq> GetState"
  shows "\<exists>e. run_onboarding op env tid user w = (Inl e, w)"
  using assms by (rule operation_rejects)

text \<open>
  C25. The look at the agent's connection, which every member's \<open>GetState\<close> makes, writes back the
  whole record it read: when any other call ran between its read and its write, the progress that
  call stored is gone, and the tenant is again where the reader saw it (or, before the database
  step, at that step).
\<close>

theorem stale_refresh_rewinds:
  assumes "states_ok w" "foreign_errors env" "foreign_errors env'"
    and read: "load_record env tid w = Inr (rec, p)"
    and between: "run_onboarding op env' tid owner w = (out, w1)"
    and look: "refresh_agent_connection env 0 ws rec p w1 = (Inr seen, w2)"
    and changed: "snd (snd (refresh_payload env
      (latest_online_agent_session env 0 tid (ob_agent_token_id p)) (os_current_step rec) p))"
  shows "refresh_to (progress tid w) (progress tid w2)"
proof -
  note rec = load_record_effect [OF read assms(1,2)]
  have ok1: "states_ok w1"
    using onboarding_call_leaves [OF assms(1,3), of tid op owner] between
    by (simp add: call_leaves_def only_row_def)
  obtain p1 step ch where rp: "refresh_payload env (latest_online_agent_session env 0 tid
      (ob_agent_token_id p)) (os_current_step rec) p = (p1, step, ch)" by (metis prod_cases3)
  have step: "step = os_current_step rec \<or> (os_current_step rec < 3 \<and> step = 3)"
    using rp by (auto simp: refresh_payload_def Let_def onboarding_steps split: option.splits if_splits)
  have "ch" using changed rp by simp
  then obtain rec' p' where ps:
    "persist_state env 0 tid step p1 (os_completed_at rec) w1 = (Inr (rec', p'), w2)"
    using look rp unfolding refresh_agent_connection_def rec(1) by (auto split: sum.splits prod.splits)
  have "progress tid w2 = (step, os_completed_at rec)" using persist_effect [OF ps ok1] by blast
  with step show ?thesis unfolding rec(2) [symmetric] by (auto simp: refresh_to_def)
qed

text \<open>
  The SQL shown to set up the database account is what it is meant to be for every database
  name: the generated password is made of letters, digits, dashes and underscores, so the string
  literal around it is closed by its own quote; and MySQL reads the quoted identifier of the GRANT
  as exactly the trimmed database name, backquotes included, followed by the fixed rest.
\<close>

theorem setup_sql_quotes_database_name:
  assumes "generate_database_password (Inr buf) = Inr password" "buf \<noteq> []" "trim_space name \<noteq> []"
  shows "list_all (\<lambda>c. c \<in> set base64url_alphabet) password \<and>
    (\<exists>quoted. build_database_setup_sql name password =
       ''CREATE USER '' @ [CHR 0x27] @ ''okta_ai_ro'' @ [CHR 0x27] @ ''@'' @ [CHR 0x27] @ ''%'' @
       [CHR 0x27] @ '' IDENTIFIED BY '' @ [CHR 0x27] @ password @ [CHR 0x27] @ '';'' @ [CHR 0x0A] @
       ''GRANT SELECT, SHOW VIEW ON '' @ [CHR 0x60] @ quoted \<and>
     read_backquoted quoted = Some (trim_space name,
       ''.* TO '' @ [CHR 0x27] @ ''okta_ai_ro'' @ [CHR 0x27] @ ''@'' @ [CHR 0x27] @ ''%'' @ [CHR 0x27] @
       '';'' @ [CHR 0x0A] @ ''FLUSH PRIVILEGES;''))"
proof -
  note pw = generated_password [OF assms(1,2)]
  let ?rest = "''.* TO '' @ [CHR 0x27] @ ''okta_ai_ro'' @ [CHR 0x27] @ ''@'' @ [CHR 0x27] @ ''%'' @
      [CHR 0x27] @ '';'' @ [CHR 0x0A] @ ''FLUSH PRIVILEGES;''"
  let ?quoted = "replace_byte (trim_space name) (CHR 0x60) [CHR 0x60, CHR 0x60] @ CHR 0x60 # ?rest"
  have "read_backquoted ?quoted = Some (trim_space name, ?rest)"
    by (rule read_backquoted_replace) simp
  moreover have "build_database_setup_sql name password =
       ''CREATE USER '' @ [CHR 0x27] @ ''okta_ai_ro'' @ [CHR 0x27] @ ''@'' @ [CHR 0x27] @ ''%'' @
       [CHR 0x27] @ '' IDENTIFIED BY '' @ [CHR 0x27] @ password @ [CHR 0x27] @ '';'' @ [CHR 0x0A] @
       ''GRANT SELECT, SHOW VIEW ON '' @ [CHR 0x60] @ ?quoted"
    using assms(3) pw(2,3)
    by (simp add: build_database_setup_sql_def Let_def default_database_username_def
        escape_mysql_identifier_def)
  ultimately show ?thesis using pw(4) by blast
qed

text \<open>
  The install name put into the shell command shown to the user is a plain word for every
  workspace name: lower-case letters, digits and inner dashes, never empty.
\<close>

theorem install_slug_is_command_word:
  assumes "slug_matches fallback"
  shows "command_word (slugify_workspace_name lcase name fallback)"
  using assms by (rule slugify_word)

section \<open>Examples\<close>

text \<open>
  A tenant with an owner and a member that waits for the approval of its semantic layer, while the
  agent it was connected to has gone. The JSON texts of the example keep the session id only.
\<close>

definition example_onboarding_world :: onboarding_world where
  "example_onboarding_world =
     \<lparr>wd_tenants = \<lparr>
        tenants = [\<lparr>tenant_id = 3, tenant_slug = ''acme'', tenant_name = ''Acme'', tenant_created_at = 1\<rparr>],
        tenant_users =
          [\<lparr>tu_tenant_id = 3, tu_clerk_user_id = ''owner'', tu_role = RoleOwner, tu_created_at = 1\<rparr>,
           \<lparr>tu_tenant_id = 3, tu_clerk_user_id = ''member'', tu_role = RoleMember, tu_created_at = 2\<rparr>],
        tenant_tokens = [], tenant_invites = []\<rparr>,
      wd_states =
        [\<lparr>os_tenant_id = 3, os_current_step = 5, os_payload = ''s1'', os_completed_at = None,
          os_created_at = 3, os_updated_at = 4\<rparr>],
      wd_layers =
        [\<lparr>sl_id = 9, sl_tenant_id = 3, sl_schema_version_id = 4, sl_status = LayerApproved,
          sl_content = [], sl_created_at = 5, sl_approved_at = Some 6, sl_approved_by = Some ''owner''\<rparr>],
      wd_schemas = []\<rparr>"

definition example_onboarding_env :: onboarding_env where
  "example_onboarding_env =
     \<lparr>oe_controller = new_onboarding_controller
        \<lparr>oc_edge_agent_image = [], oc_edge_agent_version = [], oc_public_control_plane_url = ''http://cp''\<rparr>,
      oe_io = (\<lambda>_. None), oe_now = 10, oe_view_now = 11, oe_db_now = (\<lambda>_. 12),
      oe_sessions = (\<lambda>_. (10, [], new_agent_session_manager 0 0)),
      oe_marshal = (\<lambda>p. Inr (ob_agent_session_id p)),
      oe_unmarshal = (\<lambda>s. Inr (empty_payload\<lparr>ob_agent_session_id := s\<rparr>)), oe_jsonb = id,
      oe_uuid_string = itoa_nat, oe_uuid_parse = (\<lambda>s. Inl (ErrNew s)), oe_lcase = id,
      oe_pg_lower = id, oe_sha = id, oe_token_random = Inr [1, 2, 3], oe_token_id = 7,
      oe_password_random = Inr [0], oe_configure = (\<lambda>_ _. Inl err_session_not_active),
      oe_capture = \<lparr>ce_sorters = example_sorters, ce_marshal = (\<lambda>_. Inr []), ce_sha = id\<rparr>,
      oe_introspected = (\<lambda>_. Inl err_tenant_not_connected), oe_version_id = 8,
      oe_invite_order = id, oe_invite_id = (\<lambda>n. n)\<rparr>"

definition example_approval :: "(gerr + onboarding_state_view) \<times> onboarding_world" where
  "example_approval =
     run_onboarding (MarkSemanticApproved 9) example_onboarding_env 3 ''owner'' example_onboarding_world"

lemma example_foreign [simp]: "foreign_errors example_onboarding_env"
  by (simp add: foreign_errors_def example_onboarding_env_def)

lemma example_states_ok [simp]: "states_ok example_onboarding_world"
  by (simp add: states_ok_def example_onboarding_world_def)

lemma example_progress: "progress 3 example_onboarding_world = (5, None)"
  by (simp add: progress_def example_onboarding_world_def)

lemma example_approval_progress: "progress 3 (snd example_approval) = (6, None)"
  by code_simp

theorem onboarding_refines_machine_witness:
  "only_row 3 example_onboarding_world (snd example_approval)"
  using onboarding_refines_machine
    [OF example_states_ok example_foreign prod.collapse [symmetric],
     where op = "MarkSemanticApproved 9" and tid = 3 and user = "''owner''"]
  by (simp add: example_approval_def)

theorem onboarding_progress_never_lost_witness:
  "progress_ok (progress 3 (run_onboarding_calls
     [(SaveWelcome ''Acme'' ''ko'' True False, example_onboarding_env, 3, ''owner'')]
     (example_onboarding_world\<lparr>wd_states := []\<rparr>)))"
  using onboarding_progress_never_lost [of "example_onboarding_world\<lparr>wd_states := []\<rparr>"
    "[(SaveWelcome ''Acme'' ''ko'' True False, example_onboarding_env, 3, ''owner'')]" "[]" 3]
  by simp

theorem onboarding_needs_owner_witness:
  "\<exists>e. run_onboarding (MarkSemanticApproved 9) example_onboarding_env 3 ''member'' example_onboarding_world =
     (Inl e, example_onboarding_world)"
proof -
  have "\<not> is_owner 3 ''member'' example_onboarding_world" by code_simp
  then show ?thesis by (rule onboarding_needs_owner) simp
qed

definition example_read :: "tenant_onboarding_state \<times> onboarding_payload" where
  "example_read = (\<lparr>os_tenant_id = 3, os_current_step = 5, os_payload = ''s1'', os_completed_at = None,
     os_created_at = 3, os_updated_at = 4\<rparr>, empty_payload\<lparr>ob_agent_session_id := ''s1''\<rparr>)"

definition example_member :: onboarding_workspace where
  "example_member = \<lparr>ow_tenant_id = 3, ow_slug = ''acme'', ow_name = ''Acme'', ow_role = RoleMember,
     ow_complete = False, ow_current_step = 5, ow_updated_at = 4\<rparr>"

theorem stale_refresh_rewinds_witness:
  "progress 3 (snd example_approval) = (6, None) \<and>
   refresh_to (5, None) (progress 3 (snd (refresh_agent_connection example_onboarding_env 0 example_member
     (fst example_read) (snd example_read) (snd example_approval))))"
proof -
  let ?env = example_onboarding_env
  let ?look = "refresh_agent_connection ?env 0 example_member (fst example_read) (snd example_read)
      (snd example_approval)"
  have read: "load_record ?env 3 example_onboarding_world = Inr (fst example_read, snd example_read)"
    by code_simp
  have between: "run_onboarding (MarkSemanticApproved 9) ?env 3 ''owner'' example_onboarding_world =
      (fst example_approval, snd example_approval)" by (simp add: example_approval_def)
  have "\<not> isl (fst ?look)" by code_simp
  then obtain seen where look: "?look = (Inr seen, snd ?look)"
    by (metis prod.collapse sum.collapse(2))
  have changed: "snd (snd (refresh_payload ?env (latest_online_agent_session ?env 0 3
      (ob_agent_token_id (snd example_read))) (os_current_step (fst example_read)) (snd example_read)))"
    by code_simp
  from stale_refresh_rewinds [OF example_states_ok example_foreign example_foreign read between look changed]
  show ?thesis by (simp add: example_progress example_approval_progress)
qed

theorem setup_sql_quotes_database_name_witness:
  "\<exists>quoted. read_backquoted quoted = Some (''a'' @ [CHR 0x60] @ ''b'',
     ''.* TO '' @ [CHR 0x27] @ ''okta_ai_ro'' @ [CHR 0x27] @ ''@'' @ [CHR 0x27] @ ''%'' @ [CHR 0x27] @
     '';'' @ [CHR 0x0A] @ ''FLUSH PRIVILEGES;'')"
proof -
  have pw: "generate_database_password (Inr [0]) = Inr ''AA''" by code_simp
  have name: "trim_space (''a'' @ [CHR 0x60] @ ''b'') = ''a'' @ [CHR 0x60] @ ''b''" by code_simp
  from setup_sql_quotes_database_name [OF pw, of "''a'' @ [CHR 0x60] @ ''b''"] name
  show ?thesis by auto
qed

theorem install_slug_is_command_word_witness:
  "command_word (slugify_workspace_name id ''$(rm -rf)'' ''acme'')"
  by (rule install_slug_is_command_word) code_simp

end
