(* ===== verification/QueryStore.thy ===== *)
theory QueryStore
  imports Schemas
begin

text \<open>
  The memory of asked questions: repository/query_memory.go, query_feedback.go,
  query_canonical_examples.go and query_review_queue.go, and the operations of
  controller/query_review.go over them. Tables are lists of rows in insertion order; the JSON
  columns of a row are kept decoded; a NULL text is read as the empty string. Rows are never
  deleted, so the foreign keys always hold.
\<close>

section \<open>repository/query_memory.go\<close>

record query_run_row = tenant_query_run +
  qr_retrieved_ids :: "uuid list"
  qr_reviewed_at :: "time option"
  qr_reviewed_by :: "string option"

record query_db =
  qd_runs :: "query_run_row list"
  qd_feedback :: "tenant_query_feedback list"
  qd_examples :: "canonical_query_example list"

definition run_of_row :: "query_run_row \<Rightarrow> tenant_query_run" where
  "run_of_row r = tenant_query_run.truncate r"

definition uuid_nil :: uuid where "uuid_nil = 0"

record query_run_completion =
  qc_status :: query_run_status
  qc_sql_original :: string
  qc_sql_executed :: string
  qc_attempts :: "query_run_attempt list"
  qc_warnings :: "string list"
  qc_row_count :: int
  qc_elapsed_ms :: int
  qc_retrieved_ids :: "uuid list"
  qc_error_stage :: string
  qc_error_message :: string
  qc_completed_at :: time

definition nullable_string :: "string \<Rightarrow> string option" where
  "nullable_string v = (if trim_space v = [] then None else Some v)"

definition null_text :: "string option \<Rightarrow> string" where
  "null_text v = (case v of None \<Rightarrow> [] | Some s \<Rightarrow> s)"

definition marshal_uuids :: "uuid list \<Rightarrow> uuid list" where
  "marshal_uuids ids = filter (\<lambda>i. i \<noteq> uuid_nil) ids"

definition create_query_run ::
  "gerr option \<Rightarrow> time \<Rightarrow> uuid \<Rightarrow> uuid \<Rightarrow> uuid \<Rightarrow> uuid option \<Rightarrow> prompt_context_source \<Rightarrow> string \<Rightarrow>
   string \<Rightarrow> query_db \<Rightarrow> (gerr + tenant_query_run) \<times> query_db" where
  "create_query_run io now new_id tid vid layer source user question db =
     (case io of
        Some e \<Rightarrow> (Inl (Wrapped ''insert tenant query run'' e), db)
      | None \<Rightarrow>
          (if list_ex (\<lambda>r. qr_id r = new_id) (qd_runs db)
           then (Inl (Wrapped ''insert tenant query run'' unique_violation), db)
           else
             (let row = \<lparr>qr_id = new_id, qr_tenant_id = tid, qr_schema_version_id = vid,
                qr_semantic_layer_id = layer, qr_context_source = source, qr_clerk_user_id = user,
                qr_question = question, qr_status = RunRunning, qr_sql_original = [],
                qr_sql_executed = [], qr_attempts = [], qr_warnings = [], qr_row_count = 0,
                qr_elapsed_ms = 0, qr_error_stage = [], qr_error_message = [], qr_created_at = now,
                qr_completed_at = None, qr_retrieved_ids = [], qr_reviewed_at = None,
                qr_reviewed_by = None\<rparr>
              in (Inr (run_of_row row), db\<lparr>qd_runs := qd_runs db @ [row]\<rparr>))))"

definition select_run :: "gerr option \<Rightarrow> query_run_row option \<Rightarrow> gerr + tenant_query_run" where
  "select_run io found =
     (case io of
        Some e \<Rightarrow> Inl (Wrapped ''select tenant query run'' e)
      | None \<Rightarrow> (case found of None \<Rightarrow> Inl err_not_found | Some r \<Rightarrow> Inr (run_of_row r)))"

definition query_run_by_id :: "gerr option \<Rightarrow> uuid \<Rightarrow> uuid \<Rightarrow> query_db \<Rightarrow> gerr + tenant_query_run" where
  "query_run_by_id io tid rid db =
     select_run io (find (\<lambda>r. qr_tenant_id r = tid \<and> qr_id r = rid) (qd_runs db))"

definition list_runs_by_user ::
  "gerr option \<Rightarrow> uuid \<Rightarrow> string \<Rightarrow> nat \<Rightarrow> query_db \<Rightarrow> gerr + tenant_query_run list" where
  "list_runs_by_user io tid user limit db =
     (case io of
        Some e \<Rightarrow> Inl (Wrapped ''list tenant query runs'' e)
      | None \<Rightarrow> Inr (map run_of_row (take limit (sort_key (\<lambda>r. - qr_created_at r)
          (filter (\<lambda>r. qr_tenant_id r = tid \<and> qr_clerk_user_id r = user) (qd_runs db))))))"

definition mark_reviewed ::
  "gerr option \<Rightarrow> uuid \<Rightarrow> uuid \<Rightarrow> time \<Rightarrow> string \<Rightarrow> query_db \<Rightarrow> gerr option \<times> query_db" where
  "mark_reviewed io tid rid reviewed_at reviewed_by db =
     (case io of
        Some e \<Rightarrow> (Some (Wrapped ''mark query run reviewed'' e), db)
      | None \<Rightarrow>
          (let match = (\<lambda>r. qr_tenant_id r = tid \<and> qr_id r = rid) in
           if list_ex match (qd_runs db)
           then (None, db\<lparr>qd_runs := update_where match
                   (\<lambda>r. r\<lparr>qr_reviewed_at := Some reviewed_at,
                          qr_reviewed_by := Some (trim_space reviewed_by)\<rparr>) (qd_runs db)\<rparr>)
           else (Some err_not_found, db)))"

definition completed_row :: "query_run_completion \<Rightarrow> query_run_row \<Rightarrow> query_run_row" where
  "completed_row c r =
     r\<lparr>qr_status := qc_status c,
       qr_sql_original := null_text (nullable_string (qc_sql_original c)),
       qr_sql_executed := null_text (nullable_string (qc_sql_executed c)),
       qr_attempts := qc_attempts c, qr_warnings := qc_warnings c,
       qr_row_count := qc_row_count c, qr_elapsed_ms := qc_elapsed_ms c,
       qr_retrieved_ids := marshal_uuids (qc_retrieved_ids c),
       qr_error_stage := null_text (nullable_string (qc_error_stage c)),
       qr_error_message := null_text (nullable_string (qc_error_message c)),
       qr_completed_at := Some (qc_completed_at c)\<rparr>"

definition complete_run ::
  "gerr option \<Rightarrow> uuid \<Rightarrow> query_run_completion \<Rightarrow> query_db \<Rightarrow> (gerr + tenant_query_run) \<times> query_db" where
  "complete_run io rid c db =
     (case io of
        Some e \<Rightarrow> (Inl (Wrapped ''update tenant query run'' e), db)
      | None \<Rightarrow>
          (case find (\<lambda>r. qr_id r = rid) (qd_runs db) of
             None \<Rightarrow> (Inl err_not_found, db)
           | Some r \<Rightarrow> (Inr (run_of_row (completed_row c r)),
               db\<lparr>qd_runs := update_where (\<lambda>r. qr_id r = rid) (completed_row c) (qd_runs db)\<rparr>)))"

definition complete_succeeded ::
  "gerr option \<Rightarrow> uuid \<Rightarrow> string \<Rightarrow> string \<Rightarrow> query_run_attempt list \<Rightarrow> string list \<Rightarrow> int \<Rightarrow> int \<Rightarrow>
   uuid list \<Rightarrow> time \<Rightarrow> query_db \<Rightarrow> (gerr + tenant_query_run) \<times> query_db" where
  "complete_succeeded io rid sql_original sql_executed attempts warnings row_count elapsed_ms retrieved
     completed_at db =
     complete_run io rid \<lparr>qc_status = RunSucceeded, qc_sql_original = sql_original,
       qc_sql_executed = sql_executed, qc_attempts = attempts, qc_warnings = warnings,
       qc_row_count = row_count, qc_elapsed_ms = elapsed_ms, qc_retrieved_ids = retrieved,
       qc_error_stage = [], qc_error_message = [], qc_completed_at = completed_at\<rparr> db"

definition complete_failed ::
  "gerr option \<Rightarrow> uuid \<Rightarrow> query_run_attempt list \<Rightarrow> string list \<Rightarrow> uuid list \<Rightarrow> string \<Rightarrow> string \<Rightarrow> time \<Rightarrow>
   query_db \<Rightarrow> (gerr + tenant_query_run) \<times> query_db" where
  "complete_failed io rid attempts warnings retrieved error_stage error_message completed_at db =
     complete_run io rid \<lparr>qc_status = RunFailed, qc_sql_original = [], qc_sql_executed = [],
       qc_attempts = attempts, qc_warnings = warnings, qc_row_count = 0, qc_elapsed_ms = 0,
       qc_retrieved_ids = retrieved, qc_error_stage = trim_space error_stage,
       qc_error_message = trim_space error_message, qc_completed_at = completed_at\<rparr> db"

section \<open>repository/query_feedback.go\<close>

definition upsert_feedback ::
  "gerr option \<Rightarrow> uuid \<Rightarrow> string \<Rightarrow> feedback_rating \<Rightarrow> string \<Rightarrow> string \<Rightarrow> time \<Rightarrow> query_db \<Rightarrow>
   (gerr + tenant_query_feedback) \<times> query_db" where
  "upsert_feedback io run_id user rating comment corrected_sql now db =
     (case io of
        Some e \<Rightarrow> (Inl (Wrapped ''upsert tenant query feedback'' e), db)
      | None \<Rightarrow>
          (let match = (\<lambda>f. fb_query_run_id f = run_id \<and> fb_clerk_user_id f = user);
               upd = (\<lambda>f. f\<lparr>fb_rating := rating, fb_comment := trim_space comment,
                            fb_corrected_sql := trim_space corrected_sql, fb_updated_at := now\<rparr>)
           in case find match (qd_feedback db) of
                Some f \<Rightarrow> (Inr (upd f), db\<lparr>qd_feedback := update_where match upd (qd_feedback db)\<rparr>)
              | None \<Rightarrow>
                  (let f = \<lparr>fb_query_run_id = run_id, fb_clerk_user_id = user, fb_rating = rating,
                     fb_comment = trim_space comment, fb_corrected_sql = trim_space corrected_sql,
                     fb_created_at = now, fb_updated_at = now\<rparr>
                   in (Inr f, db\<lparr>qd_feedback := qd_feedback db @ [f]\<rparr>))))"

section \<open>repository/query_canonical_examples.go\<close>

definition create_example ::
  "gerr option \<Rightarrow> time \<Rightarrow> uuid \<Rightarrow> uuid \<Rightarrow> uuid \<Rightarrow> uuid \<Rightarrow> string \<Rightarrow> string \<Rightarrow> string \<Rightarrow> string \<Rightarrow> query_db \<Rightarrow>
   (gerr + canonical_query_example) \<times> query_db" where
  "create_example io now new_id tid vid run_id created_by question sql_text notes db =
     (case io of
        Some e \<Rightarrow> (Inl (Wrapped ''insert canonical query example'' e), db)
      | None \<Rightarrow>
          (if list_ex (\<lambda>x. ex_id x = new_id) (qd_examples db)
           then (Inl (Wrapped ''insert canonical query example'' unique_violation), db)
           else
             (let x = \<lparr>ex_id = new_id, ex_tenant_id = tid, ex_schema_version_id = vid,
                ex_source_run_id = run_id, ex_created_by = created_by,
                ex_question = trim_space question, ex_sql = trim_space sql_text,
                ex_notes = trim_space notes, ex_archived_at = None, ex_created_at = now\<rparr>
              in (Inr x, db\<lparr>qd_examples := qd_examples db @ [x]\<rparr>))))"

definition active_examples :: "uuid \<Rightarrow> query_db \<Rightarrow> canonical_query_example list" where
  "active_examples tid db =
     filter (\<lambda>x. ex_tenant_id x = tid \<and> ex_archived_at x = None) (qd_examples db)"

definition list_active_examples ::
  "gerr option \<Rightarrow> uuid \<Rightarrow> nat \<Rightarrow> query_db \<Rightarrow> gerr + canonical_query_example list" where
  "list_active_examples io tid limit db =
     (case io of
        Some e \<Rightarrow> Inl (Wrapped ''list canonical query examples'' e)
      | None \<Rightarrow> Inr (take limit (sort_key (\<lambda>x. - ex_created_at x) (active_examples tid db))))"

text \<open>\<open>similarity\<close> is that of the pg_trgm extension, scaled to an integer.\<close>

definition search_active_examples ::
  "gerr option \<Rightarrow> (string \<Rightarrow> string \<Rightarrow> int) \<Rightarrow> uuid \<Rightarrow> string \<Rightarrow> nat \<Rightarrow> uuid option \<Rightarrow> query_db \<Rightarrow>
   gerr + canonical_query_example list" where
  "search_active_examples io similarity tid question limit vid db =
     (case io of
        Some e \<Rightarrow> Inl (Wrapped ''search canonical query examples'' e)
      | None \<Rightarrow>
          (let rows = (case vid of
                 None \<Rightarrow> active_examples tid db
               | Some v \<Rightarrow> filter (\<lambda>x. ex_schema_version_id x = v) (active_examples tid db))
           in Inr (take limit (sort_key (\<lambda>x.
                (- max (similarity (ex_question x) question) (similarity (ex_notes x) question),
                 - ex_created_at x)) rows))))"

definition archive_example ::
  "gerr option \<Rightarrow> uuid \<Rightarrow> uuid \<Rightarrow> time \<Rightarrow> query_db \<Rightarrow> gerr option \<times> query_db" where
  "archive_example io tid xid archived_at db =
     (case io of
        Some e \<Rightarrow> (Some (Wrapped ''archive canonical query example'' e), db)
      | None \<Rightarrow>
          (let match = (\<lambda>x. ex_tenant_id x = tid \<and> ex_id x = xid \<and> ex_archived_at x = None) in
           if list_ex match (qd_examples db)
           then (None, db\<lparr>qd_examples := update_where match (\<lambda>x. x\<lparr>ex_archived_at := Some archived_at\<rparr>)
                   (qd_examples db)\<rparr>)
           else (Some err_not_found, db)))"

section \<open>repository/query_review_queue.go\<close>

text \<open>
  The statement of \<open>ListReviewQueue\<close>. A name of its select list is written as the qualifier (if any)
  and the column; PostgreSQL resolves an unqualified name when exactly one item of the FROM clause
  has such a column.
\<close>

definition tenant_query_run_select_columns :: "(string option \<times> string) list" where
  "tenant_query_run_select_columns = map (\<lambda>c. (None, c))
     [''id'', ''tenant_id'', ''schema_version_id'', ''semantic_layer_id'', ''prompt_context_source'',
      ''clerk_user_id'', ''question'', ''status'', ''sql_original'', ''sql_executed'', ''attempts_json'',
      ''warnings_json'', ''row_count'', ''elapsed_ms'', ''error_stage'', ''error_message'', ''created_at'',
      ''completed_at'']"

definition tenant_query_run_review_select_columns :: "(string option \<times> string) list" where
  "tenant_query_run_review_select_columns = tenant_query_run_select_columns @
     map (\<lambda>c. (Some ''latest_feedback'', c))
       [''clerk_user_id'', ''rating'', ''comment'', ''corrected_sql'', ''created_at'', ''updated_at''] @
     [(Some ''active_example'', ''source_query_run_id''), (Some ''r'', ''reviewed_at''),
      (Some ''latest_feedback'', ''updated_at''), (Some ''r'', ''created_at'')]"

text \<open>The items of the FROM clause, with the columns of db/migrations/0001_schema.up.sql.\<close>

definition review_from_items :: "(string \<times> string list) list" where
  "review_from_items =
     [(''r'', [''id'', ''tenant_id'', ''schema_version_id'', ''semantic_layer_id'',
        ''prompt_context_source'', ''clerk_user_id'', ''question'', ''status'', ''sql_original'',
        ''sql_executed'', ''attempts_json'', ''warnings_json'', ''row_count'', ''elapsed_ms'',
        ''retrieved_example_ids_json'', ''error_stage'', ''error_message'', ''reviewed_at'',
        ''reviewed_by_user_id'', ''created_at'', ''completed_at'']),
      (''latest_feedback'', [''query_run_id'', ''clerk_user_id'', ''rating'', ''comment'',
        ''corrected_sql'', ''created_at'', ''updated_at'']),
      (''active_example'', [''source_query_run_id''])]"

definition resolves :: "(string \<times> string list) list \<Rightarrow> string option \<times> string \<Rightarrow> nat" where
  "resolves items name =
     length (filter (\<lambda>(alias, columns). (case fst name of None \<Rightarrow> True | Some q \<Rightarrow> q = alias) \<and>
        snd name \<in> set columns) items)"

definition ambiguous_columns :: "(string \<times> string list) list \<Rightarrow> (string option \<times> string) list \<Rightarrow> string list" where
  "ambiguous_columns items names = map snd (filter (\<lambda>n. 1 < resolves items n) names)"

text \<open>What the statement is meant to select.\<close>

definition latest_feedback :: "query_db \<Rightarrow> uuid \<Rightarrow> tenant_query_feedback option" where
  "latest_feedback db run_id =
     (case sort_key (\<lambda>f. (- fb_updated_at f, - fb_created_at f, fb_clerk_user_id f))
         (filter (\<lambda>f. fb_query_run_id f = run_id) (qd_feedback db)) of
        [] \<Rightarrow> None | f # _ \<Rightarrow> Some f)"

definition review_item_of :: "query_db \<Rightarrow> query_run_row \<Rightarrow> review_item" where
  "review_item_of db r =
     (let fb = latest_feedback db (qr_id r) in
      \<lparr>ri_run = run_of_row r, ri_has_feedback = (fb \<noteq> None), ri_latest_feedback = fb,
       ri_has_active_canonical = list_ex (\<lambda>x. ex_tenant_id x = qr_tenant_id r \<and>
         ex_source_run_id x = qr_id r \<and> ex_archived_at x = None) (qd_examples db),
       ri_reviewed_at = qr_reviewed_at r,
       ri_signal_at = (case fb of None \<Rightarrow> qr_created_at r | Some f \<Rightarrow> fb_updated_at f)\<rparr>)"

definition needs_review :: "review_queue_filter \<Rightarrow> review_item \<Rightarrow> bool" where
  "needs_review filt i =
     ((qr_status (ri_run i) = RunFailed \<or>
       (case ri_latest_feedback i of
          None \<Rightarrow> False
        | Some f \<Rightarrow> fb_rating f = RatingDown \<or> list_ex (\<lambda>c. c \<noteq> CHR 0x20) (fb_corrected_sql f))) \<and>
      (filt = ReviewOpen \<longrightarrow> \<not> ri_has_active_canonical i \<and> ri_reviewed_at i = None))"

definition review_rows :: "review_queue_filter \<Rightarrow> uuid \<Rightarrow> nat \<Rightarrow> query_db \<Rightarrow> review_item list" where
  "review_rows filt tid limit db =
     take limit (sort_key (\<lambda>i. (- ri_signal_at i, - qr_created_at (ri_run i)))
       (filter (needs_review filt) (map (review_item_of db)
         (filter (\<lambda>r. qr_tenant_id r = tid) (qd_runs db)))))"

definition list_review_queue ::
  "gerr option \<Rightarrow> review_queue_filter \<Rightarrow> uuid \<Rightarrow> nat \<Rightarrow> query_db \<Rightarrow> gerr + review_item list" where
  "list_review_queue io filt tid limit db =
     (case io of
        Some e \<Rightarrow> Inl (Wrapped ''list review queue'' e)
      | None \<Rightarrow>
          (case ambiguous_columns review_from_items tenant_query_run_review_select_columns of
             [] \<Rightarrow> Inr (review_rows filt tid limit db)
           | c # _ \<Rightarrow> Inl (Wrapped ''list review queue''
               (ErrNew (''column reference '' @ c @ '' is ambiguous'')))))"

section \<open>controller/query.go: errors and limits\<close>

definition err_query_access_denied :: gerr where
  "err_query_access_denied = Sentinel ''controller.ErrQueryAccessDenied'' ''not a member of this tenant''"
definition err_query_no_schema :: gerr where
  "err_query_no_schema = Sentinel ''controller.ErrQueryNoSchema''
     ''tenant has no captured schema yet; run introspection first''"
definition err_query_empty_question :: gerr where
  "err_query_empty_question = Sentinel ''controller.ErrQueryEmptyQuestion'' ''question is required''"
definition err_query_all_attempts_failed :: gerr where
  "err_query_all_attempts_failed = Sentinel ''controller.ErrQueryAllAttemptsFailed''
     ''all SQL generation attempts failed''"
definition err_query_agent_offline :: gerr where
  "err_query_agent_offline = Sentinel ''controller.ErrQueryAgentOffline''
     ''edge agent is not connected for this tenant''"
definition err_query_run_not_found :: gerr where
  "err_query_run_not_found = Sentinel ''controller.ErrQueryRunNotFound'' ''query run not found''"
definition err_query_feedback_access_denied :: gerr where
  "err_query_feedback_access_denied = Sentinel ''controller.ErrQueryFeedbackAccessDenied''
     ''only the original query creator can submit feedback''"
definition err_invalid_query_feedback :: gerr where
  "err_invalid_query_feedback = Sentinel ''controller.ErrInvalidQueryFeedback'' ''feedback rating is required''"
definition err_canonical_example_not_found :: gerr where
  "err_canonical_example_not_found = Sentinel ''controller.ErrCanonicalQueryExampleNotFound''
     ''canonical query example not found''"
definition err_canonical_example_owner_only :: gerr where
  "err_canonical_example_owner_only = Sentinel ''controller.ErrCanonicalQueryExampleOwnerOnly''
     ''owner role required''"
definition err_invalid_canonical_example :: gerr where
  "err_invalid_canonical_example = Sentinel ''controller.ErrInvalidCanonicalQueryExample''
     ''question and sql are required''"
definition err_query_review_owner_only :: gerr where
  "err_query_review_owner_only = Sentinel ''controller.ErrQueryReviewOwnerOnly'' ''owner role required''"

definition default_retrieved_examples_limit :: int where "default_retrieved_examples_limit = 3"
definition default_canonical_example_limit :: int where "default_canonical_example_limit = 20"
definition default_list_my_query_runs_limit :: int where "default_list_my_query_runs_limit = 20"
definition default_review_queue_limit :: int where "default_review_queue_limit = 50"

section \<open>controller/query_review.go\<close>

text \<open>What one call sees: the errors of its statements by table and kind, the clocks, the id drawn.\<close>

datatype query_call =
    MembershipCall | RunByIdCall | ListRunsCall | ReviewQueueCall | MarkReviewedCall | FeedbackCall
  | CreateExampleCall | ListExamplesCall | ArchiveExampleCall | SearchSameSchemaCall | SearchAllCall
  | QueryLatestSchemaCall | ApprovedLayerCall | DraftLayerCall | CreateRunCall | CompleteRunCall

record review_env =
  rv_io :: "query_call \<Rightarrow> gerr option"
  rv_now :: time
  rv_db_now :: time
  rv_new_id :: uuid
  rv_max_canonical :: int

definition query_membership ::
  "(query_call \<Rightarrow> gerr option) \<Rightarrow> uuid \<Rightarrow> string \<Rightarrow> tenant_db \<Rightarrow> gerr + tenant_user" where
  "query_membership io tid user tdb =
     map_error (\<lambda>e. if errors_is e err_not_found then err_query_access_denied else e)
       (ensure_membership (io MembershipCall) tid user tdb)"

definition clamp_limit :: "int \<Rightarrow> int \<Rightarrow> nat" where
  "clamp_limit limit most = nat (if limit \<le> 0 \<or> limit > most then most else limit)"

text \<open>The rating of a request: \<open>None\<close> stands for every other text.\<close>

definition submit_feedback ::
  "review_env \<Rightarrow> uuid \<Rightarrow> string \<Rightarrow> uuid \<Rightarrow> feedback_rating option \<Rightarrow> string \<Rightarrow> string \<Rightarrow> tenant_db \<Rightarrow>
   query_db \<Rightarrow> (gerr + tenant_query_feedback) \<times> query_db" where
  "submit_feedback env tid user run_id rating comment corrected_sql tdb db =
     (case query_membership (rv_io env) tid user tdb of
        Inl e \<Rightarrow> (Inl e, db)
      | Inr _ \<Rightarrow>
          (case rating of
             None \<Rightarrow> (Inl err_invalid_query_feedback, db)
           | Some rt \<Rightarrow>
               (case query_run_by_id (rv_io env RunByIdCall) tid run_id db of
                  Inl e \<Rightarrow> (Inl (if errors_is e err_not_found then err_query_run_not_found else e), db)
                | Inr run \<Rightarrow>
                    (if qr_clerk_user_id run \<noteq> user then (Inl err_query_feedback_access_denied, db)
                     else upsert_feedback (rv_io env FeedbackCall) run_id user rt comment corrected_sql
                       (rv_now env) db))))"

definition list_my_query_runs ::
  "review_env \<Rightarrow> uuid \<Rightarrow> string \<Rightarrow> int \<Rightarrow> tenant_db \<Rightarrow> query_db \<Rightarrow> gerr + tenant_query_run list" where
  "list_my_query_runs env tid user limit tdb db =
     (case query_membership (rv_io env) tid user tdb of
        Inl e \<Rightarrow> Inl e
      | Inr _ \<Rightarrow> list_runs_by_user (rv_io env ListRunsCall) tid user
          (clamp_limit limit default_list_my_query_runs_limit) db)"

definition owner_membership ::
  "review_env \<Rightarrow> gerr \<Rightarrow> uuid \<Rightarrow> string \<Rightarrow> tenant_db \<Rightarrow> gerr option" where
  "owner_membership env owner_error tid user tdb =
     (case query_membership (rv_io env) tid user tdb of
        Inl e \<Rightarrow> Some e
      | Inr m \<Rightarrow> if tu_role m \<noteq> RoleOwner then Some owner_error else None)"

definition list_review_queue_ctl ::
  "review_env \<Rightarrow> uuid \<Rightarrow> string \<Rightarrow> review_queue_filter \<Rightarrow> int \<Rightarrow> tenant_db \<Rightarrow> query_db \<Rightarrow> gerr + review_item list" where
  "list_review_queue_ctl env tid user filt limit tdb db =
     (case owner_membership env err_query_review_owner_only tid user tdb of
        Some e \<Rightarrow> Inl e
      | None \<Rightarrow> list_review_queue (rv_io env ReviewQueueCall) filt tid
          (clamp_limit limit default_review_queue_limit) db)"

definition mark_query_run_reviewed ::
  "review_env \<Rightarrow> uuid \<Rightarrow> string \<Rightarrow> uuid \<Rightarrow> tenant_db \<Rightarrow> query_db \<Rightarrow> (gerr + uuid \<times> time) \<times> query_db" where
  "mark_query_run_reviewed env tid user run_id tdb db =
     (case owner_membership env err_query_review_owner_only tid user tdb of
        Some e \<Rightarrow> (Inl e, db)
      | None \<Rightarrow>
          (case mark_reviewed (rv_io env MarkReviewedCall) tid run_id (rv_now env) user db of
             (Some e, db') \<Rightarrow>
               (Inl (if errors_is e err_not_found then err_query_run_not_found else e), db')
           | (None, db') \<Rightarrow> (Inr (run_id, rv_now env), db')))"

definition create_canonical_example ::
  "review_env \<Rightarrow> uuid \<Rightarrow> string \<Rightarrow> uuid \<Rightarrow> string \<Rightarrow> string \<Rightarrow> string \<Rightarrow> tenant_db \<Rightarrow> query_db \<Rightarrow>
   (gerr + canonical_query_example) \<times> query_db" where
  "create_canonical_example env tid user run_id question sql_text notes tdb db =
     (case owner_membership env err_canonical_example_owner_only tid user tdb of
        Some e \<Rightarrow> (Inl e, db)
      | None \<Rightarrow>
        (if trim_space question = [] \<or> trim_space sql_text = [] then
           (Inl err_invalid_canonical_example, db)
         else (case query_run_by_id (rv_io env RunByIdCall) tid run_id db of
             Inl e \<Rightarrow> (Inl (if errors_is e err_not_found then err_query_run_not_found else e), db)
           | Inr run \<Rightarrow>
               (case create_example (rv_io env CreateExampleCall) (rv_db_now env) (rv_new_id env) tid
                   (qr_schema_version_id run) (qr_id run) user question sql_text notes db of
                  (Inl e, db') \<Rightarrow> (Inl e, db')
                | (Inr example, db') \<Rightarrow>
                    (case mark_reviewed (rv_io env MarkReviewedCall) tid (qr_id run) (rv_now env) user db' of
                       (Some e, db'') \<Rightarrow>
                         (Inl (if errors_is e err_not_found then err_query_run_not_found else e), db'')
                     | (None, db'') \<Rightarrow> (Inr example, db''))))))"

definition list_canonical_examples ::
  "review_env \<Rightarrow> uuid \<Rightarrow> string \<Rightarrow> tenant_db \<Rightarrow> query_db \<Rightarrow> gerr + bool \<times> canonical_query_example list" where
  "list_canonical_examples env tid user tdb db =
     (case query_membership (rv_io env) tid user tdb of
        Inl e \<Rightarrow> Inl e
      | Inr m \<Rightarrow>
          (case list_active_examples (rv_io env ListExamplesCall) tid (nat (rv_max_canonical env)) db of
             Inl e \<Rightarrow> Inl e
           | Inr examples \<Rightarrow> Inr (tu_role m = RoleOwner, examples)))"

definition archive_canonical_example ::
  "review_env \<Rightarrow> uuid \<Rightarrow> string \<Rightarrow> uuid \<Rightarrow> tenant_db \<Rightarrow> query_db \<Rightarrow> gerr option \<times> query_db" where
  "archive_canonical_example env tid user xid tdb db =
     (case owner_membership env err_canonical_example_owner_only tid user tdb of
        Some e \<Rightarrow> (Some e, db)
      | None \<Rightarrow>
          (case archive_example (rv_io env ArchiveExampleCall) tid xid (rv_now env) db of
             (Some e, db') \<Rightarrow>
               (Some (if errors_is e err_not_found then err_canonical_example_not_found else e), db')
           | (None, db') \<Rightarrow> (None, db')))"

section \<open>What the memory keeps\<close>

text \<open>
  The steps that change the memory: a question opens and completes runs; the rest are the
  operations of query_review.go.
\<close>

inductive memory_step :: "tenant_db \<Rightarrow> query_db \<Rightarrow> query_db \<Rightarrow> bool" for tdb where
  opened: "create_query_run io now new_id tid vid layer source user question db = (r, db') \<Longrightarrow>
     memory_step tdb db db'"
| completed: "complete_run io rid c db = (r, db') \<Longrightarrow> memory_step tdb db db'"
| feedback: "submit_feedback env tid user rid rating comment corrected_sql tdb db = (f, db') \<Longrightarrow>
     memory_step tdb db db'"
| reviewed: "mark_query_run_reviewed env tid user rid tdb db = (m, db') \<Longrightarrow> memory_step tdb db db'"
| example: "create_canonical_example env tid user rid question sql_text notes tdb db = (x, db') \<Longrightarrow>
     memory_step tdb db db'"
| archived: "archive_canonical_example env tid user xid tdb db = (e, db') \<Longrightarrow> memory_step tdb db db'"

definition run_key :: "query_run_row \<Rightarrow> uuid \<times> uuid \<times> uuid \<times> string" where
  "run_key r = (qr_id r, qr_tenant_id r, qr_schema_version_id r, qr_clerk_user_id r)"

text \<open>Feedback is by the one who asked; an example is of a run of its tenant and schema version.\<close>

definition feedback_ok :: "query_db \<Rightarrow> tenant_query_feedback \<Rightarrow> bool" where
  "feedback_ok db f =
     list_ex (\<lambda>k. fst k = fb_query_run_id f \<and> snd (snd (snd k)) = fb_clerk_user_id f) (map run_key (qd_runs db))"

definition example_ok :: "query_db \<Rightarrow> canonical_query_example \<Rightarrow> bool" where
  "example_ok db x =
     list_ex (\<lambda>k. fst k = ex_source_run_id x \<and> fst (snd k) = ex_tenant_id x \<and>
        fst (snd (snd k)) = ex_schema_version_id x) (map run_key (qd_runs db))"

definition memory_ok :: "query_db \<Rightarrow> bool" where
  "memory_ok db =
     (distinct (map qr_id (qd_runs db)) \<and> distinct (map ex_id (qd_examples db)) \<and>
      distinct (map (\<lambda>f. (fb_query_run_id f, fb_clerk_user_id f)) (qd_feedback db)) \<and>
      list_all (feedback_ok db) (qd_feedback db) \<and> list_all (example_ok db) (qd_examples db))"

lemma memory_ok_keys:
  assumes "memory_ok db" "map run_key (qd_runs db') = map run_key (qd_runs db)"
    "qd_feedback db' = qd_feedback db" "qd_examples db' = qd_examples db"
  shows "memory_ok db'"
proof -
  have "map qr_id (qd_runs d) = map fst (map run_key (qd_runs d))" for d
    by (simp add: run_key_def)
  with assms(2) have "map qr_id (qd_runs db') = map qr_id (qd_runs db)" by metis
  moreover have "feedback_ok db' = feedback_ok db" "example_ok db' = example_ok db"
    using assms(2) by (simp_all add: fun_eq_iff feedback_ok_def example_ok_def del: map_map)
  ultimately show ?thesis using assms(1,3,4) by (simp add: memory_ok_def)
qed

lemma memory_ok_open:
  assumes "memory_ok db" "create_query_run io now new_id tid vid layer source user question db = (r, db')"
  shows "memory_ok db'"
proof (cases "db' = db")
  case False
  with assms(2) obtain row where row: "qd_runs db' = qd_runs db @ [row]" "qd_feedback db' = qd_feedback db"
    "qd_examples db' = qd_examples db" "\<not> list_ex (\<lambda>r. qr_id r = qr_id row) (qd_runs db)"
    by (auto simp: create_query_run_def Let_def split: option.splits if_splits)
  have "qr_id row \<notin> qr_id ` set (qd_runs db)" using row(4) by (auto simp: list_ex_iff)
  with row(1-3) assms(1) show ?thesis
    by (auto simp: memory_ok_def feedback_ok_def example_ok_def list_all_iff)
qed (use assms in simp)

lemma completed_row_key [simp]: "run_key (completed_row c r) = run_key r"
  by (simp add: completed_row_def run_key_def)

lemma memory_ok_complete:
  assumes "memory_ok db" "complete_run io rid c db = (r, db')"
  shows "memory_ok db'"
proof -
  have "map run_key (qd_runs db') = map run_key (qd_runs db) \<and> qd_feedback db' = qd_feedback db \<and>
      qd_examples db' = qd_examples db"
    using assms(2) by (auto simp: complete_run_def split: option.splits
        intro!: map_update_where_key simp del: map_eq_conv)
  then show ?thesis using memory_ok_keys [OF assms(1)] by blast
qed

lemma memory_ok_mark:
  assumes "memory_ok db" "mark_reviewed io tid rid at reviewer db = (r, db')"
  shows "memory_ok db'"
proof -
  have "map run_key (qd_runs db') = map run_key (qd_runs db) \<and> qd_feedback db' = qd_feedback db \<and>
      qd_examples db' = qd_examples db"
    using assms(2) by (auto simp: mark_reviewed_def run_key_def Let_def split: option.splits if_splits
        intro!: map_update_where_key simp del: map_eq_conv)
  then show ?thesis using memory_ok_keys [OF assms(1)] by blast
qed

lemma query_run_by_id_in:
  "query_run_by_id io tid rid db = Inr run \<Longrightarrow>
     \<exists>r \<in> set (qd_runs db). run = run_of_row r \<and> qr_tenant_id r = tid \<and> qr_id r = rid"
  by (auto simp: query_run_by_id_def select_run_def split: option.splits dest!: find_Some_in_set)

lemma run_of_row_fields [simp]:
  "qr_id (run_of_row r) = qr_id r" "qr_clerk_user_id (run_of_row r) = qr_clerk_user_id r"
  "qr_schema_version_id (run_of_row r) = qr_schema_version_id r" "qr_status (run_of_row r) = qr_status r"
  "qr_tenant_id (run_of_row r) = qr_tenant_id r" "qr_created_at (run_of_row r) = qr_created_at r"
  by (simp_all add: run_of_row_def tenant_query_run.truncate_def)

lemma memory_ok_upsert:
  assumes "memory_ok db" "r \<in> set (qd_runs db)" "qr_id r = rid" "qr_clerk_user_id r = user"
    and "upsert_feedback io rid user rating comment corrected_sql now db = (f, db')"
  shows "memory_ok db'"
proof -
  let ?match = "\<lambda>f. fb_query_run_id f = rid \<and> fb_clerk_user_id f = user"
  have fb: "feedback_ok db f" if "?match f" for f
    using that assms(2-4) by (auto simp: feedback_ok_def list_ex_iff run_key_def)
  have same: "feedback_ok db' = feedback_ok db" "example_ok db' = example_ok db" "qd_runs db' = qd_runs db"
    "qd_examples db' = qd_examples db"
    using assms(5) by (auto simp: fun_eq_iff feedback_ok_def example_ok_def upsert_feedback_def Let_def
        split: option.splits)
  have keys: "list_all (feedback_ok db) (qd_feedback db')"
    using assms(1,5) fb by (fastforce simp: upsert_feedback_def Let_def memory_ok_def list_all_iff
        in_set_update_where split: option.splits)
  have "distinct (map (\<lambda>f. (fb_query_run_id f, fb_clerk_user_id f)) (qd_feedback db'))"
  proof (cases "find ?match (qd_feedback db)")
    case None
    then have "\<forall>f \<in> set (qd_feedback db). \<not> ?match f" by (auto simp: find_None_iff)
    moreover have "io = None \<Longrightarrow> \<exists>f. ?match f \<and> qd_feedback db' = qd_feedback db @ [f]"
      "io \<noteq> None \<Longrightarrow> qd_feedback db' = qd_feedback db"
      using assms(5) None by (auto simp: upsert_feedback_def Let_def)
    ultimately show ?thesis using assms(1) by (cases io) (auto simp: memory_ok_def, blast)
  next
    case (Some g)
    let ?upd = "\<lambda>f. f\<lparr>fb_rating := rating, fb_comment := trim_space comment,
        fb_corrected_sql := trim_space corrected_sql, fb_updated_at := now\<rparr>"
    have "map (\<lambda>f. (fb_query_run_id f, fb_clerk_user_id f)) (update_where ?match ?upd (qd_feedback db)) =
        map (\<lambda>f. (fb_query_run_id f, fb_clerk_user_id f)) (qd_feedback db)"
      by (rule map_update_where_key) simp
    moreover have "qd_feedback db' = (if io = None then update_where ?match ?upd (qd_feedback db) else qd_feedback db)"
      using assms(5) Some by (auto simp: upsert_feedback_def Let_def split: option.splits)
    ultimately show ?thesis using assms(1) by (simp add: memory_ok_def)
  qed
  with keys same assms(1) show ?thesis by (simp add: memory_ok_def)
qed

lemma memory_ok_example:
  assumes "memory_ok db" "r \<in> set (qd_runs db)" "qr_id r = rid" "qr_tenant_id r = tid"
    "qr_schema_version_id r = vid"
    and "create_example io now new_id tid vid rid user question sql_text notes db = (x, db')"
  shows "memory_ok db'"
proof (cases "db' = db")
  case False
  with assms(6) obtain e where e: "qd_examples db' = qd_examples db @ [e]" "qd_runs db' = qd_runs db"
    "qd_feedback db' = qd_feedback db" "\<not> list_ex (\<lambda>y. ex_id y = ex_id e) (qd_examples db)"
    "ex_tenant_id e = tid" "ex_source_run_id e = rid" "ex_schema_version_id e = vid"
    by (auto simp: create_example_def Let_def split: option.splits if_splits)
  have "feedback_ok db' = feedback_ok db" "example_ok db' = example_ok db"
    using e(2) by (simp_all add: fun_eq_iff feedback_ok_def example_ok_def)
  moreover have "example_ok db e"
    using assms(2-5) e(5-7) by (auto simp: example_ok_def list_ex_iff run_key_def)
  moreover have "ex_id e \<notin> ex_id ` set (qd_examples db)" using e(4) by (auto simp: list_ex_iff)
  ultimately show ?thesis using assms(1) e(1-3) by (simp add: memory_ok_def)
qed (use assms in simp)

lemma memory_ok_archive:
  assumes "memory_ok db" "archive_example io tid xid at db = (r, db')"
  shows "memory_ok db'"
proof -
  have ids: "map ex_id (qd_examples db') = map ex_id (qd_examples db)" "qd_runs db' = qd_runs db"
    "qd_feedback db' = qd_feedback db"
    using assms(2) by (auto simp: archive_example_def Let_def split: option.splits if_splits
        intro!: map_update_where_key simp del: map_eq_conv)
  have "example_ok db (e\<lparr>ex_archived_at := t\<rparr>) = example_ok db e" for e t
    by (simp add: example_ok_def)
  then have "list_all (example_ok db) (qd_examples db')"
    using assms by (fastforce simp: archive_example_def memory_ok_def list_all_iff Let_def in_set_update_where
        split: option.splits if_splits)
  moreover have "feedback_ok db' = feedback_ok db" "example_ok db' = example_ok db"
    using ids(2) by (simp_all add: fun_eq_iff feedback_ok_def example_ok_def)
  ultimately show ?thesis using ids assms(1) by (simp add: memory_ok_def)
qed

lemma memory_step_ok: "memory_step tdb db db' \<Longrightarrow> memory_ok db \<Longrightarrow> memory_ok db'"
proof (induction rule: memory_step.induct)
  case (feedback env tid user rid rating comment corrected_sql db f db')
  then show ?case
    by (fastforce simp: submit_feedback_def split: sum.splits option.splits if_splits
        dest!: query_run_by_id_in elim: memory_ok_upsert)
next
  case (reviewed env tid user rid db m db')
  then show ?case
    by (auto simp: mark_query_run_reviewed_def split: option.splits prod.splits elim: memory_ok_mark)
next
  case (example env tid user rid question sql_text memo db x db')
  then show ?case
    by (auto simp: create_canonical_example_def split: sum.splits option.splits prod.splits if_splits
        dest!: query_run_by_id_in) (metis memory_ok_example memory_ok_mark)+
next
  case (archived env tid user xid db e db')
  then show ?case
    by (auto simp: archive_canonical_example_def split: option.splits prod.splits elim: memory_ok_archive)
qed (auto elim: memory_ok_open memory_ok_complete)


text \<open>
  C26. The memory of asked questions stays consistent: from a consistent memory, whatever sequence of
  questions, completions, ratings, reviews, canonical examples and archivings follows, and
  whichever of their statements fail, the ids of runs and of examples are unique, a run has at most one
  rating by a member, every rating is by the member who asked that question, and every canonical
  example is kept under the tenant and the schema version of the run it was taken from.
\<close>

theorem query_memory_consistent:
  assumes "(memory_step tdb)\<^sup>*\<^sup>* db db'" and "memory_ok db"
  shows "memory_ok db'"
  using assms by (induction rule: rtranclp_induct) (auto intro: memory_step_ok)

definition sample_review_env :: review_env where
  "sample_review_env = \<lparr>rv_io = (\<lambda>_. None), rv_now = 70, rv_db_now = 60, rv_new_id = 5,
     rv_max_canonical = 20\<rparr>"

definition sample_asked :: query_db where
  "sample_asked = snd (create_query_run None 50 9 2 3 None SourceRawSchema ''amy'' ''how many?''
     \<lparr>qd_runs = [], qd_feedback = [], qd_examples = []\<rparr>)"

definition sample_tenants :: tenant_db where
  "sample_tenants = empty_db\<lparr>tenant_users := [\<lparr>tu_tenant_id = 2, tu_clerk_user_id = ''amy'',
     tu_role = RoleOwner, tu_created_at = 40\<rparr>]\<rparr>"

definition sample_reviewed :: query_db where
  "sample_reviewed = snd (mark_query_run_reviewed sample_review_env 2 ''amy'' 9 sample_tenants sample_asked)"

lemma query_memory_consistent_witness:
  "memory_ok sample_reviewed \<and> map qr_reviewed_at (qd_runs sample_reviewed) = [Some 70]"
proof
  let ?db = "\<lparr>qd_runs = [], qd_feedback = [], qd_examples = []\<rparr> :: query_db"
  have "memory_step sample_tenants ?db sample_asked"
    unfolding sample_asked_def by (rule memory_step.opened, rule prod.collapse [symmetric])
  moreover have "memory_step sample_tenants sample_asked sample_reviewed"
    unfolding sample_reviewed_def by (rule memory_step.reviewed, rule prod.collapse [symmetric])
  ultimately have "(memory_step sample_tenants)\<^sup>*\<^sup>* ?db sample_reviewed"
    by (meson converse_rtranclp_into_rtranclp r_into_rtranclp)
  then show "memory_ok sample_reviewed"
    by (rule query_memory_consistent) (simp add: memory_ok_def)
  show "map qr_reviewed_at (qd_runs sample_reviewed) = [Some 70]" by code_simp
qed

lemma review_columns_ambiguous:
  "ambiguous_columns review_from_items tenant_query_run_review_select_columns =
     [''clerk_user_id'', ''created_at'']"
  by code_simp

text \<open>
  C27. The review queue is never shown: the select list of its statement takes \<open>clerk_user_id\<close> and
  \<open>created_at\<close> unqualified from the columns of a query run, and the runs are joined there
  with the latest feedback, which has columns of both names. PostgreSQL refuses an ambiguous reference,
  so the operation ends with an error for every tenant, member, filter, limit and state of the tables.
\<close>

theorem review_queue_always_fails:
  "\<exists>e. list_review_queue_ctl env tid user filt limit tdb db = Inl e"
  by (simp add: list_review_queue_ctl_def list_review_queue_def review_columns_ambiguous
      split: option.split)

end
