(* ===== verification/QueryPrompts.thy ===== *)
theory QueryPrompts
  imports QueryStore SemanticLayer Messages
begin

text \<open>
  controller/query_prompt.go without the two calls of the model: the system prompts, the prompts
  built for a question and for a summary, and the output schema. Korean text is written by its
  code points. \<open>json.MarshalIndent\<close> is an argument.
\<close>

definition nl :: string where "nl = [CHR 0x0A]"

section \<open>The prompt context of controller/query_prepare.go\<close>

record query_prompt_context =
  pc_schema_blob :: schema_blob
  pc_schema_raw :: string
  pc_semantic_layer :: "semantic_layer_content option"
  pc_semantic_layer_id :: "uuid option"
  pc_source :: prompt_context_source

fun context_source_text :: "prompt_context_source \<Rightarrow> string" where
  "context_source_text SourceApproved = ''approved''"
| "context_source_text SourceDraft = ''draft''"
| "context_source_text SourceRawSchema = ''raw_schema''"

section \<open>System prompts and instructions\<close>

definition query_system_prompt :: string where
  "query_system_prompt =
      nl @
      utf8 [45817, 49888, 51008, 32, 54620, 44397, 50612, 47196, 32, 51068, 54616, 45716, 32,
        49888, 51473, 54620, 32] @ ''MySQL '' @ utf8 [48516, 49437, 44032, 51077, 45768, 45796] @
      ''.'' @ nl @
      utf8 [49324, 50857, 51088, 51032, 32, 51088, 50672, 50612, 32, 51656, 47928, 51012, 32,
        51452, 50612, 51652, 32, 49828, 53412, 47560, 50752, 32, 49884, 47592, 54001, 32, 47112,
        51060, 50612, 47564, 32, 44540, 44144, 47196, 32, 51069, 44592, 32, 51204, 50857, 32] @
      ''MySQL SELECT '' @ utf8 [47928, 51004, 47196, 32, 48320, 54872, 54633, 45768, 45796] @
      ''.'' @ nl @ nl @ utf8 [48152, 46300, 49884, 32, 51648, 53420, 32, 44508, 52825] @ '':'' @
      nl @ ''- '' @
      utf8 [51316, 51116, 54616, 51648, 32, 50506, 45716, 32, 53580, 51060, 48660] @ ''/'' @
      utf8 [52972, 47100, 51012, 32, 47564, 46308, 50612, 45236, 51648, 32, 50506, 49845, 45768,
        45796] @ ''. '' @ utf8 [54869, 49888, 51060, 32, 50630, 51004, 47732, 32] @ ''notes'' @
      utf8 [50640, 32, 51201, 50612, 32, 46160, 49464, 50836] @ ''.'' @ nl @
      ''- DELETE, UPDATE, INSERT, REPLACE, CREATE, DROP, ALTER, TRUNCATE'' @
      '', GRANT, REVOKE, LOCK, SET, CALL, LOAD '' @
      utf8 [46321, 51008, 32, 51208, 45824, 32, 49373, 49457, 54616, 51648, 32, 50506, 49845,
        45768, 45796] @ ''.'' @ nl @ ''- SELECT ... INTO OUTFILE, INTO DUMPFILE, '' @
      utf8 [44277, 50976, 32, 50808, 32] @ ''FOR UPDATE '' @
      utf8 [51104, 44552, 51008, 32, 54728, 50857, 46104, 51648, 32, 50506, 49845, 45768, 45796] @
      ''.'' @ nl @ ''- '' @
      utf8 [49464, 48120, 53084, 47200, 51004, 47196, 32, 50668, 47084, 32, 47928, 51109, 51012,
        32, 51060, 50612, 32, 48537, 51060, 51648, 32, 50506, 49845, 45768, 45796] @ ''. '' @
      utf8 [54616, 45208, 51032, 32, 47928, 51109, 47564, 32, 48152, 54872, 54633, 45768, 45796] @
      ''.'' @ nl @ ''- '' @ utf8 [51452, 49437] @ ''(-- , /* */, #)'' @
      utf8 [51008, 32, 49373, 49457, 54616, 51648, 32, 50506, 49845, 45768, 45796] @ ''.'' @ nl @
      ''- '' @ utf8 [51025, 45813, 51008, 32, 48152, 46300, 49884, 32, 51452, 50612, 51652, 32] @
      ''JSON '' @ utf8 [49828, 53412, 47560, 47484, 32, 46384, 47476, 47728, 32] @
      ''reasoning, sql, notes '' @
      utf8 [49464, 32, 54596, 46300, 47484, 32, 47784, 46160, 32, 54252, 54632, 54633, 45768,
        45796] @ ''.'' @ nl"

definition query_summary_system_prompt :: string where
  "query_summary_system_prompt =
      nl @
      utf8 [45817, 49888, 51008, 32, 54620, 44397, 50612, 47196, 32, 51068, 54616, 45716, 32,
        45936, 51060, 53552, 32, 48516, 49437, 32, 50836, 50557, 44032, 51077, 45768, 45796] @
      ''.'' @ nl @
      utf8 [53244, 47532, 32, 44208, 44284, 47484, 32, 48372, 44256, 32, 49324, 50857, 51088,
        50640, 44172, 32, 47749, 54869, 54616, 44256, 32, 51687, 51008, 32, 54620, 44397, 50612,
        32, 45813, 48320, 51012, 32, 51228, 44277, 54633, 45768, 45796] @ ''.'' @ nl @
      utf8 [45936, 51060, 53552, 50640, 32, 50630, 45716, 32, 49324, 49892, 51008, 32, 51648,
        50612, 45236, 51648, 32, 50506, 49845, 45768, 45796] @ ''. '' @
      utf8 [52628, 52769, 51060, 32, 49438, 51060, 47732, 32] @ [CHR 0x22] @
      utf8 [45936, 51060, 53552, 32, 44592, 51456] @ [CHR 0x22] @
      utf8 [51060, 46972, 44256, 32, 47749, 49884, 54633, 45768, 45796] @ ''.'' @ nl"

definition query_instructions :: string where
  "query_instructions =
     trim_space (
      nl @ ''## '' @ utf8 [51648, 49884, 32, 49324, 54637] @ nl @ ''- '' @
      utf8 [50948, 32, 49828, 53412, 47560] @ '', '' @
      utf8 [49884, 47592, 54001, 32, 47112, 51060, 50612] @ '', '' @
      utf8 [49849, 51064, 46108, 32, 50696, 49884, 32, 53244, 47532, 47564, 32, 44540, 44144,
        47196, 32] @ ''SQL'' @ utf8 [51012, 32, 51089, 49457, 54633, 45768, 45796] @ ''.'' @ nl @
      ''- '' @ utf8 [51069, 44592, 32, 51204, 50857, 32] @ ''SELECT ('' @
      utf8 [46608, 45716, 32] @ ''WITH / SHOW)'' @
      utf8 [47564, 32, 49324, 50857, 54633, 45768, 45796] @ ''.'' @ nl @ ''- '' @
      utf8 [51316, 51116, 54616, 51648, 32, 50506, 45716, 32, 53580, 51060, 48660, 51060, 45208,
        32, 52972, 47100, 51008, 32, 51208, 45824, 32, 52280, 51312, 54616, 51648, 32, 50506,
        49845, 45768, 45796] @ ''.'' @ nl @ ''- '' @
      utf8 [49849, 51064, 46108, 32, 50696, 49884, 32, 53244, 47532, 51032, 32, 54056, 53556,
        51008, 32, 51116, 49324, 50857, 54624, 32, 49688, 32, 51080, 51648, 47564] @ '', '' @
      utf8 [54788, 51116, 32, 51656, 47928, 50640, 32, 47582, 44172, 32, 54596, 50836, 54620, 32,
        48512, 48516, 47564, 32, 51312, 51221, 54633, 45768, 45796] @ ''.'' @ nl @ ''- LIMIT'' @
      utf8 [51060, 32, 54596, 50836, 54616, 47732, 32, 47749, 49884, 51201, 51004, 47196, 32,
        49440, 50616, 54616, 51648, 47564] @ '', '' @
      utf8 [45572, 46973, 54644, 46020, 32, 49884, 49828, 53596, 51060, 32, 51088, 46041, 51004,
        47196, 32] @ ''LIMIT 1000'' @ utf8 [51012, 32, 48537, 51077, 45768, 45796] @ ''.'' @ nl @
      ''- reasoning '' @
      utf8 [54596, 46300, 50640, 45716, 32, 50612, 46500, 32, 53580, 51060, 48660] @ ''/'' @
      utf8 [52972, 47100, 51012, 32, 49324, 50857, 54664, 44256, 32, 50780, 32, 44536, 47111,
        44172, 32, 51312, 51064, 54664, 45716, 51648, 32, 54620, 44397, 50612, 47196, 32, 44036,
        45800, 55176, 32, 44592, 47197, 54633, 45768, 45796] @ ''.'' @ nl @ ''- sql '' @
      utf8 [54596, 46300, 50640, 45716, 32, 49892, 54665, 32, 44032, 45733, 54620, 32, 45800,
        51068, 32] @ ''MySQL '' @ utf8 [47928, 47564, 32, 45812, 49845, 45768, 45796] @ ''. '' @
      utf8 [51452, 49437, 51060, 45208, 32, 49464, 48120, 53084, 47200, 51008, 32, 54252, 54632,
        54616, 51648, 32, 50506, 49845, 45768, 45796] @ ''.'' @ nl @ ''- notes '' @
      utf8 [54596, 46300, 50640, 45716, 32, 52628, 51221, 54620, 32, 48512, 48516, 51060, 45208,
        32, 49324, 50857, 51088, 44032, 32, 50508, 50500, 50556, 32, 54624, 32, 51452, 51032, 32,
        49324, 54637, 51012, 32, 54620, 44397, 50612, 47196, 32, 51201, 49845, 45768, 45796] @
      ''.'' @ nl)"

definition query_summary_instructions :: string where
  "query_summary_instructions =
     trim_space (
      nl @ ''- '' @
      utf8 [44208, 44284, 47484, 32, 48148, 53461, 51004, 47196, 32, 51656, 47928, 50640, 32,
        45824, 54620, 32, 45813, 51012, 32, 54620, 44397, 50612, 47196, 32, 51088, 50672, 49828,
        47101, 44172, 32, 50836, 50557, 54633, 45768, 45796] @ ''.'' @ nl @ ''- '' @
      utf8 [52395, 32, 47928, 51109, 51008, 32, 54645, 49900, 32, 45813, 51060, 50612, 50556, 32,
        54633, 45768, 45796] @ ''.'' @ nl @ ''- '' @
      utf8 [44396, 52404, 51201, 51064, 32, 49707, 51088] @ ''/'' @
      utf8 [44050, 51008, 32, 44208, 44284, 50640, 49436, 32, 51064, 50857, 54633, 45768, 45796] @
      ''.'' @ nl @ ''- '' @
      utf8 [45936, 51060, 53552, 50640, 32, 50630, 45716, 32, 45236, 50857, 51008, 32, 52628,
        52769, 54616, 51648, 32, 50506, 49845, 45768, 45796] @ ''. '' @
      utf8 [48520, 54869, 49892, 54616, 47732, 32] @ [CHR 0x22] @
      utf8 [45936, 51060, 53552, 32, 44592, 51456] @ [CHR 0x22] @
      utf8 [51060, 46972, 44256, 32, 47749, 49884, 54633, 45768, 45796] @ ''.'' @ nl @
      ''- 3~5'' @
      utf8 [47928, 51109, 32, 51060, 45236, 47196, 32, 51089, 49457, 54633, 45768, 45796] @
      ''. '' @
      utf8 [47785, 47197, 51060, 45208, 32, 47560, 53356, 45796, 50868, 51008, 32, 49324, 50857,
        54616, 51648, 32, 50506, 49845, 45768, 45796] @ ''.'' @ nl)"

section \<open>buildQueryUserPrompt\<close>

definition example_section :: "nat \<Rightarrow> canonical_query_example \<Rightarrow> string" where
  "example_section index x =
     ''### '' @ utf8 [50696, 49884, 32] @ itoa (int index + 1) @ nl @
     utf8 [51656, 47928] @ '': '' @ ex_question x @ nl @
     (if trim_space (ex_notes x) \<noteq> [] then utf8 [45432, 53944] @ '': '' @ ex_notes x @ nl else []) @
     ''SQL:'' @ nl @ [CHR 0x60, CHR 0x60, CHR 0x60] @ ''sql'' @ nl @ ex_sql x @ nl @ [CHR 0x60, CHR 0x60, CHR 0x60] @ nl @ nl"

definition cached_prompt ::
  "(semantic_layer_content \<Rightarrow> gerr + string) \<Rightarrow> query_prompt_context \<Rightarrow> canonical_query_example list \<Rightarrow> string"
where
  "cached_prompt marshal_indent ctx examples =
     (if examples \<noteq> [] then
        ''## '' @ utf8 [49849, 51064, 46108, 32, 50696, 49884, 32, 53244, 47532] @ nl @
        concat (map (\<lambda>(i, x). example_section i x) (enumerate 0 examples))
      else []) @
     (case pc_semantic_layer ctx of
        None \<Rightarrow> []
      | Some layer \<Rightarrow>
          ''## '' @ utf8 [49884, 47592, 54001, 32, 47112, 51060, 50612, 32] @ ''('' @
          context_source_text (pc_source ctx) @ '')'' @ nl @
          (case marshal_indent layer of Inl _ \<Rightarrow> [] | Inr t \<Rightarrow> t) @ nl @ nl) @
     ''## '' @ utf8 [50896, 48376, 32] @ ''MySQL '' @ utf8 [49828, 53412, 47560] @ nl @
     pc_schema_raw ctx @ nl @ nl @ query_instructions"

definition dynamic_prompt :: "string \<Rightarrow> string \<Rightarrow> string \<Rightarrow> string" where
  "dynamic_prompt question prior_sql prior_error =
     ''## '' @ utf8 [49324, 50857, 51088, 32, 51656, 47928] @ nl @ question @ nl @ nl @
     (if prior_sql \<noteq> [] then
        ''## '' @ utf8 [51060, 51204, 32, 49884, 46020, 32, 49892, 54056] @ nl @
        utf8 [50500, 47000, 32] @ ''SQL'' @
        utf8 [51012, 32, 49373, 49457, 54664, 51648, 47564, 32, 44160, 51613, 32, 46608, 45716,
          32, 49892, 54665, 50640, 32, 49892, 54056, 54664, 49845, 45768, 45796] @ ''. '' @
        utf8 [50896, 51064, 51012, 32, 44256, 47140, 54616, 50668, 32, 49688, 51221, 46108, 32] @
        ''SQL'' @
        utf8 [51012, 32, 45796, 49884, 32, 47564, 46308, 50612, 32, 51452, 49464, 50836] @
        ''.'' @ nl @ nl @
        utf8 [51060, 51204, 32] @ ''SQL:'' @ nl @ [CHR 0x60, CHR 0x60, CHR 0x60] @ ''sql'' @ nl @ prior_sql @
        nl @ [CHR 0x60, CHR 0x60, CHR 0x60] @ nl @ nl @ utf8 [49892, 54056, 32, 49324, 50976] @
      '':'' @ nl @ prior_error @ nl @ nl
      else [])"

definition build_query_user_prompt ::
  "(semantic_layer_content \<Rightarrow> gerr + string) \<Rightarrow> string \<Rightarrow> query_prompt_context \<Rightarrow>
   canonical_query_example list \<Rightarrow> string \<Rightarrow> string \<Rightarrow> string \<times> string" where
  "build_query_user_prompt marshal_indent question ctx examples prior_sql prior_error =
     (cached_prompt marshal_indent ctx examples, dynamic_prompt question prior_sql prior_error)"

section \<open>buildSummaryUserPrompt\<close>

definition build_summary_user_prompt ::
  "((string \<rightharpoonup> go_any) list \<Rightarrow> gerr + string) \<Rightarrow> string \<Rightarrow> string \<Rightarrow> execute_query_result \<Rightarrow> int \<Rightarrow> string"
where
  "build_summary_user_prompt marshal_indent question executed_sql r max_rows =
     (let rows = eq_rows r; n = int (length rows);
          truncated = (if n > max_rows then take (nat max_rows) rows else rows)
      in ''## '' @ utf8 [50896, 48376, 32, 51656, 47928] @ nl @ question @ nl @ nl @
         ''## '' @ utf8 [49892, 54665, 54620, 32] @ ''SQL'' @ nl @
         [CHR 0x60, CHR 0x60, CHR 0x60] @ ''sql'' @ nl @ executed_sql @ nl @ [CHR 0x60, CHR 0x60, CHR 0x60] @ nl @ nl @
         ''## '' @ utf8 [44208, 44284, 32, 47700, 53440, 45936, 51060, 53552] @ nl @
         ''- '' @ utf8 [52972, 47100] @ '': '' @ join (eq_columns r) '', '' @ nl @
         ''- '' @ utf8 [54665, 32, 49688] @ '': '' @ itoa n @ nl @
         ''- '' @ utf8 [49892, 54665, 32, 49884, 44036] @ ''(ms): '' @ itoa (eq_elapsed_ms r) @ nl @ nl @
         ''## '' @ utf8 [44208, 44284, 32, 45936, 51060, 53552, 32] @ ''(JSON)'' @ nl @
         (case marshal_indent truncated of Inl _ \<Rightarrow> ''[]'' | Inr t \<Rightarrow> t) @ nl @
         (if n > max_rows then
            nl @ ''('' @ utf8 [51204, 52404, 32] @ itoa n @ utf8 [54665, 32, 51473, 32, 49345, 50948, 32] @ itoa max_rows @
            utf8 [54665, 47564, 32, 54364, 49884] @ '')'' @ nl
          else []) @
         nl @ ''## '' @ utf8 [51648, 49884, 32, 49324, 54637] @ nl @ query_summary_instructions)"

section \<open>The output schema\<close>

definition query_sql_output_schema :: json where
  "query_sql_output_schema =
     (let string_schema = JObject [(''type'', JString ''string'')] in
      JObject [(''type'', JString ''object''),
        (''properties'', JObject [(''reasoning'', string_schema), (''sql'', string_schema),
           (''notes'', string_schema)]),
        (''required'', jstrings [''reasoning'', ''sql'', ''notes'']),
        (''additionalProperties'', JBool False)])"

lemma query_sql_output_schema_strict: "strict_schema 3 query_sql_output_schema"
  by (code_simp)

end
