(* ===== verification/QueryPipeline.thy ===== *)
theory QueryPipeline
  imports QueryPrompts
begin

text \<open>
  controller/query.go, query_prepare.go, query_pipeline.go and the model calls of query_prompt.go:
  from a question to SQL, its execution by the tenant's agent and the summary. The language model
  and the agent are operations on a world \<open>'w\<close>; the tables of questions are threaded next to it,
  the other tables are only read. The two goroutines that prepare a question only read, so their
  order does not matter and both are run. Logging and elapsed times are not modelled.
\<close>

section \<open>Controller and calls\<close>

record query_controller_config =
  qg_model :: string
  qg_provider_models :: "(string \<times> string) list"
  qg_max_tokens :: int
  qg_summary_model :: string
  qg_summary_provider_models :: "(string \<times> string) list"
  qg_summary_max_tokens :: int
  qg_max_summary_rows :: int
  qg_max_retrieved_examples :: int
  qg_max_canonical_examples :: int

record query_controller =
  qk_model :: string
  qk_provider_models :: "string \<rightharpoonup> string"
  qk_max_tokens :: int
  qk_summary_model :: string
  qk_summary_provider_models :: "string \<rightharpoonup> string"
  qk_summary_max_tokens :: int
  qk_max_summary_rows :: int
  qk_max_retrieved_examples :: int
  qk_max_canonical_examples :: int

definition positive_or :: "int \<Rightarrow> int \<Rightarrow> int" where
  "positive_or n fallback = (if n \<le> 0 then fallback else n)"

text \<open>The cloned map has no entry when every entry is blank on one side.\<close>

definition no_provider_models :: "(string \<times> string) list \<Rightarrow> bool" where
  "no_provider_models entries = list_all (\<lambda>(k, v). trim_space k = [] \<or> trim_space v = []) entries"

definition new_query_controller :: "query_controller_config \<Rightarrow> query_controller" where
  "new_query_controller cfg =
     (let model_name = (if trim_space (qg_model cfg) = [] then ''claude-sonnet-4-6''
                        else trim_space (qg_model cfg));
          models = clone_provider_models (qg_provider_models cfg);
          summary_models = clone_provider_models (qg_summary_provider_models cfg)
      in \<lparr>qk_model = model_name, qk_provider_models = models,
          qk_max_tokens = positive_or (qg_max_tokens cfg) 4096,
          qk_summary_model = (if trim_space (qg_summary_model cfg) = [] then model_name
                              else trim_space (qg_summary_model cfg)),
          qk_summary_provider_models = (if no_provider_models (qg_summary_provider_models cfg)
                                        then models else summary_models),
          qk_summary_max_tokens = positive_or (qg_summary_max_tokens cfg) 800,
          qk_max_summary_rows = positive_or (qg_max_summary_rows cfg) 100,
          qk_max_retrieved_examples =
            positive_or (qg_max_retrieved_examples cfg) default_retrieved_examples_limit,
          qk_max_canonical_examples =
            positive_or (qg_max_canonical_examples cfg) default_canonical_example_limit\<rparr>)"

record ask_question_attempt =
  aa_sql :: string
  aa_error :: string
  aa_stage :: string

record ask_question_result =
  ar_query_run_id :: uuid
  ar_sql_original :: string
  ar_sql_executed :: string
  ar_limit_injected :: bool
  ar_columns :: "string list"
  ar_rows :: "(string \<rightharpoonup> go_any) list"
  ar_row_count :: int
  ar_elapsed_ms :: int
  ar_summary_ko :: string
  ar_warnings :: "string list"
  ar_attempts :: "ask_question_attempt list"

definition empty_ask_result :: ask_question_result where
  "empty_ask_result = \<lparr>ar_query_run_id = uuid_nil, ar_sql_original = [], ar_sql_executed = [],
     ar_limit_injected = False, ar_columns = [], ar_rows = [], ar_row_count = 0, ar_elapsed_ms = 0,
     ar_summary_ko = [], ar_warnings = [], ar_attempts = []\<rparr>"

record generated_sql =
  gs_reasoning :: string
  gs_sql :: string
  gs_notes :: string

text \<open>The model behind \<open>llm.Router.Complete\<close> and the agent behind the session manager.\<close>

record 'w query_ops =
  qo_complete :: "completion_request \<Rightarrow> 'w \<Rightarrow> (gerr + completion_response) \<times> 'w"
  qo_execute :: "uuid \<Rightarrow> string \<Rightarrow> 'w \<Rightarrow> (gerr + execute_query_result) \<times> 'w"

text \<open>
  What one call sees besides: the errors of its statements, clocks, the id drawn for its run, the
  JSON codecs, \<open>strconv.Quote\<close>, pg_trgm's similarity and the SQL parser of the guard.
\<close>

record 'x query_env =
  qe_io :: "query_call \<Rightarrow> gerr option"
  qe_now :: time
  qe_db_now :: time
  qe_run_id :: uuid
  qe_codec :: content_codec
  qe_decode_sql :: "string \<Rightarrow> gerr + generated_sql"
  qe_marshal_layer :: "semantic_layer_content \<Rightarrow> gerr + string"
  qe_marshal_rows :: "(string \<rightharpoonup> go_any) list \<Rightarrow> gerr + string"
  qe_quote :: "string \<Rightarrow> string"
  qe_similarity :: "string \<Rightarrow> string \<Rightarrow> int"
  qe_parser :: "'x sql_parser"
  qe_ucase :: "string \<Rightarrow> string"

section \<open>query_prompt.go: the calls of the model\<close>

definition generate_request ::
  "'x query_env \<Rightarrow> query_controller \<Rightarrow> string \<Rightarrow> query_prompt_context \<Rightarrow> canonical_query_example list \<Rightarrow>
   string \<Rightarrow> string \<Rightarrow> completion_request" where
  "generate_request env c question ctx examples prior_sql prior_error =
     (case build_query_user_prompt (qe_marshal_layer env) question ctx examples prior_sql prior_error of
        (cached, dynamic) \<Rightarrow>
          \<lparr>req_system = query_system_prompt,
           req_messages = [\<lparr>msg_role = ''user'', msg_content = dynamic, msg_cached_content = cached\<rparr>],
           req_operation = ''query.generate_sql'', req_model = qk_model c,
           req_provider_models = qk_provider_models c, req_max_tokens = qk_max_tokens c,
           req_output_format = Some (''text_to_sql'', query_sql_output_schema),
           req_cache_control = Some (''ephemeral'', ''1h'')\<rparr>)"

definition generate_sql ::
  "'x query_env \<Rightarrow> query_controller \<Rightarrow> 'w query_ops \<Rightarrow> string \<Rightarrow> query_prompt_context \<Rightarrow>
   canonical_query_example list \<Rightarrow> string \<Rightarrow> string \<Rightarrow> 'w \<Rightarrow> (gerr + generated_sql) \<times> 'w" where
  "generate_sql env c ops question ctx examples prior_sql prior_error w =
     (case qo_complete ops (generate_request env c question ctx examples prior_sql prior_error) w of
        (Inl e, w') \<Rightarrow> (Inl e, w')
      | (Inr resp, w') \<Rightarrow>
          (case qe_decode_sql env (resp_content resp) of
             Inl e \<Rightarrow> (Inl (Suffixed ''decode generated sql'' e
                 ('' (raw='' @ qe_quote env (resp_content resp) @ '')'')), w')
           | Inr out \<Rightarrow>
               (let s = trim_space (gs_sql out) in
                if s = [] then (Inl (ErrNew ''LLM returned empty SQL''), w')
                else (Inr (out\<lparr>gs_sql := s\<rparr>), w'))))"

definition summary_request ::
  "'x query_env \<Rightarrow> query_controller \<Rightarrow> string \<Rightarrow> string \<Rightarrow> execute_query_result \<Rightarrow> completion_request" where
  "summary_request env c question executed_sql r =
     \<lparr>req_system = query_summary_system_prompt,
      req_messages = [\<lparr>msg_role = ''user'', msg_content =
        build_summary_user_prompt (qe_marshal_rows env) question executed_sql r (qk_max_summary_rows c),
        msg_cached_content = []\<rparr>],
      req_operation = ''query.summarize'', req_model = qk_summary_model c,
      req_provider_models = qk_summary_provider_models c, req_max_tokens = qk_summary_max_tokens c,
      req_output_format = None, req_cache_control = None\<rparr>"

definition summarize ::
  "'x query_env \<Rightarrow> query_controller \<Rightarrow> 'w query_ops \<Rightarrow> string \<Rightarrow> string \<Rightarrow> execute_query_result \<Rightarrow> 'w \<Rightarrow>
   (gerr + string) \<times> 'w" where
  "summarize env c ops question executed_sql r w =
     (case qo_complete ops (summary_request env c question executed_sql r) w of
        (Inl e, w') \<Rightarrow> (Inl e, w')
      | (Inr resp, w') \<Rightarrow> (Inr (trim_space (resp_content resp)), w'))"

section \<open>query_prepare.go\<close>

definition decode_semantic_layer_content ::
  "'x query_env \<Rightarrow> tenant_semantic_layer \<Rightarrow> gerr + semantic_layer_content" where
  "decode_semantic_layer_content env layer =
     map_error (Wrapped ''unmarshal semantic layer content'')
       (cc_decode_content (qe_codec env) (sl_content layer))"

definition layer_context ::
  "'x query_env \<Rightarrow> schema_blob \<Rightarrow> tenant_schema_version \<Rightarrow> prompt_context_source \<Rightarrow> string list \<Rightarrow>
   tenant_semantic_layer \<Rightarrow> gerr + query_prompt_context \<times> string list" where
  "layer_context env blob version source warnings layer =
     (case decode_semantic_layer_content env layer of
        Inl e \<Rightarrow> Inl e
      | Inr content \<Rightarrow>
          Inr (\<lparr>pc_schema_blob = blob, pc_schema_raw = sv_blob version, pc_semantic_layer = Some content,
                pc_semantic_layer_id = Some (sl_id layer), pc_source = source\<rparr>, warnings))"

definition resolve_prompt_context ::
  "'x query_env \<Rightarrow> uuid \<Rightarrow> tenant_schema_version \<Rightarrow> locale_tag \<Rightarrow> layer_world \<Rightarrow>
   gerr + query_prompt_context \<times> string list" where
  "resolve_prompt_context env tid version loc tables =
     (case cc_decode_schema (qe_codec env) (sv_blob version) of
        Inl e \<Rightarrow> Inl (Wrapped ''unmarshal schema blob'' e)
      | Inr blob \<Rightarrow>
          (case latest_approved_by_schema_version (qe_io env ApprovedLayerCall) tid (sv_id version)
              (lw_layers tables) of
             Inr approved \<Rightarrow> layer_context env blob version SourceApproved [] approved
           | Inl e \<Rightarrow>
               (if \<not> errors_is e err_not_found then Inl e
                else (case latest_draft_by_schema_version (qe_io env DraftLayerCall) tid (sv_id version)
                    (lw_layers tables) of
                   Inr draft \<Rightarrow> layer_context env blob version SourceDraft [warn_used_draft_layer loc] draft
                 | Inl e \<Rightarrow>
                     (if \<not> errors_is e err_not_found then Inl e
                      else Inr (\<lparr>pc_schema_blob = blob, pc_schema_raw = sv_blob version,
                        pc_semantic_layer = None, pc_semantic_layer_id = None,
                        pc_source = SourceRawSchema\<rparr>, [warn_used_raw_schema loc]))))))"

definition resolve_retrieved_examples ::
  "'x query_env \<Rightarrow> query_controller \<Rightarrow> uuid \<Rightarrow> uuid \<Rightarrow> string \<Rightarrow> query_db \<Rightarrow>
   gerr + canonical_query_example list" where
  "resolve_retrieved_examples env c tid vid question db =
     (case search_active_examples (qe_io env SearchSameSchemaCall) (qe_similarity env) tid question
         (nat (qk_max_retrieved_examples c)) (Some vid) db of
        Inl e \<Rightarrow> Inl e
      | Inr matching \<Rightarrow>
          (if matching \<noteq> [] then Inr matching
           else search_active_examples (qe_io env SearchAllCall) (qe_similarity env) tid question
             (nat (qk_max_retrieved_examples c)) None db))"

record prepared_ask =
  pq_result :: ask_question_result
  pq_context :: query_prompt_context
  pq_warnings :: "string list"
  pq_examples :: "canonical_query_example list"
  pq_example_ids :: "uuid list"

definition canonical_example_ids :: "canonical_query_example list \<Rightarrow> uuid list" where
  "canonical_example_ids examples = filter (\<lambda>i. i \<noteq> uuid_nil) (map ex_id examples)"

definition to_model_attempts :: "ask_question_attempt list \<Rightarrow> query_run_attempt list" where
  "to_model_attempts attempts =
     map (\<lambda>a. \<lparr>att_sql = aa_sql a, att_error = aa_error a, att_stage = aa_stage a\<rparr>) attempts"

definition complete_failed_query_run ::
  "'x query_env \<Rightarrow> ask_question_result \<Rightarrow> ask_question_attempt list \<Rightarrow> string list \<Rightarrow> uuid list \<Rightarrow> string \<Rightarrow>
   string \<Rightarrow> query_db \<Rightarrow> gerr option \<times> query_db" where
  "complete_failed_query_run env result attempts warnings retrieved error_stage error_message db =
     (if ar_query_run_id result = uuid_nil then (None, db)
      else (case complete_failed (qe_io env CompleteRunCall) (ar_query_run_id result)
            (to_model_attempts attempts) warnings retrieved error_stage error_message (qe_now env) db of
          (Inl e, db') \<Rightarrow> (Some (Wrapped ''complete query run'' e), db')
        | (Inr _, db') \<Rightarrow> (None, db')))"

definition fail_preparation ::
  "'x query_env \<Rightarrow> prepared_ask \<Rightarrow> string \<Rightarrow> gerr \<Rightarrow> query_db \<Rightarrow> gerr \<times> query_db" where
  "fail_preparation env p error_message return_err db =
     (case complete_failed_query_run env (pq_result p) [] (pq_warnings p) [] ''generation'' error_message db of
        (Some e, db') \<Rightarrow> (e, db')
      | (None, db') \<Rightarrow> (return_err, db'))"

text \<open>The result next to an error is what \<open>AskQuestion\<close> returns with it.\<close>

definition prepare_ask_question ::
  "'x query_env \<Rightarrow> query_controller \<Rightarrow> uuid \<Rightarrow> string \<Rightarrow> string \<Rightarrow> tenant_schema_version \<Rightarrow> locale_tag \<Rightarrow>
   layer_world \<Rightarrow> query_db \<Rightarrow> (ask_question_result \<times> gerr + prepared_ask) \<times> query_db" where
  "prepare_ask_question env c tid user question version loc tables db =
     (case resolve_prompt_context env tid version loc tables of
        Inl e \<Rightarrow> (Inl (empty_ask_result, e), db)
      | Inr (ctx, warnings) \<Rightarrow>
          (case create_query_run (qe_io env CreateRunCall) (qe_db_now env) (qe_run_id env) tid
              (sv_id version) (pc_semantic_layer_id ctx) (pc_source ctx) user question db of
             (Inl e, db') \<Rightarrow> (Inl (empty_ask_result, e), db')
           | (Inr run, db') \<Rightarrow>
               (let p = \<lparr>pq_result = empty_ask_result\<lparr>ar_query_run_id := qr_id run, ar_warnings := warnings\<rparr>,
                         pq_context = ctx, pq_warnings = warnings, pq_examples = [], pq_example_ids = []\<rparr>
                in case resolve_retrieved_examples env c tid (sv_id version) question db of
                     Inl e \<Rightarrow>
                       (case fail_preparation env p (''search canonical examples: '' @ err_text e)
                           (Wrapped ''search canonical examples'' e) db' of
                          (e', db'') \<Rightarrow> (Inl (pq_result p, e'), db''))
                   | Inr examples \<Rightarrow>
                       (Inr (p\<lparr>pq_examples := examples, pq_example_ids := canonical_example_ids examples\<rparr>),
                        db'))))"

section \<open>query_pipeline.go\<close>

definition error_stage_from_attempts :: "ask_question_attempt list \<Rightarrow> string" where
  "error_stage_from_attempts attempts =
     (case find (\<lambda>a. trim_space (aa_stage a) \<noteq> []) (rev attempts) of
        None \<Rightarrow> [] | Some a \<Rightarrow> aa_stage a)"

definition last_attempt_error :: "ask_question_attempt list \<Rightarrow> string" where
  "last_attempt_error attempts =
     (case find (\<lambda>a. trim_space (aa_error a) \<noteq> []) (rev attempts) of
        None \<Rightarrow> [] | Some a \<Rightarrow> aa_error a)"

definition format_execution_error :: "execute_query_result \<Rightarrow> string" where
  "format_execution_error r =
     (if eq_error_reason r \<noteq> [] then
        (if eq_blocked_constructs r \<noteq> [] then
           eq_error_reason r @ '' ('' @ join (eq_blocked_constructs r) '', '' @ '')''
         else eq_error_reason r)
      else if eq_error r \<noteq> [] then eq_error r
      else ''unknown execution error'')"

definition blocked_reason :: "guard_result \<Rightarrow> string" where
  "blocked_reason g =
     (if BlockedConstructs g \<noteq> [] then
        Reason g @ '' (blocked: '' @ join (BlockedConstructs g) '', '' @ '')''
      else Reason g)"

definition fail_ask_question ::
  "'x query_env \<Rightarrow> prepared_ask \<Rightarrow> ask_question_attempt list \<Rightarrow> string \<Rightarrow> string \<Rightarrow> gerr \<Rightarrow> query_db \<Rightarrow>
   (ask_question_result \<times> gerr option) \<times> query_db" where
  "fail_ask_question env p attempts error_stage error_message return_err db =
     (let result = (pq_result p)\<lparr>ar_attempts := attempts\<rparr> in
      case complete_failed_query_run env result attempts (pq_warnings p) (pq_example_ids p) error_stage
          error_message db of
        (Some e, db') \<Rightarrow> ((result, Some e), db')
      | (None, db') \<Rightarrow> ((result, Some return_err), db'))"

definition complete_successful_ask ::
  "'x query_env \<Rightarrow> query_controller \<Rightarrow> 'w query_ops \<Rightarrow> string \<Rightarrow> prepared_ask \<Rightarrow> string \<Rightarrow> guard_result \<Rightarrow>
   execute_query_result \<Rightarrow> ask_question_attempt list \<Rightarrow> locale_tag \<Rightarrow> 'w \<times> query_db \<Rightarrow>
   (ask_question_result \<times> gerr option) \<times> 'w \<times> query_db" where
  "complete_successful_ask env c ops question p sql_original g r attempts loc s =
     (case s of (w, db) \<Rightarrow>
       (case summarize env c ops question (RewrittenSQL g) r w of (summary, w') \<Rightarrow>
         (let warnings = pq_warnings p @
                (case summary of Inl e \<Rightarrow> [warn_summary_failed loc e] | Inr _ \<Rightarrow> []) @
                (if LimitInjected g then [warn_limit_injected loc] else []);
              n = int (length (eq_rows r));
              result = \<lparr>ar_query_run_id = ar_query_run_id (pq_result p), ar_sql_original = sql_original,
                ar_sql_executed = RewrittenSQL g, ar_limit_injected = LimitInjected g,
                ar_columns = eq_columns r, ar_rows = eq_rows r, ar_row_count = n,
                ar_elapsed_ms = eq_elapsed_ms r,
                ar_summary_ko = (case summary of Inl _ \<Rightarrow> [] | Inr t \<Rightarrow> t),
                ar_warnings = warnings, ar_attempts = attempts\<rparr>
          in case complete_succeeded (qe_io env CompleteRunCall) (ar_query_run_id result) sql_original
                (RewrittenSQL g) (to_model_attempts attempts) warnings n (eq_elapsed_ms r)
                (pq_example_ids p) (qe_now env) db of
               (Inl e, db') \<Rightarrow> ((result, Some (Wrapped ''complete query run'' e)), (w', db'))
             | (Inr _, db') \<Rightarrow> ((result, None), (w', db')))))"

definition agent_offline_error :: "gerr \<Rightarrow> bool" where
  "agent_offline_error e =
     (errors_is e err_tenant_not_connected \<or> errors_is e err_session_not_active \<or>
      errors_is e err_command_rejected)"

text \<open>
  One turn of the loop: it returns an outcome, or goes on with the attempts so far and what the
  next prompt is told about the last failure.
\<close>

datatype ask_turn =
    AskDone "ask_question_result \<times> gerr option"
  | AskAgain "ask_question_attempt list" string string

definition ask_turn ::
  "'x query_env \<Rightarrow> query_controller \<Rightarrow> 'w query_ops \<Rightarrow> uuid \<Rightarrow> string \<Rightarrow> prepared_ask \<Rightarrow> locale_tag \<Rightarrow>
   ask_question_attempt list \<Rightarrow> string \<Rightarrow> string \<Rightarrow> 'w \<times> query_db \<Rightarrow> ask_turn \<times> 'w \<times> query_db" where
  "ask_turn env c ops tid question p loc attempts prior_sql prior_error s =
    (case s of (w, db) \<Rightarrow>
     (let failed = (\<lambda>attempts msg err w. case fail_ask_question env p attempts (aa_stage (last attempts)) msg err db of
            (out, db') \<Rightarrow> (AskDone out, (w, db')))
      in case generate_sql env c ops question (pq_context p) (pq_examples p) prior_sql prior_error w of
        (Inl e, w1) \<Rightarrow>
          failed (attempts @ [\<lparr>aa_sql = [], aa_error = err_text e, aa_stage = ''generation''\<rparr>])
            (err_text e) (Wrapped ''generate sql'' e) w1
      | (Inr generated, w1) \<Rightarrow>
       (case validate_sql (qe_parser env) (qe_ucase env) (gs_sql generated) of
          Inl e \<Rightarrow>
            (AskAgain (attempts @ [\<lparr>aa_sql = gs_sql generated, aa_error = err_text e,
               aa_stage = ''validation''\<rparr>]) (gs_sql generated) (err_text e), (w1, db))
        | Inr g \<Rightarrow>
         (if \<not> OK g then
            (AskAgain (attempts @ [\<lparr>aa_sql = gs_sql generated, aa_error = blocked_reason g,
               aa_stage = ''validation''\<rparr>]) (gs_sql generated) (blocked_reason g), (w1, db))
          else (case qo_execute ops tid (RewrittenSQL g) w1 of
            (Inl e, w2) \<Rightarrow>
              failed (attempts @ [\<lparr>aa_sql = RewrittenSQL g, aa_error = err_text e, aa_stage = ''execution''\<rparr>])
                (err_text e)
                (if agent_offline_error e then err_query_agent_offline else Wrapped ''execute query'' e) w2
          | (Inr r, w2) \<Rightarrow>
             (if eq_error r \<noteq> [] then
                (let msg = format_execution_error r;
                     attempts' = attempts @ [\<lparr>aa_sql = RewrittenSQL g, aa_error = msg,
                       aa_stage = ''execution''\<rparr>]
                 in if eq_error_code r = code_permission_denied then
                      failed attempts' msg err_query_all_attempts_failed w2
                    else (AskAgain attempts' (gs_sql generated) msg, (w2, db)))
              else (case complete_successful_ask env c ops question p (gs_sql generated) g r
                    (attempts @ [\<lparr>aa_sql = gs_sql generated, aa_error = [], aa_stage = ''execution''\<rparr>]) loc
                    (w2, db) of (out, s') \<Rightarrow> (AskDone out, s'))))))))"

definition max_attempts :: nat where "max_attempts = 2"

fun ask_loop ::
  "'x query_env \<Rightarrow> query_controller \<Rightarrow> 'w query_ops \<Rightarrow> uuid \<Rightarrow> string \<Rightarrow> prepared_ask \<Rightarrow> locale_tag \<Rightarrow> nat \<Rightarrow>
   ask_question_attempt list \<Rightarrow> string \<Rightarrow> string \<Rightarrow> 'w \<times> query_db \<Rightarrow>
   (ask_question_result \<times> gerr option) \<times> 'w \<times> query_db" where
  "ask_loop env c ops tid question p loc 0 attempts prior_sql prior_error (w, db) =
     (case fail_ask_question env p attempts (error_stage_from_attempts attempts)
         (last_attempt_error attempts) err_query_all_attempts_failed db of
        (out, db') \<Rightarrow> (out, (w, db')))"
| "ask_loop env c ops tid question p loc (Suc left) attempts prior_sql prior_error s =
     (case ask_turn env c ops tid question p loc attempts prior_sql prior_error s of
        (AskDone out, s') \<Rightarrow> (out, s')
      | (AskAgain attempts' prior_sql' prior_error', s') \<Rightarrow>
          ask_loop env c ops tid question p loc left attempts' prior_sql' prior_error' s')"

definition execute_ask_pipeline ::
  "'x query_env \<Rightarrow> query_controller \<Rightarrow> 'w query_ops \<Rightarrow> uuid \<Rightarrow> string \<Rightarrow> prepared_ask \<Rightarrow> locale_tag \<Rightarrow>
   'w \<times> query_db \<Rightarrow> (ask_question_result \<times> gerr option) \<times> 'w \<times> query_db" where
  "execute_ask_pipeline env c ops tid question p loc s =
     ask_loop env c ops tid question p loc max_attempts [] [] [] s"

section \<open>query.go: AskQuestion\<close>

definition validate_ask_request ::
  "'x query_env \<Rightarrow> uuid \<Rightarrow> string \<Rightarrow> string \<Rightarrow> layer_world \<Rightarrow> gerr + string \<times> tenant_schema_version" where
  "validate_ask_request env tid user question tables =
     (let q = trim_space question in
      if q = [] then Inl err_query_empty_question
      else (case query_membership (qe_io env) tid user (lw_tenants tables) of
          Inl e \<Rightarrow> Inl e
        | Inr _ \<Rightarrow>
            (case latest_schema (qe_io env QueryLatestSchemaCall) tid (lw_schemas tables) of
               Inl e \<Rightarrow> Inl (if errors_is e err_not_found then err_query_no_schema else e)
             | Inr version \<Rightarrow> Inr (q, version))))"

definition ask_question ::
  "'x query_env \<Rightarrow> query_controller \<Rightarrow> 'w query_ops \<Rightarrow> uuid \<Rightarrow> string \<Rightarrow> string \<Rightarrow> locale_tag \<Rightarrow> layer_world \<Rightarrow>
   'w \<times> query_db \<Rightarrow> (ask_question_result \<times> gerr option) \<times> 'w \<times> query_db" where
  "ask_question env c ops tid user question loc tables s =
     (case s of (w, db) \<Rightarrow>
       (case validate_ask_request env tid user question tables of
          Inl e \<Rightarrow> ((empty_ask_result, Some e), (w, db))
        | Inr (q, version) \<Rightarrow>
            (case prepare_ask_question env c tid user q version loc tables db of
               (Inl (result, e), db') \<Rightarrow> ((result, Some e), (w, db'))
             | (Inr p, db') \<Rightarrow> execute_ask_pipeline env c ops tid q p loc (w, db'))))"

section \<open>What the model and the agent see\<close>

datatype query_trace = Asked completion_request | Executed uuid string

fun is_executed :: "query_trace \<Rightarrow> bool" where
  "is_executed (Executed _ _) = True"
| "is_executed (Asked _) = False"

definition log_query_ops :: "'w query_ops \<Rightarrow> ('w \<times> query_trace list) query_ops" where
  "log_query_ops ops =
     \<lparr>qo_complete = (\<lambda>r wl. case qo_complete ops r (fst wl) of (x, w') \<Rightarrow> (x, (w', snd wl @ [Asked r]))),
      qo_execute = (\<lambda>t q wl. case qo_execute ops t q (fst wl) of
         (x, w') \<Rightarrow> (x, (w', snd wl @ [Executed t q])))\<rparr>"

lemma log_complete [simp]:
  "qo_complete (log_query_ops ops) r (w, l) =
     (case qo_complete ops r w of (x, w') \<Rightarrow> (x, (w', l @ [Asked r])))"
  by (simp add: log_query_ops_def)

lemma log_execute [simp]:
  "qo_execute (log_query_ops ops) t q (w, l) =
     (case qo_execute ops t q w of (x, w') \<Rightarrow> (x, (w', l @ [Executed t q])))"
  by (simp add: log_query_ops_def)

text \<open>A statement the guard handed on, and a request the pipeline may make for a question.\<close>

definition guarded_sql :: "'x query_env \<Rightarrow> string \<Rightarrow> bool" where
  "guarded_sql env s =
     (\<exists>t g. validate_sql (qe_parser env) (qe_ucase env) t = Inr g \<and> OK g \<and> s = RewrittenSQL g)"

definition question_event ::
  "'x query_env \<Rightarrow> query_controller \<Rightarrow> uuid \<Rightarrow> string \<Rightarrow> prepared_ask \<Rightarrow> query_trace \<Rightarrow> bool" where
  "question_event env c tid q p ev =
     (case ev of
        Executed t s \<Rightarrow> t = tid \<and> guarded_sql env s
      | Asked r \<Rightarrow>
          (\<exists>sql_text err. r = generate_request env c q (pq_context p) (pq_examples p) sql_text err) \<or>
          (\<exists>s res. guarded_sql env s \<and> r = summary_request env c q s res))"

lemma generate_sql_log:
  assumes "generate_sql env c (log_query_ops ops) q ctx exs ps pe (w, l) = (r, wl')"
  shows "snd wl' = l @ [Asked (generate_request env c q ctx exs ps pe)]"
  using assms by (auto simp: generate_sql_def Let_def split: prod.splits sum.splits if_splits)

lemma summarize_log:
  assumes "summarize env c (log_query_ops ops) q s res (w, l) = (r, wl')"
  shows "snd wl' = l @ [Asked (summary_request env c q s res)]"
  using assms by (auto simp: summarize_def split: prod.splits sum.splits)

text \<open>The trace of a turn: a request, then perhaps an execution, then, on success, a summary.\<close>

lemma ask_turn_log:
  assumes "ask_turn env c (log_query_ops ops) tid q p loc attempts ps pe ((w, l), db) = (t, ((w', l'), db'))"
  shows "\<exists>tr. l' = l @ tr \<and> list_all (question_event env c tid q p) tr \<and>
    length (filter is_executed tr) \<le> 1 \<and>
    length (filter (\<lambda>a. \<not> is_executed a) tr) \<le> (case t of AskDone _ \<Rightarrow> 2 | AskAgain _ _ _ \<Rightarrow> 1)"
proof -
  let ?req = "generate_request env c q (pq_context p) (pq_examples p) ps pe"
  obtain r w1 l1 where gen: "generate_sql env c (log_query_ops ops) q (pq_context p) (pq_examples p) ps pe (w, l)
      = (r, (w1, l1))" by (metis prod_cases3)
  have l1: "l1 = l @ [Asked ?req]" using generate_sql_log [OF gen] by simp
  have ev1: "question_event env c tid q p (Asked ?req)" by (auto simp: question_event_def)
  show ?thesis
  proof (cases r)
    case (Inl e)
    with assms gen l1 ev1 show ?thesis
      by (auto simp: ask_turn_def Let_def split: prod.splits)
  next
    case (Inr generated)
    show ?thesis
    proof (cases "validate_sql (qe_parser env) (qe_ucase env) (gs_sql generated)")
      case (Inl e)
      with assms gen l1 ev1 Inr show ?thesis by (auto simp: ask_turn_def Let_def)
    next
      case guard: (Inr g)
      show ?thesis
      proof (cases "OK g")
        case False
        with assms gen l1 ev1 Inr guard show ?thesis by (auto simp: ask_turn_def Let_def)
      next
        case True
        have gs: "guarded_sql env (RewrittenSQL g)" using guard True by (auto simp: guarded_sql_def)
        obtain x w2 where ex: "qo_execute ops tid (RewrittenSQL g) w1 = (x, w2)" by fastforce
        have ev2: "question_event env c tid q p (Executed tid (RewrittenSQL g))"
          using gs by (simp add: question_event_def)
        show ?thesis
        proof (cases "\<exists>res. x = Inr res \<and> eq_error res = []")
          case False
          with assms gen l1 ev1 ev2 Inr guard True ex show ?thesis
            by (auto simp: ask_turn_def Let_def split: prod.splits sum.splits if_splits)
        next
          case success: True
          then obtain res where res: "x = Inr res" "eq_error res = []" by blast
          obtain summ w3 l3 where sm: "summarize env c (log_query_ops ops) q (RewrittenSQL g) res
              (w2, l1 @ [Executed tid (RewrittenSQL g)]) = (summ, (w3, l3))" by (metis prod_cases3)
          have l3: "l3 = l1 @ [Executed tid (RewrittenSQL g), Asked (summary_request env c q (RewrittenSQL g) res)]"
            using summarize_log [OF sm] by simp
          have ev3: "question_event env c tid q p (Asked (summary_request env c q (RewrittenSQL g) res))"
            using gs by (auto simp: question_event_def)
          from assms gen l1 l3 ev1 ev2 ev3 Inr guard True ex res sm show ?thesis
            by (auto simp: ask_turn_def complete_successful_ask_def Let_def split: prod.splits sum.splits)
        qed
      qed
    qed
  qed
qed

lemma ask_loop_log:
  "ask_loop env c (log_query_ops ops) tid q p loc left attempts ps pe ((w, l), db) = (out, ((w', l'), db')) \<Longrightarrow>
     \<exists>tr. l' = l @ tr \<and> list_all (question_event env c tid q p) tr \<and>
       length (filter is_executed tr) \<le> left \<and> length (filter (\<lambda>a. \<not> is_executed a) tr) \<le> Suc left"
proof (induction left arbitrary: attempts ps pe w l db)
  case 0
  then show ?case by (auto split: prod.splits)
next
  case (Suc left)
  obtain t w1 l1 db1 where turn: "ask_turn env c (log_query_ops ops) tid q p loc attempts ps pe ((w, l), db)
      = (t, ((w1, l1), db1))" by (metis prod.exhaust)
  from ask_turn_log [OF turn] obtain tr where tr: "l1 = l @ tr" "list_all (question_event env c tid q p) tr"
    "length (filter is_executed tr) \<le> 1"
    "length (filter (\<lambda>a. \<not> is_executed a) tr) \<le> (case t of AskDone _ \<Rightarrow> 2 | AskAgain _ _ _ \<Rightarrow> 1)" by blast
  show ?case
  proof (cases t)
    case (AskDone o1)
    with Suc.prems turn have "l' = l1" by simp
    with tr AskDone show ?thesis by (intro exI [of _ tr]) auto
  next
    case (AskAgain a b d)
    with Suc.prems turn have "ask_loop env c (log_query_ops ops) tid q p loc left a b d ((w1, l1), db1)
        = (out, ((w', l'), db'))" by simp
    from Suc.IH [OF this] obtain tr' where tr': "l' = l1 @ tr'" "list_all (question_event env c tid q p) tr'"
      "length (filter is_executed tr') \<le> left" "length (filter (\<lambda>a. \<not> is_executed a) tr') \<le> Suc left" by blast
    with tr AskAgain show ?thesis by (intro exI [of _ "tr @ tr'"]) auto
  qed
qed

section \<open>What is stored of a question\<close>

lemma query_run_by_id_append:
  "find (\<lambda>r. qr_id r = i) (rows @ [x]) = Some x \<longleftrightarrow>
     (if find (\<lambda>r. qr_id r = i) rows = None then qr_id x = i else find (\<lambda>r. qr_id r = i) rows = Some x)"
  by (auto simp: find_append split: option.splits)

text \<open>The new row of a question, after rows without its id.\<close>

definition open_run :: "'x query_env \<Rightarrow> query_db \<Rightarrow> uuid \<Rightarrow> string \<Rightarrow> query_db \<Rightarrow> bool" where
  "open_run env db tid user db' =
     (qd_feedback db' = qd_feedback db \<and> qd_examples db' = qd_examples db \<and>
      \<not> list_ex (\<lambda>r. qr_id r = qe_run_id env) (qd_runs db) \<and>
      (\<exists>row. qd_runs db' = qd_runs db @ [row] \<and> qr_id row = qe_run_id env \<and> qr_tenant_id row = tid \<and>
         qr_clerk_user_id row = user \<and> qr_status row = RunRunning))"

definition closed_run ::
  "'x query_env \<Rightarrow> query_db \<Rightarrow> uuid \<Rightarrow> string \<Rightarrow> ask_question_result \<times> gerr option \<Rightarrow> query_db \<Rightarrow> bool" where
  "closed_run env db tid user out db' =
     (qd_feedback db' = qd_feedback db \<and> qd_examples db' = qd_examples db \<and>
      (\<exists>row. qd_runs db' = qd_runs db @ [row] \<and> qr_id row = qe_run_id env \<and> qr_tenant_id row = tid \<and>
         qr_clerk_user_id row = user \<and> ar_query_run_id (fst out) = qe_run_id env \<and>
         qr_attempts row = to_model_attempts (ar_attempts (fst out)) \<and>
         qr_completed_at row = Some (qe_now env) \<and>
         (case snd out of
            None \<Rightarrow> qr_status row = RunSucceeded \<and> qr_row_count row = int (length (ar_rows (fst out)))
          | Some _ \<Rightarrow> qr_status row = RunFailed)))"

lemma complete_run_new:
  assumes "qd_runs db' = rows @ [row]" "\<not> list_ex (\<lambda>r. qr_id r = qr_id row) rows"
  shows "complete_run None (qr_id row) cc db' =
    (Inr (run_of_row (completed_row cc row)), db'\<lparr>qd_runs := rows @ [completed_row cc row]\<rparr>)"
proof -
  have none: "find (\<lambda>r. qr_id r = qr_id row) rows = None"
    using assms(2) by (auto simp: find_None_iff list_ex_iff)
  have "update_where (\<lambda>r. qr_id r = qr_id row) f rows = rows" for f
    using assms(2) by (induction rows) auto
  then have "update_where (\<lambda>r. qr_id r = qr_id row) f (rows @ [row]) = rows @ [f row]" for f
    by (simp add: update_where_def)
  then show ?thesis using assms(1) none by (simp add: complete_run_def find_append)
qed

lemma completed_row_fields [simp]:
  "qr_id (completed_row c r) = qr_id r" "qr_tenant_id (completed_row c r) = qr_tenant_id r"
  "qr_clerk_user_id (completed_row c r) = qr_clerk_user_id r" "qr_status (completed_row c r) = qc_status c"
  "qr_attempts (completed_row c r) = qc_attempts c" "qr_completed_at (completed_row c r) = Some (qc_completed_at c)"
  "qr_row_count (completed_row c r) = qc_row_count c"
  by (simp_all add: completed_row_def)

text \<open>The assumptions under which a question's run is stored and can be completed.\<close>

definition stores_runs :: "'x query_env \<Rightarrow> query_db \<Rightarrow> bool" where
  "stores_runs env db =
     (qe_io env CompleteRunCall = None \<and> qe_run_id env \<noteq> uuid_nil \<and>
      \<not> list_ex (\<lambda>r. qr_id r = qe_run_id env) (qd_runs db))"

text \<open>How a question's run ends: the statement that closes it is executed, or it fails with an error.\<close>

definition left_running ::
  "'x query_env \<Rightarrow> query_db \<Rightarrow> uuid \<Rightarrow> string \<Rightarrow> gerr \<Rightarrow> ask_question_result \<times> gerr option \<Rightarrow> query_db \<Rightarrow> bool" where
  "left_running env db tid user io out db' =
     (open_run env db tid user db' \<and> ar_query_run_id (fst out) = qe_run_id env \<and>
      snd out = Some (Wrapped ''complete query run'' (Wrapped ''update tenant query run'' io)))"

definition ended_run ::
  "'x query_env \<Rightarrow> query_db \<Rightarrow> uuid \<Rightarrow> string \<Rightarrow> ask_question_result \<times> gerr option \<Rightarrow> query_db \<Rightarrow> bool" where
  "ended_run env db tid user out db' =
     (case qe_io env CompleteRunCall of
        None \<Rightarrow> closed_run env db tid user out db'
      | Some io \<Rightarrow> left_running env db tid user io out db')"

lemma complete_failed_ends:
  assumes "qe_run_id env \<noteq> uuid_nil" "open_run env db tid user db'" "ar_query_run_id result = qe_run_id env"
  obtains r db'' where
    "complete_failed_query_run env result attempts warnings ids stage msg db' = (r, db'')"
    "\<And>e. ended_run env db tid user (result\<lparr>ar_attempts := attempts\<rparr>, Some (case r of None \<Rightarrow> e | Some x \<Rightarrow> x)) db''"
proof (cases "qe_io env CompleteRunCall")
  case None
  obtain row where row: "qd_runs db' = qd_runs db @ [row]" "qr_id row = qe_run_id env" "qr_tenant_id row = tid"
    "qr_clerk_user_id row = user" "qd_feedback db' = qd_feedback db" "qd_examples db' = qd_examples db"
    and new: "\<not> list_ex (\<lambda>r. qr_id r = qr_id row) (qd_runs db)"
    using assms(2) by (auto simp: open_run_def)
  note cmpl = complete_run_new [OF row(1) new]
  from None assms(1,3) row cmpl show thesis
    by (intro that) (auto simp: complete_failed_query_run_def complete_failed_def closed_run_def ended_run_def)
next
  case (Some io)
  with assms show thesis
    by (intro that) (auto simp: complete_failed_query_run_def complete_failed_def complete_run_def ended_run_def
        left_running_def)
qed

lemma fail_ask_ends:
  assumes "qe_run_id env \<noteq> uuid_nil" "open_run env db tid user db'" "ar_query_run_id (pq_result p) = qe_run_id env"
    and "fail_ask_question env p attempts stage msg e db' = (out, db'')"
  shows "ended_run env db tid user out db''"
proof -
  let ?res = "(pq_result p)\<lparr>ar_attempts := attempts\<rparr>"
  have "ar_query_run_id ?res = qe_run_id env" using assms(3) by simp
  from complete_failed_ends [OF assms(1,2) this] obtain r d where
    "complete_failed_query_run env ?res attempts (pq_warnings p) (pq_example_ids p) stage msg db' = (r, d)"
    "\<And>e. ended_run env db tid user (?res\<lparr>ar_attempts := attempts\<rparr>, Some (case r of None \<Rightarrow> e | Some x \<Rightarrow> x)) d" by blast
  with assms(4) show ?thesis by (auto simp: fail_ask_question_def Let_def split: option.splits)
qed

lemma success_ends:
  assumes "qe_run_id env \<noteq> uuid_nil" "open_run env db tid user db'" "ar_query_run_id (pq_result p) = qe_run_id env"
    and "complete_successful_ask env c ops q p sql_original g r attempts loc (w, db') = (out, (w', db''))"
  shows "ended_run env db tid user out db''"
proof (cases "qe_io env CompleteRunCall")
  case None
  obtain row where row: "qd_runs db' = qd_runs db @ [row]" "qr_id row = qe_run_id env" "qr_tenant_id row = tid"
    "qr_clerk_user_id row = user" "qd_feedback db' = qd_feedback db" "qd_examples db' = qd_examples db"
    and new: "\<not> list_ex (\<lambda>r. qr_id r = qr_id row) (qd_runs db)"
    using assms(2) by (auto simp: open_run_def)
  note cmpl = complete_run_new [OF row(1) new]
  from None assms(1,3,4) row cmpl show ?thesis
    by (auto simp: complete_successful_ask_def complete_succeeded_def closed_run_def ended_run_def Let_def
        split: prod.splits)
next
  case (Some io)
  with assms show ?thesis
    by (auto simp: complete_successful_ask_def complete_succeeded_def complete_run_def ended_run_def
        left_running_def Let_def split: prod.splits)
qed

lemma ask_turn_ends:
  assumes "qe_run_id env \<noteq> uuid_nil" "open_run env db tid user db1" "ar_query_run_id (pq_result p) = qe_run_id env"
    and "ask_turn env c ops tid q p loc attempts ps pe (w, db1) = (t, (w', db2))"
  shows "case t of AskDone out \<Rightarrow> ended_run env db tid user out db2 | AskAgain _ _ _ \<Rightarrow> db2 = db1"
proof (cases t)
  case (AskDone out)
  with assms(4) show ?thesis
    by (auto simp: ask_turn_def Let_def split: prod.splits sum.splits if_splits
        dest!: fail_ask_ends [OF assms(1-3)] success_ends [OF assms(1-3)])
next
  case (AskAgain a b d)
  with assms(4) show ?thesis
    by (auto simp: ask_turn_def Let_def split: prod.splits sum.splits if_splits)
qed

lemma ask_loop_ends:
  assumes "qe_run_id env \<noteq> uuid_nil" "ar_query_run_id (pq_result p) = qe_run_id env"
  shows "open_run env db tid user db1 \<Longrightarrow>
    ask_loop env c ops tid q p loc left attempts ps pe (w, db1) = (out, (w', db2)) \<Longrightarrow>
    ended_run env db tid user out db2"
proof (induction left arbitrary: attempts ps pe w db1)
  case 0
  then show ?case using fail_ask_ends [OF assms(1) _ assms(2)] by (auto split: prod.splits)
next
  case (Suc left)
  obtain t w1 d1 where turn: "ask_turn env c ops tid q p loc attempts ps pe (w, db1) = (t, (w1, d1))"
    by (metis prod_cases3)
  note closes = ask_turn_ends [OF assms(1) Suc.prems(1) assms(2) turn]
  show ?case
  proof (cases t)
    case (AskDone o1)
    with Suc.prems turn closes show ?thesis by simp
  next
    case (AskAgain a b d)
    with Suc closes turn show ?thesis by simp
  qed
qed

lemma prepare_opens:
  assumes "qe_run_id env \<noteq> uuid_nil"
    and "prepare_ask_question env c tid user q version loc tables db = (r, db')"
  shows "case r of
      Inr p \<Rightarrow> open_run env db tid user db' \<and> ar_query_run_id (pq_result p) = qe_run_id env
    | Inl (result, e) \<Rightarrow> (ar_query_run_id result = uuid_nil \<and> db' = db) \<or>
        ended_run env db tid user (result, Some e) db'"
proof (cases "resolve_prompt_context env tid version loc tables")
  case (Inl e)
  with assms(2) show ?thesis by (auto simp: prepare_ask_question_def empty_ask_result_def)
next
  case (Inr x)
  obtain ctx ws where x: "x = (ctx, ws)" by fastforce
  obtain y db1 where cr: "create_query_run (qe_io env CreateRunCall) (qe_db_now env) (qe_run_id env) tid
      (sv_id version) (pc_semantic_layer_id ctx) (pc_source ctx) user q db = (y, db1)" by fastforce
  show ?thesis
  proof (cases y)
    case (Inl e)
    with cr have "db1 = db" by (auto simp: create_query_run_def Let_def split: option.splits if_splits)
    with assms(2) Inr x cr Inl show ?thesis by (auto simp: prepare_ask_question_def empty_ask_result_def)
  next
    case run: (Inr run)
    with cr have opened: "open_run env db tid user db1" and rid: "qr_id run = qe_run_id env"
      by (auto simp: create_query_run_def Let_def open_run_def run_of_row_def
          tenant_query_run.truncate_def split: option.splits if_splits)
    let ?p = "\<lparr>pq_result = empty_ask_result\<lparr>ar_query_run_id := qr_id run, ar_warnings := ws\<rparr>,
        pq_context = ctx, pq_warnings = ws, pq_examples = [], pq_example_ids = []\<rparr>"
    show ?thesis
    proof (cases "resolve_retrieved_examples env c tid (sv_id version) q db")
      case (Inl e)
      have pid: "ar_query_run_id (pq_result ?p) = qe_run_id env" using rid by simp
      from complete_failed_ends [OF assms(1) opened pid] obtain r d where
        d: "complete_failed_query_run env (pq_result ?p) [] ws [] ''generation''
            (''search canonical examples: '' @ err_text e) db1 = (r, d)"
          "\<And>e. ended_run env db tid user ((pq_result ?p)\<lparr>ar_attempts := []\<rparr>,
             Some (case r of None \<Rightarrow> e | Some x \<Rightarrow> x)) d" by blast
      have "(pq_result ?p)\<lparr>ar_attempts := []\<rparr> = pq_result ?p" by (simp add: empty_ask_result_def)
      with d assms(2) Inr x cr run Inl show ?thesis
        by (auto simp: prepare_ask_question_def fail_preparation_def split: option.splits)
    next
      case (Inr examples)
      with assms(2) \<open>resolve_prompt_context env tid version loc tables = Inr x\<close> x cr run opened rid
      show ?thesis by (auto simp: prepare_ask_question_def)
    qed
  qed
qed

lemma ask_question_ends:
  assumes "qe_run_id env \<noteq> uuid_nil"
    and "ask_question env c ops tid user question loc tables (w, db) = (out, (w', db'))"
  shows "(ar_query_run_id (fst out) = uuid_nil \<and> snd out \<noteq> None \<and> db' = db) \<or>
    ended_run env db tid user out db'"
proof (cases "validate_ask_request env tid user question tables")
  case (Inl e)
  with assms(2) show ?thesis by (auto simp: ask_question_def empty_ask_result_def)
next
  case (Inr x)
  obtain q version where x: "x = (q, version)" by fastforce
  obtain r db1 where pr: "prepare_ask_question env c tid user q version loc tables db = (r, db1)" by fastforce
  note opens = prepare_opens [OF assms(1) pr]
  show ?thesis
  proof (cases r)
    case (Inl y)
    with assms(2) Inr x pr opens show ?thesis by (auto simp: ask_question_def)
  next
    case p: (Inr p)
    then have opened: "open_run env db tid user db1" and pid: "ar_query_run_id (pq_result p) = qe_run_id env"
      using opens by simp_all
    have "ask_loop env c ops tid q p loc max_attempts [] [] [] (w, db1) = (out, (w', db'))"
      using assms(2) Inr x pr p by (simp add: ask_question_def execute_ask_pipeline_def)
    from ask_loop_ends [OF assms(1) pid opened this] show ?thesis ..
  qed
qed

lemma ask_question_closes:
  assumes "stores_runs env db"
    and "ask_question env c ops tid user question loc tables (w, db) = (out, (w', db'))"
  shows "(ar_query_run_id (fst out) = uuid_nil \<and> snd out \<noteq> None \<and> db' = db) \<or>
    closed_run env db tid user out db'"
  using ask_question_ends [OF _ assms(2)] assms(1) by (simp add: stores_runs_def ended_run_def)

section \<open>Whose data a question uses\<close>

definition is_member :: "uuid \<Rightarrow> string \<Rightarrow> tenant_db \<Rightarrow> bool" where
  "is_member tid user tdb =
     list_ex (\<lambda>u. tu_tenant_id u = tid \<and> tu_clerk_user_id u = user) (tenant_users tdb)"

definition layer_of_context :: "uuid \<Rightarrow> uuid \<Rightarrow> query_prompt_context \<Rightarrow> tenant_semantic_layer \<Rightarrow> bool" where
  "layer_of_context tid vid ctx l =
     (sl_tenant_id l = tid \<and> sl_schema_version_id l = vid \<and> pc_semantic_layer_id ctx = Some (sl_id l) \<and>
      sl_status l = (if pc_source ctx = SourceApproved then LayerApproved else LayerDraft))"

definition context_of_tenant :: "uuid \<Rightarrow> layer_world \<Rightarrow> query_prompt_context \<Rightarrow> bool" where
  "context_of_tenant tid tables ctx =
     list_ex (\<lambda>v. sv_tenant_id v = tid \<and> pc_schema_raw ctx = sv_blob v \<and>
        (case pc_semantic_layer ctx of
           None \<Rightarrow> pc_semantic_layer_id ctx = None \<and> pc_source ctx = SourceRawSchema
         | Some content \<Rightarrow> list_ex (layer_of_context tid (sv_id v) ctx) (lw_layers tables)))
       (lw_schemas tables)"

lemma query_membership_member:
  "query_membership io tid user tdb = Inr m \<Longrightarrow> is_member tid user tdb"
  by (auto simp: query_membership_def ensure_membership_def get_membership_def is_member_def list_ex_iff
      split: option.splits dest!: find_Some_in_set)

lemma search_in:
  assumes "search_active_examples io sim tid q limit vid db = Inr exs"
  shows "length exs \<le> limit \<and>
    list_all (\<lambda>x. x \<in> set (qd_examples db) \<and> ex_tenant_id x = tid \<and> ex_archived_at x = None) exs"
  using assms
  by (auto simp: search_active_examples_def active_examples_def list_all_iff Let_def
      split: option.splits dest!: in_set_takeD)

lemma resolve_examples_in:
  assumes "resolve_retrieved_examples env c tid vid q db = Inr exs"
  shows "length exs \<le> nat (qk_max_retrieved_examples c) \<and>
    list_all (\<lambda>x. x \<in> set (qd_examples db) \<and> ex_tenant_id x = tid \<and> ex_archived_at x = None) exs"
  using assms search_in by (auto simp: resolve_retrieved_examples_def split: sum.splits if_splits)

lemma approved_in:
  "latest_approved_by_schema_version io tid vid rows = Inr l \<Longrightarrow>
     l \<in> set rows \<and> sl_tenant_id l = tid \<and> sl_schema_version_id l = vid \<and> sl_status l = LayerApproved"
  "latest_draft_by_schema_version io tid vid rows = Inr l \<Longrightarrow>
     l \<in> set rows \<and> sl_tenant_id l = tid \<and> sl_schema_version_id l = vid \<and> sl_status l = LayerDraft"
  unfolding latest_approved_by_schema_version_def latest_draft_by_schema_version_def select_layer_def
  by (auto split: option.splits list.splits dest: sort_key_hd)

lemma resolve_context_of_tenant:
  assumes "resolve_prompt_context env tid v loc tables = Inr (ctx, ws)"
    and "v \<in> set (lw_schemas tables)" "sv_tenant_id v = tid"
  shows "context_of_tenant tid tables ctx"
  using assms
  by (fastforce simp: resolve_prompt_context_def layer_context_def context_of_tenant_def list_ex_iff
      layer_of_context_def split: sum.splits if_splits dest!: approved_in)

lemma ask_question_uses:
  assumes "ask_question env c (log_query_ops ops) tid user question loc tables ((w, []), db) =
      (out, ((w', tr), db'))"
  shows "tr = [] \<or> (is_member tid user (lw_tenants tables) \<and> length (filter is_executed tr) \<le> 2 \<and>
    length (filter (\<lambda>a. \<not> is_executed a) tr) \<le> 3 \<and>
    (\<exists>p. context_of_tenant tid tables (pq_context p) \<and>
       length (pq_examples p) \<le> nat (qk_max_retrieved_examples c) \<and>
       list_all (\<lambda>x. x \<in> set (qd_examples db) \<and> ex_tenant_id x = tid \<and> ex_archived_at x = None)
         (pq_examples p) \<and>
       list_all (question_event env c tid (trim_space question) p) tr))"
proof (cases "validate_ask_request env tid user question tables")
  case (Inl e)
  with assms show ?thesis by (simp add: ask_question_def)
next
  case (Inr x)
  obtain q version where x: "x = (q, version)" by fastforce
  have v: "is_member tid user (lw_tenants tables)" "version \<in> set (lw_schemas tables)"
    "sv_tenant_id version = tid" "q = trim_space question"
    using Inr x latest_schema_in query_membership_member
    by (auto simp: validate_ask_request_def Let_def split: if_splits sum.splits)
  obtain r db1 where pr: "prepare_ask_question env c tid user q version loc tables db = (r, db1)" by fastforce
  show ?thesis
  proof (cases r)
    case (Inl y)
    with assms Inr x pr show ?thesis by (auto simp: ask_question_def split: prod.splits)
  next
    case p: (Inr p)
    have prep: "context_of_tenant tid tables (pq_context p) \<and>
       length (pq_examples p) \<le> nat (qk_max_retrieved_examples c) \<and>
       list_all (\<lambda>x. x \<in> set (qd_examples db) \<and> ex_tenant_id x = tid \<and> ex_archived_at x = None)
         (pq_examples p)"
      using pr p by (auto simp: prepare_ask_question_def Let_def split: sum.splits prod.splits
          dest!: resolve_context_of_tenant [OF _ v(2,3)] resolve_examples_in)
    have "ask_loop env c (log_query_ops ops) tid q p loc max_attempts [] [] [] ((w, []), db1) =
        (out, ((w', tr), db'))"
      using assms Inr x pr p by (simp add: ask_question_def execute_ask_pipeline_def)
    from ask_loop_log [OF this] v prep show ?thesis by (auto simp: max_attempts_def)
  qed
qed

section \<open>Properties\<close>

text \<open>What the model and the agent were asked during one question.\<close>

definition ask_trace ::
  "'x query_env \<Rightarrow> query_controller \<Rightarrow> 'w query_ops \<Rightarrow> uuid \<Rightarrow> string \<Rightarrow> string \<Rightarrow> locale_tag \<Rightarrow> layer_world \<Rightarrow>
   'w \<Rightarrow> query_db \<Rightarrow> query_trace list" where
  "ask_trace env c ops tid user question loc tables w db =
     snd (fst (snd (ask_question env c (log_query_ops ops) tid user question loc tables ((w, []), db))))"

text \<open>
  C1. Asking a question always ends after at most two statements sent to an agent and three
  requests to the language model; every statement goes to the asking tenant's agent and is the
  guard's own rewriting of a statement it accepted, whatever the model answers.
\<close>

theorem questions_run_only_guarded_sql:
  "length (filter is_executed (ask_trace env c ops tid user question loc tables w db)) \<le> 2 \<and>
   length (filter (\<lambda>ev. \<not> is_executed ev) (ask_trace env c ops tid user question loc tables w db)) \<le> 3 \<and>
   list_all (\<lambda>ev. case ev of Executed t s \<Rightarrow> t = tid \<and> guarded_sql env s | Asked _ \<Rightarrow> True)
     (ask_trace env c ops tid user question loc tables w db)"
proof -
  obtain out w' tr db' where run: "ask_question env c (log_query_ops ops) tid user question loc tables
      ((w, []), db) = (out, ((w', tr), db'))" by (metis prod.exhaust)
  have tr: "ask_trace env c ops tid user question loc tables w db = tr" using run by (simp add: ask_trace_def)
  from ask_question_uses [OF run] show ?thesis
    unfolding tr by (auto simp: question_event_def list_all_iff split: query_trace.splits)
qed

text \<open>
  What the language model is shown belongs to the tenant of a member who asks: if it is asked
  anything, the prompts are built from the tenant's own schema version, a semantic layer of that
  version with the status they state, and active examples of the tenant, not more than configured;
  the summary is asked about a statement the guard accepted.
\<close>

theorem prompts_show_tenant_data:
  assumes "ask_trace env c ops tid user question loc tables w db \<noteq> []"
  shows "is_member tid user (lw_tenants tables) \<and>
    (\<exists>p. context_of_tenant tid tables (pq_context p) \<and>
       length (pq_examples p) \<le> nat (qk_max_retrieved_examples c) \<and>
       list_all (\<lambda>x. x \<in> set (qd_examples db) \<and> ex_tenant_id x = tid \<and> ex_archived_at x = None)
         (pq_examples p) \<and>
       list_all (question_event env c tid (trim_space question) p)
         (ask_trace env c ops tid user question loc tables w db))"
proof -
  obtain out w' tr db' where run: "ask_question env c (log_query_ops ops) tid user question loc tables
      ((w, []), db) = (out, ((w', tr), db'))" by (metis prod.exhaust)
  have tr: "ask_trace env c ops tid user question loc tables w db = tr" using run by (simp add: ask_trace_def)
  from ask_question_uses [OF run] assms show ?thesis unfolding tr by blast
qed

text \<open>
  C2. A question ends its run or reports that it could not: whatever fails, either nothing was stored
  and an error is returned, or exactly one run was added, of the asking user and tenant, earlier runs,
  feedback and examples being as before. When the closing statement is executed, the run has the
  attempts returned and is marked as succeeded exactly when no error is returned and as failed
  otherwise; when it fails, as it does once the request is cancelled, the run stays marked as running
  and the error returned is that failure. The database never draws the nil id.
\<close>

theorem question_runs_are_closed:
  assumes "qe_run_id env \<noteq> uuid_nil"
    and "ask_question env c ops tid user question loc tables (w, db) = (out, (w', db'))"
  shows "(ar_query_run_id (fst out) = uuid_nil \<and> snd out \<noteq> None \<and> db' = db) \<or>
    (case qe_io env CompleteRunCall of
       None \<Rightarrow> closed_run env db tid user out db'
     | Some io \<Rightarrow> left_running env db tid user io out db')"
  using ask_question_ends [OF assms] by (simp add: ended_run_def)

section \<open>Examples\<close>

text \<open>An agent that fails the first statement and answers the second; the world counts statements.\<close>

definition example_query_ops :: "nat query_ops" where
  "example_query_ops =
     \<lparr>qo_complete = (\<lambda>r w. (Inr \<lparr>resp_content = ''SELECT a FROM t'', resp_provider = [], resp_model = [],
        resp_usage = \<lparr>usage_provider = [], usage_model = [], input_tokens = 0, output_tokens = 0,
          cache_creation_tokens = 0, cache_read_tokens = 0\<rparr>\<rparr>, w)),
      qo_execute = (\<lambda>t q w. (Inr \<lparr>eq_session_id = [], eq_command_id = [], eq_completed_at = 0,
        eq_columns = [''a''], eq_rows = [Map.empty], eq_elapsed_ms = 5, eq_database_user = [],
        eq_database_name = [], eq_error = (if w = 0 then ''lock wait timeout'' else []),
        eq_error_code = [], eq_error_reason = [], eq_blocked_constructs = []\<rparr>, Suc w))\<rparr>"

definition example_query_env :: "unit query_env" where
  "example_query_env =
     \<lparr>qe_io = (\<lambda>_. None), qe_now = 20, qe_db_now = 10, qe_run_id = 7,
      qe_codec = \<lparr>cc_decode_content = (\<lambda>_. Inr example_content), cc_encode_content = (\<lambda>_. Inr []),
        cc_decode_schema = (\<lambda>_. Inr \<lparr>sb_database_name = ''app'', sb_tables = [], sb_columns = [],
          sb_primary_keys = [], sb_foreign_keys = []\<rparr>)\<rparr>,
      qe_decode_sql = (\<lambda>s. Inr \<lparr>gs_reasoning = [], gs_sql = s, gs_notes = []\<rparr>),
      qe_marshal_layer = (\<lambda>_. Inr ''{}''), qe_marshal_rows = (\<lambda>_. Inr ''[{}]''), qe_quote = id,
      qe_similarity = (\<lambda>_ _. 0), qe_parser = example_parser, qe_ucase = id\<rparr>"

definition example_query_controller :: query_controller where
  "example_query_controller = new_query_controller
     \<lparr>qg_model = [], qg_provider_models = [], qg_max_tokens = 0, qg_summary_model = [],
      qg_summary_provider_models = [], qg_summary_max_tokens = 0, qg_max_summary_rows = 0,
      qg_max_retrieved_examples = 0, qg_max_canonical_examples = 0\<rparr>"

definition example_ask_tables :: layer_world where
  "example_ask_tables = \<lparr>lw_tenants = empty_db\<lparr>tenant_users := [\<lparr>tu_tenant_id = 3,
       tu_clerk_user_id = ''u'', tu_role = RoleMember, tu_created_at = 0\<rparr>]\<rparr>,
     lw_schemas = [\<lparr>sv_id = 5, sv_tenant_id = 3, sv_captured_at = 2, sv_schema_hash = ''h'',
       sv_blob = ''{}'', sv_created_at = 2\<rparr>], lw_layers = []\<rparr>"

definition empty_query_db :: query_db where
  "empty_query_db = \<lparr>qd_runs = [], qd_feedback = [], qd_examples = []\<rparr>"

definition example_ask :: "(ask_question_result \<times> gerr option) \<times> nat \<times> query_db" where
  "example_ask = ask_question example_query_env example_query_controller example_query_ops 3 ''u''
     ''how many?'' LocaleEnglish example_ask_tables (0, empty_query_db)"

lemma example_guard:
  "validate_sql example_parser id ''SELECT a FROM t'' =
     Inr \<lparr>OK = True, RewrittenSQL = ''SELECT a FROM t LIMIT 1000'', Reason = [], BlockedConstructs = [],
          LimitInjected = True\<rparr>"
  by code_simp

lemma example_ask_steps:
  "validate_ask_request example_query_env 3 ''u'' ''how many?'' example_ask_tables =
     Inr (''how many?'', hd (lw_schemas example_ask_tables))"
  "resolve_retrieved_examples example_query_env example_query_controller 3 5 ''how many?'' empty_query_db = Inr []"
  by code_simp+

lemma example_ask_context:
  "\<exists>ctx. resolve_prompt_context example_query_env 3 (hd (lw_schemas example_ask_tables)) LocaleEnglish
     example_ask_tables = Inr (ctx, [warn_used_raw_schema LocaleEnglish]) \<and> pc_semantic_layer_id ctx = None"
  by (simp add: resolve_prompt_context_def example_query_env_def example_ask_tables_def
      latest_approved_by_schema_version_def latest_draft_by_schema_version_def select_layer_def)

lemma example_env_fields:
  "qe_io example_query_env k = None" "qe_run_id example_query_env = 7" "qe_now example_query_env = 20"
  "qe_db_now example_query_env = 10" "qe_parser example_query_env = example_parser"
  "qe_ucase example_query_env = id"
  "qe_decode_sql example_query_env t = Inr \<lparr>gs_reasoning = [], gs_sql = t, gs_notes = []\<rparr>"
  by (simp_all add: example_query_env_def)

lemma example_ops_fields:
  "\<exists>resp. qo_complete example_query_ops r w = (Inr resp, w) \<and> resp_content resp = ''SELECT a FROM t''"
  "\<exists>res. qo_execute example_query_ops t q w = (Inr res, Suc w) \<and> eq_error_code res = [] \<and>
     eq_error res = (if w = 0 then ''lock wait timeout'' else []) \<and> eq_error_reason res = []"
  by (simp_all add: example_query_ops_def)

lemma example_generate:
  "generate_sql example_query_env c example_query_ops q ctx exs ps pe w =
     (Inr \<lparr>gs_reasoning = [], gs_sql = ''SELECT a FROM t'', gs_notes = []\<rparr>, w)"
proof -
  have t: "trim_space ''SELECT a FROM t'' = ''SELECT a FROM t''" by code_simp
  obtain resp where "qo_complete example_query_ops (generate_request example_query_env c q ctx exs ps pe) w =
      (Inr resp, w)" "resp_content resp = ''SELECT a FROM t''" using example_ops_fields(1) by blast
  with t show ?thesis by (simp add: generate_sql_def example_env_fields)
qed

lemma example_turn_first:
  "\<exists>att. ask_turn example_query_env c example_query_ops 3 q p loc [] [] [] (0, db) =
     (AskAgain [att] ''SELECT a FROM t'' ''lock wait timeout'', (1, db)) \<and> aa_error att = ''lock wait timeout''"
proof -
  obtain res where "qo_execute example_query_ops 3 ''SELECT a FROM t LIMIT 1000'' 0 = (Inr res, 1)"
    "eq_error_code res = []" "eq_error res = ''lock wait timeout''" "eq_error_reason res = []"
    using example_ops_fields(2) [of 3 "''SELECT a FROM t LIMIT 1000''" 0] by auto
  then show ?thesis
    by (simp add: ask_turn_def example_generate example_env_fields example_guard Let_def
        format_execution_error_def code_permission_denied_def)
qed

lemma example_prepare:
  obtains p db where "prepare_ask_question example_query_env example_query_controller 3 ''u'' ''how many?''
      (hd (lw_schemas example_ask_tables)) LocaleEnglish example_ask_tables empty_query_db = (Inr p, db)"
    "ar_query_run_id (pq_result p) = 7" "map qr_id (qd_runs db) = [7]"
proof -
  obtain ctx where ctx: "resolve_prompt_context example_query_env 3 (hd (lw_schemas example_ask_tables))
      LocaleEnglish example_ask_tables = Inr (ctx, [warn_used_raw_schema LocaleEnglish])"
    using example_ask_context by blast
  have vid: "sv_id (hd (lw_schemas example_ask_tables)) = 5" by (simp add: example_ask_tables_def)
  show ?thesis
    using that ctx example_ask_steps(2) vid
    by (auto simp: prepare_ask_question_def create_query_run_def example_env_fields Let_def
        empty_query_db_def run_of_row_def tenant_query_run.truncate_def)
qed

lemma example_ask_value:
  "map qr_status (qd_runs (snd (snd example_ask))) = [RunSucceeded]"
  "snd (fst example_ask) = None"
  "map aa_error (ar_attempts (fst (fst example_ask))) = [''lock wait timeout'', []]"
proof -
  obtain p db where p: "prepare_ask_question example_query_env example_query_controller 3 ''u'' ''how many?''
      (hd (lw_schemas example_ask_tables)) LocaleEnglish example_ask_tables empty_query_db = (Inr p, db)"
    "ar_query_run_id (pq_result p) = 7" "map qr_id (qd_runs db) = [7]" by (rule example_prepare)
  obtain att where turn: "ask_turn example_query_env example_query_controller example_query_ops 3 ''how many?'' p
      LocaleEnglish [] [] [] (0, db) = (AskAgain [att] ''SELECT a FROM t'' ''lock wait timeout'', (1, db))"
    "aa_error att = ''lock wait timeout''" using example_turn_first by blast
  obtain res where res: "qo_execute example_query_ops 3 ''SELECT a FROM t LIMIT 1000'' 1 = (Inr res, 2)"
    "eq_error res = []"
    using example_ops_fields(2) [of 3 "''SELECT a FROM t LIMIT 1000''" 1] by auto
  obtain row where row: "qd_runs db = [row]" "qr_id row = 7" using p(3) by auto
  obtain summ where summ: "summarize example_query_env example_query_controller example_query_ops ''how many?''
      ''SELECT a FROM t LIMIT 1000'' res 2 = (summ, 2)"
  proof -
    obtain resp where "qo_complete example_query_ops (summary_request example_query_env example_query_controller
        ''how many?'' ''SELECT a FROM t LIMIT 1000'' res) 2 = (Inr resp, 2)" using example_ops_fields(1) by blast
    then show ?thesis using that by (simp add: summarize_def)
  qed
  have ex: "example_ask = ask_loop example_query_env example_query_controller example_query_ops 3 ''how many?'' p
      LocaleEnglish (Suc 0) [att] ''SELECT a FROM t'' ''lock wait timeout'' (1, db)"
    using example_ask_steps(1) p(1) turn(1)
    by (simp add: example_ask_def ask_question_def execute_ask_pipeline_def max_attempts_def numeral_2_eq_2)
  show "map qr_status (qd_runs (snd (snd example_ask))) = [RunSucceeded]"
    "snd (fst example_ask) = None"
    "map aa_error (ar_attempts (fst (fst example_ask))) = [''lock wait timeout'', []]"
    unfolding ex using res summ row p(2) turn(2)
    by (simp_all add: ask_turn_def example_generate example_env_fields example_guard Let_def
        complete_successful_ask_def complete_succeeded_def complete_run_def numeral_2_eq_2)
qed

text \<open>A model that does not answer: the question ends after the one request.\<close>

definition silent_ops :: "nat query_ops" where
  "silent_ops = example_query_ops\<lparr>qo_complete := (\<lambda>r w. (Inl ContextCanceled, w))\<rparr>"

text \<open>The same question, cancelled before its run is closed.\<close>

definition cancelled_env :: "unit query_env" where
  "cancelled_env = example_query_env\<lparr>qe_io := (\<lambda>k. if k = CompleteRunCall then Some ContextCanceled else None)\<rparr>"

lemma cancelled_env_fields:
  "qe_io cancelled_env k = (if k = CompleteRunCall then Some ContextCanceled else None)"
  "qe_run_id cancelled_env = 7"
  by (simp_all add: cancelled_env_def example_env_fields)

lemma cancelled_ask:
  "ar_query_run_id (fst (fst (ask_question cancelled_env example_query_controller silent_ops 3 ''u'' ''how many?''
     LocaleEnglish example_ask_tables (0, empty_query_db)))) = 7"
proof -
  have steps: "validate_ask_request cancelled_env 3 ''u'' ''how many?'' example_ask_tables =
      Inr (''how many?'', hd (lw_schemas example_ask_tables))"
    "resolve_retrieved_examples cancelled_env example_query_controller 3 5 ''how many?'' empty_query_db = Inr []"
    by code_simp+
  obtain ctx where ctx: "resolve_prompt_context cancelled_env 3 (hd (lw_schemas example_ask_tables))
      LocaleEnglish example_ask_tables = Inr (ctx, [warn_used_raw_schema LocaleEnglish])"
    using example_ask_context by (auto simp: resolve_prompt_context_def cancelled_env_def example_query_env_def
        example_ask_tables_def latest_approved_by_schema_version_def latest_draft_by_schema_version_def select_layer_def)
  have vid: "sv_id (hd (lw_schemas example_ask_tables)) = 5" by (simp add: example_ask_tables_def)
  obtain p db where "prepare_ask_question cancelled_env example_query_controller 3 ''u'' ''how many?''
      (hd (lw_schemas example_ask_tables)) LocaleEnglish example_ask_tables empty_query_db = (Inr p, db)"
    "ar_query_run_id (pq_result p) = 7"
    using ctx steps(2) vid
    by (auto simp: prepare_ask_question_def create_query_run_def cancelled_env_fields Let_def
        empty_query_db_def run_of_row_def tenant_query_run.truncate_def)
  with steps(1) show ?thesis
    by (simp add: ask_question_def execute_ask_pipeline_def max_attempts_def numeral_2_eq_2 ask_turn_def
        generate_sql_def silent_ops_def Let_def fail_ask_question_def split: prod.splits option.splits)
qed

theorem question_runs_are_closed_witness:
  "closed_run example_query_env empty_query_db 3 ''u'' (fst example_ask) (snd (snd example_ask)) \<and>
   map qr_status (qd_runs (snd (snd example_ask))) = [RunSucceeded] \<and>
   (\<exists>out db. left_running cancelled_env empty_query_db 3 ''u'' ContextCanceled out db)"
proof -
  have run: "ask_question example_query_env example_query_controller example_query_ops 3 ''u'' ''how many?''
      LocaleEnglish example_ask_tables (0, empty_query_db) =
      (fst example_ask, (fst (snd example_ask), snd (snd example_ask)))"
    by (simp add: example_ask_def)
  obtain out w' db where cut: "ask_question cancelled_env example_query_controller silent_ops 3 ''u'' ''how many?''
      LocaleEnglish example_ask_tables (0, empty_query_db) = (out, (w', db))" by (metis prod.exhaust)
  have ids: "qe_run_id example_query_env \<noteq> uuid_nil" "qe_run_id cancelled_env \<noteq> uuid_nil"
    by (simp_all add: example_env_fields cancelled_env_fields uuid_nil_def)
  from question_runs_are_closed [OF ids(1) run] example_ask_value(2)
  have "closed_run example_query_env empty_query_db 3 ''u'' (fst example_ask) (snd (snd example_ask))"
    by (simp add: example_env_fields)
  moreover from question_runs_are_closed [OF ids(2) cut] cancelled_ask cut
  have "left_running cancelled_env empty_query_db 3 ''u'' ContextCanceled out db"
    by (simp add: cancelled_env_fields uuid_nil_def)
  ultimately show ?thesis using example_ask_value(1) by blast
qed

theorem prompts_show_tenant_data_witness:
  "is_member 3 ''u'' (lw_tenants example_ask_tables) \<and>
   ask_trace example_query_env example_query_controller silent_ops 3 ''u'' ''how many?'' LocaleEnglish
     example_ask_tables 0 empty_query_db \<noteq> []"
proof -
  let ?tr = "ask_trace example_query_env example_query_controller silent_ops 3 ''u'' ''how many?''
      LocaleEnglish example_ask_tables 0 empty_query_db"
  obtain p db where p: "prepare_ask_question example_query_env example_query_controller 3 ''u'' ''how many?''
      (hd (lw_schemas example_ask_tables)) LocaleEnglish example_ask_tables empty_query_db = (Inr p, db)"
    by (rule example_prepare)
  have "?tr \<noteq> []"
    using example_ask_steps(1) p
    by (simp add: ask_trace_def ask_question_def execute_ask_pipeline_def max_attempts_def numeral_2_eq_2
        ask_turn_def generate_sql_def silent_ops_def Let_def log_query_ops_def split: prod.splits)
  from prompts_show_tenant_data [OF this] this show ?thesis by blast
qed

end
