(* ===== verification/StarterQuestions.thy ===== *)
theory StarterQuestions
  imports QueryPrompts
begin

text \<open>
  The starter questions of a tenant: controller/starter_questions.go, starter_questions_validator.go,
  prompts_starter.go and repository/starter_questions.go. The table is a list of rows in insertion
  order. The language model is an operation on a world \<open>'w\<close>; JSON, \<open>strconv.Quote\<close>, the clock,
  the ids drawn and the errors of statements are fields of the environment of a call.
\<close>

section \<open>unicode/utf8\<close>

text \<open>\<open>ValidString\<close> and \<open>RuneCountInString\<close>: an invalid byte counts as one rune.\<close>

function valid_utf8 :: "string \<Rightarrow> bool" where
  "valid_utf8 s =
     (if s = [] then True else if rune_len s = 0 then False else valid_utf8 (drop (rune_len s) s))"
  by pat_completeness auto
termination by (relation "measure length") auto

function rune_count :: "string \<Rightarrow> nat" where
  "rune_count s = (if s = [] then 0 else Suc (rune_count (drop (max 1 (rune_len s)) s)))"
  by pat_completeness auto
termination by (relation "measure length") auto

declare valid_utf8.simps [simp del] rune_count.simps [simp del]

section \<open>prompts_starter.go\<close>

definition starter_prompt_korean :: string where
  "starter_prompt_korean =
      nl @ utf8 [45817, 49888, 51008, 32, 54620, 44397, 32] @ ''SMB'' @
      utf8 [51032, 32, 45936, 51060, 53552, 32, 48516, 49437, 44032, 51077, 45768, 45796] @
      ''. '' @ utf8 [51452, 50612, 51652, 32, 49884, 47592, 54001, 32, 47112, 51060, 50612] @
      ''('' @ utf8 [53580, 51060, 48660] @ ''/'' @ utf8 [52972, 47100] @ ''/'' @
      utf8 [48708, 51592, 45768, 49828, 32, 51032, 48120] @ '')'' @
      utf8 [47564, 32, 49324, 50857, 54644] @ nl @
      utf8 [49324, 50857, 51088, 44032, 32, 52395, 32, 54868, 47732, 50640, 49436, 32, 48148,
        47196, 32, 53364, 47533, 54624, 32, 47564, 54620, 32, 50976, 50857, 54620, 32, 51656,
        47928, 32] @ ''10'' @ utf8 [44060, 47484, 32, 47564, 46317, 45768, 45796] @ ''.'' @ nl @
      nl @ utf8 [44508, 52825] @ '':'' @ nl @ ''- '' @
      utf8 [51656, 47928, 51008, 32, 54620, 44397, 50612, 47196, 32, 51089, 49457, 54616, 44256,
        32, 44033, 32, 51656, 47928, 51008, 32] @ ''80'' @
      utf8 [51088, 32, 51060, 45236, 47196, 32, 44036, 44208, 54644, 50556, 32, 54633, 45768,
        45796] @ ''.'' @ nl @ ''- '' @
      utf8 [49884, 47592, 54001, 32, 47112, 51060, 50612, 50640, 32, 51316, 51116, 54616, 45716,
        32, 53580, 51060, 48660, 44284, 32, 52972, 47100, 47564, 32, 49324, 50857, 54616, 49464,
        50836] @ ''. '' @
      utf8 [51316, 51116, 54616, 51648, 32, 50506, 45716, 32, 53580, 51060, 48660, 51008, 32,
        51208, 45824, 32, 47564, 46308, 51648, 32, 47560, 49464, 50836] @ ''.'' @ nl @ ''- 10'' @
      utf8 [44060, 32, 51656, 47928, 51008, 32, 49436, 47196, 32, 45796, 47480, 32, 53580, 51060,
        48660, 51012, 32, 44032, 45733, 54620, 32, 54620, 32, 47566, 51060, 32, 45796, 47364,
        50556, 32, 54616, 47728] @ ''('' @
      utf8 [44032, 50857, 32, 53580, 51060, 48660, 51060, 32] @ ''5'' @
      utf8 [44060, 32, 51060, 49345, 51060, 47732, 32, 52572, 49548, 32] @ ''5'' @ utf8 [44060] @
      ''),'' @ nl @ ''  '' @
      utf8 [51665, 44228, 32, 54805, 53468, 46020, 32, 45796, 50577, 54644, 50556, 32, 54633,
        45768, 45796] @ '': '' @ utf8 [52572, 49548, 32] @ ''3'' @
      utf8 [44032, 51648, 32, 51060, 49345, 51012, 32, 54252, 54632] @ ''.'' @ nl @ ''- '' @
      utf8 [51665, 44228, 32, 54805, 53468] @ ''(category) '' @ utf8 [54728, 50857, 44050] @
      '': count, trend, top_n, latest, comparison, anomaly.'' @ nl @ ''- '' @
      utf8 [44033, 32, 51656, 47928, 47560, 45796, 32, 51452, 47196, 32, 45796, 47336, 45716, 32,
        53580, 51060, 48660, 51012, 32] @ ''primary_table'' @
      utf8 [47196, 32, 54364, 44592, 54633, 45768, 45796] @ ''.'' @ nl @ nl @
      utf8 [51025, 45813, 51008, 32, 48152, 46300, 49884, 32] @ ''JSON '' @
      utf8 [49828, 53412, 47560, 50640, 32, 47582, 52628, 50612, 32, 48152, 54872, 54616, 49464,
        50836] @ ''.'' @ nl"

definition starter_prompt_english :: string where
  "starter_prompt_english =
      nl @ ''You are a data analyst for a small-to-medium business. Using onl'' @
      ''y the provided semantic layer'' @ nl @
      ''(tables, columns, business meanings), produce 10 useful question'' @
      ''s a user can click on the landing screen.'' @ nl @ nl @ ''Rules:'' @ nl @
      ''- Write the questions in English and keep each under 80 characters.'' @ nl @
      ''- Only use tables and columns that exist in the semantic layer. '' @
      ''Never invent tables.'' @ nl @
      ''- The 10 questions should cover as many different tables as poss'' @
      ''ible (at least 5 if 5+ tables are available),'' @ nl @
      ''  and the aggregation style should vary '' @ utf8 [8212, 32] @
      ''include at least 3 different categories.'' @ nl @
      ''- Allowed category values: count, trend, top_n, latest, comparison, anomaly.'' @ nl @
      ''- For each question, set primary_table to the table it mainly reads from.'' @ nl @ nl @
      ''Respond strictly as structured JSON per the provided schema.'' @ nl"

fun starter_questions_system_prompt :: "locale_tag \<Rightarrow> string" where
  "starter_questions_system_prompt LocaleEnglish = starter_prompt_english"
| "starter_questions_system_prompt LocaleKorean = starter_prompt_korean"

fun starter_prompt_header :: "locale_tag \<Rightarrow> string" where
  "starter_prompt_header LocaleKorean =
      utf8 [45796, 51020, 51008, 32, 49849, 51064, 46108, 32, 49884, 47592, 54001, 32, 47112,
        51060, 50612, 32] @ ''JSON'' @ utf8 [51077, 45768, 45796] @ ''.'' @ nl @
      utf8 [51060, 32] @ ''JSON'' @
      utf8 [50640, 32, 46308, 50612, 32, 51080, 45716, 32, 53580, 51060, 48660] @ '', '' @
      utf8 [52972, 47100] @ '', '' @ utf8 [50644, 53552, 54000] @ '', '' @
      utf8 [51648, 54364, 47564, 32, 44540, 44144, 47196, 32, 49884, 51089, 32, 51656, 47928,
        51012, 32, 47564, 46300, 49464, 50836] @ ''.'' @ nl @ nl @
      utf8 [52628, 44032, 32, 44508, 52825] @ '':'' @ nl @ ''- '' @
      utf8 [51656, 47928, 51008, 32, 53364, 47533, 32, 51593, 49884, 32, 49892, 54665, 46112, 32,
        49688, 32, 51080, 51012, 32, 47564, 53372, 32, 44396, 52404, 51201, 51060, 50612, 50556,
        32, 54633, 45768, 45796] @ ''.'' @ nl @ ''- primary_table'' @
      utf8 [51008, 32, 48152, 46300, 49884, 32] @ ''tables[].table_name '' @
      utf8 [51473, 32, 54616, 45208, 47484, 32, 44536, 45824, 47196, 32, 49324, 50857, 54616,
        49464, 50836] @ ''.'' @ nl @ ''- '' @ utf8 [49444, 47749, 47928] @ '', '' @
      utf8 [47560, 53356, 45796, 50868] @ '', '' @
      utf8 [53076, 46300, 32, 48660, 47197, 32, 50630, 51060, 32, 44396, 51312, 54868, 46108, 32,
        45936, 51060, 53552, 47564, 32, 48152, 54872, 54616, 49464, 50836] @ ''.'' @ nl @ nl @
      utf8 [49884, 47592, 54001, 32, 47112, 51060, 50612, 32] @ ''JSON:''"
| "starter_prompt_header LocaleEnglish =
      ''Below is the approved semantic layer as JSON.'' @ nl @
      ''Generate the starter questions using only the tables, columns, e'' @
      ''ntities, and metrics found in this JSON.'' @ nl @ nl @ ''Additional rules:'' @ nl @
      ''- Each question must be concrete enough that it can be executed '' @
      ''immediately on click.'' @ nl @
      ''- primary_table must exactly match one of tables[].table_name.'' @ nl @
      ''- Return only the structured data '' @ utf8 [8212, 32] @
      ''no prose, markdown, or code blocks.'' @ nl @ nl @ ''Semantic layer JSON:''"

text \<open>The body of a content that cannot be encoded is empty.\<close>

definition build_starter_user_prompt ::
  "(semantic_layer_content \<Rightarrow> gerr + string) \<Rightarrow> semantic_layer_content \<Rightarrow> locale_tag \<Rightarrow> string" where
  "build_starter_user_prompt marshal layer loc =
     starter_prompt_header loc @ nl @ (case marshal layer of Inl _ \<Rightarrow> [] | Inr body \<Rightarrow> body)"

definition build_starter_retry_prompt :: "string \<Rightarrow> locale_tag \<Rightarrow> string" where
  "build_starter_retry_prompt feedback loc =
     (let f = trim_space feedback in
      if f = [] then []
      else if loc = LocaleEnglish then
        nl @ nl @ ''Previous output failed validation:'' @ nl @ f @
        nl @ ''Rewrite all 10 questions addressing the errors above.''
      else
        nl @ nl @ utf8 [51649, 51204, 32, 52636, 47141, 32, 44160, 51613, 32, 49892, 54056] @
        '':'' @ nl @ f @
        nl @
        utf8 [50948, 32, 50724, 47448, 47484, 32, 48152, 50689, 54644, 32, 51204, 52404, 32] @
        ''10'' @ utf8 [44060, 47484, 32, 45796, 49884, 32, 51089, 49457, 54616, 49464, 50836] @
        ''.'')"

definition starter_retry_decode_feedback :: "locale_tag \<Rightarrow> gerr \<Rightarrow> string" where
  "starter_retry_decode_feedback loc e =
     (if loc = LocaleEnglish then ''Failed to decode response JSON: '' @ err_text e
      else utf8 [51025, 45813, 32] @ ''JSON'' @
        utf8 [51012, 32, 46356, 53076, 46300, 54624, 32, 49688, 32, 50630, 49845, 45768, 45796] @
        '': '' @ err_text e)"

section \<open>Categories and the output schema\<close>

fun starter_category_text :: "starter_category \<Rightarrow> string" where
  "starter_category_text CategoryCount = ''count''"
| "starter_category_text CategoryTrend = ''trend''"
| "starter_category_text CategoryTopN = ''top_n''"
| "starter_category_text CategoryLatest = ''latest''"
| "starter_category_text CategoryComparison = ''comparison''"
| "starter_category_text CategoryAnomaly = ''anomaly''"

definition starter_question_category_values :: "string list" where
  "starter_question_category_values = map starter_category_text
     [CategoryCount, CategoryTrend, CategoryTopN, CategoryLatest, CategoryComparison, CategoryAnomaly]"

definition starter_questions_output_schema :: json where
  "starter_questions_output_schema =
     (let string_schema = JObject [(''type'', JString ''string'')] in
      JObject [(''type'', JString ''object''),
        (''properties'', JObject [(''questions'', JObject [(''type'', JString ''array''),
           (''minItems'', JInt 10), (''maxItems'', JInt 10),
           (''items'', JObject [(''type'', JString ''object''),
              (''properties'', JObject
                [(''text'', JObject [(''type'', JString ''string''), (''maxLength'', JInt 80)]),
                 (''category'', JObject [(''type'', JString ''string''),
                    (''enum'', jstrings starter_question_category_values)]),
                 (''primary_table'', string_schema)]),
              (''required'', jstrings [''text'', ''category'', ''primary_table'']),
              (''additionalProperties'', JBool False)])])]),
        (''required'', jstrings [''questions'']),
        (''additionalProperties'', JBool False)])"

lemma starter_questions_output_schema_strict: "strict_schema 4 starter_questions_output_schema"
  by code_simp

section \<open>starter_questions_validator.go\<close>

record starter_candidate =
  sc_text :: string
  sc_category :: string
  sc_primary_table :: string

definition normalize_starter_candidates :: "starter_candidate list \<Rightarrow> starter_candidate list" where
  "normalize_starter_candidates questions =
     map (\<lambda>q. \<lparr>sc_text = trim_space (sc_text q), sc_category = trim_space (sc_category q),
                sc_primary_table = trim_space (sc_primary_table q)\<rparr>) questions"

text \<open>The keys of the map \<open>validTables\<close>, each once.\<close>

definition valid_tables :: "semantic_layer_content \<Rightarrow> string list" where
  "valid_tables layer =
     remdups (filter (\<lambda>n. n \<noteq> []) (map (\<lambda>t. trim_space (smt_table_name t)) (slc_tables layer)))"

definition validate_starter_question ::
  "(string \<Rightarrow> string) \<Rightarrow> string list \<Rightarrow> nat \<Rightarrow> starter_candidate \<Rightarrow> gerr option" where
  "validate_starter_question quote tables index q =
     (let question = ''question '' @ itoa (int index + 1);
          txt = trim_space (sc_text q);
          category = trim_space (sc_category q);
          table = trim_space (sc_primary_table q)
      in if \<not> valid_utf8 txt then Some (ErrNew (question @ '' text must be valid UTF-8''))
         else if txt = [] then Some (ErrNew (question @ '' text is required''))
         else if rune_count txt > 80 then Some (ErrNew (question @ '' text exceeds 80 characters''))
         else if category \<notin> set starter_question_category_values then
           Some (ErrNew (question @ '' category '' @ quote category @ '' is invalid''))
         else if table \<notin> set tables then
           Some (ErrNew (question @ '' primary_table '' @ quote table @ '' is not in the semantic layer''))
         else None)"

fun validate_each ::
  "(string \<Rightarrow> string) \<Rightarrow> string list \<Rightarrow> nat \<Rightarrow> starter_candidate list \<Rightarrow> gerr option" where
  "validate_each quote tables index [] = None"
| "validate_each quote tables index (q # qs) =
     (case validate_starter_question quote tables index q of
        Some e \<Rightarrow> Some e
      | None \<Rightarrow> validate_each quote tables (Suc index) qs)"

definition validate_starter_questions ::
  "(string \<Rightarrow> string) \<Rightarrow> starter_candidate list \<Rightarrow> semantic_layer_content \<Rightarrow> gerr option" where
  "validate_starter_questions quote questions layer =
     (if slc_tables layer = [] then Some (ErrNew ''semantic layer must contain at least one table'')
      else if length questions \<noteq> 10 then
        Some (ErrNew (''expected exactly 10 questions, got '' @ itoa (int (length questions))))
      else if valid_tables layer = [] then
        Some (ErrNew ''semantic layer must contain at least one named table'')
      else
        (case validate_each quote (valid_tables layer) 0 questions of
           Some e \<Rightarrow> Some e
         | None \<Rightarrow>
             (let categories = card (set (map (\<lambda>q. trim_space (sc_category q)) questions));
                  tables = card (set (map (\<lambda>q. trim_space (sc_primary_table q)) questions));
                  min_tables = min 5 (length (valid_tables layer))
              in if categories < 3 then
                   Some (ErrNew (''expected at least 3 distinct categories, got '' @ itoa (int categories)))
                 else if tables < min_tables then
                   Some (ErrNew (''expected at least '' @ itoa (int min_tables) @
                     '' distinct primary tables, got '' @ itoa (int tables)))
                 else None)))"

section \<open>repository/starter_questions.go\<close>

text \<open>
  The statements that can fail, by call; the inserts of a set by the position of the question. The
  two readings of the active set are told apart.
\<close>

datatype starter_call =
    StarterMembershipCall | StarterLatestCall | StarterReadBackCall | StarterLayerCall
  | StarterBeginCall | StarterDeactivateCall | StarterInsertCall nat | StarterCommitCall

definition deactivate_starter_sets ::
  "gerr option \<Rightarrow> uuid \<Rightarrow> starter_question list \<Rightarrow> gerr + starter_question list" where
  "deactivate_starter_sets io tid rows =
     (case io of
        Some e \<Rightarrow> Inl (Wrapped ''deactivate starter question sets'' e)
      | None \<Rightarrow> Inr (update_where (\<lambda>q. sq_tenant_id q = tid \<and> sq_is_active q)
          (\<lambda>q. q\<lparr>sq_is_active := False\<rparr>) rows))"

text \<open>
  A row is refused when its id is taken or its set has a question at its position. The time of a
  row is that of the transaction.
\<close>

fun insert_starter_set ::
  "(nat \<Rightarrow> gerr option) \<Rightarrow> nat \<Rightarrow> time \<Rightarrow> uuid \<Rightarrow> uuid \<Rightarrow> uuid \<Rightarrow> starter_question list \<Rightarrow>
   starter_question list \<Rightarrow> gerr + starter_question list" where
  "insert_starter_set io i now tid layer_id set_id [] rows = Inr rows"
| "insert_starter_set io i now tid layer_id set_id (q # qs) rows =
     (case io i of
        Some e \<Rightarrow> Inl (Wrapped ''insert starter question'' e)
      | None \<Rightarrow>
          (if list_ex (\<lambda>r. sq_id r = sq_id q \<or> (sq_set_id r = set_id \<and> sq_ordinal r = sq_ordinal q)) rows
           then Inl (Wrapped ''insert starter question'' unique_violation)
           else insert_starter_set io (Suc i) now tid layer_id set_id qs
             (rows @ [q\<lparr>sq_set_id := set_id, sq_tenant_id := tid, sq_semantic_layer_id := layer_id,
                        sq_created_at := now\<rparr>])))"

text \<open>A transaction: nothing is kept when the body or the commit fails.\<close>

definition starter_transaction ::
  "(starter_call \<Rightarrow> gerr option) \<Rightarrow> (starter_question list \<Rightarrow> gerr + starter_question list) \<Rightarrow>
   starter_question list \<Rightarrow> gerr option \<times> starter_question list" where
  "starter_transaction io body rows =
     (case io StarterBeginCall of
        Some e \<Rightarrow> (Some e, rows)
      | None \<Rightarrow>
          (case body rows of
             Inl e \<Rightarrow> (Some e, rows)
           | Inr rows' \<Rightarrow>
               (case io StarterCommitCall of Some e \<Rightarrow> (Some e, rows) | None \<Rightarrow> (None, rows'))))"

definition insert_set ::
  "(starter_call \<Rightarrow> gerr option) \<Rightarrow> time \<Rightarrow> uuid \<Rightarrow> uuid \<Rightarrow> uuid \<Rightarrow> starter_question list \<Rightarrow>
   starter_question list \<Rightarrow> gerr option \<times> starter_question list" where
  "insert_set io now tid layer_id set_id qs rows =
     starter_transaction io
       (insert_starter_set (\<lambda>i. io (StarterInsertCall i)) 0 now tid layer_id set_id qs) rows"

definition replace_active_set ::
  "(starter_call \<Rightarrow> gerr option) \<Rightarrow> time \<Rightarrow> uuid \<Rightarrow> uuid \<Rightarrow> uuid \<Rightarrow> starter_question list \<Rightarrow>
   starter_question list \<Rightarrow> gerr option \<times> starter_question list" where
  "replace_active_set io now tid layer_id set_id qs rows =
     starter_transaction io (\<lambda>rows.
       case deactivate_starter_sets (io StarterDeactivateCall) tid rows of
         Inl e \<Rightarrow> Inl e
       | Inr rows' \<Rightarrow>
           insert_starter_set (\<lambda>i. io (StarterInsertCall i)) 0 now tid layer_id set_id qs rows') rows"

definition active_starters :: "uuid \<Rightarrow> starter_question list \<Rightarrow> starter_question list" where
  "active_starters tid rows = filter (\<lambda>q. sq_tenant_id q = tid \<and> sq_is_active q) rows"

record starter_set =
  ss_questions :: "starter_question list"
  ss_set_id :: uuid
  ss_generated_at :: time
  ss_locale :: locale_tag

text \<open>The set of a scanned row replaces the remembered one while its time is the zero time.\<close>

definition scan_starters :: "starter_question list \<Rightarrow> starter_set" where
  "scan_starters qs =
     foldl (\<lambda>s q. (if ss_generated_at s = time_zero
                   then s\<lparr>ss_set_id := sq_set_id q, ss_generated_at := sq_created_at q,
                          ss_locale := sq_locale q\<rparr>
                   else s)\<lparr>ss_questions := ss_questions s @ [q]\<rparr>)
       \<lparr>ss_questions = [], ss_set_id = uuid_nil, ss_generated_at = time_zero, ss_locale = LocaleKorean\<rparr> qs"

definition latest_active ::
  "gerr option \<Rightarrow> uuid \<Rightarrow> starter_question list \<Rightarrow> gerr + starter_set" where
  "latest_active io tid rows =
     (case io of
        Some e \<Rightarrow> Inl (Wrapped ''select starter questions'' e)
      | None \<Rightarrow>
          (case sort_key (\<lambda>q. (- sq_created_at q, sq_ordinal q)) (active_starters tid rows) of
             [] \<Rightarrow> Inl err_not_found
           | latest # _ \<Rightarrow>
               Inr (scan_starters (sort_key sq_ordinal
                 (filter (\<lambda>q. sq_set_id q = sq_set_id latest) (active_starters tid rows))))))"

section \<open>controller/starter_questions.go\<close>

definition err_starter_questions_access_denied :: gerr where
  "err_starter_questions_access_denied =
     Sentinel ''controller.ErrStarterQuestionsAccessDenied'' ''not a member of this tenant''"
definition err_starter_questions_no_layer :: gerr where
  "err_starter_questions_no_layer =
     Sentinel ''controller.ErrStarterQuestionsNoLayer'' ''approved semantic layer not found''"
definition err_starter_questions_invalid_llm :: gerr where
  "err_starter_questions_invalid_llm =
     Sentinel ''controller.ErrStarterQuestionsInvalidLLM'' ''starter questions output is invalid''"

record starter_config =
  sg_model :: string
  sg_provider_models :: "(string \<times> string) list"
  sg_max_tokens :: int

record starter_controller =
  sk_model :: string
  sk_provider_models :: "string \<rightharpoonup> string"
  sk_max_tokens :: int

definition new_starter_controller :: "starter_config \<Rightarrow> starter_controller" where
  "new_starter_controller cfg =
     \<lparr>sk_model = (if trim_space (sg_model cfg) = [] then ''claude-sonnet-4-6'' else trim_space (sg_model cfg)),
      sk_provider_models = clone_provider_models (sg_provider_models cfg),
      sk_max_tokens = (if sg_max_tokens cfg \<le> 0 then 2048 else sg_max_tokens cfg)\<rparr>"

record starter_env =
  se_io :: "starter_call \<Rightarrow> gerr option"
  se_db_now :: time
  se_set_id :: uuid
  se_ids :: "nat \<Rightarrow> uuid"
  se_codec :: content_codec
  se_decode :: "string \<Rightarrow> gerr + starter_candidate list"
  se_quote :: "string \<Rightarrow> string"

record starter_list_result =
  slr_questions :: "starter_question list"
  slr_generated_at :: time
  slr_set_id :: uuid

definition starter_request ::
  "starter_env \<Rightarrow> starter_controller \<Rightarrow> semantic_layer_content \<Rightarrow> locale_tag \<Rightarrow> string \<Rightarrow> completion_request"
where
  "starter_request env c content loc feedback =
     \<lparr>req_system = starter_questions_system_prompt loc,
      req_messages = [\<lparr>msg_role = ''user'', msg_content = build_starter_retry_prompt feedback loc,
        msg_cached_content = build_starter_user_prompt (cc_encode_content (se_codec env)) content loc\<rparr>],
      req_operation = ''starter_questions.generate'', req_model = sk_model c,
      req_provider_models = sk_provider_models c, req_max_tokens = sk_max_tokens c,
      req_output_format = Some (''starter_questions'', starter_questions_output_schema),
      req_cache_control = Some (''ephemeral'', ''1h'')\<rparr>"

text \<open>The attempts still to be made, by their number.\<close>

fun starter_attempts ::
  "starter_env \<Rightarrow> starter_controller \<Rightarrow> (completion_request \<Rightarrow> 'w \<Rightarrow> (gerr + completion_response) \<times> 'w) \<Rightarrow>
   semantic_layer_content \<Rightarrow> locale_tag \<Rightarrow> nat list \<Rightarrow> string \<Rightarrow> 'w \<Rightarrow> (gerr + starter_candidate list) \<times> 'w"
where
  "starter_attempts env c complete content loc [] feedback w =
     (Inl (Annotated err_starter_questions_invalid_llm ''retry budget exhausted''), w)"
| "starter_attempts env c complete content loc (attempt # rest) feedback w =
     (case complete (starter_request env c content loc feedback) w of
        (Inl e, w') \<Rightarrow> (Inl e, w')
      | (Inr completion, w') \<Rightarrow>
          (case se_decode env (resp_content completion) of
             Inl e \<Rightarrow>
               (let feedback' = starter_retry_decode_feedback loc e in
                if attempt = 0 then starter_attempts env c complete content loc rest feedback' w'
                else (Inl (Annotated err_starter_questions_invalid_llm feedback'), w'))
           | Inr questions \<Rightarrow>
               (let normalized = normalize_starter_candidates questions in
                case validate_starter_questions (se_quote env) normalized content of
                  Some e \<Rightarrow>
                    (if attempt = 0 then starter_attempts env c complete content loc rest (err_text e) w'
                     else (Inl (Annotated err_starter_questions_invalid_llm (err_text e)), w'))
                | None \<Rightarrow> (Inr normalized, w'))))"

definition generate_starters ::
  "starter_env \<Rightarrow> starter_controller \<Rightarrow> (completion_request \<Rightarrow> 'w \<Rightarrow> (gerr + completion_response) \<times> 'w) \<Rightarrow>
   uuid \<Rightarrow> locale_tag \<Rightarrow> layer_world \<Rightarrow> 'w \<Rightarrow> (gerr + tenant_semantic_layer \<times> starter_candidate list) \<times> 'w"
where
  "generate_starters env c complete tid loc tables w =
     (case latest_approved_by_tenant (se_io env StarterLayerCall) tid (lw_layers tables) of
        Inl e \<Rightarrow> (Inl (if errors_is e err_not_found then err_starter_questions_no_layer else e), w)
      | Inr layer \<Rightarrow>
          (case cc_decode_content (se_codec env) (sl_content layer) of
             Inl e \<Rightarrow> (Inl (Wrapped ''decode semantic layer content'' e), w)
           | Inr content \<Rightarrow>
               (case starter_attempts env c complete content loc [0, 1] [] w of
                  (Inl e, w') \<Rightarrow> (Inl e, w')
                | (Inr candidates, w') \<Rightarrow> (Inr (layer, candidates), w'))))"

definition starter_rows ::
  "starter_env \<Rightarrow> uuid \<Rightarrow> uuid \<Rightarrow> locale_tag \<Rightarrow> starter_candidate list \<Rightarrow> starter_question list" where
  "starter_rows env tid layer_id loc candidates =
     map (\<lambda>(i, q). \<lparr>sq_id = se_ids env i, sq_set_id = se_set_id env, sq_tenant_id = tid,
        sq_semantic_layer_id = layer_id, sq_ordinal = int i + 1, sq_text = trim_space (sc_text q),
        sq_category = trim_space (sc_category q), sq_primary_table = trim_space (sc_primary_table q),
        sq_locale = loc, sq_created_at = time_zero, sq_is_active = True\<rparr>) (enumerate 0 candidates)"

definition list_result_of :: "starter_set \<Rightarrow> starter_list_result" where
  "list_result_of s = \<lparr>slr_questions = ss_questions s, slr_generated_at = ss_generated_at s,
     slr_set_id = ss_set_id s\<rparr>"

definition generate_and_persist ::
  "starter_env \<Rightarrow> starter_controller \<Rightarrow> (completion_request \<Rightarrow> 'w \<Rightarrow> (gerr + completion_response) \<times> 'w) \<Rightarrow>
   uuid \<Rightarrow> locale_tag \<Rightarrow> layer_world \<Rightarrow> 'w \<times> starter_question list \<Rightarrow>
   (gerr + starter_list_result) \<times> 'w \<times> starter_question list" where
  "generate_and_persist env c complete tid loc tables s =
     (case s of (w, rows) \<Rightarrow>
       (case generate_starters env c complete tid loc tables w of
          (Inl e, w') \<Rightarrow> (Inl e, (w', rows))
        | (Inr (layer, candidates), w') \<Rightarrow>
            (case replace_active_set (se_io env) (se_db_now env) tid (sl_id layer) (se_set_id env)
                (starter_rows env tid (sl_id layer) loc candidates) rows of
               (Some e, rows') \<Rightarrow> (Inl e, (w', rows'))
             | (None, rows') \<Rightarrow>
                 (case latest_active (se_io env StarterReadBackCall) tid rows' of
                    Inl e \<Rightarrow> (Inl e, (w', rows'))
                  | Inr persisted \<Rightarrow> (Inr (list_result_of persisted), (w', rows'))))))"

definition starter_membership :: "starter_env \<Rightarrow> uuid \<Rightarrow> string \<Rightarrow> layer_world \<Rightarrow> gerr option" where
  "starter_membership env tid user tables =
     (case ensure_membership (se_io env StarterMembershipCall) tid user (lw_tenants tables) of
        Inl e \<Rightarrow> Some (if errors_is e err_not_found then err_starter_questions_access_denied else e)
      | Inr _ \<Rightarrow> None)"

definition list_starter_questions ::
  "starter_env \<Rightarrow> starter_controller \<Rightarrow> (completion_request \<Rightarrow> 'w \<Rightarrow> (gerr + completion_response) \<times> 'w) \<Rightarrow>
   uuid \<Rightarrow> string \<Rightarrow> locale_tag \<Rightarrow> layer_world \<Rightarrow> 'w \<times> starter_question list \<Rightarrow>
   (gerr + starter_list_result) \<times> 'w \<times> starter_question list" where
  "list_starter_questions env c complete tid user loc tables s =
     (case starter_membership env tid user tables of
        Some e \<Rightarrow> (Inl e, s)
      | None \<Rightarrow>
          (case latest_active (se_io env StarterLatestCall) tid (snd s) of
             Inr cached \<Rightarrow>
               (if ss_locale cached = loc then (Inr (list_result_of cached), s)
                else generate_and_persist env c complete tid loc tables s)
           | Inl e \<Rightarrow>
               (if \<not> errors_is e err_not_found then (Inl e, s)
                else generate_and_persist env c complete tid loc tables s)))"

definition regenerate_starter_questions ::
  "starter_env \<Rightarrow> starter_controller \<Rightarrow> (completion_request \<Rightarrow> 'w \<Rightarrow> (gerr + completion_response) \<times> 'w) \<Rightarrow>
   uuid \<Rightarrow> string \<Rightarrow> locale_tag \<Rightarrow> layer_world \<Rightarrow> 'w \<times> starter_question list \<Rightarrow>
   (gerr + starter_list_result) \<times> 'w \<times> starter_question list" where
  "regenerate_starter_questions env c complete tid user loc tables s =
     (case starter_membership env tid user tables of
        Some e \<Rightarrow> (Inl e, s)
      | None \<Rightarrow> generate_and_persist env c complete tid loc tables s)"

section \<open>What validation accepts\<close>

definition valid_starter :: "string list \<Rightarrow> starter_candidate \<Rightarrow> bool" where
  "valid_starter tables q =
     (valid_utf8 (trim_space (sc_text q)) \<and> trim_space (sc_text q) \<noteq> [] \<and>
      rune_count (trim_space (sc_text q)) \<le> 80 \<and>
      trim_space (sc_category q) \<in> set starter_question_category_values \<and>
      trim_space (sc_primary_table q) \<in> set tables)"

lemma validate_starter_question_None:
  "validate_starter_question quote tables i q = None \<longleftrightarrow> valid_starter tables q"
  by (simp add: validate_starter_question_def valid_starter_def Let_def not_less)

lemma validate_each_None:
  "validate_each quote tables i qs = None \<longleftrightarrow> list_all (valid_starter tables) qs"
proof (induction qs arbitrary: i)
  case (Cons q qs)
  then show ?case
    using validate_starter_question_None [of quote tables i q]
    by (cases "validate_starter_question quote tables i q") simp_all
qed simp

lemma validate_starter_questions_None:
  "validate_starter_questions quote qs layer = None \<longleftrightarrow>
     valid_tables layer \<noteq> [] \<and> length qs = 10 \<and> list_all (valid_starter (valid_tables layer)) qs \<and>
     3 \<le> card (set (map (\<lambda>q. trim_space (sc_category q)) qs)) \<and>
     min 5 (length (valid_tables layer)) \<le> card (set (map (\<lambda>q. trim_space (sc_primary_table q)) qs))"
proof -
  have "slc_tables layer = [] \<Longrightarrow> valid_tables layer = []" by (simp add: valid_tables_def)
  then show ?thesis
    using validate_each_None [of quote "valid_tables layer" 0 qs]
    by (cases "validate_each quote (valid_tables layer) 0 qs")
      (auto simp: validate_starter_questions_def Let_def not_less)
qed

lemma starter_attempts_valid:
  "starter_attempts env c complete content loc ns feedback w = (Inr qs, w') \<Longrightarrow>
     validate_starter_questions (se_quote env) qs content = None"
  by (induction ns arbitrary: feedback w)
    (auto simp: Let_def split: prod.splits sum.splits option.splits if_splits)

text \<open>The requests of a call, kept next to the world.\<close>

definition log_complete ::
  "(completion_request \<Rightarrow> 'w \<Rightarrow> (gerr + completion_response) \<times> 'w) \<Rightarrow>
   completion_request \<Rightarrow> 'w \<times> completion_request list \<Rightarrow>
   (gerr + completion_response) \<times> 'w \<times> completion_request list" where
  "log_complete complete r s =
     (case s of (w, tr) \<Rightarrow> (case complete r w of (x, w') \<Rightarrow> (x, (w', tr @ [r]))))"

lemma starter_attempts_requests:
  "starter_attempts env c (log_complete complete) content loc ns feedback (w, tr) = (r, (w', tr')) \<Longrightarrow>
     length tr' \<le> length tr + length ns \<and> (ns \<noteq> [] \<longrightarrow> length tr < length tr')"
proof (induction ns arbitrary: feedback w tr)
  case (Cons n ns)
  obtain x w1 where step: "complete (starter_request env c content loc feedback) w = (x, w1)"
    by (metis prod.exhaust)
  have rest: "length tr' \<le> Suc (length tr) + length ns \<and> length tr < length tr'"
    if "starter_attempts env c (log_complete complete) content loc ns f
      (w1, tr @ [starter_request env c content loc feedback]) = (r, w', tr')" for f
    using Cons.IH [OF that] that by (cases "ns = []") auto
  from step have "log_complete complete (starter_request env c content loc feedback) (w, tr) =
      (x, (w1, tr @ [starter_request env c content loc feedback]))" by (simp add: log_complete_def)
  with Cons.prems rest show ?case
    by (cases x) (auto simp: Let_def split: sum.splits option.splits if_splits)
qed simp

section \<open>What the table keeps\<close>

lemma insert_starter_set_rows:
  "insert_starter_set io i now tid l sid qs rows = Inr rows' \<Longrightarrow>
     rows' = rows @ map (\<lambda>q. q\<lparr>sq_set_id := sid, sq_tenant_id := tid, sq_semantic_layer_id := l,
       sq_created_at := now\<rparr>) qs"
proof (induction qs arbitrary: i rows)
  case (Cons q qs)
  from Cons.prems show ?case
    by (auto split: option.splits if_splits dest!: Cons.IH)
qed simp

lemma replace_active_set_rows:
  assumes "replace_active_set io now tid l sid qs rows = (e, rows')"
  shows "(e \<noteq> None \<and> rows' = rows) \<or>
    (e = None \<and> rows' = update_where (\<lambda>q. sq_tenant_id q = tid \<and> sq_is_active q)
       (\<lambda>q. q\<lparr>sq_is_active := False\<rparr>) rows @
     map (\<lambda>q. q\<lparr>sq_set_id := sid, sq_tenant_id := tid, sq_semantic_layer_id := l,
       sq_created_at := now\<rparr>) qs)"
  using assms
  by (auto simp: replace_active_set_def starter_transaction_def deactivate_starter_sets_def
      dest: insert_starter_set_rows split: option.splits sum.splits)

lemma active_after_replace:
  "active_starters t (update_where (\<lambda>q. sq_tenant_id q = tid \<and> sq_is_active q)
       (\<lambda>q. q\<lparr>sq_is_active := False\<rparr>) rows) = (if t = tid then [] else active_starters t rows)"
  by (induction rows) (auto simp: active_starters_def)

text \<open>
  A good set: ten questions in order, of one set, layer, language and time, each with a text of 1
  to 80 characters and a category of the list, in at least three categories.
\<close>

definition good_starter_set :: "starter_question list \<Rightarrow> bool" where
  "good_starter_set qs =
     (map sq_ordinal qs = [1 .. 10] \<and>
      (\<exists>sid l loc at. \<forall>q \<in> set qs. sq_set_id q = sid \<and> sq_semantic_layer_id q = l \<and>
         sq_locale q = loc \<and> sq_created_at q = at) \<and>
      (\<forall>q \<in> set qs. valid_utf8 (sq_text q) \<and> sq_text q \<noteq> [] \<and> trim_space (sq_text q) = sq_text q \<and>
         rune_count (sq_text q) \<le> 80 \<and> sq_category q \<in> set starter_question_category_values) \<and>
      3 \<le> card (sq_category ` set qs))"

definition starters_ok :: "starter_question list \<Rightarrow> bool" where
  "starters_ok rows = (\<forall>tid. active_starters tid rows = [] \<or> good_starter_set (active_starters tid rows))"

definition stamped_rows ::
  "starter_env \<Rightarrow> uuid \<Rightarrow> uuid \<Rightarrow> locale_tag \<Rightarrow> starter_candidate list \<Rightarrow> starter_question list" where
  "stamped_rows env tid l loc qs =
     map (\<lambda>q. q\<lparr>sq_set_id := se_set_id env, sq_tenant_id := tid, sq_semantic_layer_id := l,
       sq_created_at := se_db_now env\<rparr>) (starter_rows env tid l loc qs)"

lemma stamped_rows_active [simp]:
  "active_starters t (stamped_rows env tid l loc qs) = (if t = tid then stamped_rows env tid l loc qs else [])"
  by (auto simp: active_starters_def stamped_rows_def starter_rows_def filter_empty_conv
      intro!: filter_True)

lemma map_enumerate_snd: "map (\<lambda>p. g (snd p)) (enumerate n xs) = map g xs"
  by (induction xs arbitrary: n) simp_all

lemma stamped_rows_images:
  "sq_category ` set (stamped_rows env tid l loc qs) = set (map (\<lambda>q. trim_space (sc_category q)) qs)"
  "sq_primary_table ` set (stamped_rows env tid l loc qs) = set (map (\<lambda>q. trim_space (sc_primary_table q)) qs)"
proof -
  have "map sq_category (stamped_rows env tid l loc qs) = map (\<lambda>q. trim_space (sc_category q)) qs"
    "map sq_primary_table (stamped_rows env tid l loc qs) = map (\<lambda>q. trim_space (sc_primary_table q)) qs"
    by (simp_all add: stamped_rows_def starter_rows_def comp_def case_prod_beta
        map_enumerate_snd [of "\<lambda>q. trim_space (sc_category q)"]
        map_enumerate_snd [of "\<lambda>q. trim_space (sc_primary_table q)"])
  then show "sq_category ` set (stamped_rows env tid l loc qs) = set (map (\<lambda>q. trim_space (sc_category q)) qs)"
    "sq_primary_table ` set (stamped_rows env tid l loc qs) = set (map (\<lambda>q. trim_space (sc_primary_table q)) qs)"
    by (metis set_map)+
qed

lemma stamped_rows_elem:
  assumes "q \<in> set (stamped_rows env tid l loc qs)"
  shows "\<exists>x \<in> set qs. sq_text q = trim_space (sc_text x) \<and> sq_category q = trim_space (sc_category x) \<and>
     sq_primary_table q = trim_space (sc_primary_table x) \<and> sq_set_id q = se_set_id env \<and>
     sq_semantic_layer_id q = l \<and> sq_locale q = loc \<and> sq_created_at q = se_db_now env"
  using assms by (auto simp: stamped_rows_def starter_rows_def enumerate_eq_zip dest: set_zip_rightD)

lemma stamped_rows_good:
  assumes "validate_starter_questions quote qs content = None"
  shows "good_starter_set (stamped_rows env tid l loc qs)"
proof -
  from assms have v: "length qs = 10" "list_all (valid_starter (valid_tables content)) qs"
    "3 \<le> card (set (map (\<lambda>q. trim_space (sc_category q)) qs))"
    by (auto simp: validate_starter_questions_None)
  have "map sq_ordinal (stamped_rows env tid l loc qs) = map (\<lambda>i. int i + 1) [0..<length qs]"
    by (rule nth_equalityI) (simp_all add: stamped_rows_def starter_rows_def nth_enumerate_eq)
  also have "\<dots> = [1 .. 10]" unfolding v(1) by code_simp
  finally have "map sq_ordinal (stamped_rows env tid l loc qs) = [1 .. 10]" .
  moreover have "valid_utf8 (sq_text q) \<and> sq_text q \<noteq> [] \<and> trim_space (sq_text q) = sq_text q \<and>
      rune_count (sq_text q) \<le> 80 \<and> sq_category q \<in> set starter_question_category_values"
    if q: "q \<in> set (stamped_rows env tid l loc qs)" for q
  proof -
    from stamped_rows_elem [OF q] obtain x where x: "x \<in> set qs" "sq_text q = trim_space (sc_text x)"
      "sq_category q = trim_space (sc_category x)" by blast
    with v(2) have "valid_starter (valid_tables content) x" by (simp add: list_all_iff)
    with x show ?thesis by (simp add: valid_starter_def)
  qed
  moreover have "\<exists>sid l' loc' at. \<forall>q \<in> set (stamped_rows env tid l loc qs). sq_set_id q = sid \<and>
      sq_semantic_layer_id q = l' \<and> sq_locale q = loc' \<and> sq_created_at q = at"
    using stamped_rows_elem by blast
  ultimately show ?thesis
    using v(3) unfolding good_starter_set_def stamped_rows_images by blast
qed

lemma scan_starters_uniform:
  assumes "qs \<noteq> []" "\<forall>q \<in> set qs. sq_set_id q = sid \<and> sq_locale q = loc \<and> sq_created_at q = at"
  shows "scan_starters qs = \<lparr>ss_questions = qs, ss_set_id = sid, ss_generated_at = at, ss_locale = loc\<rparr>"
proof -
  let ?f = "\<lambda>s q. (if ss_generated_at s = time_zero
      then s\<lparr>ss_set_id := sq_set_id q, ss_generated_at := sq_created_at q, ss_locale := sq_locale q\<rparr>
      else s)\<lparr>ss_questions := ss_questions s @ [q]\<rparr>"
  have "foldl ?f \<lparr>ss_questions = ps, ss_set_id = sid, ss_generated_at = at, ss_locale = loc\<rparr> rs =
      \<lparr>ss_questions = ps @ rs, ss_set_id = sid, ss_generated_at = at, ss_locale = loc\<rparr>"
    if "\<forall>q \<in> set rs. sq_set_id q = sid \<and> sq_locale q = loc \<and> sq_created_at q = at" for ps rs
    using that by (induction rs arbitrary: ps) auto
  with assms show ?thesis by (cases qs) (auto simp: scan_starters_def)
qed

lemma good_starter_set_sorted:
  assumes "good_starter_set qs"
  shows "sort_key sq_ordinal qs = qs" "qs \<noteq> []"
proof -
  have ord: "map sq_ordinal qs = [1 .. 10]" using assms by (simp add: good_starter_set_def)
  then have "sorted (map sq_ordinal qs)" by simp
  then show "sort_key sq_ordinal qs = qs" by (rule sort_key_id_if_sorted)
  show "qs \<noteq> []" using ord by auto
qed

lemma latest_active_good:
  assumes "good_starter_set (active_starters tid rows)"
  obtains s where "latest_active None tid rows = Inr s" "ss_questions s = active_starters tid rows"
    "\<forall>q \<in> set (active_starters tid rows). sq_set_id q = ss_set_id s \<and> sq_locale q = ss_locale s \<and>
       sq_created_at q = ss_generated_at s"
proof -
  let ?qs = "active_starters tid rows"
  from assms obtain sid loc at where u: "\<forall>q \<in> set ?qs. sq_set_id q = sid \<and> sq_locale q = loc \<and> sq_created_at q = at"
    unfolding good_starter_set_def by blast
  obtain q qs where sorted: "sort_key (\<lambda>q. (- sq_created_at q, sq_ordinal q)) ?qs = q # qs"
    using good_starter_set_sorted(2) [OF assms]
    by (metis length_0_conv length_sort neq_Nil_conv)
  then have "q \<in> set ?qs" by (metis list.set_intros(1) set_sort)
  with u have "filter (\<lambda>r. sq_set_id r = sq_set_id q) ?qs = ?qs" by (auto intro!: filter_True)
  with sorted have "latest_active None tid rows = Inr (scan_starters ?qs)"
    by (simp add: latest_active_def good_starter_set_sorted [OF assms])
  with scan_starters_uniform [OF good_starter_set_sorted(2) [OF assms] u] u show ?thesis
    by (auto intro: that)
qed

lemma starters_ok_append:
  assumes "starters_ok rows" "good_starter_set qs" "\<And>t. active_starters t qs = (if t = tid then qs else [])"
  shows "starters_ok (update_where (\<lambda>q. sq_tenant_id q = tid \<and> sq_is_active q)
     (\<lambda>q. q\<lparr>sq_is_active := False\<rparr>) rows @ qs)"
proof -
  have "active_starters t (xs @ ys) = active_starters t xs @ active_starters t ys" for t xs ys
    by (simp add: active_starters_def)
  with assms active_after_replace [of _ tid rows] show ?thesis
    unfolding starters_ok_def by auto
qed

text \<open>What a generation leaves, and what it returns when it succeeds.\<close>

lemma generate_and_persist_cases:
  assumes "generate_and_persist env c complete tid loc tables (w, rows) = (r, (w', rows'))"
  shows "(\<exists>e. r = Inl e) \<and> rows' = rows \<or>
    (\<exists>layer content candidates.
       generate_starters env c complete tid loc tables w = (Inr (layer, candidates), w') \<and>
       latest_approved_by_tenant (se_io env StarterLayerCall) tid (lw_layers tables) = Inr layer \<and>
       cc_decode_content (se_codec env) (sl_content layer) = Inr content \<and>
       validate_starter_questions (se_quote env) candidates content = None \<and>
       rows' = update_where (\<lambda>q. sq_tenant_id q = tid \<and> sq_is_active q)
         (\<lambda>q. q\<lparr>sq_is_active := False\<rparr>) rows @ stamped_rows env tid (sl_id layer) loc candidates \<and>
       r = map_sum id list_result_of (latest_active (se_io env StarterReadBackCall) tid rows'))"
proof -
  obtain g w1 where g: "generate_starters env c complete tid loc tables w = (g, w1)" by (metis prod.exhaust)
  show ?thesis
  proof (cases g)
    case (Inl e)
    with assms g show ?thesis by (auto simp: generate_and_persist_def)
  next
    case (Inr lc)
    obtain layer candidates where lc: "lc = (layer, candidates)" by (metis prod.exhaust)
    from g Inr lc obtain content where made:
      "latest_approved_by_tenant (se_io env StarterLayerCall) tid (lw_layers tables) = Inr layer"
      "cc_decode_content (se_codec env) (sl_content layer) = Inr content"
      "validate_starter_questions (se_quote env) candidates content = None"
      by (auto simp: generate_starters_def simp del: starter_attempts.simps
          dest!: starter_attempts_valid split: sum.splits prod.splits)
    obtain e rows1 where rep: "replace_active_set (se_io env) (se_db_now env) tid (sl_id layer) (se_set_id env)
        (starter_rows env tid (sl_id layer) loc candidates) rows = (e, rows1)" by (metis prod.exhaust)
    from replace_active_set_rows [OF rep] assms g Inr lc rep made show ?thesis
      unfolding stamped_rows_def
      by (auto simp: generate_and_persist_def split: sum.splits)
  qed
qed

lemma generate_and_persist_ok:
  assumes "generate_and_persist env c complete tid loc tables (w, rows) = (r, (w', rows'))" "starters_ok rows"
  shows "starters_ok rows'"
  using generate_and_persist_cases [OF assms(1)] assms(2)
  by (auto intro: starters_ok_append stamped_rows_good)

text \<open>One call of the controller, with whatever it meets.\<close>

inductive starter_step :: "'w \<times> starter_question list \<Rightarrow> 'w \<times> starter_question list \<Rightarrow> bool" where
  listed: "list_starter_questions env c complete tid user loc tables s = (r, s') \<Longrightarrow> starter_step s s'"
| regenerated: "regenerate_starter_questions env c complete tid user loc tables s = (r, s') \<Longrightarrow>
     starter_step s s'"

lemma starter_step_ok: "starter_step s s' \<Longrightarrow> starters_ok (snd s) \<Longrightarrow> starters_ok (snd s')"
  by (induction rule: starter_step.induct)
    (auto simp: list_starter_questions_def regenerate_starter_questions_def
      split: option.splits sum.splits if_splits elim: generate_and_persist_ok)

text \<open>
  C28. A tenant has no starter questions to show or exactly one complete set of them: after any
  sequence of listings and regenerations by any members, whatever the model answers and whichever
  statements fail, the active questions of a tenant are none or ten questions numbered 1 to 10 of
  one set, layer, language and time, each a text of 1 to 80 characters of valid UTF-8 with a
  permitted category, in at least three categories.
\<close>

theorem starter_sets_stay_whole:
  assumes "starter_step\<^sup>*\<^sup>* s s'" and "starters_ok (snd s)"
  shows "starters_ok (snd s')"
  using assms by (induction rule: rtranclp_induct) (auto intro: starter_step_ok)

lemma latest_active_io: "latest_active io tid rows = Inr s \<Longrightarrow> io = None"
  by (auto simp: latest_active_def split: option.splits)

lemma list_starter_questions_cases:
  assumes "list_starter_questions env c complete tid user loc tables (w, rows) = (Inr result, (w', rows'))"
  obtains (cached) s where "latest_active None tid rows = Inr s" "ss_locale s = loc" "result = list_result_of s"
      "w' = w" "rows' = rows"
  | (made) "generate_and_persist env c complete tid loc tables (w, rows) = (Inr result, (w', rows'))"
proof -
  obtain io where io: "io = se_io env StarterLatestCall" by simp
  have mem: "starter_membership env tid user tables = None"
    using assms by (auto simp: list_starter_questions_def split: option.splits)
  show ?thesis
  proof (cases "latest_active io tid rows")
    case (Inl e)
    with assms mem made io show ?thesis by (auto simp: list_starter_questions_def split: if_splits)
  next
    case (Inr s)
    with latest_active_io [OF Inr] assms mem io show ?thesis
      by (auto simp: list_starter_questions_def split: if_splits intro: cached made)
  qed
qed

lemma active_after_generation:
  "active_starters tid (update_where (\<lambda>q. sq_tenant_id q = tid \<and> sq_is_active q)
     (\<lambda>q. q\<lparr>sq_is_active := False\<rparr>) rows @ stamped_rows env tid l loc qs) = stamped_rows env tid l loc qs"
  using active_after_replace [of tid tid rows] stamped_rows_active [of tid env tid l loc qs]
  by (simp add: active_starters_def)

lemma generated_result:
  assumes "generate_and_persist env c complete tid loc tables (w, rows) = (Inr result, (w', rows'))"
  obtains layer content candidates where
    "latest_approved_by_tenant (se_io env StarterLayerCall) tid (lw_layers tables) = Inr layer"
    "cc_decode_content (se_codec env) (sl_content layer) = Inr content"
    "validate_starter_questions (se_quote env) candidates content = None"
    "active_starters tid rows' = stamped_rows env tid (sl_id layer) loc candidates"
    "Inr result = map_sum id list_result_of (latest_active (se_io env StarterReadBackCall) tid rows')"
  using generate_and_persist_cases [OF assms]
proof (elim disjE exE conjE)
  fix layer content candidates
  assume g: "latest_approved_by_tenant (se_io env StarterLayerCall) tid (lw_layers tables) = Inr layer"
    "cc_decode_content (se_codec env) (sl_content layer) = Inr content"
    "validate_starter_questions (se_quote env) candidates content = None"
    "rows' = update_where (\<lambda>q. sq_tenant_id q = tid \<and> sq_is_active q)
       (\<lambda>q. q\<lparr>sq_is_active := False\<rparr>) rows @ stamped_rows env tid (sl_id layer) loc candidates"
    "Inr result = map_sum id list_result_of (latest_active (se_io env StarterReadBackCall) tid rows')"
  have "active_starters tid rows' = stamped_rows env tid (sl_id layer) loc candidates"
    unfolding g(4) by (rule active_after_generation)
  from that [OF g(1-3) this g(5)] show thesis .
qed simp

text \<open>A returned result is the active set of the tenant, in the language asked for.\<close>

lemma listed_is_active:
  assumes "starters_ok rows"
    and "list_starter_questions env c complete tid user loc tables (w, rows) = (Inr result, (w', rows'))"
  obtains s where "latest_active None tid rows' = Inr s" "result = list_result_of s" "ss_locale s = loc"
    "ss_questions s = active_starters tid rows'"
    "\<forall>q \<in> set (active_starters tid rows'). sq_locale q = loc"
proof -
  have "\<exists>s. latest_active None tid rows' = Inr s \<and> result = list_result_of s \<and>
      (ss_locale s = loc \<or> (active_starters tid rows' \<noteq> [] \<and>
         (\<forall>q \<in> set (active_starters tid rows'). sq_locale q = loc)))"
    using assms(2)
  proof (cases rule: list_starter_questions_cases)
    case made
    then obtain layer :: tenant_semantic_layer and content candidates where g:
      "validate_starter_questions (se_quote env) candidates content = None"
      "active_starters tid rows' = stamped_rows env tid (sl_id layer) loc candidates"
      "Inr result = map_sum id list_result_of (latest_active (se_io env StarterReadBackCall) tid rows')"
      by (rule generated_result) blast
    from g(3) obtain s where s: "latest_active (se_io env StarterReadBackCall) tid rows' = Inr s"
      "result = list_result_of s" by (cases "latest_active (se_io env StarterReadBackCall) tid rows'") auto
    from g(2) good_starter_set_sorted(2) [OF stamped_rows_good [OF g(1)], of env tid "sl_id layer" loc]
      stamped_rows_elem [of _ env tid "sl_id layer" loc candidates] latest_active_io [OF s(1)] s
    show ?thesis by (metis (no_types, lifting))
  qed auto
  then obtain s where s: "latest_active None tid rows' = Inr s" "result = list_result_of s"
    "ss_locale s = loc \<or> (active_starters tid rows' \<noteq> [] \<and>
       (\<forall>q \<in> set (active_starters tid rows'). sq_locale q = loc))" by blast
  have "starters_ok rows'"
    using assms(2) by (cases rule: list_starter_questions_cases)
      (use assms(1) in \<open>auto intro: generate_and_persist_ok\<close>)
  moreover have "active_starters tid rows' \<noteq> []"
    using s(1) by (auto simp: latest_active_def)
  ultimately have "good_starter_set (active_starters tid rows')" by (auto simp: starters_ok_def)
  then obtain t where t: "latest_active None tid rows' = Inr t" "ss_questions t = active_starters tid rows'"
    "\<forall>q \<in> set (active_starters tid rows'). sq_set_id q = ss_set_id t \<and> sq_locale q = ss_locale t \<and>
       sq_created_at q = ss_generated_at t" by (rule latest_active_good)
  with s(1) have "t = s" by simp
  with s t that show ?thesis by (metis hd_in_set)
qed

text \<open>
  The set is a cache: once a listing has succeeded, a listing of the same tenant in the same
  language by any member returns the same questions, whoever generated them, without asking the
  language model and without writing, as long as its two reads succeed.
\<close>

theorem starter_listing_is_cached:
  assumes "starters_ok rows"
    and "list_starter_questions env c complete tid user loc tables (w, rows) = (Inr result, (w', rows'))"
    and "starter_membership env' tid user' tables' = None" and "se_io env' StarterLatestCall = None"
  shows "list_starter_questions env' c' complete' tid user' loc tables' (w2, rows') = (Inr result, (w2, rows'))"
proof -
  from listed_is_active [OF assms(1,2)] obtain s where
    "latest_active None tid rows' = Inr s" "result = list_result_of s" "ss_locale s = loc" by metis
  with assms(3,4) show ?thesis by (simp add: list_starter_questions_def)
qed

lemma generate_and_persist_requests:
  assumes "generate_and_persist env c (log_complete complete) tid loc tables ((w, tr), rows) =
      (r, ((w', tr'), rows'))"
  shows "length tr' \<le> length tr + 2 \<and> (rows' \<noteq> rows \<longrightarrow> length tr < length tr')"
proof -
  have two: "length tr' \<le> length tr + 2 \<and> length tr < length tr'"
    if "starter_attempts env c (log_complete complete) content loc [0, Suc 0] [] (w, tr) = (x, (w', tr'))"
    for content x w' tr'
    using starter_attempts_requests [OF that] by simp
  obtain g w1 tr1 where g: "generate_starters env c (log_complete complete) tid loc tables (w, tr) =
      (g, (w1, tr1))" by (metis prod.exhaust)
  from g have "length tr1 \<le> length tr + 2 \<and> ((\<exists>x. g = Inr x) \<longrightarrow> length tr < length tr1)"
    by (auto simp: generate_starters_def simp del: starter_attempts.simps split: sum.splits prod.splits
        dest!: two)
  with assms g show ?thesis
    by (auto simp: generate_and_persist_def split: sum.splits prod.splits option.splits)
qed

lemma latest_approved_by_tenant_in:
  assumes "latest_approved_by_tenant io tid rows = Inr layer"
  shows "layer \<in> set rows \<and> sl_tenant_id layer = tid \<and> sl_status layer = LayerApproved"
proof -
  let ?rs = "filter (\<lambda>r. sl_tenant_id r = tid \<and> sl_status r = LayerApproved) rows"
  from assms obtain rest where "sort_key approval_order ?rs = layer # rest"
    by (auto simp: latest_approved_by_tenant_def select_layer_def split: option.splits list.splits)
  then have "layer \<in> set ?rs" by (metis list.set_intros(1) set_sort)
  then show ?thesis by simp
qed

text \<open>
  What a listing shows is grounded in the tenant's semantic layer: when it succeeds, it
  returns the tenant's active questions, in the language asked for; it made at most two requests to
  the language model; and if it made any, the questions belong to an approved layer of the tenant,
  each names a table of that layer, and they cover five tables, or all when the layer has fewer.
\<close>

theorem starter_questions_follow_layer:
  assumes "starters_ok rows"
    and "list_starter_questions env c (log_complete complete) tid user loc tables ((w, []), rows) =
      (Inr result, ((w', tr), rows'))"
  shows "slr_questions result = active_starters tid rows' \<and>
    (\<forall>q \<in> set (slr_questions result). sq_locale q = loc) \<and> length tr \<le> 2 \<and>
    (if tr = [] then rows' = rows
     else \<exists>layer content. layer \<in> set (lw_layers tables) \<and> sl_tenant_id layer = tid \<and>
       sl_status layer = LayerApproved \<and> cc_decode_content (se_codec env) (sl_content layer) = Inr content \<and>
       (\<forall>q \<in> set (slr_questions result). sq_semantic_layer_id q = sl_id layer \<and>
          sq_primary_table q \<in> set (valid_tables content)) \<and>
       min 5 (length (valid_tables content)) \<le> card (sq_primary_table ` set (slr_questions result)))"
proof -
  from listed_is_active [OF assms] obtain s :: starter_set where s: "slr_questions result = active_starters tid rows'"
    "\<forall>q \<in> set (active_starters tid rows'). sq_locale q = loc" by (metis list_result_of_def starter_list_result.select_convs(1))
  show ?thesis using assms(2)
  proof (cases rule: list_starter_questions_cases)
    case cached
    with s show ?thesis by simp
  next
    case made
    then obtain layer :: tenant_semantic_layer and content candidates where g:
      "latest_approved_by_tenant (se_io env StarterLayerCall) tid (lw_layers tables) = Inr layer"
      "cc_decode_content (se_codec env) (sl_content layer) = Inr content"
      "validate_starter_questions (se_quote env) candidates content = None"
      and act: "active_starters tid rows' = stamped_rows env tid (sl_id layer) loc candidates"
      by (rule generated_result) blast
    have in_layer: "layer \<in> set (lw_layers tables) \<and> sl_tenant_id layer = tid \<and> sl_status layer = LayerApproved"
      using latest_approved_by_tenant_in [OF g(1)] by simp
    have "sq_semantic_layer_id q = sl_id layer \<and> sq_primary_table q \<in> set (valid_tables content)"
      if "q \<in> set (slr_questions result)" for q
      using stamped_rows_elem [of q env tid "sl_id layer" loc candidates] that g(3) s(1) act
      by (auto simp: validate_starter_questions_None list_all_iff valid_starter_def)
    moreover have "min 5 (length (valid_tables content)) \<le> card (sq_primary_table ` set (slr_questions result))"
      using g(3) unfolding s(1) act stamped_rows_images by (simp add: validate_starter_questions_None)
    moreover have "length tr \<le> 2" "tr = [] \<longrightarrow> rows' = rows"
      using generate_and_persist_requests [OF made] by auto
    ultimately show ?thesis using s in_layer g(2) by auto
  qed
qed

section \<open>Examples\<close>

definition sample_candidates :: "starter_candidate list" where
  "sample_candidates =
     (let q = (\<lambda>t c. \<lparr>sc_text = t, sc_category = c, sc_primary_table = ''o''\<rparr>)
      in [q ''up?'' ''trend'', q ''n?'' ''count'', (q ''n?'' ''latest'')\<lparr>sc_primary_table := ''c''\<rparr>] @
         replicate 7 (q ''n?'' ''count''))"

definition sample_content :: semantic_layer_content where
  "sample_content =
     (let t = \<lparr>smt_table_schema = ''s'', smt_table_name = ''o'', smt_table_type = ''BASE TABLE'',
                smt_table_comment = [], smt_description = [], smt_columns = []\<rparr>
      in \<lparr>slc_tables = [t, t\<lparr>smt_table_name := ''c''\<rparr>], slc_entities = [], slc_metrics = []\<rparr>)"

lemma sample_trim:
  "trim_space ''up?'' = ''up?''" "trim_space ''n?'' = ''n?''" "trim_space ''trend'' = ''trend''"
  "trim_space ''count'' = ''count''" "trim_space ''latest'' = ''latest''" "trim_space ''o'' = ''o''"
  "trim_space ''c'' = ''c''"
  by (rule trim_space_plain, simp add: plain_char_def)+

lemma sample_normalized: "normalize_starter_candidates sample_candidates = sample_candidates"
  by (simp add: normalize_starter_candidates_def sample_candidates_def Let_def sample_trim)

lemma sample_tables: "valid_tables sample_content = [''o'', ''c'']"
  by (simp add: valid_tables_def sample_content_def Let_def sample_trim)

lemma sample_valid: "validate_starter_questions (\<lambda>s. s) sample_candidates sample_content = None"
proof -
  have texts: "valid_utf8 ''up?'' \<and> valid_utf8 ''n?'' \<and> rune_count ''up?'' \<le> 80 \<and> rune_count ''n?'' \<le> 80" by code_simp
  have cats: "{''trend'', ''count'', ''latest''} \<subseteq> set starter_question_category_values" by code_simp
  have "set (map (\<lambda>q. trim_space (sc_category q)) sample_candidates) = set [''trend'', ''count'', ''latest'']"
    "set (map (\<lambda>q. trim_space (sc_primary_table q)) sample_candidates) = set [''o'', ''c'']"
    by (auto simp: sample_candidates_def Let_def sample_trim)
  moreover have "card (set [''trend'', ''count'', ''latest'']) = 3" "card (set [''o'', ''c'']) = 2" by simp_all
  moreover have "length sample_candidates = 10" by (simp add: sample_candidates_def Let_def)
  moreover have "list_all (valid_starter [''o'', ''c'']) sample_candidates"
    using texts cats by (simp add: sample_candidates_def Let_def valid_starter_def sample_trim eval_nat_numeral)
  ultimately show ?thesis
    unfolding validate_starter_questions_None sample_tables by simp
qed

definition sample_layer :: tenant_semantic_layer where
  "sample_layer = \<lparr>sl_id = 7, sl_tenant_id = 3, sl_schema_version_id = 2, sl_status = LayerApproved,
     sl_content = ''{}'', sl_created_at = 10, sl_approved_at = Some 20, sl_approved_by = Some ''u''\<rparr>"

definition sample_starter_tables :: layer_world where
  "sample_starter_tables = \<lparr>lw_tenants = empty_db\<lparr>tenant_users := [\<lparr>tu_tenant_id = 3,
       tu_clerk_user_id = ''u'', tu_role = RoleMember, tu_created_at = 5\<rparr>]\<rparr>,
     lw_schemas = [], lw_layers = [sample_layer]\<rparr>"

definition sample_starter_env :: starter_env where
  "sample_starter_env = \<lparr>se_io = (\<lambda>_. None), se_db_now = 30, se_set_id = 40, se_ids = (\<lambda>i. 50 + i),
     se_codec = \<lparr>cc_decode_content = (\<lambda>_. Inr sample_content), cc_encode_content = (\<lambda>_. Inr ''{}''),
       cc_decode_schema = (\<lambda>_. Inl (ErrNew ''unused''))\<rparr>,
     se_decode = (\<lambda>t. if t = ''ok'' then Inr sample_candidates else Inl (ErrNew ''unexpected end of JSON input'')),
     se_quote = (\<lambda>s. s)\<rparr>"

definition sample_starter_controller :: starter_controller where
  "sample_starter_controller =
     new_starter_controller \<lparr>sg_model = [], sg_provider_models = [], sg_max_tokens = 0\<rparr>"

text \<open>A model whose first answer is cut short; the world counts the requests.\<close>

definition sample_completer :: "completion_request \<Rightarrow> nat \<Rightarrow> (gerr + completion_response) \<times> nat" where
  "sample_completer r n =
     (Inr \<lparr>resp_content = (if n = 0 then ''cut'' else ''ok''), resp_provider = ''p'', resp_model = ''m'',
        resp_usage = \<lparr>usage_provider = ''p'', usage_model = ''m'', input_tokens = 1,
          output_tokens = 1, cache_creation_tokens = 0, cache_read_tokens = 0\<rparr>\<rparr>, Suc n)"

definition sample_rows :: "starter_question list" where
  "sample_rows = snd (replace_active_set (\<lambda>_. None) 30 3 7 40
     (starter_rows sample_starter_env 3 7 LocaleEnglish sample_candidates) [])"

definition sample_result :: starter_list_result where
  "sample_result = list_result_of (case latest_active None 3 sample_rows of Inr s \<Rightarrow> s)"

lemma sample_env_fields:
  "se_io sample_starter_env = (\<lambda>_. None)" "se_db_now sample_starter_env = 30" "se_set_id sample_starter_env = 40"
  "cc_decode_content (se_codec sample_starter_env) t = Inr sample_content"
  "se_decode sample_starter_env ''cut'' = Inl (ErrNew ''unexpected end of JSON input'')"
  "se_decode sample_starter_env ''ok'' = Inr sample_candidates" "se_quote sample_starter_env = (\<lambda>s. s)"
  "lw_layers sample_starter_tables = [sample_layer]" "sl_id sample_layer = 7"
  by (simp_all add: sample_starter_env_def sample_starter_tables_def sample_layer_def)

lemma sample_answer:
  "\<exists>a. log_complete sample_completer r (n, tr) = (Inr a, (Suc n, tr @ [r])) \<and>
     resp_content a = (if n = 0 then ''cut'' else ''ok'')"
  by (simp add: log_complete_def sample_completer_def)

lemma sample_attempts:
  "\<exists>tr. starter_attempts sample_starter_env c (log_complete sample_completer) sample_content loc [0, 1] [] (0, []) =
     (Inr sample_candidates, (2, tr)) \<and> length tr = 2"
proof -
  define r1 where "r1 = starter_request sample_starter_env c sample_content loc []"
  define fb where "fb = starter_retry_decode_feedback loc (ErrNew ''unexpected end of JSON input'')"
  define r2 where "r2 = starter_request sample_starter_env c sample_content loc fb"
  obtain a1 where a1: "log_complete sample_completer r1 (0, []) = (Inr a1, (Suc 0, [r1]))"
    "resp_content a1 = ''cut''" using sample_answer [of r1 0 "[]"] by auto
  obtain a2 where a2: "log_complete sample_completer r2 (Suc 0, [r1]) = (Inr a2, (2, [r1, r2]))"
    "resp_content a2 = ''ok''" using sample_answer [of r2 "Suc 0" "[r1]"] by (auto simp: numeral_2_eq_2)
  show ?thesis
    using a1 a2 sample_valid unfolding r1_def r2_def
    by (simp add: sample_env_fields sample_normalized Let_def fb_def)
qed

lemma sample_listing:
  "\<exists>tr. list_starter_questions sample_starter_env sample_starter_controller (log_complete sample_completer) 3
     ''u'' LocaleEnglish sample_starter_tables ((0, []), []) = (Inr sample_result, ((2, tr), sample_rows)) \<and>
   length tr = 2"
proof -
  have layer: "latest_approved_by_tenant None 3 [sample_layer] = Inr sample_layer" by code_simp
  have "fst (replace_active_set (\<lambda>_. None) 30 3 7 40 (starter_rows sample_starter_env 3 7 LocaleEnglish
      sample_candidates) []) = None" by code_simp
  then have stored: "replace_active_set (\<lambda>_. None) 30 3 7 40 (starter_rows sample_starter_env 3 7 LocaleEnglish
      sample_candidates) [] = (None, sample_rows)"
    unfolding sample_rows_def by (metis prod.collapse)
  have "\<not> isl (latest_active None 3 sample_rows)" by code_simp
  then obtain st where read: "latest_active None 3 sample_rows = Inr st" "sample_result = list_result_of st"
    by (auto simp: sample_result_def isl_def split: sum.splits) (metis sum.exhaust_sel)
  have member: "starter_membership sample_starter_env 3 ''u'' sample_starter_tables = None" by code_simp
  have none: "latest_active None 3 [] = Inl err_not_found" by code_simp
  obtain tr where tr: "length tr = 2" "starter_attempts sample_starter_env sample_starter_controller
      (log_complete sample_completer) sample_content LocaleEnglish [0, 1] [] (0, []) =
      (Inr sample_candidates, (2, tr))" using sample_attempts by metis
  then have gen: "generate_starters sample_starter_env sample_starter_controller
      (log_complete sample_completer) 3 LocaleEnglish sample_starter_tables (0, []) =
      (Inr (sample_layer, sample_candidates), (2, tr))"
    using layer by (simp add: generate_starters_def sample_env_fields del: starter_attempts.simps)
  show ?thesis
    using member none gen stored read tr(1)
    by (simp add: list_starter_questions_def generate_and_persist_def sample_env_fields)
qed

lemma no_starters_ok [simp]: "starters_ok []"
  by (simp add: starters_ok_def active_starters_def)

theorem starter_sets_stay_whole_witness:
  "starters_ok sample_rows \<and> map sq_ordinal (active_starters 3 sample_rows) = [1 .. 10]"
proof
  obtain tr where "list_starter_questions sample_starter_env sample_starter_controller
      (log_complete sample_completer) 3 ''u'' LocaleEnglish sample_starter_tables ((0, []), []) =
      (Inr sample_result, ((2, tr), sample_rows))" using sample_listing by blast
  then have "starter_step\<^sup>*\<^sup>* ((0 :: nat, []), []) ((2, tr), sample_rows)"
    by (blast intro: starter_step.listed)
  from starter_sets_stay_whole [OF this] show "starters_ok sample_rows" by simp
  show "map sq_ordinal (active_starters 3 sample_rows) = [1 .. 10]" by code_simp
qed

theorem starter_listing_is_cached_witness:
  "list_starter_questions sample_starter_env sample_starter_controller sample_completer 3 ''u'' LocaleEnglish
     sample_starter_tables (9, sample_rows) = (Inr sample_result, (9, sample_rows))"
proof -
  obtain tr where run: "list_starter_questions sample_starter_env sample_starter_controller
      (log_complete sample_completer) 3 ''u'' LocaleEnglish sample_starter_tables ((0, []), []) =
      (Inr sample_result, ((2, tr), sample_rows))" using sample_listing by blast
  have member: "starter_membership sample_starter_env 3 ''u'' sample_starter_tables = None" by code_simp
  have io: "se_io sample_starter_env StarterLatestCall = None" by (simp add: sample_starter_env_def)
  from starter_listing_is_cached [OF no_starters_ok run member io] show ?thesis .
qed

theorem starter_questions_follow_layer_witness:
  "slr_questions sample_result = active_starters 3 sample_rows \<and> slr_questions sample_result \<noteq> []"
proof
  obtain tr where run: "list_starter_questions sample_starter_env sample_starter_controller
      (log_complete sample_completer) 3 ''u'' LocaleEnglish sample_starter_tables ((0, []), []) =
      (Inr sample_result, ((2, tr), sample_rows))" using sample_listing by blast
  from starter_questions_follow_layer [OF no_starters_ok run]
  show "slr_questions sample_result = active_starters 3 sample_rows" by blast
  show "slr_questions sample_result \<noteq> []" by code_simp
qed

end
