(* ===== verification/ConnectHelpers.thy ===== *)
theory ConnectHelpers
  imports QueryPipeline StarterQuestions Onboarding AgentWire
begin

text \<open>
  What the handlers share: handler/connect_helpers.go, handler/llm_error.go, the timestamps of
  handler/onboarding.go and the owner check of the debug endpoints, which handler/query.go and
  handler/schema.go both have. A request's context is the id of its verified user, if any;
  \<open>uuid.Parse\<close> and \<open>String\<close> are the fields of \<open>uuid_codec\<close>.
\<close>

record uuid_codec =
  uc_parse :: "string \<Rightarrow> uuid option"
  uc_string :: "uuid \<Rightarrow> string"

definition rpc_fail :: "rpc_code \<Rightarrow> gerr \<Rightarrow> rpc_error" where
  "rpc_fail code e = \<lparr>rpc_status = code, rpc_cause = e\<rparr>"

lemma rpc_fail_fields [simp]: "rpc_status (rpc_fail code e) = code" "rpc_cause (rpc_fail code e) = e"
  by (simp_all add: rpc_fail_def)

definition require_user :: "string option \<Rightarrow> rpc_error + string" where
  "require_user ctx = (case ctx of None \<Rightarrow> Inl unauthenticated_error | Some user \<Rightarrow> Inr user)"

definition parse_connect_uuid :: "uuid_codec \<Rightarrow> string \<Rightarrow> string \<Rightarrow> rpc_error + uuid" where
  "parse_connect_uuid uc txt field =
     (case uc_parse uc txt of
        None \<Rightarrow> Inl (rpc_fail CodeInvalidArgument (ErrNew (''invalid '' @ field)))
      | Some i \<Rightarrow> Inr i)"

text \<open>
  The beginning of every handler that is about a tenant, \<open>requireOnboardingUserAndTenant\<close>, and of
  those that name a second object. The continuation gets the user, the tenant and the object.
\<close>

definition with_tenant ::
  "uuid_codec \<Rightarrow> string option \<Rightarrow> string \<Rightarrow> (string \<Rightarrow> uuid \<Rightarrow> (rpc_error + 'r) \<times> 's) \<Rightarrow> 's \<Rightarrow>
   (rpc_error + 'r) \<times> 's" where
  "with_tenant uc ctx tenant_raw k s =
     (case require_user ctx of
        Inl e \<Rightarrow> (Inl e, s)
      | Inr user \<Rightarrow>
          (case parse_connect_uuid uc tenant_raw ''tenant_id'' of
             Inl e \<Rightarrow> (Inl e, s)
           | Inr tid \<Rightarrow> k user tid))"

definition with_object ::
  "uuid_codec \<Rightarrow> string option \<Rightarrow> string \<Rightarrow> string \<Rightarrow> string \<Rightarrow>
   (string \<Rightarrow> uuid \<Rightarrow> uuid \<Rightarrow> (rpc_error + 'r) \<times> 's) \<Rightarrow> 's \<Rightarrow> (rpc_error + 'r) \<times> 's" where
  "with_object uc ctx tenant_raw raw field k s =
     with_tenant uc ctx tenant_raw (\<lambda>user tid.
       case parse_connect_uuid uc raw field of
         Inl e \<Rightarrow> (Inl e, s)
       | Inr i \<Rightarrow> k user tid i) s"

definition public_llm_unavailable_error :: gerr where
  "public_llm_unavailable_error = ErrNew user_unavailable_message"

definition is_any :: "gerr \<Rightarrow> gerr list \<Rightarrow> bool" where
  "is_any err targets = list_ex (errors_is err) targets"

text \<open>A handler's answer: its controller's error as an RPC error, its value as a message.\<close>

definition rpc_result :: "(gerr \<Rightarrow> rpc_error) \<Rightarrow> ('v \<Rightarrow> 'r) \<Rightarrow> (gerr + 'v) \<times> 's \<Rightarrow> (rpc_error + 'r) \<times> 's" where
  "rpc_result to_error to_message out = (map_sum to_error to_message (fst out), snd out)"

lemma rpc_result_Inr: "rpc_result f g out = (Inr r, s) \<longleftrightarrow> (\<exists>v. out = (Inr v, s) \<and> r = g v)"
  by (cases out; cases "fst out") (auto simp: rpc_result_def)

definition timestamp_or_nil :: "time \<Rightarrow> time option" where
  "timestamp_or_nil t = (if t = time_zero then None else Some t)"

definition timestamp_ptr :: "time option \<Rightarrow> time option" where
  "timestamp_ptr t = (case t of None \<Rightarrow> None | Some u \<Rightarrow> timestamp_or_nil u)"

section \<open>The owner check of the debug endpoints\<close>

definition authorize_owner ::
  "uuid_codec \<Rightarrow> gerr option \<Rightarrow> string option \<Rightarrow> string \<Rightarrow> tenant_db \<Rightarrow> (int \<times> string) + uuid" where
  "authorize_owner uc io ctx tenant_raw tdb =
     (case ctx of
        None \<Rightarrow> Inl (401, ''unauthenticated'')
      | Some user \<Rightarrow>
          (case uc_parse uc tenant_raw of
             None \<Rightarrow> Inl (400, ''invalid tenant id'')
           | Some tid \<Rightarrow>
               (case ensure_membership io tid user tdb of
                  Inl e \<Rightarrow>
                    (if errors_is e err_not_found then Inl (403, ''not a member of this tenant'')
                     else Inl (500, ''internal server error''))
                | Inr m \<Rightarrow>
                    (if tu_role m \<noteq> RoleOwner then Inl (403, ''owner role required'') else Inr tid))))"

definition owns_tenant :: "uuid \<Rightarrow> string \<Rightarrow> tenant_db \<Rightarrow> bool" where
  "owns_tenant tid user tdb =
     list_ex (\<lambda>u. tu_tenant_id u = tid \<and> tu_clerk_user_id u = user \<and> tu_role u = RoleOwner) (tenant_users tdb)"

lemma authorize_owner_owner:
  "authorize_owner uc io ctx raw tdb = Inr tid \<Longrightarrow> \<exists>user. ctx = Some user \<and> owns_tenant tid user tdb"
  by (auto simp: authorize_owner_def owns_tenant_def ensure_membership_def get_membership_def list_ex_iff
      split: option.splits sum.splits if_splits dest!: find_Some_in_set)

section \<open>Callers without a membership\<close>

text \<open>A caller is an outsider when it is not a verified member of the tenant the request names.\<close>

definition outsider :: "uuid_codec \<Rightarrow> string option \<Rightarrow> string \<Rightarrow> tenant_db \<Rightarrow> bool" where
  "outsider uc ctx tenant_raw tdb =
     (case (ctx, uc_parse uc tenant_raw) of
        (Some user, Some tid) \<Rightarrow> \<not> is_member tid user tdb
      | _ \<Rightarrow> True)"

definition denied :: "(rpc_error + 'r) \<times> 's \<Rightarrow> 's \<Rightarrow> bool" where
  "denied out s =
     (snd out = s \<and> (\<exists>e. fst out = Inl e \<and>
        rpc_status e \<in> {CodeUnauthenticated, CodeInvalidArgument, CodePermissionDenied}))"

lemma with_tenant_denied:
  assumes "outsider uc ctx raw tdb"
    and "\<And>user tid. ctx = Some user \<Longrightarrow> \<not> is_member tid user tdb \<Longrightarrow> denied (k user tid) s"
  shows "denied (with_tenant uc ctx raw k s) s"
  using assms by (auto simp: with_tenant_def outsider_def require_user_def parse_connect_uuid_def denied_def
      unauthenticated_error_def split: option.splits)

lemma with_object_denied:
  assumes "outsider uc ctx raw tdb"
    and "\<And>user tid i. ctx = Some user \<Longrightarrow> \<not> is_member tid user tdb \<Longrightarrow> denied (k user tid i) s"
  shows "denied (with_object uc ctx raw oraw field k s) s"
  unfolding with_object_def using assms
  by (intro with_tenant_denied) (auto simp: parse_connect_uuid_def denied_def split: option.splits)

lemma rpc_result_denied:
  assumes "fst out = Inl e" "snd out = s"
    and "rpc_status (f e) \<in> {CodeUnauthenticated, CodeInvalidArgument, CodePermissionDenied}"
  shows "denied (rpc_result f g out) s"
  using assms by (simp add: denied_def rpc_result_def)

lemma not_member_membership:
  "\<not> is_member tid user tdb \<Longrightarrow> get_membership None tid user tdb = Inl err_not_found"
  by (auto simp: get_membership_def is_member_def list_ex_iff find_None_iff split: option.split
      dest: find_Some_in_set)

text \<open>Ids written in unary, for examples.\<close>

definition unary_uuids :: uuid_codec where
  "unary_uuids = \<lparr>uc_parse = (\<lambda>s. if list_all (\<lambda>c. c = CHR ''i'') s then Some (length s) else None),
     uc_string = (\<lambda>n. replicate n (CHR ''i''))\<rparr>"

end
