(* ===== verification/QueryHandlers.thy ===== *)
theory QueryHandlers
  imports ConnectHelpers
begin

text \<open>
  handler/query_ask.go, the Connect service of questions over \<open>QueryPipeline\<close> and \<open>QueryStore\<close>, and
  handler/query.go, the debug endpoint that sends SQL to the agent. The generated message types are
  records with their fields, an enumeration a datatype. A reply is given with the controllers' state;
  the record \<open>query_service\<close> holds what the handlers are built from and the environment of the call.
\<close>

section \<open>Messages\<close>

datatype rating_proto = RatingUnspecified | RatingProtoUp | RatingProtoDown
datatype filter_proto = FilterUnspecified | FilterOpen | FilterAllRecent
datatype run_status_proto = RunStatusUnspecified | RunStatusRunning | RunStatusSucceeded | RunStatusFailed
datatype context_source_proto =
    ContextUnspecified | ContextApproved | ContextDraft | ContextRawSchema

record ask_response =
  pa_sql_original :: string
  pa_sql_executed :: string
  pa_limit_injected :: bool
  pa_columns :: "string list"
  pa_rows :: "(string \<rightharpoonup> string) list"
  pa_row_count :: int
  pa_elapsed_ms :: int
  pa_summary_ko :: string
  pa_warnings :: "string list"
  pa_attempts :: "ask_question_attempt list"
  pa_query_run_id :: string

record run_history_item =
  ph_id :: string
  ph_question :: string
  ph_status :: run_status_proto
  ph_context_source :: context_source_proto
  ph_sql_original :: string
  ph_sql_executed :: string
  ph_row_count :: int
  ph_elapsed_ms :: int
  ph_error_stage :: string
  ph_error_message :: string
  ph_warnings :: "string list"
  ph_attempts :: "ask_question_attempt list"
  ph_created_at :: time
  ph_completed_at :: "time option"

record feedback_proto =
  pf_query_run_id :: string
  pf_rating :: rating_proto
  pf_comment :: string
  pf_corrected_sql :: string
  pf_created_at :: time
  pf_updated_at :: time

record review_item_proto =
  pr_run :: run_history_item
  pr_has_feedback :: bool
  pr_latest_feedback :: "feedback_proto option"
  pr_has_active_canonical :: bool
  pr_reviewed_at :: "time option"

record example_proto =
  pe_id :: string
  pe_source_query_run_id :: string
  pe_schema_version_id :: string
  pe_question :: string
  pe_sql :: string
  pe_notes :: string
  pe_created_at :: time

section \<open>Conversions\<close>

fun rating_from_proto :: "rating_proto \<Rightarrow> feedback_rating option" where
  "rating_from_proto RatingProtoUp = Some RatingUp"
| "rating_from_proto RatingProtoDown = Some RatingDown"
| "rating_from_proto RatingUnspecified = None"

fun rating_to_proto :: "feedback_rating \<Rightarrow> rating_proto" where
  "rating_to_proto RatingUp = RatingProtoUp"
| "rating_to_proto RatingDown = RatingProtoDown"

fun review_queue_filter_from_proto :: "filter_proto \<Rightarrow> review_queue_filter" where
  "review_queue_filter_from_proto FilterAllRecent = ReviewAllRecent"
| "review_queue_filter_from_proto _ = ReviewOpen"

fun query_run_status_to_proto :: "query_run_status \<Rightarrow> run_status_proto" where
  "query_run_status_to_proto RunRunning = RunStatusRunning"
| "query_run_status_to_proto RunSucceeded = RunStatusSucceeded"
| "query_run_status_to_proto RunFailed = RunStatusFailed"

fun query_prompt_context_source_to_proto :: "prompt_context_source \<Rightarrow> context_source_proto" where
  "query_prompt_context_source_to_proto SourceApproved = ContextApproved"
| "query_prompt_context_source_to_proto SourceDraft = ContextDraft"
| "query_prompt_context_source_to_proto SourceRawSchema = ContextRawSchema"

text \<open>\<open>fmt_v\<close> prints a value of another type, as \<open>fmt.Sprintf("%v")\<close> or its \<open>String\<close> method.\<close>

fun stringify_cell :: "(nat \<Rightarrow> string) \<Rightarrow> go_any \<Rightarrow> string" where
  "stringify_cell fmt_v GoNil = ''<nil>''"
| "stringify_cell fmt_v (GoBool b) = (if b then ''true'' else ''false'')"
| "stringify_cell fmt_v (GoInt i) = itoa i"
| "stringify_cell fmt_v (GoString s) = s"
| "stringify_cell fmt_v (GoOpaque n) = fmt_v n"

definition row_to_proto :: "(nat \<Rightarrow> string) \<Rightarrow> (string \<rightharpoonup> go_any) \<Rightarrow> (string \<rightharpoonup> string)" where
  "row_to_proto fmt_v row =
     (\<lambda>key. case row key of
              None \<Rightarrow> None
            | Some v \<Rightarrow> if v = GoNil then None else Some (stringify_cell fmt_v v))"

definition ask_result_to_proto :: "uuid_codec \<Rightarrow> (nat \<Rightarrow> string) \<Rightarrow> ask_question_result \<Rightarrow> ask_response" where
  "ask_result_to_proto uc fmt_v r =
     \<lparr>pa_sql_original = ar_sql_original r, pa_sql_executed = ar_sql_executed r,
      pa_limit_injected = ar_limit_injected r, pa_columns = ar_columns r,
      pa_rows = map (row_to_proto fmt_v) (ar_rows r), pa_row_count = ar_row_count r,
      pa_elapsed_ms = ar_elapsed_ms r, pa_summary_ko = ar_summary_ko r, pa_warnings = ar_warnings r,
      pa_attempts = ar_attempts r,
      pa_query_run_id = (if ar_query_run_id r \<noteq> uuid_nil then uc_string uc (ar_query_run_id r) else [])\<rparr>"

definition to_controller_attempts :: "query_run_attempt list \<Rightarrow> ask_question_attempt list" where
  "to_controller_attempts attempts =
     map (\<lambda>a. \<lparr>aa_sql = att_sql a, aa_error = att_error a, aa_stage = att_stage a\<rparr>) attempts"

definition query_run_history_to_proto :: "uuid_codec \<Rightarrow> tenant_query_run \<Rightarrow> run_history_item" where
  "query_run_history_to_proto uc run =
     \<lparr>ph_id = uc_string uc (qr_id run), ph_question = qr_question run,
      ph_status = query_run_status_to_proto (qr_status run),
      ph_context_source = query_prompt_context_source_to_proto (qr_context_source run),
      ph_sql_original = qr_sql_original run, ph_sql_executed = qr_sql_executed run,
      ph_row_count = qr_row_count run, ph_elapsed_ms = qr_elapsed_ms run,
      ph_error_stage = qr_error_stage run, ph_error_message = qr_error_message run,
      ph_warnings = qr_warnings run, ph_attempts = to_controller_attempts (qr_attempts run),
      ph_created_at = qr_created_at run, ph_completed_at = qr_completed_at run\<rparr>"

definition feedback_to_proto :: "uuid_codec \<Rightarrow> tenant_query_feedback \<Rightarrow> feedback_proto" where
  "feedback_to_proto uc f =
     \<lparr>pf_query_run_id = uc_string uc (fb_query_run_id f), pf_rating = rating_to_proto (fb_rating f),
      pf_comment = fb_comment f, pf_corrected_sql = fb_corrected_sql f,
      pf_created_at = fb_created_at f, pf_updated_at = fb_updated_at f\<rparr>"

definition query_run_review_to_proto :: "uuid_codec \<Rightarrow> review_item \<Rightarrow> review_item_proto" where
  "query_run_review_to_proto uc item =
     \<lparr>pr_run = query_run_history_to_proto uc (ri_run item), pr_has_feedback = ri_has_feedback item,
      pr_latest_feedback = map_option (feedback_to_proto uc) (ri_latest_feedback item),
      pr_has_active_canonical = ri_has_active_canonical item, pr_reviewed_at = ri_reviewed_at item\<rparr>"

definition canonical_example_to_proto :: "uuid_codec \<Rightarrow> canonical_query_example \<Rightarrow> example_proto" where
  "canonical_example_to_proto uc x =
     \<lparr>pe_id = uc_string uc (ex_id x), pe_source_query_run_id = uc_string uc (ex_source_run_id x),
      pe_schema_version_id = uc_string uc (ex_schema_version_id x), pe_question = ex_question x,
      pe_sql = ex_sql x, pe_notes = ex_notes x, pe_created_at = ex_created_at x\<rparr>"

section \<open>Errors\<close>

text \<open>An error of \<open>AskQuestion\<close> carries the result as a detail, when there is one.\<close>

record ask_rpc_error = rpc_error +
  rpc_detail :: "ask_response option"

definition query_error_with_detail ::
  "uuid_codec \<Rightarrow> (nat \<Rightarrow> string) \<Rightarrow> rpc_code \<Rightarrow> gerr \<Rightarrow> ask_question_result \<Rightarrow> ask_rpc_error" where
  "query_error_with_detail uc fmt_v code err r =
     \<lparr>rpc_status = code, rpc_cause = err,
      rpc_detail = (if ar_query_run_id r = uuid_nil \<and> ar_attempts r = [] \<and> ar_warnings r = [] then None
                    else Some (ask_result_to_proto uc fmt_v r))\<rparr>"

definition no_detail :: "rpc_error \<Rightarrow> ask_rpc_error" where
  "no_detail e = \<lparr>rpc_status = rpc_status e, rpc_cause = rpc_cause e, rpc_detail = None\<rparr>"

definition query_ask_error ::
  "uuid_codec \<Rightarrow> (nat \<Rightarrow> string) \<Rightarrow> gerr \<Rightarrow> ask_question_result \<Rightarrow> ask_rpc_error" where
  "query_ask_error uc fmt_v err r =
     (if errors_is err err_query_access_denied then no_detail (rpc_fail CodePermissionDenied err)
      else if errors_is err err_query_empty_question then no_detail (rpc_fail CodeInvalidArgument err)
      else if errors_is err err_query_no_schema then no_detail (rpc_fail CodeFailedPrecondition err)
      else if errors_is err err_query_agent_offline
      then query_error_with_detail uc fmt_v CodeFailedPrecondition err r
      else if errors_is err err_query_all_attempts_failed
      then query_error_with_detail uc fmt_v CodeFailedPrecondition err r
      else if is_unavailable_error err
      then query_error_with_detail uc fmt_v CodeUnavailable public_llm_unavailable_error r
      else query_error_with_detail uc fmt_v CodeInternal err r)"

definition query_read_error :: "gerr \<Rightarrow> rpc_error" where
  "query_read_error err =
     (if is_any err [err_query_access_denied, err_query_review_owner_only]
      then rpc_fail CodePermissionDenied err else rpc_fail CodeInternal err)"

definition query_mutation_error :: "gerr \<Rightarrow> rpc_error" where
  "query_mutation_error err =
     (if is_any err [err_query_access_denied, err_query_feedback_access_denied,
          err_canonical_example_owner_only, err_query_review_owner_only]
      then rpc_fail CodePermissionDenied err
      else if is_any err [err_invalid_query_feedback, err_invalid_canonical_example]
      then rpc_fail CodeInvalidArgument err
      else if is_any err [err_query_run_not_found, err_canonical_example_not_found]
      then rpc_fail CodeNotFound err
      else rpc_fail CodeInternal err)"

section \<open>The service\<close>

record ('x, 'w) query_service =
  qs_uuid :: uuid_codec
  qs_fmt_v :: "nat \<Rightarrow> string"
  qs_env :: "'x query_env"
  qs_controller :: query_controller
  qs_ops :: "'w query_ops"
  qs_review :: review_env

text \<open>
  \<open>AskQuestion\<close>. The handlers of the other calls return the controllers' error by itself. The tables
  of tenants, schemas and layers are only read.
\<close>

definition ask_question_rpc ::
  "('x, 'w) query_service \<Rightarrow> string option \<Rightarrow> string \<Rightarrow> string \<Rightarrow> string \<Rightarrow> layer_world \<Rightarrow>
   'w \<times> query_db \<Rightarrow> (ask_rpc_error + ask_response) \<times> 'w \<times> query_db" where
  "ask_question_rpc sv ctx tenant_raw question locale_raw tables s =
     (case require_user ctx of
        Inl e \<Rightarrow> (Inl (no_detail e), s)
      | Inr user \<Rightarrow>
          (case parse_connect_uuid (qs_uuid sv) tenant_raw ''tenant_id'' of
             Inl e \<Rightarrow> (Inl (no_detail e), s)
           | Inr tid \<Rightarrow>
               (case ask_question (qs_env sv) (qs_controller sv) (qs_ops sv) tid user question
                   (normalize_locale locale_raw) tables s of
                  ((r, Some e), s') \<Rightarrow> (Inl (query_ask_error (qs_uuid sv) (qs_fmt_v sv) e r), s')
                | ((r, None), s') \<Rightarrow> (Inr (ask_result_to_proto (qs_uuid sv) (qs_fmt_v sv) r), s'))))"

definition list_my_query_runs_rpc ::
  "('x, 'w) query_service \<Rightarrow> string option \<Rightarrow> string \<Rightarrow> int \<Rightarrow> layer_world \<Rightarrow> query_db \<Rightarrow>
   (rpc_error + run_history_item list) \<times> query_db" where
  "list_my_query_runs_rpc sv ctx tenant_raw limit tables db =
     with_tenant (qs_uuid sv) ctx tenant_raw (\<lambda>user tid.
       rpc_result query_read_error (map (query_run_history_to_proto (qs_uuid sv)))
         (list_my_query_runs (qs_review sv) tid user limit (lw_tenants tables) db, db)) db"

definition list_review_queue_rpc ::
  "('x, 'w) query_service \<Rightarrow> string option \<Rightarrow> string \<Rightarrow> filter_proto \<Rightarrow> int \<Rightarrow> layer_world \<Rightarrow> query_db \<Rightarrow>
   (rpc_error + review_item_proto list) \<times> query_db" where
  "list_review_queue_rpc sv ctx tenant_raw filt limit tables db =
     with_tenant (qs_uuid sv) ctx tenant_raw (\<lambda>user tid.
       rpc_result query_read_error (map (query_run_review_to_proto (qs_uuid sv)))
         (list_review_queue_ctl (qs_review sv) tid user (review_queue_filter_from_proto filt) limit
           (lw_tenants tables) db, db)) db"

definition mark_query_run_reviewed_rpc ::
  "('x, 'w) query_service \<Rightarrow> string option \<Rightarrow> string \<Rightarrow> string \<Rightarrow> layer_world \<Rightarrow> query_db \<Rightarrow>
   (rpc_error + string \<times> time) \<times> query_db" where
  "mark_query_run_reviewed_rpc sv ctx tenant_raw run_raw tables db =
     with_object (qs_uuid sv) ctx tenant_raw run_raw ''query_run_id'' (\<lambda>user tid rid.
       rpc_result query_mutation_error (\<lambda>(i, t). (uc_string (qs_uuid sv) i, t))
         (mark_query_run_reviewed (qs_review sv) tid user rid (lw_tenants tables) db)) db"

definition submit_query_feedback_rpc ::
  "('x, 'w) query_service \<Rightarrow> string option \<Rightarrow> string \<Rightarrow> string \<Rightarrow> rating_proto \<Rightarrow> string \<Rightarrow> string \<Rightarrow>
   layer_world \<Rightarrow> query_db \<Rightarrow> (rpc_error + feedback_proto) \<times> query_db" where
  "submit_query_feedback_rpc sv ctx tenant_raw run_raw rating comment corrected_sql tables db =
     with_object (qs_uuid sv) ctx tenant_raw run_raw ''query_run_id'' (\<lambda>user tid rid.
       rpc_result query_mutation_error (feedback_to_proto (qs_uuid sv))
         (submit_feedback (qs_review sv) tid user rid (rating_from_proto rating) comment corrected_sql
           (lw_tenants tables) db)) db"

definition create_canonical_example_rpc ::
  "('x, 'w) query_service \<Rightarrow> string option \<Rightarrow> string \<Rightarrow> string \<Rightarrow> string \<Rightarrow> string \<Rightarrow> string \<Rightarrow>
   layer_world \<Rightarrow> query_db \<Rightarrow> (rpc_error + example_proto) \<times> query_db" where
  "create_canonical_example_rpc sv ctx tenant_raw run_raw question sql_text comment tables db =
     with_object (qs_uuid sv) ctx tenant_raw run_raw ''query_run_id'' (\<lambda>user tid rid.
       rpc_result query_mutation_error (canonical_example_to_proto (qs_uuid sv))
         (create_canonical_example (qs_review sv) tid user rid question sql_text comment
           (lw_tenants tables) db)) db"

definition list_canonical_examples_rpc ::
  "('x, 'w) query_service \<Rightarrow> string option \<Rightarrow> string \<Rightarrow> layer_world \<Rightarrow> query_db \<Rightarrow>
   (rpc_error + bool \<times> example_proto list) \<times> query_db" where
  "list_canonical_examples_rpc sv ctx tenant_raw tables db =
     with_tenant (qs_uuid sv) ctx tenant_raw (\<lambda>user tid.
       rpc_result query_mutation_error
         (\<lambda>(manage, xs). (manage, map (canonical_example_to_proto (qs_uuid sv)) xs))
         (list_canonical_examples (qs_review sv) tid user (lw_tenants tables) db, db)) db"

definition archive_canonical_example_rpc ::
  "('x, 'w) query_service \<Rightarrow> string option \<Rightarrow> string \<Rightarrow> string \<Rightarrow> layer_world \<Rightarrow> query_db \<Rightarrow>
   (rpc_error + unit) \<times> query_db" where
  "archive_canonical_example_rpc sv ctx tenant_raw example_raw tables db =
     with_object (qs_uuid sv) ctx tenant_raw example_raw ''example_id'' (\<lambda>user tid xid.
       case archive_canonical_example (qs_review sv) tid user xid (lw_tenants tables) db of
         (Some e, db') \<Rightarrow> (Inl (query_mutation_error e), db')
       | (None, db') \<Rightarrow> (Inr (), db')) db"

text \<open>A call of the service, with the tenant it names; its reply, or its error.\<close>

datatype query_call_rpc =
    AskCall string string
  | ListRunsRpc int
  | ReviewQueueRpc filter_proto int
  | MarkReviewedRpc string
  | FeedbackRpc string rating_proto string string
  | CreateExampleRpc string string string string
  | ListExamplesRpc
  | ArchiveExampleRpc string

datatype query_reply =
    AskReply ask_response | RunsReply "run_history_item list" | QueueReply "review_item_proto list"
  | ReviewedReply "string \<times> time" | FeedbackReply feedback_proto | ExampleReply example_proto
  | ExamplesReply "bool \<times> example_proto list" | ArchivedReply

definition as_reply ::
  "('r \<Rightarrow> query_reply) \<Rightarrow> 'w \<Rightarrow> (rpc_error + 'r) \<times> query_db \<Rightarrow> (ask_rpc_error + query_reply) \<times> 'w \<times> query_db"
where
  "as_reply f w out = (map_sum no_detail f (fst out), (w, snd out))"

fun query_rpc ::
  "('x, 'w) query_service \<Rightarrow> string option \<Rightarrow> string \<Rightarrow> layer_world \<Rightarrow> query_call_rpc \<Rightarrow> 'w \<times> query_db \<Rightarrow>
   (ask_rpc_error + query_reply) \<times> 'w \<times> query_db" where
  "query_rpc sv ctx t tables (AskCall question loc) s =
     (case ask_question_rpc sv ctx t question loc tables s of (out, s') \<Rightarrow> (map_sum id AskReply out, s'))"
| "query_rpc sv ctx t tables (ListRunsRpc limit) (w, db) =
     as_reply RunsReply w (list_my_query_runs_rpc sv ctx t limit tables db)"
| "query_rpc sv ctx t tables (ReviewQueueRpc filt limit) (w, db) =
     as_reply QueueReply w (list_review_queue_rpc sv ctx t filt limit tables db)"
| "query_rpc sv ctx t tables (MarkReviewedRpc run) (w, db) =
     as_reply ReviewedReply w (mark_query_run_reviewed_rpc sv ctx t run tables db)"
| "query_rpc sv ctx t tables (FeedbackRpc run rating comment sql_text) (w, db) =
     as_reply FeedbackReply w (submit_query_feedback_rpc sv ctx t run rating comment sql_text tables db)"
| "query_rpc sv ctx t tables (CreateExampleRpc run question sql_text comment) (w, db) =
     as_reply ExampleReply w (create_canonical_example_rpc sv ctx t run question sql_text comment tables db)"
| "query_rpc sv ctx t tables ListExamplesRpc (w, db) =
     as_reply ExamplesReply w (list_canonical_examples_rpc sv ctx t tables db)"
| "query_rpc sv ctx t tables (ArchiveExampleRpc x) (w, db) =
     as_reply (\<lambda>_. ArchivedReply) w (archive_canonical_example_rpc sv ctx t x tables db)"

section \<open>handler/query.go: the debug endpoint\<close>

text \<open>The body of a request is \<open>None\<close> when it is not the JSON expected.\<close>

datatype query_debug_body =
    DebugError string
  | DebugOffline
  | DebugStatus session_snapshot
  | DebugDenied string string "string list"
  | DebugInternal string string
  | DebugRows execute_query_result

definition first_non_empty_value :: "string list \<Rightarrow> string" where
  "first_non_empty_value values = (case find (\<lambda>v. trim_space v \<noteq> []) values of None \<Rightarrow> [] | Some v \<Rightarrow> v)"

definition debug_get_status ::
  "uuid_codec \<Rightarrow> gerr option \<Rightarrow> string option \<Rightarrow> string \<Rightarrow> tenant_db \<Rightarrow> time \<Rightarrow> uuid list \<Rightarrow> manager \<Rightarrow>
   int \<times> query_debug_body" where
  "debug_get_status uc io ctx tenant_raw tdb now tokens m =
     (case authorize_owner uc io ctx tenant_raw tdb of
        Inl (code, msg) \<Rightarrow> (code, DebugError msg)
      | Inr tid \<Rightarrow>
          (case latest_session_for_tenant now tokens tid m of
             None \<Rightarrow> (200, DebugOffline)
           | Some snap \<Rightarrow> (200, DebugStatus snap)))"

definition debug_query_response :: "gerr + execute_query_result \<Rightarrow> int \<times> query_debug_body" where
  "debug_query_response out =
     (case out of
        Inl err \<Rightarrow>
          (if is_any err [err_tenant_not_connected, err_session_not_active, err_command_rejected]
           then (409, DebugError (err_text err))
           else if errors_is err ContextDeadlineExceeded then (504, DebugError ''query timed out'')
           else (500, DebugError ''internal server error''))
      | Inr r \<Rightarrow>
          (if eq_error_code r = code_permission_denied
           then (403, DebugDenied (first_non_empty_value [eq_error_reason r, eq_error r]) (eq_error_code r)
                  (eq_blocked_constructs r))
           else if eq_error_code r = code_internal
           then (500, DebugInternal (first_non_empty_value [eq_error_reason r, eq_error r]) (eq_error_code r))
           else if eq_error r \<noteq> [] then (400, DebugError (eq_error r))
           else (200, DebugRows r)))"

definition debug_execute_query ::
  "uuid_codec \<Rightarrow> gerr option \<Rightarrow> 'w query_ops \<Rightarrow> string option \<Rightarrow> string \<Rightarrow> string option \<Rightarrow> tenant_db \<Rightarrow> 'w \<Rightarrow>
   (int \<times> query_debug_body) \<times> 'w" where
  "debug_execute_query uc io ops ctx tenant_raw body tdb w =
     (case authorize_owner uc io ctx tenant_raw tdb of
        Inl (code, msg) \<Rightarrow> ((code, DebugError msg), w)
      | Inr tid \<Rightarrow>
          (case body of
             None \<Rightarrow> ((400, DebugError ''invalid json body''), w)
           | Some raw \<Rightarrow>
               (let sql_text = trim_space raw in
                if sql_text = [] then ((400, DebugError ''sql is required''), w)
                else (case qo_execute ops tid sql_text w of (out, w') \<Rightarrow> (debug_query_response out, w')))))"

section \<open>Who is served\<close>

lemma not_member_query_membership:
  "\<not> is_member tid user tdb \<Longrightarrow> io MembershipCall = None \<Longrightarrow>
     query_membership io tid user tdb = Inl err_query_access_denied"
  by (simp add: query_membership_def ensure_membership_def not_member_membership)

lemma query_error_of_denial [simp]:
  "rpc_status (query_read_error err_query_access_denied) = CodePermissionDenied"
  "rpc_status (query_mutation_error err_query_access_denied) = CodePermissionDenied"
  by (simp_all add: query_read_error_def query_mutation_error_def is_any_def)

lemma as_reply_denied: "denied out db \<Longrightarrow> fst out = Inl e \<Longrightarrow>
   as_reply f w out = (Inl (no_detail e), (w, db)) \<and>
   rpc_status (no_detail e) \<in> {CodeUnauthenticated, CodeInvalidArgument, CodePermissionDenied}"
  by (auto simp: as_reply_def denied_def no_detail_def)

lemma ask_question_outsider:
  assumes "\<not> is_member tid user (lw_tenants tables)" "qe_io env MembershipCall = None"
  shows "ask_question env c ops tid user question loc tables s =
    ((empty_ask_result, Some (if trim_space question = [] then err_query_empty_question
        else err_query_access_denied)), s)"
  using not_member_query_membership [OF assms(1), of "qe_io env"] assms(2)
  by (simp add: ask_question_def validate_ask_request_def Let_def split: prod.split)

lemma query_ask_error_denials:
  "query_ask_error uc fmt_v err_query_access_denied r =
     no_detail (rpc_fail CodePermissionDenied err_query_access_denied)"
  "query_ask_error uc fmt_v err_query_empty_question r =
     no_detail (rpc_fail CodeInvalidArgument err_query_empty_question)"
  by (simp_all add: query_ask_error_def err_query_empty_question_def err_query_access_denied_def)

lemma ask_question_rpc_outsider:
  assumes "outsider (qs_uuid sv) ctx tenant_raw (lw_tenants tables)" "qe_io (qs_env sv) MembershipCall = None"
  shows "\<exists>e. ask_question_rpc sv ctx tenant_raw question loc tables s = (Inl e, s) \<and> rpc_detail e = None \<and>
    rpc_status e \<in> {CodeUnauthenticated, CodeInvalidArgument, CodePermissionDenied}"
proof (cases ctx)
  case None
  then show ?thesis
    by (simp add: ask_question_rpc_def require_user_def no_detail_def unauthenticated_error_def)
next
  case (Some user)
  show ?thesis
  proof (cases "uc_parse (qs_uuid sv) tenant_raw")
    case None
    with Some show ?thesis
      by (simp add: ask_question_rpc_def require_user_def parse_connect_uuid_def no_detail_def)
  next
    case (Some tid)
    with \<open>ctx = Some user\<close> assms(1) have "\<not> is_member tid user (lw_tenants tables)"
      by (simp add: outsider_def)
    from ask_question_outsider [OF this assms(2), of "qs_controller sv" "qs_ops sv" question
        "normalize_locale loc" s] Some \<open>ctx = Some user\<close> show ?thesis
      by (cases "trim_space question = []")
        (simp_all add: ask_question_rpc_def require_user_def parse_connect_uuid_def query_ask_error_denials
          no_detail_def)
  qed
qed

text \<open>
  C29. Nobody but a member of the tenant named in a request is served by the question service: for
  every call without a verified user, with a tenant id that is no UUID, or by a user who is not a
  member of that tenant, the reply is an error with the code Unauthenticated, InvalidArgument or
  PermissionDenied and no detail, and neither the tables nor the model nor the agent are touched.
\<close>

theorem question_service_denies_outsiders:
  assumes "outsider (qs_uuid sv) ctx tenant_raw (lw_tenants tables)"
    and "qe_io (qs_env sv) MembershipCall = None" and "rv_io (qs_review sv) MembershipCall = None"
  shows "\<exists>e. query_rpc sv ctx tenant_raw tables call s = (Inl e, s) \<and> rpc_detail e = None \<and>
    rpc_status e \<in> {CodeUnauthenticated, CodeInvalidArgument, CodePermissionDenied}"
proof -
  obtain w db where s: "s = (w, db)" by (cases s)
  have reply: "\<exists>e. as_reply f w out = (Inl e, (w, db)) \<and> rpc_detail e = None \<and>
      rpc_status e \<in> {CodeUnauthenticated, CodeInvalidArgument, CodePermissionDenied}"
    if "denied out db" for f :: "'r \<Rightarrow> query_reply" and out
    using that by (auto simp: as_reply_def denied_def no_detail_def)
  note mem = not_member_query_membership [of _ _ "lw_tenants tables" "rv_io (qs_review sv)", OF _ assms(3)]
  note gates = with_tenant_denied [OF assms(1)] with_object_denied [OF assms(1)]
  show ?thesis
  proof (cases call)
    case (AskCall question loc)
    then show ?thesis using ask_question_rpc_outsider [OF assms(1,2), of question loc s] by auto
  next
    case (ListRunsRpc limit)
    have "denied (list_my_query_runs_rpc sv ctx tenant_raw limit tables db) db"
      unfolding list_my_query_runs_rpc_def
      by (intro gates rpc_result_denied) (simp add: list_my_query_runs_def mem)+
    then show ?thesis using reply by (simp add: ListRunsRpc s)
  next
    case (ReviewQueueRpc filt limit)
    have "denied (list_review_queue_rpc sv ctx tenant_raw filt limit tables db) db"
      unfolding list_review_queue_rpc_def
      by (intro gates rpc_result_denied) (simp add: list_review_queue_ctl_def owner_membership_def mem)+
    then show ?thesis using reply by (simp add: ReviewQueueRpc s)
  next
    case (MarkReviewedRpc run)
    have "denied (mark_query_run_reviewed_rpc sv ctx tenant_raw run tables db) db"
      unfolding mark_query_run_reviewed_rpc_def
      by (intro gates rpc_result_denied) (simp add: mark_query_run_reviewed_def owner_membership_def mem)+
    then show ?thesis using reply by (simp add: MarkReviewedRpc s)
  next
    case (FeedbackRpc run rating comment sql_text)
    have "denied (submit_query_feedback_rpc sv ctx tenant_raw run rating comment sql_text tables db) db"
      unfolding submit_query_feedback_rpc_def
      by (intro gates rpc_result_denied) (simp add: submit_feedback_def mem)+
    then show ?thesis using reply by (simp add: FeedbackRpc s)
  next
    case (CreateExampleRpc run question sql_text comment)
    have "denied (create_canonical_example_rpc sv ctx tenant_raw run question sql_text comment tables db) db"
      unfolding create_canonical_example_rpc_def
      by (intro gates rpc_result_denied) (simp add: create_canonical_example_def owner_membership_def mem)+
    then show ?thesis using reply by (simp add: CreateExampleRpc s)
  next
    case ListExamplesRpc
    have "denied (list_canonical_examples_rpc sv ctx tenant_raw tables db) db"
      unfolding list_canonical_examples_rpc_def
      by (intro gates rpc_result_denied) (simp add: list_canonical_examples_def mem)+
    then show ?thesis using reply by (simp add: ListExamplesRpc s)
  next
    case (ArchiveExampleRpc x)
    have "denied (archive_canonical_example_rpc sv ctx tenant_raw x tables db) db"
      unfolding archive_canonical_example_rpc_def
      by (intro gates) (simp add: archive_canonical_example_def owner_membership_def mem denied_def)
    then show ?thesis using reply by (simp add: ArchiveExampleRpc s)
  qed
qed

text \<open>
  C30. An answer is a stored one: when \<open>AskQuestion\<close> replies, the memory holds one new run, of the
  calling user and the tenant named, that succeeded, has the id in the reply and counts as many rows
  as the reply has.
\<close>

theorem answered_questions_are_stored:
  assumes "ask_question_rpc sv ctx tenant_raw question locale_raw tables (w, db) = (Inr reply, (w', db'))"
    and "stores_runs (qs_env sv) db"
  shows "\<exists>user tid row. ctx = Some user \<and> uc_parse (qs_uuid sv) tenant_raw = Some tid \<and>
    qd_runs db' = qd_runs db @ [row] \<and> qr_tenant_id row = tid \<and> qr_clerk_user_id row = user \<and>
    qr_status row = RunSucceeded \<and> pa_query_run_id reply = uc_string (qs_uuid sv) (qr_id row) \<and>
    qr_row_count row = int (length (pa_rows reply))"
proof -
  from assms(1) obtain user tid where id: "ctx = Some user" "uc_parse (qs_uuid sv) tenant_raw = Some tid"
    by (auto simp: ask_question_rpc_def require_user_def parse_connect_uuid_def split: option.splits)
  obtain r e s' where run: "ask_question (qs_env sv) (qs_controller sv) (qs_ops sv) tid user question
      (normalize_locale locale_raw) tables (w, db) = ((r, e), s')" by (metis prod.exhaust)
  with assms(1) id have ok: "e = None" "s' = (w', db')" "reply = ask_result_to_proto (qs_uuid sv) (qs_fmt_v sv) r"
    by (auto simp: ask_question_rpc_def require_user_def parse_connect_uuid_def split: option.splits)
  from ask_question_closes [OF assms(2)] run ok have "closed_run (qs_env sv) db tid user (r, None) db'"
    by fastforce
  moreover have "qe_run_id (qs_env sv) \<noteq> uuid_nil" using assms(2) by (simp add: stores_runs_def)
  ultimately show ?thesis
    using id by (auto simp: closed_run_def ok(3) ask_result_to_proto_def)
qed

text \<open>
  C31. The debug endpoint sends SQL for owners only: the agent is asked at most once, for the tenant
  named and with the trimmed, non-empty SQL of the body, and only when the verified caller is an owner
  of that tenant; otherwise the answer is a client or server error and nothing is sent.
\<close>

theorem debug_sql_needs_owner:
  "(\<exists>user tid raw. ctx = Some user \<and> uc_parse uc tenant_raw = Some tid \<and> body = Some raw \<and>
      owns_tenant tid user tdb \<and> trim_space raw \<noteq> [] \<and>
      debug_execute_query uc io ops ctx tenant_raw body tdb w =
        (case qo_execute ops tid (trim_space raw) w of (out, w') \<Rightarrow> (debug_query_response out, w'))) \<or>
   (\<exists>code msg. debug_execute_query uc io ops ctx tenant_raw body tdb w = ((code, DebugError msg), w) \<and>
      code \<in> {400, 401, 403, 500})"
proof (cases "authorize_owner uc io ctx tenant_raw tdb")
  case (Inl e)
  then show ?thesis
    by (auto simp: debug_execute_query_def authorize_owner_def split: option.splits sum.splits if_splits)
next
  case (Inr tid)
  from authorize_owner_owner [OF Inr] Inr have "\<exists>user. ctx = Some user \<and> owns_tenant tid user tdb"
    "uc_parse uc tenant_raw = Some tid"
    by (auto simp: authorize_owner_def split: option.splits sum.splits if_splits)
  with Inr show ?thesis
    by (cases body) (auto simp: debug_execute_query_def Let_def)
qed

section \<open>Examples\<close>

definition example_uuids :: uuid_codec where
  "example_uuids = \<lparr>uc_parse = (\<lambda>s. case s of [c] \<Rightarrow> if c = CHR ''3'' then Some 3 else None | _ \<Rightarrow> None),
     uc_string = (\<lambda>i. itoa (int i))\<rparr>"

definition example_question_service :: "(unit, nat) query_service" where
  "example_question_service = \<lparr>qs_uuid = example_uuids, qs_fmt_v = (\<lambda>_. []), qs_env = example_query_env,
     qs_controller = example_query_controller, qs_ops = example_query_ops, qs_review = sample_review_env\<rparr>"

lemma example_question_service_fields:
  "qs_uuid example_question_service = example_uuids" "qs_env example_question_service = example_query_env"
  "qs_controller example_question_service = example_query_controller" "qs_ops example_question_service = example_query_ops"
  "qs_review example_question_service = sample_review_env"
  by (simp_all add: example_question_service_def)

theorem question_service_denies_outsiders_witness:
  "\<exists>e. query_rpc example_question_service (Some ''v'') ''3'' example_ask_tables (ArchiveExampleRpc ''3'') (0, empty_query_db) =
     (Inl e, (0, empty_query_db)) \<and> rpc_status e \<in> {CodeUnauthenticated, CodeInvalidArgument, CodePermissionDenied}"
proof -
  have out: "outsider (qs_uuid example_question_service) (Some ''v'') ''3'' (lw_tenants example_ask_tables)"
    unfolding example_question_service_fields by code_simp
  have io: "qe_io (qs_env example_question_service) MembershipCall = None"
    "rv_io (qs_review example_question_service) MembershipCall = None"
    by (simp_all add: example_question_service_fields example_env_fields sample_review_env_def)
  from question_service_denies_outsiders [OF out io, of "ArchiveExampleRpc ''3''" "(0, empty_query_db)"]
  show ?thesis by blast
qed

theorem answered_questions_are_stored_witness:
  "\<exists>reply w db row. ask_question_rpc example_question_service (Some ''u'') ''3'' ''how many?'' ''en'' example_ask_tables
       (0, empty_query_db) = (Inr reply, (w, db)) \<and>
     qd_runs db = [row] \<and> qr_status row = RunSucceeded \<and> qr_tenant_id row = 3"
proof -
  have stores: "stores_runs (qs_env example_question_service) empty_query_db"
    by (simp add: stores_runs_def example_question_service_fields example_env_fields uuid_nil_def empty_query_db_def)
  obtain r w db where ask: "example_ask = ((r, None), (w, db))"
    using example_ask_value(2) by (metis prod.collapse)
  then have run0: "ask_question example_query_env example_query_controller example_query_ops 3 ''u'' ''how many?''
      LocaleEnglish example_ask_tables (0, empty_query_db) = ((r, None), (w, db))" by (simp add: example_ask_def)
  have "uc_parse example_uuids ''3'' = Some 3" "normalize_locale ''en'' = LocaleEnglish"
    by (simp_all add: example_uuids_def normalize_locale_def)
  with run0 have run: "ask_question_rpc example_question_service (Some ''u'') ''3'' ''how many?'' ''en'' example_ask_tables
      (0, empty_query_db) = (Inr (ask_result_to_proto example_uuids (qs_fmt_v example_question_service) r), (w, db))"
    by (simp add: ask_question_rpc_def require_user_def parse_connect_uuid_def example_question_service_fields)
  from answered_questions_are_stored [OF run stores] run \<open>uc_parse example_uuids ''3'' = Some 3\<close>
  show ?thesis by (auto simp: example_question_service_fields empty_query_db_def)
qed

end
