(* ===== verification/WorkspaceHandlers.thy ===== *)
theory WorkspaceHandlers
  imports ConnectHelpers
begin

text \<open>
  handler/tenant.go and handler/onboarding.go, the Connect services of tenants, agent tokens and
  onboarding over \<open>Tenancy\<close> and \<open>Onboarding\<close>. The generated message types are records with their
  fields, a timestamp is its instant.
\<close>

section \<open>handler/tenant.go\<close>

record tenant_proto =
  tp_id :: string
  tp_slug :: string
  tp_name :: string
  tp_created_at :: time

record token_proto =
  kp_id :: string
  kp_label :: string
  kp_created_at :: time
  kp_last_used_at :: "time option"
  kp_revoked_at :: "time option"

definition tenant_to_proto :: "uuid_codec \<Rightarrow> tenant \<Rightarrow> tenant_proto" where
  "tenant_to_proto uc t =
     \<lparr>tp_id = uc_string uc (tenant_id t), tp_slug = tenant_slug t, tp_name = tenant_name t,
      tp_created_at = tenant_created_at t\<rparr>"

definition token_to_proto :: "uuid_codec \<Rightarrow> tenant_token \<Rightarrow> token_proto" where
  "token_to_proto uc tt =
     \<lparr>kp_id = uc_string uc (tok_id tt), kp_label = tok_label tt, kp_created_at = tok_created_at tt,
      kp_last_used_at = tok_last_used_at tt, kp_revoked_at = tok_revoked_at tt\<rparr>"

definition membership_error :: "gerr \<Rightarrow> rpc_error" where
  "membership_error err =
     (if errors_is err err_not_found
      then rpc_fail CodePermissionDenied (ErrNew ''not a member of this tenant'')
      else rpc_fail CodeInternal err)"

definition to_connect_error :: "gerr \<Rightarrow> rpc_error" where
  "to_connect_error err =
     (if is_any err [err_invalid_slug, err_invalid_name, err_invalid_label]
      then rpc_fail CodeInvalidArgument err
      else if errors_is err err_not_found then rpc_fail CodeNotFound err
      else rpc_fail CodeInternal err)"

text \<open>What one call sees: the driver's errors, the clock, the fresh id and the random bytes.\<close>

datatype tenant_call =
    InsertTenantCall | InsertOwnerCall | CommitTenantCall | TenantListCall | TenantMemberCall
  | InsertTokenCall | TokenListCall | RevokeTokenCall

record tenant_service =
  ts_uuid :: uuid_codec
  ts_io :: "tenant_call \<Rightarrow> gerr option"
  ts_now :: time
  ts_new_id :: uuid
  ts_sha :: "string \<Rightarrow> string"
  ts_random :: "gerr + nat list"

definition create_tenant_rpc ::
  "tenant_service \<Rightarrow> string option \<Rightarrow> string \<Rightarrow> string \<Rightarrow> tenant_db \<Rightarrow>
   (rpc_error + tenant_proto) \<times> tenant_db" where
  "create_tenant_rpc sv ctx slug name db =
     (case require_user ctx of
        Inl e \<Rightarrow> (Inl e, db)
      | Inr user \<Rightarrow>
          rpc_result to_connect_error (tenant_to_proto (ts_uuid sv))
            (create_tenant (ts_io sv InsertTenantCall) (ts_io sv InsertOwnerCall) (ts_io sv CommitTenantCall)
              (ts_now sv) (ts_new_id sv) user slug name db))"

definition list_tenants_rpc ::
  "tenant_service \<Rightarrow> string option \<Rightarrow> tenant_db \<Rightarrow> (rpc_error + tenant_proto list) \<times> tenant_db" where
  "list_tenants_rpc sv ctx db =
     (case require_user ctx of
        Inl e \<Rightarrow> (Inl e, db)
      | Inr user \<Rightarrow>
          rpc_result (rpc_fail CodeInternal) (map (tenant_to_proto (ts_uuid sv)))
            (list_for_user (ts_io sv TenantListCall) user db, db))"

definition issue_agent_token_rpc ::
  "tenant_service \<Rightarrow> string option \<Rightarrow> string \<Rightarrow> string \<Rightarrow> tenant_db \<Rightarrow>
   (rpc_error + token_proto \<times> string) \<times> tenant_db" where
  "issue_agent_token_rpc sv ctx tenant_raw label db =
     with_tenant (ts_uuid sv) ctx tenant_raw (\<lambda>user tid.
       case ensure_membership (ts_io sv TenantMemberCall) tid user db of
         Inl e \<Rightarrow> (Inl (membership_error e), db)
       | Inr _ \<Rightarrow>
           rpc_result to_connect_error (\<lambda>(rec, plaintext). (token_to_proto (ts_uuid sv) rec, plaintext))
             (issue_agent_token (ts_sha sv) (ts_random sv) (ts_io sv InsertTokenCall) (ts_now sv)
               (ts_new_id sv) tid label db)) db"

definition list_agent_tokens_rpc ::
  "tenant_service \<Rightarrow> string option \<Rightarrow> string \<Rightarrow> tenant_db \<Rightarrow> (rpc_error + token_proto list) \<times> tenant_db" where
  "list_agent_tokens_rpc sv ctx tenant_raw db =
     with_tenant (ts_uuid sv) ctx tenant_raw (\<lambda>user tid.
       case ensure_membership (ts_io sv TenantMemberCall) tid user db of
         Inl e \<Rightarrow> (Inl (membership_error e), db)
       | Inr _ \<Rightarrow>
           rpc_result (rpc_fail CodeInternal) (map (token_to_proto (ts_uuid sv)))
             (list_tokens_by_tenant (ts_io sv TokenListCall) tid db, db)) db"

definition revoke_agent_token_rpc ::
  "tenant_service \<Rightarrow> string option \<Rightarrow> string \<Rightarrow> string \<Rightarrow> tenant_db \<Rightarrow>
   (rpc_error + unit) \<times> tenant_db" where
  "revoke_agent_token_rpc sv ctx tenant_raw token_raw db =
     with_object (ts_uuid sv) ctx tenant_raw token_raw ''token_id'' (\<lambda>user tid token_id.
       case ensure_membership (ts_io sv TenantMemberCall) tid user db of
         Inl e \<Rightarrow> (Inl (membership_error e), db)
       | Inr _ \<Rightarrow>
           (case revoke_agent_token (ts_io sv RevokeTokenCall) (ts_now sv) tid token_id db of
              (Some e, db') \<Rightarrow> (Inl (to_connect_error e), db')
            | (None, db') \<Rightarrow> (Inr (), db'))) db"

section \<open>handler/onboarding.go: messages\<close>

datatype workspace_role_proto = WorkspaceRoleUnspecified | WorkspaceRoleOwner | WorkspaceRoleMember

record workspace_summary =
  ws_tenant_id :: string
  ws_slug :: string
  ws_name :: string
  ws_role :: workspace_role_proto
  ws_complete :: bool
  ws_current_step :: int
  ws_updated_at :: "time option"

record invite_summary =
  is_id :: string
  is_email :: string
  is_created_at :: "time option"

record onboarding_state_proto =
  po_tenant_id :: string
  po_slug :: string
  po_name :: string
  po_role :: workspace_role_proto
  po_complete :: bool
  po_current_step :: int
  po_primary_language :: string
  po_install_slug :: string
  po_docker_run_command :: string
  po_agent_token_id :: string
  po_agent_token_plaintext :: string
  po_agent_session_id :: string
  po_agent_connected :: bool
  po_agent_wait_started_at :: "time option"
  po_agent_connected_at :: "time option"
  po_agent_timed_out :: bool
  po_db_host :: string
  po_db_port :: int
  po_db_name :: string
  po_db_username :: string
  po_generated_password :: string
  po_db_setup_sql :: string
  po_db_verified_at :: "time option"
  po_db_error_code :: string
  po_db_error_message_ko :: string
  po_schema_version_id :: string
  po_schema_table_count :: int
  po_schema_column_count :: int
  po_schema_fk_count :: int
  po_semantic_layer_id :: string
  po_semantic_approved_at :: "time option"
  po_updated_at :: "time option"
  po_can_edit :: bool
  po_waiting_for_owner :: bool
  po_completed_at :: "time option"
  po_invites :: "invite_summary list"

fun workspace_role_to_proto :: "role \<Rightarrow> workspace_role_proto" where
  "workspace_role_to_proto RoleOwner = WorkspaceRoleOwner"
| "workspace_role_to_proto RoleMember = WorkspaceRoleMember"

definition workspace_summary_to_proto :: "uuid_codec \<Rightarrow> onboarding_workspace \<Rightarrow> workspace_summary" where
  "workspace_summary_to_proto uc ws =
     \<lparr>ws_tenant_id = uc_string uc (ow_tenant_id ws), ws_slug = ow_slug ws, ws_name = ow_name ws,
      ws_role = workspace_role_to_proto (ow_role ws), ws_complete = ow_complete ws,
      ws_current_step = ow_current_step ws, ws_updated_at = timestamp_or_nil (ow_updated_at ws)\<rparr>"

definition invite_to_proto :: "uuid_codec \<Rightarrow> tenant_invite \<Rightarrow> invite_summary" where
  "invite_to_proto uc x =
     \<lparr>is_id = uc_string uc (inv_id x), is_email = inv_email x,
      is_created_at = timestamp_or_nil (inv_created_at x)\<rparr>"

definition onboarding_state_to_proto :: "uuid_codec \<Rightarrow> onboarding_state_view \<Rightarrow> onboarding_state_proto" where
  "onboarding_state_to_proto uc view =
     (let payload = ov_payload view; ws = ov_workspace view; st = ov_state view;
          trimmed = trim_space (ob_workspace_name payload)
      in \<lparr>po_tenant_id = uc_string uc (ow_tenant_id ws), po_slug = ow_slug ws,
          po_name = (if trimmed \<noteq> [] then trimmed else ow_name ws),
          po_role = workspace_role_to_proto (ow_role ws),
          po_complete = (os_completed_at st \<noteq> None), po_current_step = os_current_step st,
          po_primary_language = ob_primary_language payload, po_install_slug = ob_install_slug payload,
          po_docker_run_command = ov_docker_run_command view,
          po_agent_token_id = ob_agent_token_id payload,
          po_agent_token_plaintext = ob_agent_token_plain payload,
          po_agent_session_id = ob_agent_session_id payload,
          po_agent_connected = ov_agent_connected view,
          po_agent_wait_started_at = timestamp_ptr (ob_agent_wait_started payload),
          po_agent_connected_at = timestamp_ptr (ob_agent_connected_at payload),
          po_agent_timed_out = ov_agent_timed_out view,
          po_db_host = ob_database_host payload, po_db_port = ob_database_port payload,
          po_db_name = ob_database_name payload, po_db_username = ob_database_username payload,
          po_generated_password = ob_generated_password payload, po_db_setup_sql = ov_db_setup_sql view,
          po_db_verified_at = timestamp_ptr (ob_db_verified_at payload),
          po_db_error_code = ob_db_error_code payload,
          po_db_error_message_ko = ob_db_error_message_ko payload,
          po_schema_version_id = ob_schema_version_id payload,
          po_schema_table_count = ob_schema_table_count payload,
          po_schema_column_count = ob_schema_column_count payload,
          po_schema_fk_count = ob_schema_fk_count payload,
          po_semantic_layer_id = ob_semantic_layer_id payload,
          po_semantic_approved_at = timestamp_ptr (ob_semantic_approved payload),
          po_updated_at = timestamp_or_nil (os_updated_at st), po_can_edit = ov_can_edit view,
          po_waiting_for_owner = ov_waiting_for_owner view,
          po_completed_at = timestamp_ptr (os_completed_at st),
          po_invites = map (invite_to_proto uc) (ov_invites view)\<rparr>)"

definition onboarding_error :: "gerr \<Rightarrow> rpc_error" where
  "onboarding_error err =
     (if is_any err [err_onboarding_access_denied, err_onboarding_owner_required]
      then rpc_fail CodePermissionDenied err
      else if is_any err [err_onboarding_invalid_workspace_name, err_onboarding_primary_language_required,
          err_onboarding_invite_email_invalid]
      then rpc_fail CodeInvalidArgument err
      else if is_any err [err_onboarding_invalid_step, err_onboarding_step_locked,
          err_onboarding_invalid_semantic_layer, err_tenant_not_connected, err_session_not_active,
          err_command_rejected, err_agent_schema_introspection_failed]
      then rpc_fail CodeFailedPrecondition err
      else if errors_is err err_not_found then rpc_fail CodeNotFound err
      else rpc_fail CodeInternal err)"

section \<open>handler/onboarding.go: the service\<close>

text \<open>
  \<open>runStateOnly\<close>, and \<open>connectStateResponse\<close> of the same steps, with the reply that the state alone
  makes; \<open>SaveWelcome\<close> writes the same steps out.
\<close>

definition run_state_only ::
  "uuid_codec \<Rightarrow> string option \<Rightarrow> string \<Rightarrow>
   (string \<Rightarrow> uuid \<Rightarrow> (gerr + onboarding_state_view) \<times> onboarding_world) \<Rightarrow> onboarding_world \<Rightarrow>
   (rpc_error + onboarding_state_proto) \<times> onboarding_world" where
  "run_state_only uc ctx tenant_raw run w =
     with_tenant uc ctx tenant_raw (\<lambda>user tid.
       rpc_result onboarding_error (onboarding_state_to_proto uc) (run user tid)) w"

definition list_workspaces_rpc ::
  "uuid_codec \<Rightarrow> onboarding_env \<Rightarrow> string option \<Rightarrow> onboarding_world \<Rightarrow>
   (rpc_error + workspace_summary list) \<times> onboarding_world" where
  "list_workspaces_rpc uc env ctx w =
     (case require_user ctx of
        Inl e \<Rightarrow> (Inl e, w)
      | Inr user \<Rightarrow>
          rpc_result (rpc_fail CodeInternal) (map (workspace_summary_to_proto uc)) (list_workspaces env user w, w))"

definition get_state_rpc ::
  "uuid_codec \<Rightarrow> onboarding_env \<Rightarrow> string option \<Rightarrow> string \<Rightarrow> onboarding_world \<Rightarrow>
   (rpc_error + onboarding_state_proto) \<times> onboarding_world" where
  "get_state_rpc uc env ctx tenant_raw w =
     run_state_only uc ctx tenant_raw (\<lambda>user tid. get_state env tid user w) w"

definition save_welcome_rpc ::
  "uuid_codec \<Rightarrow> onboarding_env \<Rightarrow> string option \<Rightarrow> string \<Rightarrow> string \<Rightarrow> string \<Rightarrow> bool \<Rightarrow> bool \<Rightarrow>
   onboarding_world \<Rightarrow> (rpc_error + onboarding_state_proto) \<times> onboarding_world" where
  "save_welcome_rpc uc env ctx tenant_raw name lang confirm auto w =
     run_state_only uc ctx tenant_raw
       (\<lambda>user tid. save_welcome env tid user name lang confirm auto w) w"

definition ensure_install_bundle_rpc ::
  "uuid_codec \<Rightarrow> onboarding_env \<Rightarrow> string option \<Rightarrow> string \<Rightarrow> onboarding_world \<Rightarrow>
   (rpc_error + onboarding_state_proto) \<times> onboarding_world" where
  "ensure_install_bundle_rpc uc env ctx tenant_raw w =
     run_state_only uc ctx tenant_raw (\<lambda>user tid. ensure_install_bundle env tid user w) w"

definition get_agent_connection_status_rpc ::
  "uuid_codec \<Rightarrow> onboarding_env \<Rightarrow> string option \<Rightarrow> string \<Rightarrow> onboarding_world \<Rightarrow>
   (rpc_error + onboarding_state_proto) \<times> onboarding_world" where
  "get_agent_connection_status_rpc uc env ctx tenant_raw w =
     run_state_only uc ctx tenant_raw (\<lambda>user tid. get_agent_connection_status env tid user w) w"

definition configure_database_rpc ::
  "uuid_codec \<Rightarrow> onboarding_env \<Rightarrow> string option \<Rightarrow> string \<Rightarrow> string \<Rightarrow> int \<Rightarrow> string \<Rightarrow> string \<Rightarrow> string \<Rightarrow>
   onboarding_world \<Rightarrow> (rpc_error + onboarding_state_proto) \<times> onboarding_world" where
  "configure_database_rpc uc env ctx tenant_raw host port name conn locale_raw w =
     (let loc = normalize_locale locale_raw in
      run_state_only uc ctx tenant_raw
        (\<lambda>user tid. onboarding_configure_database env tid user host port name conn loc w) w)"

definition run_schema_introspection_rpc ::
  "uuid_codec \<Rightarrow> onboarding_env \<Rightarrow> string option \<Rightarrow> string \<Rightarrow> onboarding_world \<Rightarrow>
   (rpc_error + onboarding_state_proto) \<times> onboarding_world" where
  "run_schema_introspection_rpc uc env ctx tenant_raw w =
     run_state_only uc ctx tenant_raw (\<lambda>user tid. run_schema_introspection env tid user w) w"

definition mark_semantic_approved_rpc ::
  "uuid_codec \<Rightarrow> onboarding_env \<Rightarrow> string option \<Rightarrow> string \<Rightarrow> string \<Rightarrow> onboarding_world \<Rightarrow>
   (rpc_error + onboarding_state_proto) \<times> onboarding_world" where
  "mark_semantic_approved_rpc uc env ctx tenant_raw layer_raw w =
     with_object uc ctx tenant_raw layer_raw ''semantic_layer_id'' (\<lambda>user tid lid.
       rpc_result onboarding_error (onboarding_state_to_proto uc)
         (mark_semantic_approved env tid user lid w)) w"

definition complete_starter_step_rpc ::
  "uuid_codec \<Rightarrow> onboarding_env \<Rightarrow> string option \<Rightarrow> string \<Rightarrow> onboarding_world \<Rightarrow>
   (rpc_error + onboarding_state_proto) \<times> onboarding_world" where
  "complete_starter_step_rpc uc env ctx tenant_raw w =
     run_state_only uc ctx tenant_raw (\<lambda>user tid. complete_starter_step env tid user w) w"

definition complete_onboarding_rpc ::
  "uuid_codec \<Rightarrow> onboarding_env \<Rightarrow> string option \<Rightarrow> string \<Rightarrow> onboarding_world \<Rightarrow>
   (rpc_error + onboarding_state_proto) \<times> onboarding_world" where
  "complete_onboarding_rpc uc env ctx tenant_raw w =
     run_state_only uc ctx tenant_raw (\<lambda>user tid. complete_onboarding env tid user w) w"

definition create_invites_rpc ::
  "uuid_codec \<Rightarrow> onboarding_env \<Rightarrow> string option \<Rightarrow> string \<Rightarrow> string list \<Rightarrow> onboarding_world \<Rightarrow>
   (rpc_error + onboarding_state_proto \<times> invite_summary list) \<times> onboarding_world" where
  "create_invites_rpc uc env ctx tenant_raw emails w =
     with_tenant uc ctx tenant_raw (\<lambda>user tid.
       rpc_result onboarding_error
         (\<lambda>(view, created). (onboarding_state_to_proto uc view, map (invite_to_proto uc) created))
         (create_invites env tid user emails w)) w"

text \<open>A call about a tenant, and the onboarding state in its reply.\<close>

datatype onboarding_request =
    GetStateReq
  | SaveWelcomeReq string string bool bool
  | EnsureInstallBundleReq
  | GetAgentConnectionStatusReq
  | ConfigureDatabaseReq string int string string string
  | RunSchemaIntrospectionReq
  | MarkSemanticApprovedReq string
  | CompleteStarterStepReq
  | CompleteOnboardingReq
  | CreateInvitesReq "string list"

fun onboarding_rpc ::
  "uuid_codec \<Rightarrow> onboarding_env \<Rightarrow> string option \<Rightarrow> string \<Rightarrow> onboarding_request \<Rightarrow> onboarding_world \<Rightarrow>
   (rpc_error + onboarding_state_proto) \<times> onboarding_world" where
  "onboarding_rpc uc env ctx t GetStateReq w = get_state_rpc uc env ctx t w"
| "onboarding_rpc uc env ctx t (SaveWelcomeReq name lang confirm auto) w =
     save_welcome_rpc uc env ctx t name lang confirm auto w"
| "onboarding_rpc uc env ctx t EnsureInstallBundleReq w = ensure_install_bundle_rpc uc env ctx t w"
| "onboarding_rpc uc env ctx t GetAgentConnectionStatusReq w = get_agent_connection_status_rpc uc env ctx t w"
| "onboarding_rpc uc env ctx t (ConfigureDatabaseReq host port name conn loc) w =
     configure_database_rpc uc env ctx t host port name conn loc w"
| "onboarding_rpc uc env ctx t RunSchemaIntrospectionReq w = run_schema_introspection_rpc uc env ctx t w"
| "onboarding_rpc uc env ctx t (MarkSemanticApprovedReq lid) w = mark_semantic_approved_rpc uc env ctx t lid w"
| "onboarding_rpc uc env ctx t CompleteStarterStepReq w = complete_starter_step_rpc uc env ctx t w"
| "onboarding_rpc uc env ctx t CompleteOnboardingReq w = complete_onboarding_rpc uc env ctx t w"
| "onboarding_rpc uc env ctx t (CreateInvitesReq emails) w =
     (case create_invites_rpc uc env ctx t emails w of (out, w') \<Rightarrow> (map_sum id fst out, w'))"

section \<open>Who is served\<close>

lemma membership_error_denial:
  "rpc_status (membership_error err_not_found) = CodePermissionDenied"
  by (simp add: membership_error_def)

lemma not_member_ensure:
  "\<not> is_member tid user db \<Longrightarrow> ensure_membership None tid user db = Inl err_not_found"
  by (simp add: ensure_membership_def not_member_membership)

text \<open>
  Agent tokens are kept from strangers: for every caller who is not a verified member of the
  tenant named in the request (or who names none), issuing, listing and revoking agent tokens are
  denied with Unauthenticated, InvalidArgument or PermissionDenied, and no row changes.
\<close>

theorem tenant_service_denies_outsiders:
  assumes "outsider (ts_uuid sv) ctx tenant_raw db" "ts_io sv TenantMemberCall = None"
  shows "denied (issue_agent_token_rpc sv ctx tenant_raw label db) db \<and>
    denied (list_agent_tokens_rpc sv ctx tenant_raw db) db \<and>
    denied (revoke_agent_token_rpc sv ctx tenant_raw token_raw db) db"
  unfolding issue_agent_token_rpc_def list_agent_tokens_rpc_def revoke_agent_token_rpc_def
  using assms(2)
  by (intro conjI with_tenant_denied [OF assms(1)] with_object_denied [OF assms(1)])
    (simp_all add: not_member_ensure membership_error_denial denied_def)

lemma not_member_load_workspace:
  assumes "\<not> is_member tid user (wd_tenants w)" "oe_io env ListWorkspacesCall = None"
  shows "load_workspace env tid user w = Inl err_onboarding_access_denied"
proof (cases "load_workspace env tid user w")
  case (Inl e)
  with assms(2) show ?thesis
    by (auto simp: load_workspace_def list_workspaces_for_user_def split: sum.splits option.splits)
next
  case (Inr ws)
  then obtain l where l: "list_workspaces_for_user (oe_io env ListWorkspacesCall) user w = Inr l"
    "ws \<in> set l" "ow_tenant_id ws = tid"
    by (auto simp: load_workspace_def split: sum.splits option.splits dest!: find_Some_in_set)
  then obtain t v where "v \<in> set (tenant_users (wd_tenants w))" "tu_tenant_id v = tenant_id t"
    "tu_clerk_user_id v = user" "ws = workspace_row (wd_states w) t v"
    by (auto simp: list_workspaces_for_user_def split: option.splits)
  with l(3) assms(1) show ?thesis
    by (auto simp: is_member_def list_ex_iff workspace_row_def Let_def)
qed

lemma owner_record_denied:
  assumes "\<not> owns_tenant tid user (wd_tenants w)" "oe_io env ListWorkspacesCall = None"
  shows "\<exists>e. owner_record env tid user w k = (Inl e, w) \<and>
    e \<in> {err_onboarding_access_denied, err_onboarding_owner_required}"
proof -
  have "ow_role ws \<noteq> RoleOwner" if "load_workspace env tid user w = Inr ws" for ws
    using load_workspace_owner [OF that] assms(1) by (auto simp: is_owner_def owns_tenant_def)
  moreover have "e = err_onboarding_access_denied" if "load_workspace env tid user w = Inl e" for e
    using that assms(2)
    by (auto simp: load_workspace_def list_workspaces_for_user_def split: sum.splits option.splits)
  ultimately show ?thesis by (auto simp: owner_record_def split: sum.splits)
qed

lemma onboarding_error_denials:
  "e \<in> {err_onboarding_access_denied, err_onboarding_owner_required} \<Longrightarrow>
     rpc_status (onboarding_error e) = CodePermissionDenied"
  by (auto simp: onboarding_error_def is_any_def)

lemma owner_rpc_denied:
  assumes "\<not> owns_tenant tid user (wd_tenants w)" "oe_io env ListWorkspacesCall = None"
  shows "denied (rpc_result onboarding_error f (owner_record env tid user w k)) w"
proof -
  obtain e where e: "owner_record env tid user w k = (Inl e, w)"
    "e \<in> {err_onboarding_access_denied, err_onboarding_owner_required}"
    using owner_record_denied [OF assms] by blast
  show ?thesis by (rule rpc_result_denied [where e = e]) (simp_all add: e(1) onboarding_error_denials [OF e(2)])
qed

text \<open>A caller that is no verified owner of the tenant the request names.\<close>

definition no_owner :: "uuid_codec \<Rightarrow> string option \<Rightarrow> string \<Rightarrow> tenant_db \<Rightarrow> bool" where
  "no_owner uc ctx tenant_raw tdb =
     (case (ctx, uc_parse uc tenant_raw) of
        (Some user, Some tid) \<Rightarrow> \<not> owns_tenant tid user tdb
      | _ \<Rightarrow> True)"

lemma with_tenant_no_owner:
  assumes "no_owner uc ctx raw tdb"
    and "\<And>user tid. \<not> owns_tenant tid user tdb \<Longrightarrow> denied (k user tid) s"
  shows "denied (with_tenant uc ctx raw k s) s"
  using assms by (auto simp: with_tenant_def no_owner_def require_user_def parse_connect_uuid_def denied_def
      unauthenticated_error_def split: option.splits)

lemma with_object_no_owner:
  assumes "no_owner uc ctx raw tdb"
    and "\<And>user tid i. \<not> owns_tenant tid user tdb \<Longrightarrow> denied (k user tid i) s"
  shows "denied (with_object uc ctx raw oraw field k s) s"
  unfolding with_object_def using assms
  by (intro with_tenant_no_owner) (auto simp: parse_connect_uuid_def denied_def split: option.splits)

lemma run_state_only_no_owner:
  assumes "no_owner uc ctx raw (wd_tenants w)" "oe_io env ListWorkspacesCall = None"
    and "\<And>user tid. \<exists>k. run user tid = owner_record env tid user w k"
  shows "denied (run_state_only uc ctx raw run w) w"
  unfolding run_state_only_def
proof (rule with_tenant_no_owner [OF assms(1)])
  fix user tid assume no: "\<not> owns_tenant tid user (wd_tenants w)"
  obtain k where "run user tid = owner_record env tid user w k" using assms(3) by blast
  with owner_rpc_denied [OF no assms(2)]
  show "denied (rpc_result onboarding_error (onboarding_state_to_proto uc) (run user tid)) w" by simp
qed

lemmas onboarding_rpc_defs = save_welcome_rpc_def ensure_install_bundle_rpc_def
  get_agent_connection_status_rpc_def configure_database_rpc_def run_schema_introspection_rpc_def
  complete_starter_step_rpc_def complete_onboarding_rpc_def

lemma denied_first: "denied out w \<Longrightarrow> denied (case out of (r, w') \<Rightarrow> (map_sum id fst r, w')) w"
  by (auto simp: denied_def split: prod.splits)

text \<open>
  C32. Onboarding is the owner's: whoever is not a verified owner of the tenant named in a request gets
  an error with the code Unauthenticated, InvalidArgument or PermissionDenied for every call but
  \<open>GetState\<close>, and for \<open>GetState\<close> so does whoever is no member; the database is as before.
\<close>

theorem onboarding_service_needs_owner:
  assumes "oe_io env ListWorkspacesCall = None"
    and "if call = GetStateReq then outsider uc ctx tenant_raw (wd_tenants w)
         else no_owner uc ctx tenant_raw (wd_tenants w)"
  shows "denied (onboarding_rpc uc env ctx tenant_raw call w) w"
proof (cases call)
  case GetStateReq
  with assms(2) have out: "outsider uc ctx tenant_raw (wd_tenants w)" by simp
  have "denied (get_state_rpc uc env ctx tenant_raw w) w"
    unfolding get_state_rpc_def run_state_only_def
    by (intro with_tenant_denied [OF out] rpc_result_denied)
      (simp add: get_state_def not_member_load_workspace assms(1) onboarding_error_denials)+
  then show ?thesis by (simp add: GetStateReq)
next
  case (MarkSemanticApprovedReq lid)
  with assms(2) have no: "no_owner uc ctx tenant_raw (wd_tenants w)" by simp
  have "denied (mark_semantic_approved_rpc uc env ctx tenant_raw lid w) w"
    unfolding mark_semantic_approved_rpc_def mark_semantic_approved_def
    by (intro with_object_no_owner [OF no] owner_rpc_denied assms(1))
  then show ?thesis by (simp add: MarkSemanticApprovedReq)
next
  case (CreateInvitesReq emails)
  with assms(2) have no: "no_owner uc ctx tenant_raw (wd_tenants w)" by simp
  have "denied (create_invites_rpc uc env ctx tenant_raw emails w) w"
    unfolding create_invites_rpc_def create_invites_def
    by (intro with_tenant_no_owner [OF no] owner_rpc_denied assms(1))
  then show ?thesis by (simp add: CreateInvitesReq denied_first)
qed (use assms(2) in \<open>simp add: onboarding_rpc_defs Let_def,
    intro run_state_only_no_owner assms(1); auto simp: owner_operations\<close>)+

section \<open>Revoking a token by the id it is listed with\<close>

lemma list_agent_tokens_rpc_Inr:
  assumes "list_agent_tokens_rpc sv ctx tenant_raw db = (Inr toks, db')" "tok \<in> set toks"
  obtains user tid m row where "ctx = Some user" "uc_parse (ts_uuid sv) tenant_raw = Some tid"
    "ensure_membership (ts_io sv TenantMemberCall) tid user db = Inr m"
    "row \<in> set (tenant_tokens db)" "tok_tenant_id row = tid" "tok = token_to_proto (ts_uuid sv) (token_of_row row)"
  using assms
  by (auto simp: list_agent_tokens_rpc_def with_tenant_def require_user_def parse_connect_uuid_def
      rpc_result_def list_tokens_by_tenant_def map_sum_def split: option.splits sum.splits)

lemma revoked_not_served:
  assumes "is_revoked i db" "fst (require_agent_token sha io1 io2 t header db) = Served ag"
  shows "ag_token_id ag \<noteq> i"
proof -
  obtain db' where "require_agent_token_with sha (lookup_active_by_hash io1) (touch_last_used io2 t) header db =
      (Served ag, db')"
    using assms(2) by (metis prod.collapse require_agent_token_def)
  from token_repo.served_live [OF this] assms(1) show ?thesis by (auto simp: token_live_def is_revoked_def)
qed

text \<open>
  Whatever live token \<open>ListAgentTokens\<close> shows, the same caller can revoke with the id shown: the
  call succeeds, and after any later history of token operations no request is served under that
  token. A member need not be an owner for it.
\<close>

theorem listed_token_can_be_revoked:
  assumes "list_agent_tokens_rpc sv ctx tenant_raw db = (Inr toks, db')"
    and "tok \<in> set toks" "kp_revoked_at tok = None" "tokens_ok (tenant_tokens db)"
    and "\<And>i. uc_parse (ts_uuid sv) (uc_string (ts_uuid sv) i) = Some i"
    and "ts_io sv RevokeTokenCall = None"
  shows "\<exists>i db2. kp_id tok = uc_string (ts_uuid sv) i \<and>
    revoke_agent_token_rpc sv ctx tenant_raw (kp_id tok) db = (Inr (), db2) \<and>
    (\<forall>ops sha io1 io2 now header ag.
       fst (require_agent_token sha io1 io2 now header (fold apply_token_op ops db2)) = Served ag \<longrightarrow>
       ag_token_id ag \<noteq> i)"
proof -
  from list_agent_tokens_rpc_Inr [OF assms(1,2)] obtain user tid m and row :: token_row where
    caller: "ctx = Some user" "uc_parse (ts_uuid sv) tenant_raw = Some tid"
      "ensure_membership (ts_io sv TenantMemberCall) tid user db = Inr m" and
    row: "row \<in> set (tenant_tokens db)" "tok_tenant_id row = tid"
      "tok = token_to_proto (ts_uuid sv) (token_of_row row)" by metis
  have live: "tok_revoked_at row = None" using assms(3) row(3) by (simp add: token_to_proto_def)
  have "fst (revoke_agent_token (ts_io sv RevokeTokenCall) (ts_now sv) tid (tok_id row) db) = None"
    using row live assms(6) by (auto simp: revoke_agent_token_def revoke_token_def Let_def list_ex_iff)
  then obtain db2 where revoke: "revoke_agent_token (ts_io sv RevokeTokenCall) (ts_now sv) tid (tok_id row) db = (None, db2)"
    by (metis prod.collapse)
  have id: "kp_id tok = uc_string (ts_uuid sv) (tok_id row)" by (simp add: row(3) token_to_proto_def)
  have "revoke_agent_token_rpc sv ctx tenant_raw (kp_id tok) db = (Inr (), db2)"
    by (simp add: revoke_agent_token_rpc_def with_object_def with_tenant_def require_user_def
        parse_connect_uuid_def id assms(5) caller revoke)
  moreover have "is_revoked (tok_id row) (fold apply_token_op ops db2)" for ops
    using is_revoked_history is_revoked_revoke [OF _ assms(4)] revoke by (simp add: revoke_agent_token_def)
  ultimately show ?thesis using id revoked_not_served by blast
qed

section \<open>What members see\<close>

text \<open>A payload is read back as it was written.\<close>

definition payload_codec_ok :: "onboarding_env \<Rightarrow> bool" where
  "payload_codec_ok env \<longleftrightarrow>
     (\<forall>p body. oe_marshal env p = Inr body \<longrightarrow> decode_onboarding_payload env (oe_jsonb env body) = Inr p)"

lemma onboarding_upsert_payload:
  "onboarding_upsert io now jsonb tid step body completed rows = (Inr rec, rows') \<Longrightarrow> os_payload rec = jsonb body"
  by (auto simp: onboarding_upsert_def Let_def split: option.splits if_splits)

lemma persist_payload:
  assumes "persist_state env n tid step p completed w = (Inr (rec, q), w')" "payload_codec_ok env"
  shows "q = p"
  using assms
  by (auto simp: persist_state_def payload_codec_ok_def dest!: onboarding_upsert_payload
      split: sum.splits prod.splits)

definition same_database :: "onboarding_payload \<Rightarrow> onboarding_payload \<Rightarrow> bool" where
  "same_database p q = (ob_generated_password q = ob_generated_password p \<and> ob_database_name q = ob_database_name p)"

lemma refresh_same_database:
  assumes "refresh_agent_connection env n ws rec p w = (Inr (rec', q, ws'), w')" "payload_codec_ok env"
  shows "same_database p q \<and> ow_role ws' = ow_role ws"
proof -
  obtain p1 step changed where rp: "refresh_payload env
      (latest_online_agent_session env n (os_tenant_id rec) (ob_agent_token_id p)) (os_current_step rec) p =
      (p1, step, changed)" by (metis prod_cases3)
  then have "same_database p p1"
    by (auto simp: refresh_payload_def same_database_def Let_def split: option.splits)
  moreover have "same_database p p" by (simp add: same_database_def)
  ultimately show ?thesis using assms(1) rp
    by (auto simp: refresh_agent_connection_def dest!: persist_payload [OF _ assms(2)]
        split: if_splits sum.splits prod.splits)
qed

text \<open>
  C33. \<open>GetState\<close> shows every member, owner or not, the database credentials: its reply carries the
  generated password of the stored state and the setup SQL with that password; \<open>can_edit\<close> alone tells
  an owner's reply from another member's.
\<close>

theorem get_state_shows_credentials:
  assumes "get_state_rpc uc env ctx tenant_raw w = (Inr reply, w')" "uc_parse uc tenant_raw = Some tid"
    and "load_record env tid w = Inr (rec, p)" "payload_codec_ok env"
  shows "\<exists>user ws. ctx = Some user \<and> load_workspace env tid user w = Inr ws \<and>
    po_generated_password reply = ob_generated_password p \<and>
    po_db_setup_sql reply = build_database_setup_sql (ob_database_name p) (ob_generated_password p) \<and>
    po_can_edit reply = (ow_role ws = RoleOwner)"
proof -
  from assms(1,2) obtain user view where user: "ctx = Some user" and run: "get_state env tid user w = (Inr view, w')"
    and reply: "reply = onboarding_state_to_proto uc view"
    by (auto simp: get_state_rpc_def run_state_only_def with_tenant_def require_user_def parse_connect_uuid_def
        rpc_result_Inr split: option.splits)
  from run assms(3) obtain ws rec' q ws' where ws: "load_workspace env tid user w = Inr ws"
    and refresh: "refresh_agent_connection env 0 ws rec p w = (Inr (rec', q, ws'), w')"
    and view: "build_state_view env ws' rec' q w' = Inr view"
    by (auto simp: get_state_def split: sum.splits prod.splits)
  from view have "ov_payload view = q" "ov_can_edit view = (ow_role ws' = RoleOwner)"
    "ov_db_setup_sql view = build_database_setup_sql (ob_database_name q) (ob_generated_password q)"
    by (auto simp: build_state_view_def Let_def split: sum.splits)
  with refresh_same_database [OF refresh assms(4)] reply user ws show ?thesis
    by (simp add: onboarding_state_to_proto_def Let_def same_database_def)
qed

section \<open>Examples\<close>

definition example_tenant_service :: tenant_service where
  "example_tenant_service = \<lparr>ts_uuid = unary_uuids, ts_io = (\<lambda>_. None), ts_now = 9, ts_new_id = 6,
     ts_sha = id, ts_random = Inr [1, 2, 3]\<rparr>"

definition example_token_db :: tenant_db where
  "example_token_db = (wd_tenants example_onboarding_world)\<lparr>tenant_tokens :=
     [\<lparr>tok_id = 5, tok_tenant_id = 3, tok_label = ''edge'', tok_created_at = 2, tok_last_used_at = None,
       tok_revoked_at = None, row_token_hash = ''h''\<rparr>]\<rparr>"

theorem tenant_service_denies_outsiders_witness:
  "denied (revoke_agent_token_rpc example_tenant_service (Some ''v'') ''iii'' ''iiiii'' example_token_db)
     example_token_db"
proof -
  have "outsider (ts_uuid example_tenant_service) (Some ''v'') ''iii'' example_token_db" by code_simp
  from tenant_service_denies_outsiders [OF this, of _ "''iiiii''"] show ?thesis
    by (simp add: example_tenant_service_def)
qed

theorem onboarding_service_needs_owner_witness:
  "denied (onboarding_rpc unary_uuids example_onboarding_env (Some ''member'') ''iii'' CompleteOnboardingReq
     example_onboarding_world) example_onboarding_world"
proof (rule onboarding_service_needs_owner)
  show "oe_io example_onboarding_env ListWorkspacesCall = None" by (simp add: example_onboarding_env_def)
  have "no_owner unary_uuids (Some ''member'') ''iii'' (wd_tenants example_onboarding_world)" by code_simp
  then show "if CompleteOnboardingReq = GetStateReq
      then outsider unary_uuids (Some ''member'') ''iii'' (wd_tenants example_onboarding_world)
      else no_owner unary_uuids (Some ''member'') ''iii'' (wd_tenants example_onboarding_world)" by simp
qed

theorem listed_token_can_be_revoked_witness:
  "\<exists>db2. revoke_agent_token_rpc example_tenant_service (Some ''member'') ''iii'' ''iiiii'' example_token_db =
     (Inr (), db2)"
proof -
  let ?tok = "\<lparr>kp_id = ''iiiii'', kp_label = ''edge'', kp_created_at = 2, kp_last_used_at = None, kp_revoked_at = None\<rparr>"
  have list: "list_agent_tokens_rpc example_tenant_service (Some ''member'') ''iii'' example_token_db =
      (Inr [?tok], example_token_db)"
    by code_simp
  have ok: "tokens_ok (tenant_tokens example_token_db)" by (simp add: tokens_ok_def example_token_db_def)
  have uuids: "uc_parse (ts_uuid example_tenant_service) (uc_string (ts_uuid example_tenant_service) i) = Some i" for i
    by (simp add: example_tenant_service_def unary_uuids_def list_all_iff)
  have io: "ts_io example_tenant_service RevokeTokenCall = None" by (simp add: example_tenant_service_def)
  from listed_token_can_be_revoked [OF list _ _ ok uuids io, of ?tok] show ?thesis by auto
qed

definition example_credentials :: onboarding_payload where
  "example_credentials = empty_payload\<lparr>ob_generated_password := ''pw'', ob_database_name := ''d''\<rparr>"

definition example_credentials_env :: onboarding_env where
  "example_credentials_env = example_onboarding_env\<lparr>
     oe_marshal := (\<lambda>p. if p = example_credentials then Inr ''s1'' else Inl (ErrNew ''unsupported'')),
     oe_unmarshal := (\<lambda>_. Inr example_credentials)\<rparr>"

theorem get_state_shows_credentials_witness:
  "\<exists>reply w'. get_state_rpc unary_uuids example_credentials_env (Some ''member'') ''iii'' example_onboarding_world =
     (Inr reply, w') \<and> po_generated_password reply = ''pw'' \<and> \<not> po_can_edit reply"
proof -
  let ?out = "get_state_rpc unary_uuids example_credentials_env (Some ''member'') ''iii'' example_onboarding_world"
  have "\<not> isl (fst ?out)" by code_simp
  then obtain reply w' where run: "?out = (Inr reply, w')" by (metis prod.collapse sum.collapse(2))
  have id: "uc_parse unary_uuids ''iii'' = Some 3" by code_simp
  have "load_record example_credentials_env 3 example_onboarding_world =
      Inr (hd (wd_states example_onboarding_world), example_credentials)" by code_simp
  moreover have "payload_codec_ok example_credentials_env"
    by (simp add: payload_codec_ok_def example_credentials_env_def example_onboarding_env_def
        decode_onboarding_payload_def)
  moreover have "load_workspace example_credentials_env 3 ''member'' example_onboarding_world = Inr ws \<Longrightarrow>
      ow_role ws = RoleMember" for ws
    by (auto simp: load_workspace_def list_workspaces_for_user_def workspace_row_def Let_def
        example_credentials_env_def example_onboarding_env_def example_onboarding_world_def split: option.splits)
  ultimately show ?thesis
    using get_state_shows_credentials [OF run id] run by (fastforce simp: example_credentials_def)
qed

end
