(* ===== verification/SemanticHandlers.thy ===== *)
theory SemanticHandlers
  imports ConnectHelpers
begin

text \<open>
  handler/semantic.go and handler/starter_questions.go, the Connect services of semantic layers and of
  starter questions over \<open>SemanticLayer\<close> and \<open>StarterQuestions\<close>, and handler/schema.go, the debug
  endpoint that captures a schema. The generated message types are records with their fields.
\<close>

section \<open>handler/semantic.go: messages\<close>

record column_proto =
  cp_table_schema :: string
  cp_table_name :: string
  cp_column_name :: string
  cp_ordinal :: int
  cp_data_type :: string
  cp_column_type :: string
  cp_is_nullable :: bool
  cp_column_comment :: string
  cp_description :: string

record table_proto =
  bp_table_schema :: string
  bp_table_name :: string
  bp_table_type :: string
  bp_table_comment :: string
  bp_description :: string
  bp_columns :: "column_proto list"

record entity_proto =
  ep_name :: string
  ep_description :: string
  ep_source_tables :: "string list"

record metric_proto =
  mp_name :: string
  mp_description :: string
  mp_source_tables :: "string list"

record content_proto =
  op_tables :: "table_proto list"
  op_entities :: "entity_proto list"
  op_metrics :: "metric_proto list"

datatype layer_status_proto = LayerStatusUnspecified | LayerStatusDraft | LayerStatusApproved | LayerStatusArchived

record layer_proto =
  lp_id :: string
  lp_tenant_id :: string
  lp_schema_version_id :: string
  lp_status :: layer_status_proto
  lp_content :: content_proto
  lp_created_at :: time
  lp_approved_at :: "time option"
  lp_approved_by :: string

record schema_version_summary =
  vp_id :: string
  vp_captured_at :: time
  vp_schema_hash :: string
  vp_database_name :: string

record layer_response =
  lr_has_schema :: bool
  lr_needs_draft :: bool
  lr_latest_schema :: "schema_version_summary option"
  lr_current_layer :: "layer_proto option"
  lr_approved_baseline :: "layer_proto option"

record usage_proto =
  up_provider :: string
  up_model :: string
  up_input_tokens :: int
  up_output_tokens :: int
  up_cache_creation_tokens :: int
  up_cache_read_tokens :: int

section \<open>handler/semantic.go: conversions\<close>

definition column_to_proto :: "semantic_column \<Rightarrow> column_proto" where
  "column_to_proto c =
     \<lparr>cp_table_schema = smc_table_schema c, cp_table_name = smc_table_name c,
      cp_column_name = smc_column_name c, cp_ordinal = smc_ordinal c, cp_data_type = smc_data_type c,
      cp_column_type = smc_column_type c, cp_is_nullable = smc_is_nullable c,
      cp_column_comment = smc_column_comment c, cp_description = smc_description c\<rparr>"

definition table_to_proto :: "semantic_table \<Rightarrow> table_proto" where
  "table_to_proto t =
     \<lparr>bp_table_schema = smt_table_schema t, bp_table_name = smt_table_name t,
      bp_table_type = smt_table_type t, bp_table_comment = smt_table_comment t,
      bp_description = smt_description t, bp_columns = map column_to_proto (smt_columns t)\<rparr>"

definition content_to_proto :: "semantic_layer_content \<Rightarrow> content_proto" where
  "content_to_proto content =
     \<lparr>op_tables = map table_to_proto (slc_tables content),
      op_entities = map (\<lambda>e. \<lparr>ep_name = ent_name e, ep_description = ent_description e,
        ep_source_tables = ent_source_tables e\<rparr>) (slc_entities content),
      op_metrics = map (\<lambda>m. \<lparr>mp_name = met_name m, mp_description = met_description m,
        mp_source_tables = met_source_tables m\<rparr>) (slc_metrics content)\<rparr>"

definition column_from_proto :: "column_proto \<Rightarrow> semantic_column" where
  "column_from_proto c =
     \<lparr>smc_table_schema = cp_table_schema c, smc_table_name = cp_table_name c,
      smc_column_name = cp_column_name c, smc_ordinal = cp_ordinal c, smc_data_type = cp_data_type c,
      smc_column_type = cp_column_type c, smc_is_nullable = cp_is_nullable c,
      smc_column_comment = cp_column_comment c, smc_description = cp_description c\<rparr>"

definition table_from_proto :: "table_proto \<Rightarrow> semantic_table" where
  "table_from_proto t =
     \<lparr>smt_table_schema = bp_table_schema t, smt_table_name = bp_table_name t,
      smt_table_type = bp_table_type t, smt_table_comment = bp_table_comment t,
      smt_description = bp_description t, smt_columns = map column_from_proto (bp_columns t)\<rparr>"

text \<open>A request without a content has the pointer nil.\<close>

definition content_from_proto :: "content_proto option \<Rightarrow> semantic_layer_content" where
  "content_from_proto content =
     (case content of
        None \<Rightarrow> \<lparr>slc_tables = [], slc_entities = [], slc_metrics = []\<rparr>
      | Some c \<Rightarrow>
          \<lparr>slc_tables = map table_from_proto (op_tables c),
           slc_entities = map (\<lambda>e. \<lparr>ent_name = ep_name e, ent_description = ep_description e,
             ent_source_tables = ep_source_tables e\<rparr>) (op_entities c),
           slc_metrics = map (\<lambda>m. \<lparr>met_name = mp_name m, met_description = mp_description m,
             met_source_tables = mp_source_tables m\<rparr>) (op_metrics c)\<rparr>)"

fun semantic_layer_status_to_proto :: "semantic_layer_status \<Rightarrow> layer_status_proto" where
  "semantic_layer_status_to_proto LayerDraft = LayerStatusDraft"
| "semantic_layer_status_to_proto LayerApproved = LayerStatusApproved"
| "semantic_layer_status_to_proto LayerArchived = LayerStatusArchived"

definition semantic_layer_to_proto :: "uuid_codec \<Rightarrow> semantic_layer_record \<Rightarrow> layer_proto" where
  "semantic_layer_to_proto uc rec =
     (let layer = slr_layer rec in
      \<lparr>lp_id = uc_string uc (sl_id layer), lp_tenant_id = uc_string uc (sl_tenant_id layer),
       lp_schema_version_id = uc_string uc (sl_schema_version_id layer),
       lp_status = semantic_layer_status_to_proto (sl_status layer),
       lp_content = content_to_proto (slr_content rec), lp_created_at = sl_created_at layer,
       lp_approved_at = sl_approved_at layer,
       lp_approved_by = (case sl_approved_by layer of None \<Rightarrow> [] | Some user \<Rightarrow> user)\<rparr>)"

definition database_name_from_schema_blob :: "content_codec \<Rightarrow> string \<Rightarrow> string" where
  "database_name_from_schema_blob codec blob =
     (case cc_decode_schema codec blob of Inl e \<Rightarrow> [] | Inr schema \<Rightarrow> sb_database_name schema)"

definition schema_version_to_proto ::
  "uuid_codec \<Rightarrow> content_codec \<Rightarrow> tenant_schema_version \<Rightarrow> schema_version_summary" where
  "schema_version_to_proto uc codec v =
     \<lparr>vp_id = uc_string uc (sv_id v), vp_captured_at = sv_captured_at v,
      vp_schema_hash = sv_schema_hash v, vp_database_name = database_name_from_schema_blob codec (sv_blob v)\<rparr>"

text \<open>The token counts are Go \<open>int\<close>s, cut to 32 bits in the reply.\<close>

definition usage_to_proto :: "llm_usage \<Rightarrow> usage_proto" where
  "usage_to_proto u =
     \<lparr>up_provider = usage_provider u, up_model = usage_model u,
      up_input_tokens = wrap32 (input_tokens u), up_output_tokens = wrap32 (output_tokens u),
      up_cache_creation_tokens = wrap32 (cache_creation_tokens u),
      up_cache_read_tokens = wrap32 (cache_read_tokens u)\<rparr>"

definition semantic_layer_error :: "gerr \<Rightarrow> rpc_error" where
  "semantic_layer_error err =
     (if errors_is err err_semantic_layer_access_denied then rpc_fail CodePermissionDenied err
      else if is_any err [err_schema_version_not_found, err_semantic_layer_not_found]
      then rpc_fail CodeNotFound err
      else if errors_is err err_invalid_semantic_layer then rpc_fail CodeInvalidArgument err
      else if errors_is err err_semantic_layer_archived then rpc_fail CodeFailedPrecondition err
      else if is_unavailable_error err then rpc_fail CodeUnavailable public_llm_unavailable_error
      else rpc_fail CodeInternal err)"

section \<open>handler/semantic.go: the service\<close>

datatype layer_db_call = LayerMemberCall | LayerSchemaCall | LayerDraftCall | LayerApprovedCall | LayerByIdCall

record semantic_service =
  ms_uuid :: uuid_codec
  ms_codec :: content_codec
  ms_controller :: semantic_layer_controller
  ms_io :: "layer_db_call \<Rightarrow> gerr option"
  ms_layer_io :: layer_io
  ms_new_id :: uuid
  ms_now :: time
  ms_complete :: "completion_request \<Rightarrow> gerr + completion_response"

definition get_response_to_proto ::
  "uuid_codec \<Rightarrow> content_codec \<Rightarrow> get_semantic_layer_result \<Rightarrow> layer_response" where
  "get_response_to_proto uc codec r =
     \<lparr>lr_has_schema = gsl_has_schema r, lr_needs_draft = gsl_needs_draft r,
      lr_latest_schema = map_option (schema_version_to_proto uc codec) (gsl_latest_schema r),
      lr_current_layer = map_option (semantic_layer_to_proto uc) (gsl_current_layer r),
      lr_approved_baseline = map_option (semantic_layer_to_proto uc) (gsl_approved_baseline r)\<rparr>"

definition get_semantic_layer_rpc ::
  "semantic_service \<Rightarrow> string option \<Rightarrow> string \<Rightarrow> layer_world \<Rightarrow> (rpc_error + layer_response) \<times> layer_world"
where
  "get_semantic_layer_rpc sv ctx tenant_raw w =
     with_tenant (ms_uuid sv) ctx tenant_raw (\<lambda>user tid.
       rpc_result semantic_layer_error (get_response_to_proto (ms_uuid sv) (ms_codec sv))
         (get_semantic_layer (ms_codec sv) (ms_io sv LayerMemberCall) (ms_io sv LayerSchemaCall)
           (ms_io sv LayerDraftCall) (ms_io sv LayerApprovedCall) tid user w, w)) w"

definition draft_semantic_layer_rpc ::
  "semantic_service \<Rightarrow> string option \<Rightarrow> string \<Rightarrow> string \<Rightarrow> layer_world \<Rightarrow>
   (rpc_error + layer_proto \<times> usage_proto) \<times> layer_world" where
  "draft_semantic_layer_rpc sv ctx tenant_raw version_raw w =
     with_object (ms_uuid sv) ctx tenant_raw version_raw ''schema_version_id'' (\<lambda>user tid vid.
       rpc_result semantic_layer_error
         (\<lambda>(layer, usage). (semantic_layer_to_proto (ms_uuid sv) layer, usage_to_proto usage))
         (draft_semantic_layer (ms_codec sv) (ms_controller sv) (ms_complete sv) (ms_io sv LayerMemberCall)
           (ms_io sv LayerSchemaCall) (ms_layer_io sv) (ms_new_id sv) (ms_now sv) tid user vid w)) w"

definition update_semantic_layer_rpc ::
  "semantic_service \<Rightarrow> string option \<Rightarrow> string \<Rightarrow> string \<Rightarrow> content_proto option \<Rightarrow> layer_world \<Rightarrow>
   (rpc_error + layer_proto) \<times> layer_world" where
  "update_semantic_layer_rpc sv ctx tenant_raw layer_raw content w =
     with_object (ms_uuid sv) ctx tenant_raw layer_raw ''semantic layer id'' (\<lambda>user tid lid.
       rpc_result semantic_layer_error (semantic_layer_to_proto (ms_uuid sv))
         (update_semantic_layer (ms_codec sv) (ms_io sv LayerMemberCall) (ms_io sv LayerByIdCall)
           (ms_layer_io sv) (ms_new_id sv) (ms_now sv) tid user lid (content_from_proto content) w)) w"

definition approve_semantic_layer_rpc ::
  "semantic_service \<Rightarrow> string option \<Rightarrow> string \<Rightarrow> string \<Rightarrow> layer_world \<Rightarrow>
   (rpc_error + layer_proto) \<times> layer_world" where
  "approve_semantic_layer_rpc sv ctx tenant_raw layer_raw w =
     with_object (ms_uuid sv) ctx tenant_raw layer_raw ''semantic layer id'' (\<lambda>user tid lid.
       rpc_result semantic_layer_error (semantic_layer_to_proto (ms_uuid sv))
         (approve_semantic_layer (ms_codec sv) (ms_io sv LayerMemberCall) (ms_io sv LayerByIdCall)
           (ms_layer_io sv) (ms_now sv) tid user lid w)) w"

section \<open>handler/starter_questions.go\<close>

record starter_question_proto =
  xp_id :: string
  xp_text :: string
  xp_category :: string
  xp_primary_table :: string
  xp_ordinal :: int

record starter_list_response =
  xl_questions :: "starter_question_proto list"
  xl_generated_at :: time
  xl_set_id :: string

definition starter_questions_error :: "gerr \<Rightarrow> rpc_error" where
  "starter_questions_error err =
     (if errors_is err err_starter_questions_access_denied then rpc_fail CodePermissionDenied err
      else if errors_is err err_starter_questions_no_layer then rpc_fail CodeFailedPrecondition err
      else if is_unavailable_error err then rpc_fail CodeUnavailable public_llm_unavailable_error
      else rpc_fail CodeInternal err)"

definition starter_questions_to_proto :: "uuid_codec \<Rightarrow> starter_question list \<Rightarrow> starter_question_proto list" where
  "starter_questions_to_proto uc questions =
     map (\<lambda>q. \<lparr>xp_id = uc_string uc (sq_id q), xp_text = sq_text q, xp_category = sq_category q,
        xp_primary_table = sq_primary_table q, xp_ordinal = sq_ordinal q\<rparr>) questions"

definition starter_response :: "uuid_codec \<Rightarrow> starter_list_result \<Rightarrow> starter_list_response" where
  "starter_response uc r =
     \<lparr>xl_questions = starter_questions_to_proto uc (slr_questions r), xl_generated_at = slr_generated_at r,
      xl_set_id = uc_string uc (slr_set_id r)\<rparr>"

record 'w starter_service =
  ks_uuid :: uuid_codec
  ks_env :: starter_env
  ks_controller :: starter_controller
  ks_complete :: "completion_request \<Rightarrow> 'w \<Rightarrow> (gerr + completion_response) \<times> 'w"

definition list_starter_questions_rpc ::
  "'w starter_service \<Rightarrow> string option \<Rightarrow> string \<Rightarrow> string \<Rightarrow> layer_world \<Rightarrow> 'w \<times> starter_question list \<Rightarrow>
   (rpc_error + starter_list_response) \<times> 'w \<times> starter_question list" where
  "list_starter_questions_rpc sv ctx tenant_raw locale_raw tables s =
     with_tenant (ks_uuid sv) ctx tenant_raw (\<lambda>user tid.
       rpc_result starter_questions_error (starter_response (ks_uuid sv))
         (list_starter_questions (ks_env sv) (ks_controller sv) (ks_complete sv) tid user
           (normalize_locale locale_raw) tables s)) s"

definition regenerate_starter_questions_rpc ::
  "'w starter_service \<Rightarrow> string option \<Rightarrow> string \<Rightarrow> string \<Rightarrow> layer_world \<Rightarrow> 'w \<times> starter_question list \<Rightarrow>
   (rpc_error + starter_list_response) \<times> 'w \<times> starter_question list" where
  "regenerate_starter_questions_rpc sv ctx tenant_raw locale_raw tables s =
     with_tenant (ks_uuid sv) ctx tenant_raw (\<lambda>user tid.
       rpc_result starter_questions_error (starter_response (ks_uuid sv))
         (regenerate_starter_questions (ks_env sv) (ks_controller sv) (ks_complete sv) tid user
           (normalize_locale locale_raw) tables s)) s"

section \<open>handler/schema.go\<close>

datatype schema_debug_body =
    SchemaError string
  | SchemaCaptured string schema_capture_result

definition debug_introspect_response ::
  "uuid_codec \<Rightarrow> gerr + schema_capture_result \<Rightarrow> int \<times> schema_debug_body" where
  "debug_introspect_response uc out =
     (case out of
        Inl err \<Rightarrow>
          (if is_any err [err_tenant_not_connected, err_session_not_active, err_command_rejected]
           then (409, SchemaError (err_text err))
           else if errors_is err err_agent_schema_introspection_failed then (502, SchemaError (err_text err))
           else if errors_is err ContextDeadlineExceeded
           then (504, SchemaError ''schema introspection timed out'')
           else (500, SchemaError ''internal server error''))
      | Inr r \<Rightarrow> (200, SchemaCaptured (uc_string uc (scr_version_id r)) r))"

text \<open>\<open>capture\<close> is the schema controller's \<open>Capture\<close> over what it works on.\<close>

definition debug_introspect ::
  "uuid_codec \<Rightarrow> gerr option \<Rightarrow> (uuid \<Rightarrow> 'w \<Rightarrow> (gerr + schema_capture_result) \<times> 'w) \<Rightarrow> string option \<Rightarrow> string \<Rightarrow>
   tenant_db \<Rightarrow> 'w \<Rightarrow> (int \<times> schema_debug_body) \<times> 'w" where
  "debug_introspect uc io capture ctx tenant_raw tdb w =
     (case authorize_owner uc io ctx tenant_raw tdb of
        Inl (code, msg) \<Rightarrow> ((code, SchemaError msg), w)
      | Inr tid \<Rightarrow> (case capture tid w of (out, w') \<Rightarrow> (debug_introspect_response uc out, w')))"

section \<open>Round trips\<close>

lemma column_roundtrip [simp]: "column_from_proto (column_to_proto c) = c" "column_to_proto (column_from_proto k) = k"
  by (simp_all add: column_from_proto_def column_to_proto_def)

lemma columns_roundtrip [simp]: "column_from_proto \<circ> column_to_proto = id" "column_to_proto \<circ> column_from_proto = id"
  by (simp_all add: fun_eq_iff)

lemma table_roundtrip [simp]: "table_from_proto (table_to_proto t) = t" "table_to_proto (table_from_proto k) = k"
  by (simp_all add: table_from_proto_def table_to_proto_def)

lemma tables_roundtrip [simp]: "table_from_proto \<circ> table_to_proto = id" "table_to_proto \<circ> table_from_proto = id"
  by (simp_all add: fun_eq_iff)

lemma entity_message_eta [simp]:
  "\<lparr>ent_name = ent_name x, ent_description = ent_description x, ent_source_tables = ent_source_tables x\<rparr> = x"
  "\<lparr>ep_name = ep_name y, ep_description = ep_description y, ep_source_tables = ep_source_tables y\<rparr> = y"
  by simp_all

lemma metric_message_eta [simp]:
  "\<lparr>met_name = met_name x, met_description = met_description x, met_source_tables = met_source_tables x\<rparr> = x"
  "\<lparr>mp_name = mp_name y, mp_description = mp_description y, mp_source_tables = mp_source_tables y\<rparr> = y"
  by simp_all

text \<open>
  The content of a layer and its message carry the same: a content sent to a client and back is
  the content, and a message received and sent again is that message, so no content is lost on its
  way through the service in either direction.
\<close>

theorem layer_content_roundtrip:
  "content_from_proto (Some (content_to_proto content)) = content \<and>
   content_to_proto (content_from_proto (Some message)) = message"
  by (simp add: content_from_proto_def content_to_proto_def comp_def)

section \<open>Edits\<close>

definition content_keys_distinct :: "semantic_layer_content \<Rightarrow> bool" where
  "content_keys_distinct content \<longleftrightarrow>
     distinct (map (\<lambda>t. fq_table (smt_table_schema t) (smt_table_name t)) (slc_tables content)) \<and>
     distinct (map (\<lambda>c. fq_column (smc_table_schema c) (smc_table_name c) (smc_column_name c))
       (concat (map smt_columns (slc_tables content))))"

lemma foldl_updates_other:
  "k \<notin> key ` set xs \<Longrightarrow> foldl (\<lambda>m x. m(key x \<mapsto> val x)) m xs k = m k"
  by (induction xs arbitrary: m) auto

lemma foldl_updates_read:
  "distinct (map key xs) \<Longrightarrow> x \<in> set xs \<Longrightarrow> foldl (\<lambda>m x. m(key x \<mapsto> val x)) m xs (key x) = Some (val x)"
proof (induction xs arbitrary: m)
  case (Cons y ys)
  then show ?case
  proof (cases "x = y")
    case True
    with Cons.prems have "key y \<notin> key ` set ys" by simp
    from foldl_updates_other [OF this, of val "m(key y \<mapsto> val y)"] True show ?thesis
      by (simp del: fun_upd_apply add: fun_upd_same)
  next
    case False
    with Cons show ?thesis by simp
  qed
qed simp

lemma merge_same:
  assumes "content_keys_distinct content"
  shows "merge_editable_descriptions content content = content"
proof -
  have t: "table_descriptions id (slc_tables content) (fq_table (smt_table_schema t) (smt_table_name t)) =
      Some (smt_description t)" if "t \<in> set (slc_tables content)" for t :: semantic_table
    using assms that foldl_updates_read [where key = "\<lambda>t. fq_table (smt_table_schema t) (smt_table_name t)"
        and val = smt_description and xs = "slc_tables content" and m = Map.empty]
    by (simp add: table_descriptions_def content_keys_distinct_def)
  have c: "column_descriptions id (slc_tables content)
      (fq_column (smc_table_schema c) (smc_table_name c) (smc_column_name c)) = Some (smc_description c)"
    if "t \<in> set (slc_tables content)" "c \<in> set (smt_columns t)" for t :: semantic_table and c :: semantic_column
    using assms that foldl_updates_read [where key = "\<lambda>c. fq_column (smc_table_schema c) (smc_table_name c) (smc_column_name c)"
        and val = smc_description and xs = "concat (map smt_columns (slc_tables content))" and m = Map.empty]
    by (auto simp: column_descriptions_def content_keys_distinct_def)
  have "map (\<lambda>c. case column_descriptions id (slc_tables content)
        (fq_column (smc_table_schema c) (smc_table_name c) (smc_column_name c)) of
      None \<Rightarrow> c | Some d \<Rightarrow> c\<lparr>smc_description := d\<rparr>) (smt_columns t) = smt_columns t"
    if "t \<in> set (slc_tables content)" for t :: semantic_table
    using that by (intro map_idI) (simp add: c)
  then show ?thesis
    unfolding merge_editable_descriptions_def Let_def
    by (intro semantic_layer_content.equality) (auto intro!: map_idI simp: t)
qed

text \<open>
  C34. Saving what was loaded changes nothing: when a client sends back the content of a layer as it
  got it, and no two tables or columns of it have the same dotted name, the draft that
  \<open>UpdateSemanticLayer\<close> stores and replies with has that content.
\<close>

theorem unedited_update_keeps_content:
  assumes "update_semantic_layer_rpc sv ctx tenant_raw layer_raw (Some (content_to_proto (slr_content base))) w =
      (Inr reply, w')"
    and "uc_parse (ms_uuid sv) tenant_raw = Some tid" "uc_parse (ms_uuid sv) layer_raw = Some lid"
    and "layer_by_id (ms_io sv LayerByIdCall) tid lid (lw_layers w) = Inr layer"
    and "decode_semantic_layer_record (ms_codec sv) layer = Inr base"
    and "content_keys_distinct (slr_content base)"
  shows "lp_content reply = content_to_proto (slr_content base) \<and>
    (\<exists>row \<in> set (lw_layers w'). lp_id reply = uc_string (ms_uuid sv) (sl_id row) \<and> sl_status row = LayerDraft \<and>
       cc_encode_content (ms_codec sv) (slr_content base) = Inr (sl_content row))"
proof -
  have sent: "content_from_proto (Some (content_to_proto (slr_content base))) = slr_content base"
    by (simp add: content_from_proto_def content_to_proto_def comp_def)
  from assms(1-3) sent obtain user rec where run: "update_semantic_layer (ms_codec sv) (ms_io sv LayerMemberCall)
      (ms_io sv LayerByIdCall) (ms_layer_io sv) (ms_new_id sv) (ms_now sv) tid user lid (slr_content base) w =
      (Inr rec, w')" and reply: "reply = semantic_layer_to_proto (ms_uuid sv) rec"
    by (auto simp: update_semantic_layer_rpc_def with_object_def with_tenant_def require_user_def
        parse_connect_uuid_def rpc_result_Inr split: option.splits)
  from update_semantic_layer_Inr [OF run] assms(4,5) merge_same [OF assms(6)] obtain content_json where
    content: "slr_content rec = slr_content base"
    "cc_encode_content (ms_codec sv) (slr_content base) = Inr content_json"
    "create_draft_version (ms_layer_io sv) (ms_new_id sv) (ms_now sv) tid (sl_schema_version_id layer) content_json
       (lw_layers w) = (Inr (slr_layer rec), lw_layers w')"
    by (metis sum.inject(2))
  from create_draft_version_Inr [OF content(3)]
  have "slr_layer rec \<in> set (lw_layers w')" "sl_status (slr_layer rec) = LayerDraft"
    "sl_content (slr_layer rec) = content_json" by auto
  with content reply show ?thesis by (auto simp: semantic_layer_to_proto_def Let_def)
qed

section \<open>Who is served\<close>

lemma not_member_layer_membership:
  "\<not> is_member tid user (lw_tenants w) \<Longrightarrow>
     layer_membership None tid user w = Some err_semantic_layer_access_denied"
  by (simp add: layer_membership_def ensure_membership_def not_member_membership)

lemma not_member_starter_membership:
  "\<not> is_member tid user (lw_tenants tables) \<Longrightarrow> se_io env StarterMembershipCall = None \<Longrightarrow>
     starter_membership env tid user tables = Some err_starter_questions_access_denied"
  by (simp add: starter_membership_def ensure_membership_def not_member_membership)

lemma layer_error_denials:
  "rpc_status (semantic_layer_error err_semantic_layer_access_denied) = CodePermissionDenied"
  "rpc_status (starter_questions_error err_starter_questions_access_denied) = CodePermissionDenied"
  by (simp_all add: semantic_layer_error_def starter_questions_error_def)

text \<open>
  Layers and starter questions are kept from strangers: whoever is not a verified member of the
  tenant named in a request gets an error with the code Unauthenticated, InvalidArgument or
  PermissionDenied from all six calls, no row changes, and the model is not asked.
\<close>

theorem layer_services_deny_outsiders:
  assumes "outsider (ms_uuid sv) ctx tenant_raw (lw_tenants w)" "ms_io sv LayerMemberCall = None"
    and "ks_uuid st = ms_uuid sv" "se_io (ks_env st) StarterMembershipCall = None"
  shows "denied (get_semantic_layer_rpc sv ctx tenant_raw w) w \<and>
    denied (draft_semantic_layer_rpc sv ctx tenant_raw version_raw w) w \<and>
    denied (update_semantic_layer_rpc sv ctx tenant_raw layer_raw content w) w \<and>
    denied (approve_semantic_layer_rpc sv ctx tenant_raw layer_raw w) w \<and>
    denied (list_starter_questions_rpc st ctx tenant_raw locale_raw w s) s \<and>
    denied (regenerate_starter_questions_rpc st ctx tenant_raw locale_raw w s) s"
proof -
  note gates = with_tenant_denied [OF assms(1)] with_object_denied [OF assms(1)]
  note mem = not_member_layer_membership [of _ _ w] assms(2)
    not_member_starter_membership [OF _ assms(4), of _ _ w] layer_error_denials
  have "denied (get_semantic_layer_rpc sv ctx tenant_raw w) w"
    unfolding get_semantic_layer_rpc_def
    by (intro gates rpc_result_denied) (simp add: get_semantic_layer_def mem)+
  moreover have "denied (draft_semantic_layer_rpc sv ctx tenant_raw version_raw w) w"
    unfolding draft_semantic_layer_rpc_def
    by (intro gates rpc_result_denied) (simp add: draft_semantic_layer_def mem)+
  moreover have "denied (update_semantic_layer_rpc sv ctx tenant_raw layer_raw content w) w"
    unfolding update_semantic_layer_rpc_def
    by (intro gates rpc_result_denied) (simp add: update_semantic_layer_def mem)+
  moreover have "denied (approve_semantic_layer_rpc sv ctx tenant_raw layer_raw w) w"
    unfolding approve_semantic_layer_rpc_def
    by (intro gates rpc_result_denied) (simp add: approve_semantic_layer_def mem)+
  moreover have "denied (list_starter_questions_rpc st ctx tenant_raw locale_raw w s) s"
    unfolding list_starter_questions_rpc_def assms(3)
    by (intro gates rpc_result_denied) (simp add: list_starter_questions_def mem)+
  moreover have "denied (regenerate_starter_questions_rpc st ctx tenant_raw locale_raw w s) s"
    unfolding regenerate_starter_questions_rpc_def assms(3)
    by (intro gates rpc_result_denied) (simp add: regenerate_starter_questions_def mem)+
  ultimately show ?thesis by blast
qed

text \<open>Only an owner of the tenant named has its schema captured by the debug endpoint.\<close>

lemma debug_introspect_needs_owner:
  "(\<exists>user tid. ctx = Some user \<and> uc_parse uc tenant_raw = Some tid \<and> owns_tenant tid user tdb \<and>
      debug_introspect uc io capture ctx tenant_raw tdb w =
        (case capture tid w of (out, w') \<Rightarrow> (debug_introspect_response uc out, w'))) \<or>
   (\<exists>code msg. debug_introspect uc io capture ctx tenant_raw tdb w = ((code, SchemaError msg), w) \<and>
      code \<in> {400, 401, 403, 500})"
proof (cases "authorize_owner uc io ctx tenant_raw tdb")
  case (Inl e)
  then show ?thesis
    by (auto simp: debug_introspect_def authorize_owner_def split: option.splits sum.splits if_splits)
next
  case (Inr tid)
  from authorize_owner_owner [OF Inr] Inr have "\<exists>user. ctx = Some user \<and> owns_tenant tid user tdb"
    "uc_parse uc tenant_raw = Some tid"
    by (auto simp: authorize_owner_def split: option.splits sum.splits if_splits)
  with Inr show ?thesis by (auto simp: debug_introspect_def)
qed

section \<open>Examples\<close>

definition example_semantic_service :: semantic_service where
  "example_semantic_service = \<lparr>ms_uuid = unary_uuids, ms_codec = example_codec_content,
     ms_controller = new_semantic_layer_controller \<lparr>slg_model = [], slg_provider_models = [], slg_max_tokens = 0,
       slg_system_prompt = [], slg_user_prompt = []\<rparr>,
     ms_io = (\<lambda>_. None), ms_layer_io = no_io_errors, ms_new_id = 9, ms_now = 40,
     ms_complete = (\<lambda>_. Inl (ErrNew ''offline''))\<rparr>"

definition example_starter_service :: "nat starter_service" where
  "example_starter_service = \<lparr>ks_uuid = unary_uuids, ks_env = sample_starter_env,
     ks_controller = sample_starter_controller, ks_complete = sample_completer\<rparr>"

theorem layer_services_deny_outsiders_witness:
  "denied (approve_semantic_layer_rpc example_semantic_service (Some ''v'') ''iii'' ''ii'' example_layer_world)
     example_layer_world \<and>
   denied (regenerate_starter_questions_rpc example_starter_service (Some ''v'') ''iii'' ''en'' example_layer_world
     (0, [])) (0, [])"
proof -
  have out: "outsider (ms_uuid example_semantic_service) (Some ''v'') ''iii'' (lw_tenants example_layer_world)"
    by code_simp
  have io: "ms_io example_semantic_service LayerMemberCall = None"
    "ks_uuid example_starter_service = ms_uuid example_semantic_service"
    "se_io (ks_env example_starter_service) StarterMembershipCall = None"
    by (simp_all add: example_semantic_service_def example_starter_service_def sample_starter_env_def)
  from layer_services_deny_outsiders [OF out io, of _ "''ii''" _ "''en''" "(0, [])"] show ?thesis by blast
qed

theorem unedited_update_keeps_content_witness:
  "\<exists>reply w'. update_semantic_layer_rpc example_semantic_service (Some ''u'') ''iii'' ''ii''
      (Some (content_to_proto example_content)) example_layer_world = (Inr reply, w') \<and>
     lp_content reply = content_to_proto example_content"
proof -
  let ?base = "\<lparr>slr_layer = example_layers ! 1, slr_content = example_content\<rparr>"
  let ?run = "update_semantic_layer_rpc example_semantic_service (Some ''u'') ''iii'' ''ii''
      (Some (content_to_proto (slr_content ?base))) example_layer_world"
  have "\<not> isl (fst ?run)" by code_simp
  then obtain reply w' where run: "?run = (Inr reply, w')" by (metis prod.collapse sum.collapse(2))
  have ids: "uc_parse (ms_uuid example_semantic_service) ''iii'' = Some 3"
    "uc_parse (ms_uuid example_semantic_service) ''ii'' = Some 2"
    by code_simp+
  have layer: "layer_by_id (ms_io example_semantic_service LayerByIdCall) 3 2 (lw_layers example_layer_world) =
      Inr (example_layers ! 1)" by code_simp
  have base: "decode_semantic_layer_record (ms_codec example_semantic_service) (example_layers ! 1) = Inr ?base"
    by code_simp
  have keys: "content_keys_distinct (slr_content ?base)"
    by (simp add: content_keys_distinct_def example_content_def)
  from unedited_update_keeps_content [OF run ids layer base keys] run show ?thesis by auto
qed

end
