(* ===== verification/LlmProviders.thy ===== *)
theory LlmProviders
  imports StarterQuestions Onboarding
begin

text \<open>
  The language model providers: gateway/llm/anthropic, openai and mistral with gateway/llm/baseurl.go,
  and llmprovider/provider.go, the table of supported ones. A vendor's SDK client, or the HTTP client
  of mistral, is an operation on a world \<open>'w\<close>; what the code asks of the errors it gives, and of
  \<open>net/url\<close>, \<open>encoding/json\<close> and \<open>strconv.Quote\<close>, are the fields of \<open>provider_lib\<close>. The locale
  \<open>completion_provider\<close> is what the router relies on.
\<close>

section \<open>gateway/llm/baseurl.go\<close>

text \<open>A parsed URL is its path and the rest \<open>'u\<close>, which only \<open>String\<close> reads.\<close>

record 'u url_lib =
  ul_parse :: "string \<Rightarrow> (string \<times> 'u) option"
  ul_string :: "string \<Rightarrow> 'u \<Rightarrow> string"

definition normalize_base_url :: "'u url_lib \<Rightarrow> string \<Rightarrow> string \<Rightarrow> string" where
  "normalize_base_url lib base_url endpoint_path =
     (let trimmed = trim_space base_url in
      if trimmed = [] then []
      else (case ul_parse lib trimmed of
          None \<Rightarrow> trimmed
        | Some (path0, rest) \<Rightarrow>
            (let path1 = trim_right_char (CHR ''/'') path0;
                 endpoint = trim_right_char (CHR ''/'') (trim_space endpoint_path);
                 path2 = (if endpoint \<noteq> [] \<and> has_suffix path1 endpoint then trim_suffix path1 endpoint else path1)
             in ul_string lib (if path2 = [] then ''/'' else path2 @ ''/'') rest)))"

section \<open>Errors of a client\<close>

text \<open>
  What \<open>errors.As\<close> finds in a client's error: the status of an \<open>anthropic.Error\<close> or of an
  \<open>openai.Error\<close>, a \<open>url.Error\<close>, a \<open>net.Error\<close>.
\<close>

record provider_lib =
  pl_quote :: "string \<Rightarrow> string"
  pl_anthropic_status :: "gerr \<Rightarrow> int option"
  pl_openai_status :: "gerr \<Rightarrow> int option"
  pl_url_error :: "gerr \<Rightarrow> bool"
  pl_net_error :: "gerr \<Rightarrow> bool"

definition classify_anthropic_error :: "provider_lib \<Rightarrow> gerr \<Rightarrow> gerr" where
  "classify_anthropic_error lib err =
     (if errors_is err ContextCanceled then new_provider_error ''anthropic'' err
      else if errors_is err ContextDeadlineExceeded then new_transient_provider_error ''anthropic'' err
      else (case pl_anthropic_status lib err of
          Some status \<Rightarrow>
            (if status = 429 \<or> status \<ge> 500 then new_transient_provider_error ''anthropic'' err
             else new_provider_error ''anthropic'' err)
        | None \<Rightarrow>
            (if pl_url_error lib err then new_transient_provider_error ''anthropic'' err
             else if pl_net_error lib err then new_transient_provider_error ''anthropic'' err
             else new_provider_error ''anthropic'' err)))"

definition classify_compatible_error :: "provider_lib \<Rightarrow> string \<Rightarrow> gerr \<Rightarrow> gerr" where
  "classify_compatible_error lib provider err =
     (if errors_is err ContextCanceled then new_provider_error provider err
      else if errors_is err ContextDeadlineExceeded then new_transient_provider_error provider err
      else (case pl_openai_status lib err of
          Some status \<Rightarrow>
            (if status = 429 \<or> status \<ge> 500 then new_transient_provider_error provider err
             else new_provider_error provider err)
        | None \<Rightarrow>
            (if pl_url_error lib err then new_transient_provider_error provider err
             else if pl_net_error lib err then new_transient_provider_error provider err
             else new_provider_error provider err)))"

definition classify_mistral_error :: "provider_lib \<Rightarrow> gerr \<Rightarrow> gerr" where
  "classify_mistral_error lib err =
     (if errors_is err ContextCanceled then new_provider_error ''mistral'' err
      else if errors_is err ContextDeadlineExceeded then new_transient_provider_error ''mistral'' err
      else if pl_url_error lib err then new_transient_provider_error ''mistral'' err
      else if pl_net_error lib err then new_transient_provider_error ''mistral'' err
      else new_provider_error ''mistral'' err)"

definition classify_mistral_http_error :: "int \<Rightarrow> gerr" where
  "classify_mistral_http_error status =
     (let err = ErrNew (''mistral api returned status '' @ itoa status) in
      if status = 429 \<or> status \<ge> 500 then new_transient_provider_error ''mistral'' err
      else new_provider_error ''mistral'' err)"

text \<open>The options every client is built with; a nil HTTP client is one with a timeout of 90 seconds.\<close>

record client_options =
  co_http_timeout :: time
  co_api_key :: "string option"
  co_base_url :: "string option"

definition client_options_of :: "time option \<Rightarrow> string \<Rightarrow> string \<Rightarrow> client_options" where
  "client_options_of http api_key base_url =
     \<lparr>co_http_timeout = (case http of None \<Rightarrow> seconds 90 | Some t \<Rightarrow> t),
      co_api_key = (if api_key \<noteq> [] then Some api_key else None),
      co_base_url = (if base_url \<noteq> [] then Some base_url else None)\<rparr>"

section \<open>gateway/llm/anthropic\<close>

record anthropic_config =
  ag_api_key :: string
  ag_base_url :: string
  ag_http :: "time option"

record anthropic_provider =
  ap_api_key :: string
  ap_client :: client_options

definition new_anthropic :: "'u url_lib \<Rightarrow> anthropic_config \<Rightarrow> anthropic_provider" where
  "new_anthropic lib cfg =
     (let api_key = trim_space (ag_api_key cfg) in
      \<lparr>ap_api_key = api_key,
       ap_client = client_options_of (ag_http cfg) api_key
         (normalize_base_url lib (ag_base_url cfg) ''/v1/messages'')\<rparr>)"

datatype cache_ttl = TTL5m | TTL1h

record text_block =
  tb_text :: string
  tb_cache :: "cache_ttl option"

datatype chat_role = ChatSystem | ChatUser | ChatAssistant

record message_params =
  mp_model :: string
  mp_max_tokens :: int
  mp_system :: "text_block list"
  mp_messages :: "(chat_role \<times> text_block list) list"
  mp_output_schema :: "json option"

definition build_cache_control ::
  "provider_lib \<Rightarrow> (string \<times> string) option \<Rightarrow> gerr + cache_ttl option" where
  "build_cache_control lib cfg =
     (case cfg of
        None \<Rightarrow> Inr None
      | Some (type, ttl) \<Rightarrow>
          (if trim_space type \<noteq> [] \<and> trim_space type \<noteq> ''ephemeral''
           then Inl (ErrNew (''unsupported anthropic cache control type '' @ pl_quote lib type))
           else if trim_space ttl = [] \<or> trim_space ttl = ''5m'' then Inr (Some TTL5m)
           else if trim_space ttl = ''1h'' then Inr (Some TTL1h)
           else Inl (ErrNew (''unsupported anthropic cache control ttl '' @ pl_quote lib ttl))))"

definition plain_block :: "string \<Rightarrow> text_block" where
  "plain_block t = \<lparr>tb_text = t, tb_cache = None\<rparr>"

definition anthropic_message ::
  "provider_lib \<Rightarrow> (string \<times> string) option \<Rightarrow> llm_message \<Rightarrow> gerr + chat_role \<times> text_block list" where
  "anthropic_message lib cc m =
     (if msg_role m = ''user'' then
        (let cached_text = trim_space (msg_cached_content m) in
         if cached_text \<noteq> [] then
           (case build_cache_control lib cc of
              Inl e \<Rightarrow> Inl e
            | Inr ttl \<Rightarrow>
                (let cached_block = \<lparr>tb_text = cached_text, tb_cache = ttl\<rparr>;
                     dynamic_text = trim_space (msg_content m)
                 in Inr (ChatUser, cached_block # (if dynamic_text \<noteq> [] then [plain_block dynamic_text] else []))))
         else Inr (ChatUser, [plain_block (msg_content m)]))
      else if msg_role m = ''assistant'' then Inr (ChatAssistant, [plain_block (msg_content m)])
      else Inl (ErrNew (''unsupported anthropic message role '' @ pl_quote lib (msg_role m))))"

text \<open>A loop that converts each message and stops at the first error, as each provider has one.\<close>

fun convert_messages :: "('m \<Rightarrow> gerr + 'p) \<Rightarrow> 'm list \<Rightarrow> 'p list \<Rightarrow> gerr + 'p list" where
  "convert_messages f [] out = Inr out"
| "convert_messages f (m # ms) out =
     (case f m of Inl e \<Rightarrow> Inl e | Inr p \<Rightarrow> convert_messages f ms (out @ [p]))"

definition build_message_params :: "provider_lib \<Rightarrow> completion_request \<Rightarrow> gerr + message_params" where
  "build_message_params lib req =
     (let system = trim_space (req_system req);
          blocks = (if system = [] then Inr []
                    else (case build_cache_control lib (req_cache_control req) of
                        Inl e \<Rightarrow> Inl e
                      | Inr ttl \<Rightarrow> Inr [\<lparr>tb_text = system, tb_cache = ttl\<rparr>]))
      in case blocks of
           Inl e \<Rightarrow> Inl e
         | Inr sys \<Rightarrow>
             (case convert_messages (anthropic_message lib (req_cache_control req)) (req_messages req) [] of
                Inl e \<Rightarrow> Inl e
              | Inr messages \<Rightarrow>
                  Inr \<lparr>mp_model = req_model req, mp_max_tokens = req_max_tokens req, mp_system = sys,
                       mp_messages = messages, mp_output_schema = map_option snd (req_output_format req)\<rparr>))"

record anthropic_reply =
  an_model :: string
  an_blocks :: "(string \<times> string) list"
  an_input_tokens :: int
  an_output_tokens :: int
  an_cache_creation_tokens :: int
  an_cache_read_tokens :: int

definition anthropic_response :: "anthropic_reply \<Rightarrow> completion_response" where
  "anthropic_response r =
     \<lparr>resp_content = concat (map snd (filter (\<lambda>b. fst b = ''text'') (an_blocks r))),
      resp_provider = ''anthropic'', resp_model = an_model r,
      resp_usage = \<lparr>usage_provider = ''anthropic'', usage_model = an_model r,
        input_tokens = an_input_tokens r, output_tokens = an_output_tokens r,
        cache_creation_tokens = an_cache_creation_tokens r, cache_read_tokens = an_cache_read_tokens r\<rparr>\<rparr>"

definition anthropic_complete ::
  "provider_lib \<Rightarrow> (client_options \<Rightarrow> message_params \<Rightarrow> 'w \<Rightarrow> (gerr + anthropic_reply) \<times> 'w) \<Rightarrow>
   anthropic_provider \<Rightarrow> completion_request \<Rightarrow> 'w \<Rightarrow> (gerr + completion_response) \<times> 'w" where
  "anthropic_complete lib client p req w =
     (if ap_api_key p = [] then
        (Inl (new_provider_error ''anthropic'' (ErrNew ''anthropic api key is not configured'')), w)
      else if trim_space (req_model req) = [] then
        (Inl (new_provider_error ''anthropic'' (ErrNew ''anthropic model is not configured'')), w)
      else (case build_message_params lib req of
          Inl e \<Rightarrow> (Inl (new_provider_error ''anthropic'' e), w)
        | Inr params \<Rightarrow>
            (case client (ap_client p) params w of
               (Inl e, w') \<Rightarrow> (Inl (classify_anthropic_error lib e), w')
             | (Inr r, w') \<Rightarrow> (Inr (anthropic_response r), w'))))"

section \<open>gateway/llm/openai\<close>

text \<open>The modes are strings, of which the empty one is the default.\<close>

definition structured_json_schema :: string where "structured_json_schema = ''json_schema''"
definition structured_tool_call :: string where "structured_tool_call = ''tool_call''"
definition token_max_completion :: string where "token_max_completion = ''max_completion_tokens''"
definition token_max :: string where "token_max = ''max_tokens''"

record openai_config =
  oc_name :: string
  oc_api_key :: string
  oc_base_url :: string
  oc_http :: "time option"
  oc_structured_mode :: string
  oc_token_style :: string

record openai_provider =
  op_name :: string
  op_api_key :: string
  op_client :: client_options
  op_structured_mode :: string
  op_token_style :: string

definition new_openai :: "'u url_lib \<Rightarrow> openai_config \<Rightarrow> openai_provider" where
  "new_openai lib cfg =
     (let name = trim_space (oc_name cfg); api_key = trim_space (oc_api_key cfg) in
      \<lparr>op_name = (if name = [] then ''openai'' else name), op_api_key = api_key,
       op_client = client_options_of (oc_http cfg) api_key
         (normalize_base_url lib (oc_base_url cfg) ''/chat/completions''),
       op_structured_mode = (if oc_structured_mode cfg = [] then structured_json_schema else oc_structured_mode cfg),
       op_token_style = (if oc_token_style cfg = [] then token_max_completion else oc_token_style cfg)\<rparr>)"

text \<open>
  Parameters of a chat completion: the response format is a strict JSON schema with its name, a
  forced tool a strict function with its name and parameters.
\<close>

record chat_params =
  hp_model :: string
  hp_messages :: "(chat_role \<times> string) list"
  hp_max_completion_tokens :: "int option"
  hp_max_tokens :: "int option"
  hp_response_format :: "(string \<times> json) option"
  hp_forced_tool :: "(string \<times> json) option"

definition tool_char :: "char \<Rightarrow> char" where
  "tool_char c =
     (if in_range (CHR ''a'') (CHR ''z'') c then c
      else if in_range (CHR ''A'') (CHR ''Z'') c then ascii_lower_char c
      else if in_range (CHR ''0'') (CHR ''9'') c \<or> c = CHR ''_'' \<or> c = CHR ''-'' then c
      else CHR ''_'')"

function tool_chars :: "string \<Rightarrow> string" where
  "tool_chars s =
     (if s = [] then []
      else (if rune_len s > 1 then CHR ''_'' else tool_char (hd s)) # tool_chars (drop (max 1 (rune_len s)) s))"
  by pat_completeness auto
termination by (relation "measure length") auto

declare tool_chars.simps [simp del]

definition output_format_tool_name :: "string \<Rightarrow> string" where
  "output_format_tool_name name =
     (let trimmed = trim_space name;
          dash = (\<lambda>c. c = CHR ''_'' \<or> c = CHR ''-'');
          out = rev (dropWhile dash (rev (dropWhile dash (tool_chars trimmed))))
      in if trimmed = [] then ''structured_output''
         else if out = [] then ''structured_output'' else out)"

definition openai_message :: "provider_lib \<Rightarrow> llm_message \<Rightarrow> gerr + chat_role \<times> string" where
  "openai_message lib m =
     (let txt = merge_message_content (msg_cached_content m) (msg_content m) in
      if msg_role m = ''user'' then Inr (ChatUser, txt)
      else if msg_role m = ''assistant'' then Inr (ChatAssistant, txt)
      else Inl (ErrNew (''unsupported openai message role '' @ pl_quote lib (msg_role m))))"

definition system_messages :: "completion_request \<Rightarrow> (chat_role \<times> string) list" where
  "system_messages req =
     (let system = trim_space (req_system req) in if system \<noteq> [] then [(ChatSystem, system)] else [])"

definition build_chat_completion_params ::
  "provider_lib \<Rightarrow> completion_request \<Rightarrow> string \<Rightarrow> string \<Rightarrow> gerr + chat_params" where
  "build_chat_completion_params lib req mode style =
     (case convert_messages (openai_message lib) (req_messages req) (system_messages req) of
        Inl e \<Rightarrow> Inl e
      | Inr messages \<Rightarrow>
          (let params = \<lparr>hp_model = req_model req, hp_messages = messages, hp_max_completion_tokens = None,
                 hp_max_tokens = None, hp_response_format = None, hp_forced_tool = None\<rparr>;
               limited = (if req_max_tokens req > 0 then
                   (if style = [] \<or> style = token_max_completion
                    then Inr (params\<lparr>hp_max_completion_tokens := Some (req_max_tokens req)\<rparr>)
                    else if style = token_max then Inr (params\<lparr>hp_max_tokens := Some (req_max_tokens req)\<rparr>)
                    else Inl (ErrNew (''unsupported token parameter style '' @ pl_quote lib style)))
                 else Inr params)
           in case limited of
                Inl e \<Rightarrow> Inl e
              | Inr p \<Rightarrow>
                  (case req_output_format req of
                     None \<Rightarrow> Inr p
                   | Some (name, schema) \<Rightarrow>
                       (if mode = [] \<or> mode = structured_json_schema
                        then Inr (p\<lparr>hp_response_format := Some (name, schema)\<rparr>)
                        else if mode = structured_tool_call
                        then Inr (p\<lparr>hp_forced_tool := Some (output_format_tool_name name, schema)\<rparr>)
                        else Inl (ErrNew (''unsupported structured output mode '' @ pl_quote lib mode))))))"

text \<open>A choice has its text and its tool calls; one that is no function call is \<open>None\<close>.\<close>

record chat_choice =
  hc_content :: string
  hc_tool_arguments :: "string option list"

record chat_reply =
  hr_model :: string
  hr_choices :: "chat_choice list"
  hr_prompt_tokens :: int
  hr_completion_tokens :: int

definition extract_response_content ::
  "chat_reply option \<Rightarrow> (string \<times> json) option \<Rightarrow> string \<Rightarrow> gerr + string" where
  "extract_response_content resp fmt mode =
     (case resp of
        None \<Rightarrow> Inl (ErrNew ''openai response contained no choices'')
      | Some r \<Rightarrow>
          (case hr_choices r of
             [] \<Rightarrow> Inl (ErrNew ''openai response contained no choices'')
           | message # _ \<Rightarrow>
               (if fmt \<noteq> None \<and> mode = structured_tool_call then
                  (case find (\<lambda>a. case a of Some arguments \<Rightarrow> trim_space arguments \<noteq> [] | None \<Rightarrow> False)
                       (hc_tool_arguments message) of
                     Some (Some arguments) \<Rightarrow> Inr arguments
                   | _ \<Rightarrow> Inl (ErrNew ''openai response contained no tool call arguments''))
                else if trim_space (hc_content message) = []
                then Inl (ErrNew ''openai response contained empty content'')
                else Inr (trim_space (hc_content message)))))"

definition chat_response :: "string \<Rightarrow> string \<Rightarrow> string \<Rightarrow> int \<Rightarrow> int \<Rightarrow> completion_response" where
  "chat_response provider content model prompt_tokens completion_tokens =
     \<lparr>resp_content = content, resp_provider = provider, resp_model = model,
      resp_usage = \<lparr>usage_provider = provider, usage_model = model, input_tokens = prompt_tokens,
        output_tokens = completion_tokens, cache_creation_tokens = 0, cache_read_tokens = 0\<rparr>\<rparr>"

definition openai_complete ::
  "provider_lib \<Rightarrow> (client_options \<Rightarrow> chat_params \<Rightarrow> 'w \<Rightarrow> (gerr + chat_reply) \<times> 'w) \<Rightarrow>
   openai_provider \<Rightarrow> completion_request \<Rightarrow> 'w \<Rightarrow> (gerr + completion_response) \<times> 'w" where
  "openai_complete lib client p req w =
     (if op_api_key p = [] then
        (Inl (new_provider_error (op_name p) (ErrNew (op_name p @ '' api key is not configured''))), w)
      else if trim_space (req_model req) = [] then
        (Inl (new_provider_error (op_name p) (ErrNew (op_name p @ '' model is not configured''))), w)
      else (case build_chat_completion_params lib req (op_structured_mode p) (op_token_style p) of
          Inl e \<Rightarrow> (Inl (new_provider_error (op_name p) e), w)
        | Inr params \<Rightarrow>
            (case client (op_client p) params w of
               (Inl e, w') \<Rightarrow> (Inl (classify_compatible_error lib (op_name p) e), w')
             | (Inr r, w') \<Rightarrow>
                 (case extract_response_content (Some r) (req_output_format req) (op_structured_mode p) of
                    Inl e \<Rightarrow> (Inl (new_provider_error (op_name p) e), w')
                  | Inr content \<Rightarrow>
                      (Inr (chat_response (op_name p) content (hr_model r) (hr_prompt_tokens r)
                         (hr_completion_tokens r)), w')))))"

section \<open>gateway/llm/mistral\<close>

record mistral_config =
  mg_api_key :: string
  mg_base_url :: string
  mg_http :: "time option"

record mistral_provider =
  mi_api_key :: string
  mi_base_url :: string
  mi_http_timeout :: time

definition new_mistral :: "mistral_config \<Rightarrow> mistral_provider" where
  "new_mistral cfg =
     (let base_url = trim_space (mg_base_url cfg);
          base_url' = (if base_url = [] then ''https://api.mistral.ai'' else base_url)
      in \<lparr>mi_api_key = trim_space (mg_api_key cfg), mi_base_url = trim_right_char (CHR ''/'') base_url',
          mi_http_timeout = (case mg_http cfg of None \<Rightarrow> seconds 90 | Some t \<Rightarrow> t)\<rparr>)"

text \<open>The request's JSON leaves out \<open>max_tokens\<close> when it is 0; its schema is strict.\<close>

record mistral_request =
  mr_model :: string
  mr_messages :: "(chat_role \<times> string) list"
  mr_max_tokens :: int
  mr_json_schema :: "(string \<times> json) option"

definition mistral_chat_message :: "provider_lib \<Rightarrow> llm_message \<Rightarrow> gerr + chat_role \<times> string" where
  "mistral_chat_message lib m =
     (if msg_role m = ''user'' \<or> msg_role m = ''assistant''
      then Inr (if msg_role m = ''user'' then ChatUser else ChatAssistant,
        merge_message_content (msg_cached_content m) (msg_content m))
      else Inl (ErrNew (''unsupported mistral message role '' @ pl_quote lib (msg_role m))))"

definition build_mistral_request :: "provider_lib \<Rightarrow> completion_request \<Rightarrow> gerr + mistral_request" where
  "build_mistral_request lib req =
     (case convert_messages (mistral_chat_message lib) (req_messages req) (system_messages req) of
        Inl e \<Rightarrow> Inl e
      | Inr messages \<Rightarrow>
          Inr \<lparr>mr_model = req_model req, mr_messages = messages,
               mr_max_tokens = (if req_max_tokens req > 0 then req_max_tokens req else 0),
               mr_json_schema = map_option (\<lambda>(name, schema). (trim_space name, schema)) (req_output_format req)\<rparr>)"

record mistral_content =
  mc_text :: string
  mc_parts :: "(string \<times> string) list"

text \<open>\<open>UnmarshalJSON\<close> and \<open>String\<close>; the arguments decode a string and a list of typed parts.\<close>

definition unmarshal_mistral_content ::
  "(string \<Rightarrow> string option) \<Rightarrow> (string \<Rightarrow> (string \<times> string) list option) \<Rightarrow> string \<Rightarrow> gerr + mistral_content" where
  "unmarshal_mistral_content as_text as_parts body =
     (case as_text body of
        Some t \<Rightarrow> Inr \<lparr>mc_text = t, mc_parts = []\<rparr>
      | None \<Rightarrow>
          (case as_parts body of
             Some ps \<Rightarrow> Inr \<lparr>mc_text = [], mc_parts = ps\<rparr>
           | None \<Rightarrow> Inl (ErrNew (''unsupported mistral content payload: '' @ body))))"

definition mistral_content_string :: "mistral_content \<Rightarrow> string" where
  "mistral_content_string c =
     (if trim_space (mc_text c) \<noteq> [] then mc_text c
      else concat (map snd (filter (\<lambda>p. fst p = [] \<or> fst p = ''text'') (mc_parts c))))"

record mistral_reply =
  ml_model :: string
  ml_choices :: "mistral_content list"
  ml_prompt_tokens :: int
  ml_completion_tokens :: int

text \<open>
  The HTTP exchange: \<open>mh_marshal\<close> is \<open>json.Marshal\<close> of the request, \<open>mh_new_request\<close> the error of
  \<open>http.NewRequest\<close> for a URL, \<open>mh_do\<close> sends the body with the API key and gives the status and the body
  of the reply, and \<open>mh_decode\<close> decodes that.
\<close>

record 'w mistral_http =
  mh_marshal :: "mistral_request \<Rightarrow> gerr + string"
  mh_new_request :: "string \<Rightarrow> gerr option"
  mh_do :: "time \<Rightarrow> string \<Rightarrow> string \<Rightarrow> string \<Rightarrow> 'w \<Rightarrow> (gerr + int \<times> string) \<times> 'w"
  mh_decode :: "string \<Rightarrow> gerr + mistral_reply"

definition mistral_answer :: "'w mistral_http \<Rightarrow> int \<times> string \<Rightarrow> gerr + completion_response" where
  "mistral_answer http reply =
     (case reply of (status, body) \<Rightarrow>
       (if status < 200 \<or> status \<ge> 300 then Inl (classify_mistral_http_error status)
        else (case mh_decode http body of
            Inl e \<Rightarrow> Inl (new_provider_error ''mistral'' (Wrapped ''decode mistral response'' e))
          | Inr r \<Rightarrow>
              (case ml_choices r of
                 [] \<Rightarrow> Inl (new_provider_error ''mistral'' (ErrNew ''mistral response contained no choices''))
               | message # _ \<Rightarrow>
                   (let content = trim_space (mistral_content_string message) in
                    if content = []
                    then Inl (new_provider_error ''mistral'' (ErrNew ''mistral response contained empty content''))
                    else Inr (chat_response ''mistral'' content (ml_model r) (ml_prompt_tokens r)
                      (ml_completion_tokens r)))))))"

definition mistral_complete ::
  "provider_lib \<Rightarrow> 'w mistral_http \<Rightarrow> mistral_provider \<Rightarrow> completion_request \<Rightarrow> 'w \<Rightarrow>
   (gerr + completion_response) \<times> 'w" where
  "mistral_complete lib http p req w =
     (if mi_api_key p = [] then
        (Inl (new_provider_error ''mistral'' (ErrNew ''mistral api key is not configured'')), w)
      else if trim_space (req_model req) = [] then
        (Inl (new_provider_error ''mistral'' (ErrNew ''mistral model is not configured'')), w)
      else (case build_mistral_request lib req of
          Inl e \<Rightarrow> (Inl (new_provider_error ''mistral'' e), w)
        | Inr chat_req \<Rightarrow>
            (case mh_marshal http chat_req of
               Inl e \<Rightarrow> (Inl (new_provider_error ''mistral'' (Wrapped ''marshal mistral request'' e)), w)
             | Inr body \<Rightarrow>
                 (let url = mi_base_url p @ ''/v1/chat/completions'' in
                  case mh_new_request http url of
                    Some e \<Rightarrow> (Inl (new_provider_error ''mistral'' e), w)
                  | None \<Rightarrow>
                      (case mh_do http (mi_http_timeout p) url (mi_api_key p) body w of
                         (Inl e, w') \<Rightarrow> (Inl (classify_mistral_error lib e), w')
                       | (Inr reply, w') \<Rightarrow> (mistral_answer http reply, w'))))))"

section \<open>llmprovider/provider.go\<close>

definition default_provider_name :: string where "default_provider_name = ''anthropic''"
definition transport_anthropic :: string where "transport_anthropic = ''anthropic''"
definition transport_openai_compatible :: string where "transport_openai_compatible = ''openai_compatible''"
definition transport_mistral :: string where "transport_mistral = ''mistral''"

record provider_spec =
  sp_name :: string
  sp_api_key_env :: string
  sp_semantic_model_env :: string
  sp_query_model_env :: string
  sp_preflight_model_env :: string
  sp_default_base_url :: string
  sp_default_preflight_model :: string
  sp_transport :: string
  sp_structured_mode :: string
  sp_token_style :: string

definition supported_specs :: "provider_spec list" where
  "supported_specs =
     [\<lparr>sp_name = ''anthropic'', sp_api_key_env = ''ANTHROPIC_API_KEY'',
       sp_semantic_model_env = ''ANTHROPIC_SEMANTIC_LAYER_MODEL'', sp_query_model_env = ''ANTHROPIC_QUERY_MODEL'',
       sp_preflight_model_env = ''ANTHROPIC_PREFLIGHT_MODEL'', sp_default_base_url = [],
       sp_default_preflight_model = ''claude-3-5-haiku-latest'', sp_transport = transport_anthropic,
       sp_structured_mode = [], sp_token_style = []\<rparr>,
      \<lparr>sp_name = ''openai'', sp_api_key_env = ''OPENAI_API_KEY'',
       sp_semantic_model_env = ''OPENAI_SEMANTIC_LAYER_MODEL'', sp_query_model_env = ''OPENAI_QUERY_MODEL'',
       sp_preflight_model_env = ''OPENAI_PREFLIGHT_MODEL'', sp_default_base_url = [],
       sp_default_preflight_model = ''gpt-5.1-nano'', sp_transport = transport_openai_compatible,
       sp_structured_mode = structured_json_schema, sp_token_style = token_max_completion\<rparr>,
      \<lparr>sp_name = ''together'', sp_api_key_env = ''TOGETHER_API_KEY'',
       sp_semantic_model_env = ''TOGETHER_SEMANTIC_LAYER_MODEL'', sp_query_model_env = ''TOGETHER_QUERY_MODEL'',
       sp_preflight_model_env = ''TOGETHER_PREFLIGHT_MODEL'', sp_default_base_url = ''https://api.together.xyz/v1'',
       sp_default_preflight_model = [], sp_transport = transport_openai_compatible,
       sp_structured_mode = structured_json_schema, sp_token_style = token_max\<rparr>,
      \<lparr>sp_name = ''mistral'', sp_api_key_env = ''MISTRAL_API_KEY'',
       sp_semantic_model_env = ''MISTRAL_SEMANTIC_LAYER_MODEL'', sp_query_model_env = ''MISTRAL_QUERY_MODEL'',
       sp_preflight_model_env = ''MISTRAL_PREFLIGHT_MODEL'', sp_default_base_url = ''https://api.mistral.ai'',
       sp_default_preflight_model = [], sp_transport = transport_mistral,
       sp_structured_mode = [], sp_token_style = []\<rparr>,
      \<lparr>sp_name = ''cerebras'', sp_api_key_env = ''CEREBRAS_API_KEY'',
       sp_semantic_model_env = ''CEREBRAS_SEMANTIC_LAYER_MODEL'', sp_query_model_env = ''CEREBRAS_QUERY_MODEL'',
       sp_preflight_model_env = ''CEREBRAS_PREFLIGHT_MODEL'', sp_default_base_url = ''https://api.cerebras.ai/v1'',
       sp_default_preflight_model = [], sp_transport = transport_openai_compatible,
       sp_structured_mode = structured_json_schema, sp_token_style = token_max\<rparr>,
      \<lparr>sp_name = ''deepseek'', sp_api_key_env = ''DEEPSEEK_API_KEY'',
       sp_semantic_model_env = ''DEEPSEEK_SEMANTIC_LAYER_MODEL'', sp_query_model_env = ''DEEPSEEK_QUERY_MODEL'',
       sp_preflight_model_env = ''DEEPSEEK_PREFLIGHT_MODEL'', sp_default_base_url = ''https://api.deepseek.com'',
       sp_default_preflight_model = [], sp_transport = transport_openai_compatible,
       sp_structured_mode = structured_tool_call, sp_token_style = token_max\<rparr>,
      \<lparr>sp_name = ''xai'', sp_api_key_env = ''XAI_API_KEY'',
       sp_semantic_model_env = ''XAI_SEMANTIC_LAYER_MODEL'', sp_query_model_env = ''XAI_QUERY_MODEL'',
       sp_preflight_model_env = ''XAI_PREFLIGHT_MODEL'', sp_default_base_url = ''https://api.x.ai/v1'',
       sp_default_preflight_model = [], sp_transport = transport_openai_compatible,
       sp_structured_mode = structured_json_schema, sp_token_style = token_max\<rparr>,
      \<lparr>sp_name = ''fireworks'', sp_api_key_env = ''FIREWORKS_API_KEY'',
       sp_semantic_model_env = ''FIREWORKS_SEMANTIC_LAYER_MODEL'', sp_query_model_env = ''FIREWORKS_QUERY_MODEL'',
       sp_preflight_model_env = ''FIREWORKS_PREFLIGHT_MODEL'', sp_default_base_url = ''https://api.fireworks.ai/inference/v1'',
       sp_default_preflight_model = [], sp_transport = transport_openai_compatible,
       sp_structured_mode = structured_json_schema, sp_token_style = token_max\<rparr>]"

definition provider_names :: "string list" where
  "provider_names = map sp_name supported_specs"

definition spec_by_name :: "string \<Rightarrow> provider_spec option" where
  "spec_by_name name = find (\<lambda>spec. sp_name spec = trim_space name) supported_specs"

datatype built_provider =
    AnthropicProvider anthropic_provider
  | OpenAIProvider openai_provider
  | MistralProvider mistral_provider

fun built_name :: "built_provider \<Rightarrow> string" where
  "built_name (AnthropicProvider _) = ''anthropic''"
| "built_name (OpenAIProvider p) = op_name p"
| "built_name (MistralProvider _) = ''mistral''"

definition build_with_base_url ::
  "provider_lib \<Rightarrow> 'u url_lib \<Rightarrow> string \<Rightarrow> string \<Rightarrow> string \<Rightarrow> time option \<Rightarrow> gerr + built_provider" where
  "build_with_base_url lib urls name api_key base_url http =
     (case spec_by_name name of
        None \<Rightarrow> Inl (ErrNew (''unsupported llm provider '' @ pl_quote lib name))
      | Some spec \<Rightarrow>
          (let url = (if trim_space base_url = [] then sp_default_base_url spec else base_url) in
           if sp_transport spec = transport_anthropic then
             Inr (AnthropicProvider (new_anthropic urls \<lparr>ag_api_key = api_key, ag_base_url = url, ag_http = http\<rparr>))
           else if sp_transport spec = transport_openai_compatible then
             Inr (OpenAIProvider (new_openai urls \<lparr>oc_name = sp_name spec, oc_api_key = api_key, oc_base_url = url,
               oc_http = http, oc_structured_mode = sp_structured_mode spec, oc_token_style = sp_token_style spec\<rparr>))
           else if sp_transport spec = transport_mistral then
             Inr (MistralProvider (new_mistral \<lparr>mg_api_key = api_key, mg_base_url = url, mg_http = http\<rparr>))
           else Inl (ErrNew (''unsupported llm transport '' @ pl_quote lib (sp_transport spec) @
             '' for provider '' @ pl_quote lib (sp_name spec)))))"

definition build_provider ::
  "provider_lib \<Rightarrow> 'u url_lib \<Rightarrow> string \<Rightarrow> string \<Rightarrow> time option \<Rightarrow> gerr + built_provider" where
  "build_provider lib urls name api_key http = build_with_base_url lib urls name api_key [] http"

text \<open>A built provider's \<open>Complete\<close>, over the clients of the three transports.\<close>

record 'w llm_clients =
  lc_anthropic :: "client_options \<Rightarrow> message_params \<Rightarrow> 'w \<Rightarrow> (gerr + anthropic_reply) \<times> 'w"
  lc_openai :: "client_options \<Rightarrow> chat_params \<Rightarrow> 'w \<Rightarrow> (gerr + chat_reply) \<times> 'w"
  lc_mistral :: "'w mistral_http"

fun built_complete ::
  "provider_lib \<Rightarrow> 'w llm_clients \<Rightarrow> built_provider \<Rightarrow> completion_request \<Rightarrow> 'w \<Rightarrow>
   (gerr + completion_response) \<times> 'w" where
  "built_complete lib cs (AnthropicProvider p) req w = anthropic_complete lib (lc_anthropic cs) p req w"
| "built_complete lib cs (OpenAIProvider p) req w = openai_complete lib (lc_openai cs) p req w"
| "built_complete lib cs (MistralProvider p) req w = mistral_complete lib (lc_mistral cs) p req w"

section \<open>The contract of a provider\<close>

locale completion_provider =
  fixes name :: string
    and complete :: "completion_request \<Rightarrow> 'w \<Rightarrow> (gerr + completion_response) \<times> 'w"
  assumes name_nonempty: "name \<noteq> []"
    and error_named: "complete req w = (Inl e, w') \<Longrightarrow> \<exists>cause t. e = ProviderError name cause t"
    and response_named: "complete req w = (Inr r, w') \<Longrightarrow>
      resp_provider r = name \<and> usage_provider (resp_usage r) = name"
    and blank_model: "trim_space (req_model req) = [] \<Longrightarrow>
      \<exists>cause. complete req w = (Inl (ProviderError name cause False), w)"
begin

text \<open>The router neither renames nor reclassifies an error of such a provider.\<close>

lemma wrap_keeps: "complete req w = (Inl e, w') \<Longrightarrow> wrap_provider_error name e = e"
  using error_named [of req w e w'] name_nonempty by (auto simp: wrap_provider_error_def)

lemma result_named:
  "case complete req w of
     (Inl e, w') \<Rightarrow> \<exists>cause t. e = ProviderError name cause t
   | (Inr r, w') \<Rightarrow> resp_provider r = name \<and> usage_provider (resp_usage r) = name"
  by (auto split: prod.split sum.split dest: error_named response_named)

end

lemmas provider_error_defs = new_provider_error_def new_transient_provider_error_def

lemma classified_named [simp]:
  "\<exists>cause t. classify_anthropic_error lib e = ProviderError ''anthropic'' cause t"
  "\<exists>cause t. classify_compatible_error lib n e = ProviderError n cause t"
  "\<exists>cause t. classify_mistral_error lib e = ProviderError ''mistral'' cause t"
  "\<exists>err t. classify_mistral_http_error status = ProviderError ''mistral'' err t"
  by (auto simp: classify_anthropic_error_def classify_compatible_error_def classify_mistral_error_def
      classify_mistral_http_error_def Let_def provider_error_defs split: option.splits)

interpretation anthropic: completion_provider "''anthropic''" "anthropic_complete lib client p"
  for lib client p
proof unfold_locales
  show "\<exists>cause t. e = ProviderError ''anthropic'' cause t"
    if "anthropic_complete lib client p req w = (Inl e, w')" for req w e w'
    using that
    by (auto simp: anthropic_complete_def provider_error_defs split: if_splits sum.splits prod.splits)
  show "resp_provider r = ''anthropic'' \<and> usage_provider (resp_usage r) = ''anthropic''"
    if "anthropic_complete lib client p req w = (Inr r, w')" for req w r w'
    using that
    by (auto simp: anthropic_complete_def anthropic_response_def split: if_splits sum.splits prod.splits)
qed (auto simp: anthropic_complete_def provider_error_defs)

lemma new_openai_name: "op_name (new_openai urls cfg) \<noteq> []"
  by (simp add: new_openai_def Let_def)

interpretation openai: completion_provider "op_name (new_openai urls cfg)"
    "openai_complete lib client (new_openai urls cfg)" for urls cfg lib client
proof unfold_locales
  let ?p = "new_openai urls cfg"
  show "op_name ?p \<noteq> []" by (rule new_openai_name)
  show "\<exists>cause t. e = ProviderError (op_name ?p) cause t"
    if "openai_complete lib client ?p req w = (Inl e, w')" for req w e w'
    using that
    by (auto simp: openai_complete_def provider_error_defs split: if_splits sum.splits prod.splits)
  show "resp_provider r = op_name ?p \<and> usage_provider (resp_usage r) = op_name ?p"
    if "openai_complete lib client ?p req w = (Inr r, w')" for req w r w'
    using that
    by (auto simp: openai_complete_def chat_response_def split: if_splits sum.splits prod.splits)
qed (auto simp: openai_complete_def provider_error_defs)

lemma mistral_answer_named:
  "mistral_answer http reply = Inl e \<Longrightarrow> \<exists>cause t. e = ProviderError ''mistral'' cause t"
  "mistral_answer http reply = Inr r \<Longrightarrow> resp_provider r = ''mistral'' \<and> usage_provider (resp_usage r) = ''mistral''"
  by (auto simp: mistral_answer_def provider_error_defs Let_def chat_response_def
      split: if_splits sum.splits prod.splits list.splits)

interpretation mistral: completion_provider "''mistral''" "mistral_complete lib http p" for lib http p
proof unfold_locales
  show "\<exists>cause t. e = ProviderError ''mistral'' cause t"
    if "mistral_complete lib http p req w = (Inl e, w')" for req w e w'
    using that mistral_answer_named(1)
    by (fastforce simp: mistral_complete_def provider_error_defs Let_def
        split: if_splits sum.splits prod.splits option.splits)
  show "resp_provider r = ''mistral'' \<and> usage_provider (resp_usage r) = ''mistral''"
    if "mistral_complete lib http p req w = (Inr r, w')" for req w r w'
    using that mistral_answer_named(2)
    by (auto simp: mistral_complete_def Let_def split: if_splits sum.splits prod.splits option.splits)
qed (auto simp: mistral_complete_def provider_error_defs)

section \<open>Properties\<close>

text \<open>
  The failures of a call that another provider, or a later call, may not have, given the status that
  the classifier finds; mistral's finds none in a transport error, and reads that of a reply itself.
\<close>

definition transient_failure :: "provider_lib \<Rightarrow> int option \<Rightarrow> gerr \<Rightarrow> bool" where
  "transient_failure lib status err \<longleftrightarrow>
     \<not> errors_is err ContextCanceled \<and>
     (errors_is err ContextDeadlineExceeded \<or>
      (case status of
         Some s \<Rightarrow> s = 429 \<or> s \<ge> 500
       | None \<Rightarrow> pl_url_error lib err \<or> pl_net_error lib err))"

lemma classified:
  "classify_anthropic_error lib err =
     ProviderError ''anthropic'' err (transient_failure lib (pl_anthropic_status lib err) err)"
  "classify_compatible_error lib name err =
     ProviderError name err (transient_failure lib (pl_openai_status lib err) err)"
  "classify_mistral_error lib err = ProviderError ''mistral'' err (transient_failure lib None err)"
  "is_transient_provider_error (classify_mistral_http_error status) = (status = 429 \<or> status \<ge> 500)"
  by (auto simp: classify_anthropic_error_def classify_compatible_error_def classify_mistral_error_def
      classify_mistral_http_error_def provider_error_defs transient_failure_def Let_def split: option.splits)

text \<open>What is said in a list of blocks, and the conversation in Anthropic's parameters.\<close>

definition said :: "text_block list \<Rightarrow> string" where
  "said blocks = join (map tb_text blocks) [CHR 0x0A, CHR 0x0A]"

definition anthropic_conversation :: "message_params \<Rightarrow> (chat_role \<times> string) list" where
  "anthropic_conversation params =
     map (\<lambda>b. (ChatSystem, tb_text b)) (mp_system params) @
     map (\<lambda>(r, blocks). (r, said blocks)) (mp_messages params)"

lemma convert_messages_Inr:
  "convert_messages f ms out = Inr res \<longleftrightarrow> (\<exists>ps. map f ms = map Inr ps \<and> res = out @ ps)"
proof (induction ms arbitrary: out)
  case (Cons m ms)
  show ?case
  proof (cases "f m")
    case (Inr p)
    then show ?thesis using Cons by (auto simp: map_eq_Cons_conv Cons_eq_map_conv)
  qed (auto simp: Cons_eq_map_conv)
qed auto

lemma map_Inr_cong:
  "map f xs = map Inr ys \<Longrightarrow> (\<And>x p. f x = Inr p \<Longrightarrow> g x = Inr p) \<Longrightarrow> map g xs = map Inr ys"
  by (induction xs arbitrary: ys) (auto simp: Cons_eq_map_conv)

lemma merge_cases:
  "trim_space c = [] \<Longrightarrow> merge_message_content c d = trim_space d"
  "trim_space c \<noteq> [] \<Longrightarrow> merge_message_content c d =
     (if trim_space d = [] then trim_space c else trim_space c @ [CHR 0x0A, CHR 0x0A] @ trim_space d)"
  by (simp_all add: merge_message_content_def Let_def)

lemma same_message:
  assumes "anthropic_message lib cc m = Inr (r, blocks)" "openai_message lib m = Inr (r', txt)"
    and "msg_role m = ''assistant'' \<Longrightarrow> trim_space (msg_cached_content m) = []"
  shows "r' = r \<and> trim_space (said blocks) = trim_space txt"
  using assms
  by (cases "trim_space (msg_cached_content m) = []")
    (auto simp: anthropic_message_def openai_message_def Let_def said_def plain_block_def merge_cases
      split: if_splits sum.splits)

lemma openai_mistral_message:
  "openai_message lib m = Inr p \<Longrightarrow> mistral_chat_message lib m = Inr p"
  by (auto simp: openai_message_def mistral_chat_message_def Let_def split: if_splits)

lemma same_messages:
  assumes "map (anthropic_message lib cc) ms = map Inr ps" "map (openai_message lib) ms = map Inr qs"
    and "\<forall>m \<in> set ms. msg_role m = ''assistant'' \<longrightarrow> trim_space (msg_cached_content m) = []"
  shows "map (\<lambda>(r, blocks). (r, trim_space (said blocks))) ps = map (apsnd trim_space) qs"
  using assms
proof (induction ms arbitrary: ps qs)
  case (Cons m ms)
  from Cons.prems(1) obtain r b ps' where p: "ps = (r, b) # ps'" "anthropic_message lib cc m = Inr (r, b)"
    "map (anthropic_message lib cc) ms = map Inr ps'" by (auto simp: Cons_eq_map_conv)
  from Cons.prems(2) obtain r' t qs' where q: "qs = (r', t) # qs'" "openai_message lib m = Inr (r', t)"
    "map (openai_message lib) ms = map Inr qs'" by (auto simp: Cons_eq_map_conv)
  from same_message [OF p(2) q(2)] Cons.prems(3) Cons.IH [OF p(3) q(3)] show ?case by (simp add: p(1) q(1))
qed simp

lemma same_text:
  assumes "build_message_params lib req = Inr a" "build_chat_completion_params lib req mode style = Inr h"
    and "\<forall>m \<in> set (req_messages req). msg_role m = ''assistant'' \<longrightarrow> trim_space (msg_cached_content m) = []"
  shows "map (apsnd trim_space) (anthropic_conversation a) = map (apsnd trim_space) (hp_messages h)"
proof -
  from assms(1) obtain ps where ps: "map (anthropic_message lib (req_cache_control req)) (req_messages req) = map Inr ps"
    "mp_messages a = ps" "map tb_text (mp_system a) = map snd (system_messages req)"
    by (auto simp: build_message_params_def system_messages_def Let_def convert_messages_Inr
        split: if_splits sum.splits)
  from assms(2) obtain qs where qs: "map (openai_message lib) (req_messages req) = map Inr qs"
    "hp_messages h = system_messages req @ qs"
    by (auto simp: build_chat_completion_params_def Let_def convert_messages_Inr
        split: if_splits sum.splits option.splits)
  have sys: "map (\<lambda>b. (ChatSystem, tb_text b)) (mp_system a) = system_messages req"
    using ps(3) by (auto simp: system_messages_def Let_def split: if_splits)
  have "map (\<lambda>(r, blocks). (r, trim_space (said blocks))) ps = map (apsnd trim_space) qs"
    by (rule same_messages [OF ps(1) qs(1) assms(3)])
  then show ?thesis
    by (simp add: anthropic_conversation_def sys ps(2) qs(2) comp_def case_prod_unfold apsnd_def map_prod_def)
qed

text \<open>The request without the cached parts of its assistant messages.\<close>

definition context_free :: "llm_message \<Rightarrow> llm_message" where
  "context_free m = (if msg_role m = ''assistant'' then m\<lparr>msg_cached_content := []\<rparr> else m)"

definition without_assistant_context :: "completion_request \<Rightarrow> completion_request" where
  "without_assistant_context req = req\<lparr>req_messages := map context_free (req_messages req)\<rparr>"

lemma without_assistant_context_simps [simp]:
  "req_messages (without_assistant_context req) = map context_free (req_messages req)"
  "system_messages (without_assistant_context req) = system_messages req"
  "req_system (without_assistant_context req) = req_system req"
  "req_model (without_assistant_context req) = req_model req"
  "req_max_tokens (without_assistant_context req) = req_max_tokens req"
  "req_output_format (without_assistant_context req) = req_output_format req"
  "req_cache_control (without_assistant_context req) = req_cache_control req"
  by (simp_all add: without_assistant_context_def system_messages_def)

lemma convert_messages_map: "convert_messages f (map g ms) out = convert_messages (f \<circ> g) ms out"
  by (induction ms arbitrary: out) (auto split: sum.split)

lemma map_Inr_exists: "\<forall>x \<in> set xs. \<exists>y. f x = Inr y \<Longrightarrow> \<exists>ys. map f xs = map Inr ys"
proof (induction xs)
  case (Cons x xs)
  then obtain y ys where "f x = Inr y" "map f xs = map Inr ys" by auto
  then show ?case by (intro exI [of _ "y # ys"]) simp
qed simp

lemma anthropic_ignores_context:
  "build_message_params lib (without_assistant_context req) = build_message_params lib req"
proof -
  have "anthropic_message lib cc \<circ> context_free = anthropic_message lib cc" for cc
    by (auto simp: fun_eq_iff anthropic_message_def context_free_def)
  then show ?thesis
    unfolding build_message_params_def without_assistant_context_simps convert_messages_map by (simp only:)
qed

lemma context_free_openai:
  "openai_message lib m = Inr p \<Longrightarrow> \<exists>p'. openai_message lib (context_free m) = Inr p'"
  "trim_space (msg_cached_content m) = [] \<Longrightarrow> openai_message lib (context_free m) = openai_message lib m"
  by (auto simp: openai_message_def context_free_def Let_def merge_message_content_def trim_space_plain split: if_splits)

text \<open>When the parameters can be built.\<close>

lemma chat_params_exist:
  "(\<exists>h. build_chat_completion_params lib req mode style = Inr h) \<longleftrightarrow>
     (\<exists>ms. convert_messages (openai_message lib) (req_messages req) (system_messages req) = Inr ms) \<and>
     (0 < req_max_tokens req \<longrightarrow> style = [] \<or> style = token_max_completion \<or> style = token_max) \<and>
     (req_output_format req \<noteq> None \<longrightarrow> mode = [] \<or> mode = structured_json_schema \<or> mode = structured_tool_call)"
  unfolding build_chat_completion_params_def Let_def
  by (cases "convert_messages (openai_message lib) (req_messages req) (system_messages req)";
      cases "req_output_format req") (simp_all add: case_prod_unfold)

lemma compatible_without_context:
  assumes "build_chat_completion_params lib req mode style = Inr h"
  shows "\<exists>h'. build_chat_completion_params lib (without_assistant_context req) mode style = Inr h'"
proof -
  from assms obtain qs where qs: "map (openai_message lib) (req_messages req) = map Inr qs"
    by (auto simp: build_chat_completion_params_def Let_def convert_messages_Inr split: sum.splits)
  then have "\<forall>m \<in> set (req_messages req). \<exists>p. openai_message lib m = Inr p"
    by (metis (no_types, lifting) image_iff image_set)
  then have "\<forall>m \<in> set (req_messages req). \<exists>p. (openai_message lib \<circ> context_free) m = Inr p"
    using context_free_openai(1) by (metis comp_apply)
  then have "\<exists>qs'. map (openai_message lib \<circ> context_free) (req_messages req) = map Inr qs'"
    by (rule map_Inr_exists)
  then obtain qs' where "convert_messages (openai_message lib) (map context_free (req_messages req)) (system_messages req) =
      Inr (system_messages req @ qs')" by (auto simp: convert_messages_map convert_messages_Inr)
  then have "\<exists>ms. convert_messages (openai_message lib) (req_messages (without_assistant_context req))
      (system_messages (without_assistant_context req)) = Inr ms" by simp
  moreover from assms have "\<exists>h. build_chat_completion_params lib req mode style = Inr h" by blast
  ultimately show ?thesis unfolding chat_params_exist without_assistant_context_simps by blast
qed

text \<open>
  C35. The OpenAI-compatible and the Mistral request hold the same roles and texts. Anthropic's system
  text and messages, the blocks of each joined by a blank line, are up to white space around each text
  those of the compatible request without the cached parts of its assistant messages: these reach
  every other vendor's model at the head of the message, but change nothing in Anthropic's request.
  Where there are none, all three conversations agree.
\<close>

theorem anthropic_drops_assistant_context:
  assumes "build_message_params lib req = Inr a" "build_chat_completion_params lib req mode style = Inr h"
  shows "(\<exists>m. build_mistral_request lib req = Inr m \<and> mr_messages m = hp_messages h \<and> mr_model m = hp_model h) \<and>
    build_message_params lib (without_assistant_context req) = Inr a \<and>
    (\<exists>h'. build_chat_completion_params lib (without_assistant_context req) mode style = Inr h' \<and>
       map (apsnd trim_space) (anthropic_conversation a) = map (apsnd trim_space) (hp_messages h') \<and>
       ((\<forall>m \<in> set (req_messages req). msg_role m = ''assistant'' \<longrightarrow> trim_space (msg_cached_content m) = []) \<longrightarrow>
         hp_messages h' = hp_messages h)) \<and>
    (\<forall>m \<in> set (req_messages req). msg_role m = ''assistant'' \<longrightarrow>
       (\<exists>rest. (ChatAssistant, trim_space (msg_cached_content m) @ rest) \<in> set (hp_messages h)))"
proof (intro conjI)
  let ?req = "without_assistant_context req"
  from assms(2) obtain qs where qs: "map (openai_message lib) (req_messages req) = map Inr qs"
    "hp_messages h = system_messages req @ qs" "hp_model h = req_model req"
    by (auto simp: build_chat_completion_params_def Let_def convert_messages_Inr
        split: if_splits sum.splits option.splits)
  have "map (mistral_chat_message lib) (req_messages req) = map Inr qs"
    by (rule map_Inr_cong [OF qs(1)]) (rule openai_mistral_message)
  then show "\<exists>m. build_mistral_request lib req = Inr m \<and> mr_messages m = hp_messages h \<and> mr_model m = hp_model h"
    using qs convert_messages_Inr [of "mistral_chat_message lib" "req_messages req" "system_messages req" "system_messages req @ qs"]
    by (simp add: build_mistral_request_def)
  show a: "build_message_params lib ?req = Inr a" using assms(1) by (simp add: anthropic_ignores_context)
  obtain h' where h': "build_chat_completion_params lib ?req mode style = Inr h'"
    using compatible_without_context [OF assms(2)] by blast
  moreover have "\<forall>m \<in> set (req_messages ?req). msg_role m = ''assistant'' \<longrightarrow> trim_space (msg_cached_content m) = []"
    by (auto simp: context_free_def trim_space_plain)
  then have "map (apsnd trim_space) (anthropic_conversation a) = map (apsnd trim_space) (hp_messages h')"
    by (rule same_text [OF a h'])
  moreover have "hp_messages h' = hp_messages h" if blank:
    "\<forall>m \<in> set (req_messages req). msg_role m = ''assistant'' \<longrightarrow> trim_space (msg_cached_content m) = []"
  proof -
    from h' obtain qs' where qs': "map (openai_message lib \<circ> context_free) (req_messages req) = map Inr qs'"
      "hp_messages h' = system_messages req @ qs'"
      by (auto simp: build_chat_completion_params_def Let_def convert_messages_Inr
          split: if_splits sum.splits option.splits)
    have "map (openai_message lib \<circ> context_free) (req_messages req) = map (openai_message lib) (req_messages req)"
    proof (rule map_cong [OF refl])
      show "(openai_message lib \<circ> context_free) m = openai_message lib m" if "m \<in> set (req_messages req)" for m
        using that blank context_free_openai(2) [of m lib]
        by (cases "msg_role m = ''assistant''") (simp_all add: context_free_def)
    qed
    then have "map Inr qs' = (map Inr qs :: (gerr + _) list)" using qs(1) qs'(1) by simp
    then show ?thesis using qs(2) qs'(2) by simp
  qed
  ultimately show "\<exists>h'. build_chat_completion_params lib ?req mode style = Inr h' \<and>
       map (apsnd trim_space) (anthropic_conversation a) = map (apsnd trim_space) (hp_messages h') \<and>
       ((\<forall>m \<in> set (req_messages req). msg_role m = ''assistant'' \<longrightarrow> trim_space (msg_cached_content m) = []) \<longrightarrow>
         hp_messages h' = hp_messages h)" by blast
  have "\<exists>rest. (ChatAssistant, trim_space (msg_cached_content m) @ rest) \<in> set qs"
    if "m \<in> set (req_messages req)" "msg_role m = ''assistant''" for m
  proof -
    have "openai_message lib m \<in> set (map Inr qs)" using that(1) by (simp flip: qs(1))
    moreover have "\<exists>rest. openai_message lib m = Inr (ChatAssistant, trim_space (msg_cached_content m) @ rest)"
      using that(2) by (simp add: openai_message_def Let_def merge_message_content_def)
    ultimately show ?thesis by auto
  qed
  then show "\<forall>m \<in> set (req_messages req). msg_role m = ''assistant'' \<longrightarrow>
      (\<exists>rest. (ChatAssistant, trim_space (msg_cached_content m) @ rest) \<in> set (hp_messages h))"
    by (auto simp: qs(2))
qed

lemma spec_by_name_Some:
  "spec_by_name name = Some spec \<Longrightarrow> spec \<in> set supported_specs \<and> sp_name spec = trim_space name"
  by (auto simp: spec_by_name_def dest: find_Some_in_set)

lemma spec_by_name_supported: "spec_by_name name \<noteq> None \<longleftrightarrow> trim_space name \<in> set provider_names"
  by (auto simp: spec_by_name_def provider_names_def find_None_iff intro: rev_image_eqI)

lemma specs_transport:
  assumes "spec \<in> set supported_specs"
  shows "(sp_transport spec = transport_anthropic \<and> sp_name spec = ''anthropic'') \<or>
    (sp_transport spec = transport_mistral \<and> sp_name spec = ''mistral'') \<or>
    (sp_transport spec = transport_openai_compatible \<and> trim_space (sp_name spec) = sp_name spec \<and> sp_name spec \<noteq> [])"
proof -
  have "list_all (\<lambda>spec. (sp_transport spec = transport_anthropic \<and> sp_name spec = ''anthropic'') \<or>
    (sp_transport spec = transport_mistral \<and> sp_name spec = ''mistral'') \<or>
    (sp_transport spec = transport_openai_compatible \<and> list_all plain_char (sp_name spec) \<and> sp_name spec \<noteq> []))
    supported_specs" by code_simp
  with assms show ?thesis using trim_space_plain by (auto simp: list_all_iff)
qed

lemma transports_distinct [simp]:
  "transport_anthropic \<noteq> transport_openai_compatible" "transport_anthropic \<noteq> transport_mistral"
  "transport_openai_compatible \<noteq> transport_mistral" "transport_openai_compatible \<noteq> transport_anthropic"
  "transport_mistral \<noteq> transport_anthropic" "transport_mistral \<noteq> transport_openai_compatible"
  by (simp_all add: transport_anthropic_def transport_openai_compatible_def transport_mistral_def)

definition named_provider :: "string \<Rightarrow> (completion_request \<Rightarrow> 'w \<Rightarrow> (gerr + completion_response) \<times> 'w) \<Rightarrow> bool" where
  "named_provider name complete \<longleftrightarrow>
     (\<forall>req w. (case complete req w of
         (Inl e, w') \<Rightarrow> \<exists>cause t. e = ProviderError name cause t
       | (Inr r, w') \<Rightarrow> resp_provider r = name \<and> usage_provider (resp_usage r) = name) \<and>
       (trim_space (req_model req) = [] \<longrightarrow>
         (\<exists>cause. complete req w = (Inl (ProviderError name cause False), w))))"

lemma built_named:
  "named_provider ''anthropic'' (built_complete lib cs (AnthropicProvider a))"
  "named_provider ''mistral'' (built_complete lib cs (MistralProvider m))"
  "named_provider (op_name (new_openai urls cfg)) (built_complete lib cs (OpenAIProvider (new_openai urls cfg)))"
  unfolding named_provider_def
  by (simp_all add: anthropic.result_named mistral.result_named openai.result_named
      anthropic.blank_model mistral.blank_model openai.blank_model)

lemma build_with_base_url_contract:
  "(\<exists>p. build_with_base_url lib urls name api_key url http = Inr p) = (trim_space name \<in> set provider_names) \<and>
   (\<forall>p. build_with_base_url lib urls name api_key url http = Inr p \<longrightarrow>
      built_name p = trim_space name \<and> named_provider (trim_space name) (built_complete lib cs p))"
proof (cases "spec_by_name name")
  case None
  then show ?thesis using spec_by_name_supported [of name] by (simp add: build_with_base_url_def)
next
  case (Some spec)
  note spec = spec_by_name_Some [OF Some]
  have sup: "trim_space name \<in> set provider_names" using spec_by_name_supported [of name] Some by simp
  define base where "base = (if trim_space url = [] then sp_default_base_url spec else url)"
  from specs_transport [OF conjunct1 [OF spec]] consider
      (anthropic) "sp_transport spec = transport_anthropic" "sp_name spec = ''anthropic''"
    | (mistral) "sp_transport spec = transport_mistral" "sp_name spec = ''mistral''"
    | (compatible) "sp_transport spec = transport_openai_compatible" "trim_space (sp_name spec) = sp_name spec"
        "sp_name spec \<noteq> []" by blast
  then show ?thesis
  proof cases
    case anthropic
    then show ?thesis using Some sup spec built_named(1)
      by (auto simp: build_with_base_url_def Let_def)
  next
    case mistral
    then show ?thesis using Some sup spec built_named(2)
      by (auto simp: build_with_base_url_def Let_def)
  next
    case compatible
    let ?cfg = "\<lparr>oc_name = sp_name spec, oc_api_key = api_key, oc_base_url = base, oc_http = http,
      oc_structured_mode = sp_structured_mode spec, oc_token_style = sp_token_style spec\<rparr>"
    have "op_name (new_openai urls ?cfg) = trim_space name"
      using compatible spec by (simp add: new_openai_def Let_def)
    moreover have "build_with_base_url lib urls name api_key url http = Inr (OpenAIProvider (new_openai urls ?cfg))"
      using Some compatible(1) by (simp add: build_with_base_url_def Let_def base_def)
    ultimately show ?thesis using sup built_named(3) [of urls ?cfg] by simp
  qed
qed

text \<open>
  C36. The table of providers is complete: \<open>BuildWithBaseURL\<close> succeeds exactly for the supported names,
  and what it builds goes by the name asked for: its errors and answers carry that name, also for the
  providers that share a client, and a request without a model fails without a call, not transiently.
\<close>

theorem built_providers_are_named:
  "(\<exists>p. build_with_base_url lib urls name api_key url http = Inr p) = (trim_space name \<in> set provider_names) \<and>
   (\<forall>p. build_with_base_url lib urls name api_key url http = Inr p \<longrightarrow>
      built_name p = trim_space name \<and> named_provider (trim_space name) (built_complete lib cs p))"
  by (rule build_with_base_url_contract)

section \<open>Examples\<close>

definition example_provider_lib :: provider_lib where
  "example_provider_lib = \<lparr>pl_quote = (\<lambda>s. s), pl_anthropic_status = (\<lambda>_. None), pl_openai_status = (\<lambda>_. None), pl_url_error = (\<lambda>_. True),
     pl_net_error = (\<lambda>_. False)\<rparr>"

definition example_llm_request :: completion_request where
  "example_llm_request = \<lparr>req_system = ''be brief'',
     req_messages = [\<lparr>msg_role = ''user'', msg_content = ''now'', msg_cached_content = ''schema''\<rparr>,
       \<lparr>msg_role = ''assistant'', msg_content = ''ok'', msg_cached_content = ''rules''\<rparr>],
     req_operation = ''o'', req_model = ''m'', req_provider_models = Map.empty, req_max_tokens = 9,
     req_output_format = Some (''f'', JNull), req_cache_control = Some (''ephemeral'', ''1h'')\<rparr>"

theorem anthropic_drops_assistant_context_witness:
  "\<exists>a h. build_message_params example_provider_lib example_llm_request = Inr a \<and>
     build_chat_completion_params example_provider_lib example_llm_request [] [] = Inr h \<and>
     build_message_params example_provider_lib (without_assistant_context example_llm_request) = Inr a \<and>
     (\<exists>rest. (ChatAssistant, ''rules'' @ rest) \<in> set (hp_messages h))"
proof -
  have "\<not> isl (build_message_params example_provider_lib example_llm_request)"
    "\<not> isl (build_chat_completion_params example_provider_lib example_llm_request [] [])" by code_simp+
  then obtain a h where run: "build_message_params example_provider_lib example_llm_request = Inr a"
    "build_chat_completion_params example_provider_lib example_llm_request [] [] = Inr h"
    by (metis isl_def sum.collapse(2))
  have "trim_space ''rules'' = ''rules''" by code_simp
  then have "\<exists>m \<in> set (req_messages example_llm_request). msg_role m = ''assistant'' \<and>
      trim_space (msg_cached_content m) = ''rules''" by (simp add: example_llm_request_def)
  with anthropic_drops_assistant_context [OF run] run show ?thesis by fastforce
qed

definition example_clients :: "nat llm_clients" where
  "example_clients = \<lparr>lc_anthropic = (\<lambda>_ _ w. (Inl ContextDeadlineExceeded, w + 1)),
     lc_openai = (\<lambda>_ _ w. (Inl ContextDeadlineExceeded, w + 1)),
     lc_mistral = \<lparr>mh_marshal = (\<lambda>_. Inr []), mh_new_request = (\<lambda>_. None),
       mh_do = (\<lambda>_ _ _ _ w. (Inl ContextDeadlineExceeded, w + 1)), mh_decode = (\<lambda>_. Inl (ErrNew []))\<rparr>\<rparr>"

definition example_url_lib :: "unit url_lib" where
  "example_url_lib = \<lparr>ul_parse = (\<lambda>s. Some (s, ())), ul_string = (\<lambda>p _. p)\<rparr>"

theorem built_providers_are_named_witness:
  "\<exists>p. build_with_base_url example_provider_lib example_url_lib ''xai'' ''key'' [] None = Inr p \<and>
     built_name p = ''xai'' \<and> named_provider ''xai'' (built_complete example_provider_lib example_clients p)"
proof -
  have name: "trim_space ''xai'' = ''xai''" by code_simp
  have "''xai'' \<in> set provider_names" by (simp add: provider_names_def supported_specs_def)
  with built_providers_are_named [of example_provider_lib example_url_lib "''xai''" "''key''" "[]" None example_clients]
  show ?thesis unfolding name by blast
qed

end
