(* ===== verification/Startup.thy ===== *)
theory Startup
  imports LlmProviders EdgeAgent
begin

text \<open>
  What the two programs do before they serve: controlplane/config and edgeagent/config read the
  environment, db/ opens the pool and migrates, and cmd/ builds the providers, the verifier and the
  agent from that. An environment is a function, the empty string for an unset variable. The error that a
  function of \<open>strconv\<close> has for a text, \<open>fmt\<close>'s quoting and the file system are arguments.
\<close>

section \<open>Settings\<close>

type_synonym environment = "string \<Rightarrow> string"

definition getenv :: "environment \<Rightarrow> string \<Rightarrow> string \<Rightarrow> string" where
  "getenv env key fallback = (if env key \<noteq> [] then env key else fallback)"

definition first_set :: "string list \<Rightarrow> string" where
  "first_set values =
     (case find (\<lambda>v. trim_space v \<noteq> []) values of None \<Rightarrow> [] | Some v \<Rightarrow> trim_space v)"

definition atoi :: "(string \<Rightarrow> gerr) \<Rightarrow> string \<Rightarrow> gerr + int" where
  "atoi num_error s = (case parse_int64 s of None \<Rightarrow> Inl (num_error s) | Some n \<Rightarrow> Inr n)"

definition int_setting :: "(string \<Rightarrow> gerr) \<Rightarrow> environment \<Rightarrow> string \<Rightarrow> string \<Rightarrow> gerr + int" where
  "int_setting num_error env key fallback =
     map_error (Wrapped (''invalid '' @ key)) (atoi num_error (getenv env key fallback))"

text \<open>\<open>time.Duration(n) * time.Second\<close>.\<close>

definition seconds64 :: "int \<Rightarrow> duration" where
  "seconds64 n = wrap64 (n * nanosecond_per_second)"

definition require :: "bool \<Rightarrow> string \<Rightarrow> gerr + unit" where
  "require ok msg = (if ok then Inr () else Inl (ErrNew msg))"

lemma require_Inr [simp]: "require ok msg = Inr u \<longleftrightarrow> ok"
  by (simp add: require_def)

section \<open>controlplane/config\<close>

record control_plane_config =
  cc_env :: string
  cc_http_port :: int
  cc_shutdown_timeout :: duration
  cc_database_url :: string
  cc_db_max_conns :: int
  cc_db_min_conns :: int
  cc_db_health_check_period :: duration
  cc_log_level :: string
  cc_clerk_secret_key :: string
  cc_clerk_publishable_key :: string
  cc_frontend_sentry_dsn :: string
  cc_frontend_sentry_environment :: string
  cc_frontend_sentry_release :: string
  cc_public_control_plane_url :: string
  cc_default_llm_provider :: string
  cc_semantic_layer_model :: string
  cc_query_model :: string
  cc_provider_api_keys :: "(string \<times> string) list"
  cc_semantic_layer_provider_models :: "(string \<times> string) list"
  cc_query_provider_models :: "(string \<times> string) list"
  cc_preflight_provider_models :: "(string \<times> string) list"
  cc_edge_agent_version :: string
  cc_edge_agent_image_repo :: string
  cc_edge_agent_image :: string
  cc_sentry_dsn :: string
  cc_sentry_environment :: string
  cc_sentry_release :: string
  cc_cors_allowed_origins :: "string list"
  cc_rate_limit_rpm :: int
  cc_rate_limit_llm_rpm :: int
  cc_max_request_body_bytes :: int
  cc_llm_timeout_seconds :: int

definition load_http_port :: "(string \<Rightarrow> string \<Rightarrow> gerr) \<Rightarrow> environment \<Rightarrow> gerr + int" where
  "load_http_port num_error env =
     (let raw = trim_space (first_set [env ''PORT'', env ''HTTP_PORT'']) in
      map_error (Wrapped ''invalid PORT/HTTP_PORT'') (atoi (num_error ''Atoi'') (if raw = [] then ''8080'' else raw)))"

definition resolve_edge_agent_image :: "string \<Rightarrow> string \<Rightarrow> string \<Rightarrow> string" where
  "resolve_edge_agent_image override repository version =
     (if trim_space override \<noteq> [] then trim_space override
      else (let r = trim_space repository; v = trim_space version in
        if r = [] \<and> v = [] then [] else if r = [] then v else if v = [] then r else r @ '':'' @ v))"

definition load_cors_origins :: "environment \<Rightarrow> string list" where
  "load_cors_origins env =
     (let raw = trim_space (env ''CORS_ALLOWED_ORIGINS'');
          origins = filter (\<lambda>p. p \<noteq> []) (map trim_space (split_byte (CHR '','') raw))
      in if raw = [] then [''*''] else if origins = [] then [''*''] else origins)"

text \<open>The map of a setting by provider, as its entries in the order of the table.\<close>

definition load_provider_map :: "environment \<Rightarrow> (provider_spec \<Rightarrow> string) \<Rightarrow> (string \<times> string) list" where
  "load_provider_map env env_key =
     map (\<lambda>spec. (sp_name spec, trim_space (env (trim_space (env_key spec)))))
       (filter (\<lambda>spec. trim_space (env_key spec) \<noteq> [] \<and> trim_space (env (trim_space (env_key spec))) \<noteq> [])
          supported_specs)"

definition load_database_settings ::
  "(string \<Rightarrow> string \<Rightarrow> gerr) \<Rightarrow> environment \<Rightarrow> gerr + int \<times> int \<times> int" where
  "load_database_settings num_error env =
     result_bind (int_setting (num_error ''Atoi'') env ''DB_MAX_CONNS'' ''4'') (\<lambda>max_conns.
     result_bind (int_setting (num_error ''Atoi'') env ''DB_MIN_CONNS'' ''1'') (\<lambda>min_conns.
     result_bind (int_setting (num_error ''Atoi'') env ''DB_HEALTH_CHECK_PERIOD_SECONDS'' ''30'') (\<lambda>period.
     result_bind (require (0 < max_conns) ''DB_MAX_CONNS must be greater than 0'') (\<lambda>_.
     result_bind (require (0 \<le> min_conns) ''DB_MIN_CONNS must be greater than or equal to 0'') (\<lambda>_.
     result_bind (require (min_conns \<le> max_conns) ''DB_MIN_CONNS must be less than or equal to DB_MAX_CONNS'') (\<lambda>_.
     result_bind (require (0 < period) ''DB_HEALTH_CHECK_PERIOD_SECONDS must be greater than 0'') (\<lambda>_.
     Inr (max_conns, min_conns, period))))))))"

text \<open>The settings that need no parsing, with those read before them.\<close>

definition settings_of :: "environment \<Rightarrow> int \<Rightarrow> int \<Rightarrow> int \<Rightarrow> int \<Rightarrow> int \<Rightarrow> control_plane_config" where
  "settings_of env port shutdown max_conns min_conns period =
     \<lparr>cc_env = getenv env ''ENV'' ''development'', cc_http_port = port,
      cc_shutdown_timeout = seconds64 shutdown, cc_database_url = env ''DATABASE_URL'',
      cc_db_max_conns = wrap32 max_conns, cc_db_min_conns = wrap32 min_conns,
      cc_db_health_check_period = seconds64 period, cc_log_level = getenv env ''LOG_LEVEL'' ''info'',
      cc_clerk_secret_key = env ''CLERK_SECRET_KEY'',
      cc_clerk_publishable_key = first_set [env ''VITE_CLERK_PUBLISHABLE_KEY'', env ''CLERK_PUBLISHABLE_KEY''],
      cc_frontend_sentry_dsn = first_set [env ''VITE_SENTRY_DSN'', env ''SENTRY_DSN''],
      cc_frontend_sentry_environment = first_set [env ''VITE_SENTRY_ENVIRONMENT'', env ''SENTRY_ENVIRONMENT'',
        getenv env ''ENV'' ''development''],
      cc_frontend_sentry_release = first_set [env ''VITE_SENTRY_RELEASE'', env ''SENTRY_RELEASE''],
      cc_public_control_plane_url = trim_space (env ''PUBLIC_CONTROL_PLANE_URL''),
      cc_default_llm_provider = getenv env ''DEFAULT_LLM_PROVIDER'' default_provider_name,
      cc_semantic_layer_model = getenv env ''SEMANTIC_LAYER_MODEL'' ''claude-sonnet-4-6'',
      cc_query_model = getenv env ''QUERY_MODEL'' ''claude-sonnet-4-6'',
      cc_provider_api_keys = load_provider_map env sp_api_key_env,
      cc_semantic_layer_provider_models = load_provider_map env sp_semantic_model_env,
      cc_query_provider_models = load_provider_map env sp_query_model_env,
      cc_preflight_provider_models = load_provider_map env sp_preflight_model_env,
      cc_edge_agent_version = getenv env ''EDGE_AGENT_VERSION'' ''v0.1.0'',
      cc_edge_agent_image_repo = getenv env ''EDGE_AGENT_IMAGE_REPOSITORY''
        ''registry.digitalocean.com/mission/edge-agent'',
      cc_edge_agent_image = [], cc_sentry_dsn = env ''SENTRY_DSN'',
      cc_sentry_environment = getenv env ''SENTRY_ENVIRONMENT'' (getenv env ''ENV'' ''development''),
      cc_sentry_release = env ''SENTRY_RELEASE'', cc_cors_allowed_origins = load_cors_origins env,
      cc_rate_limit_rpm = 0, cc_rate_limit_llm_rpm = 0, cc_max_request_body_bytes = 0,
      cc_llm_timeout_seconds = 0\<rparr>"

text \<open>The end of \<open>Load\<close>, once every number is read.\<close>

definition with_numbers :: "environment \<Rightarrow> int \<Rightarrow> int \<Rightarrow> int \<Rightarrow> int \<Rightarrow> control_plane_config \<Rightarrow> control_plane_config" where
  "with_numbers env rpm llm_rpm max_body llm_timeout c =
     c\<lparr>cc_rate_limit_rpm := rpm, cc_rate_limit_llm_rpm := llm_rpm,
       cc_max_request_body_bytes := max_body, cc_llm_timeout_seconds := llm_timeout,
       cc_edge_agent_image := resolve_edge_agent_image (env ''EDGE_AGENT_IMAGE'')
         (cc_edge_agent_image_repo c) (cc_edge_agent_version c)\<rparr>"

definition check_config :: "control_plane_config \<Rightarrow> gerr + control_plane_config" where
  "check_config cfg =
     result_bind (require (cc_database_url cfg \<noteq> []) ''DATABASE_URL is required'') (\<lambda>_.
     result_bind (require (\<not> (cc_clerk_secret_key cfg = [] \<and> cc_env cfg \<noteq> ''development''))
       ''CLERK_SECRET_KEY is required in non-development environments'') (\<lambda>_.
     result_bind (require (\<not> (cc_public_control_plane_url cfg = [] \<and> cc_env cfg = ''production''))
       ''PUBLIC_CONTROL_PLANE_URL is required in production'') (\<lambda>_.
     Inr (if cc_public_control_plane_url cfg = []
          then cfg\<lparr>cc_public_control_plane_url := ''http://localhost:'' @ itoa (cc_http_port cfg)\<rparr>
          else cfg))))"

definition load_config :: "(string \<Rightarrow> string \<Rightarrow> gerr) \<Rightarrow> environment \<Rightarrow> gerr + control_plane_config" where
  "load_config num_error env =
     result_bind (load_http_port num_error env) (\<lambda>port.
     result_bind (int_setting (num_error ''Atoi'') env ''SHUTDOWN_TIMEOUT_SECONDS'' ''10'') (\<lambda>shutdown.
     result_bind (load_database_settings num_error env) (\<lambda>(max_conns, min_conns, period).
     result_bind (int_setting (num_error ''Atoi'') env ''RATE_LIMIT_RPM'' ''120'') (\<lambda>rpm.
     result_bind (int_setting (num_error ''Atoi'') env ''RATE_LIMIT_LLM_RPM'' ''30'') (\<lambda>llm_rpm.
     result_bind (int_setting (num_error ''ParseInt'') env ''MAX_REQUEST_BODY_BYTES'' ''1048576'') (\<lambda>max_body.
     result_bind (int_setting (num_error ''Atoi'') env ''LLM_TIMEOUT_SECONDS'' ''90'') (\<lambda>llm_timeout.
     result_bind (require (0 < llm_timeout) ''LLM_TIMEOUT_SECONDS must be greater than 0'') (\<lambda>_.
     check_config (with_numbers env rpm llm_rpm max_body llm_timeout
       (settings_of env port shutdown max_conns min_conns period))))))))))"

section \<open>edgeagent/config\<close>

record edge_config =
  xc_control_plane_url :: string
  xc_tenant_token :: string
  xc_agent_version :: string
  xc_audit_log_path :: string
  xc_heartbeat_interval :: duration
  xc_reconnect_base :: duration
  xc_reconnect_max :: duration
  xc_mysql_dsn_file :: string
  xc_mysql_dsn :: string

definition err_not_exist :: gerr where
  "err_not_exist = Sentinel ''os.ErrNotExist'' ''file does not exist''"

text \<open>\<open>quote\<close> is the \<open>%q\<close> of \<open>fmt\<close>, \<open>read_file\<close> is \<open>os.ReadFile\<close>.\<close>

definition load_dsn_file :: "(string \<Rightarrow> string) \<Rightarrow> (string \<Rightarrow> gerr + string) \<Rightarrow> string \<Rightarrow> gerr + string" where
  "load_dsn_file quote read_file path =
     (case read_file path of
        Inl e \<Rightarrow> Inl (Wrapped (''read MYSQL_DSN_FILE '' @ quote path) e)
      | Inr body \<Rightarrow>
          (if trim_space body = [] then Inl (ErrNew (''MYSQL_DSN_FILE '' @ quote path @ '' is empty''))
           else Inr (trim_space body)))"

definition load_optional_dsn_file ::
  "(string \<Rightarrow> string) \<Rightarrow> (string \<Rightarrow> gerr + string) \<Rightarrow> string \<Rightarrow> gerr + string" where
  "load_optional_dsn_file quote read_file path =
     (case read_file path of
        Inl e \<Rightarrow>
          (if errors_is e err_not_exist then Inr []
           else Inl (Wrapped (''read MYSQL_DSN_FILE '' @ quote path) e))
      | Inr body \<Rightarrow> Inr (trim_space body))"

definition dsn_directory :: "(string \<Rightarrow> string) \<Rightarrow> string \<Rightarrow> string" where
  "dsn_directory dir path = (if path = [] then [] else dir path)"

definition getenv_duration_seconds :: "environment \<Rightarrow> string \<Rightarrow> int \<Rightarrow> duration" where
  "getenv_duration_seconds env key fallback =
     (case parse_int64 (getenv env key (itoa fallback)) of None \<Rightarrow> -1 | Some n \<Rightarrow> seconds64 n)"

definition load_edge_config ::
  "(string \<Rightarrow> string) \<Rightarrow> (string \<Rightarrow> gerr + string) \<Rightarrow> environment \<Rightarrow> gerr + edge_config" where
  "load_edge_config quote read_file env =
     (let direct = env ''MYSQL_DSN'';
          path = (if env ''MYSQL_DSN_FILE'' = [] \<and> direct = [] then ''/etc/agent/mysql.dsn''
                  else env ''MYSQL_DSN_FILE'')
      in result_bind (if direct \<noteq> [] then Inr direct else load_optional_dsn_file quote read_file path) (\<lambda>dsn.
       let cfg = \<lparr>xc_control_plane_url = env ''CONTROL_PLANE_URL'', xc_tenant_token = env ''TENANT_TOKEN'',
             xc_agent_version = getenv env ''AGENT_VERSION'' ''dev'',
             xc_audit_log_path = getenv env ''AGENT_AUDIT_LOG_PATH'' ''/var/lib/agent/audit/query-events.jsonl'',
             xc_heartbeat_interval = getenv_duration_seconds env ''HEARTBEAT_INTERVAL_SECONDS'' 10,
             xc_reconnect_base = getenv_duration_seconds env ''RECONNECT_BASE_SECONDS'' 1,
             xc_reconnect_max = getenv_duration_seconds env ''RECONNECT_MAX_SECONDS'' 30,
             xc_mysql_dsn_file = path, xc_mysql_dsn = dsn\<rparr>
       in result_bind (require (xc_control_plane_url cfg \<noteq> []) ''CONTROL_PLANE_URL is required'') (\<lambda>_.
          result_bind (require (xc_tenant_token cfg \<noteq> []) ''TENANT_TOKEN is required'') (\<lambda>_.
          result_bind (require (0 < xc_heartbeat_interval cfg) ''HEARTBEAT_INTERVAL_SECONDS must be > 0'') (\<lambda>_.
          result_bind (require (0 < xc_reconnect_base cfg) ''RECONNECT_BASE_SECONDS must be > 0'') (\<lambda>_.
          result_bind (require (xc_reconnect_base cfg \<le> xc_reconnect_max cfg)
            ''RECONNECT_MAX_SECONDS must be >= RECONNECT_BASE_SECONDS'') (\<lambda>_.
          Inr cfg)))))))"

text \<open>cmd/edge-agent: the settings of the agent's service, and the HTTP client for a URL.\<close>

definition edge_service_config :: "edge_config \<Rightarrow> agent_service_config" where
  "edge_service_config cfg =
     \<lparr>ac_session_id = [], ac_hostname = [], ac_agent_version = xc_agent_version cfg, ac_started_at = time_zero,
      ac_heartbeat_interval = xc_heartbeat_interval cfg, ac_reconnect_base = xc_reconnect_base cfg,
      ac_reconnect_max = xc_reconnect_max cfg\<rparr>"

datatype edge_http_client = DefaultHttpClient | H2CHttpClient

definition http_client_for_url :: "string \<Rightarrow> edge_http_client" where
  "http_client_for_url raw_url = (if has_prefix raw_url ''https://'' then DefaultHttpClient else H2CHttpClient)"

section \<open>controlplane/db: the pool\<close>

record pool_config =
  pg_max_conns :: int
  pg_min_conns :: int
  pg_health_check_period :: duration

record pool_settings = pool_config +
  pg_max_conn_lifetime :: duration
  pg_max_conn_idle_time :: duration

text \<open>pgxpool: \<open>ParseConfig\<close>, \<open>NewWithConfig\<close> and a pool's \<open>Ping\<close> and \<open>Close\<close>.\<close>

record ('p, 'w) pool_driver =
  dp_parse :: "string \<Rightarrow> gerr option"
  dp_create :: "string \<Rightarrow> pool_settings \<Rightarrow> 'w \<Rightarrow> (gerr + 'p) \<times> 'w"
  dp_ping :: "'p \<Rightarrow> 'w \<Rightarrow> gerr option \<times> 'w"
  dp_close :: "'p \<Rightarrow> 'w \<Rightarrow> 'w"

definition pool_settings_of :: "pool_config \<Rightarrow> pool_settings" where
  "pool_settings_of pc =
     \<lparr>pg_max_conns = pg_max_conns pc, pg_min_conns = pg_min_conns pc,
      pg_health_check_period = pg_health_check_period pc, pg_max_conn_lifetime = seconds 3600,
      pg_max_conn_idle_time = seconds 1800\<rparr>"

definition check_pool_config :: "pool_config \<Rightarrow> gerr + unit" where
  "check_pool_config pc =
     result_bind (require (0 < pg_max_conns pc) ''max conns must be greater than 0'') (\<lambda>_.
     result_bind (require (0 \<le> pg_min_conns pc) ''min conns must be greater than or equal to 0'') (\<lambda>_.
     result_bind (require (pg_min_conns pc \<le> pg_max_conns pc) ''min conns must be less than or equal to max conns'') (\<lambda>_.
     require (0 < pg_health_check_period pc) ''health check period must be greater than 0'')))"

definition new_pool ::
  "('p, 'w) pool_driver \<Rightarrow> string \<Rightarrow> pool_config \<Rightarrow> 'w \<Rightarrow> (gerr + 'p) \<times> 'w" where
  "new_pool d database_url pc w =
     (case dp_parse d database_url of
        Some e \<Rightarrow> (Inl (Wrapped ''parse database url'' e), w)
      | None \<Rightarrow>
          (case check_pool_config pc of
             Inl e \<Rightarrow> (Inl e, w)
           | Inr _ \<Rightarrow>
               (case dp_create d database_url (pool_settings_of pc) w of
                  (Inl e, w') \<Rightarrow> (Inl (Wrapped ''create pool'' e), w')
                | (Inr pool, w') \<Rightarrow>
                    (case dp_ping d pool w' of
                       (Some e, w'') \<Rightarrow> (Inl (Wrapped ''ping database'' e), dp_close d pool w'')
                     | (None, w'') \<Rightarrow> (Inr pool, w'')))))"

definition pool_config_of :: "control_plane_config \<Rightarrow> pool_config" where
  "pool_config_of cfg =
     \<lparr>pg_max_conns = cc_db_max_conns cfg, pg_min_conns = cc_db_min_conns cfg,
      pg_health_check_period = cc_db_health_check_period cfg\<rparr>"

section \<open>controlplane/db: migrations\<close>

definition err_no_change :: gerr where
  "err_no_change = Sentinel ''migrate.ErrNoChange'' ''no change''"
definition err_nil_version :: gerr where
  "err_nil_version = Sentinel ''migrate.ErrNilVersion'' ''no migration''"

text \<open>The \<open>migrationRunner\<close>: the closures of the source and of golang-migrate over the database \<open>'w\<close>.\<close>

record 'w migration_runner =
  mr_source :: "gerr option"
  mr_open :: "string \<Rightarrow> gerr option"
  mr_up :: "'w \<Rightarrow> gerr option \<times> 'w"
  mr_version :: "'w \<Rightarrow> gerr + nat \<times> bool"
  mr_force :: "int \<Rightarrow> 'w \<Rightarrow> gerr option \<times> 'w"

definition parse_uint32 :: "string \<Rightarrow> nat option" where
  "parse_uint32 s =
     (if s = [] \<or> \<not> list_all is_digit s \<or> 2 ^ 32 \<le> digits_value s then None else Some (nat (digits_value s)))"

definition base_name :: "string \<Rightarrow> string" where
  "base_name p =
     (let q = trim_right_char (CHR ''/'') p in
      if p = [] then ''.'' else if q = [] then ''/'' else last (split_byte (CHR ''/'') q))"

definition migration_version_from_filename ::
  "(string \<Rightarrow> string) \<Rightarrow> (string \<Rightarrow> string \<Rightarrow> gerr) \<Rightarrow> string \<Rightarrow> gerr + nat option" where
  "migration_version_from_filename quote num_error name =
     (let base = base_name name in
      if \<not> has_suffix base ''.up.sql'' then Inr None
      else (case index_of base ''_'' of
          None \<Rightarrow> Inl (ErrNew (''invalid migration filename '' @ quote name))
        | Some i \<Rightarrow>
            (case parse_uint32 (take i base) of
               None \<Rightarrow> Inl (Wrapped (''parse migration version from '' @ quote name)
                 (num_error ''ParseUint'' (take i base)))
             | Some v \<Rightarrow> Inr (Some v))))"

text \<open>The loop over the entries of the directory, a name and whether it is a directory.\<close>

fun latest_version ::
  "(string \<Rightarrow> string) \<Rightarrow> (string \<Rightarrow> string \<Rightarrow> gerr) \<Rightarrow> (string \<times> bool) list \<Rightarrow> nat \<Rightarrow> gerr + nat" where
  "latest_version quote num_error [] latest = Inr latest"
| "latest_version quote num_error ((name, is_dir) # entries) latest =
     (if is_dir then latest_version quote num_error entries latest
      else (case migration_version_from_filename quote num_error name of
          Inl e \<Rightarrow> Inl e
        | Inr None \<Rightarrow> latest_version quote num_error entries latest
        | Inr (Some v) \<Rightarrow> latest_version quote num_error entries (if v > latest then v else latest)))"

definition latest_embedded_migration_version ::
  "(string \<Rightarrow> string) \<Rightarrow> (string \<Rightarrow> string \<Rightarrow> gerr) \<Rightarrow> gerr + (string \<times> bool) list \<Rightarrow> gerr + nat" where
  "latest_embedded_migration_version quote num_error read_dir =
     (case read_dir of Inl e \<Rightarrow> Inl e | Inr entries \<Rightarrow> latest_version quote num_error entries 0)"

definition to_pgx_url :: "string \<Rightarrow> string" where
  "to_pgx_url url =
     (if has_prefix url ''postgres://'' then ''pgx5://'' @ trim_prefix url ''postgres://''
      else if has_prefix url ''postgresql://'' then ''pgx5://'' @ trim_prefix url ''postgresql://''
      else url)"

definition is_missing_migration_version_error :: "gerr \<Rightarrow> bool" where
  "is_missing_migration_version_error err = contains (err_text err) ''no migration found for version''"

definition up_again :: "'w migration_runner \<Rightarrow> 'w \<Rightarrow> gerr option \<times> 'w" where
  "up_again m w =
     (case mr_up m w of
        (None, w') \<Rightarrow> (None, w')
      | (Some e, w') \<Rightarrow> (if errors_is e err_no_change then None else Some e, w'))"

definition apply_migrations :: "'w migration_runner \<Rightarrow> nat \<Rightarrow> 'w \<Rightarrow> gerr option \<times> 'w" where
  "apply_migrations m head_version w =
     (case up_again m w of
        (None, w1) \<Rightarrow> (None, w1)
      | (Some err, w1) \<Rightarrow>
          (if \<not> is_missing_migration_version_error err then (Some err, w1)
           else (case mr_force m (int head_version) w1 of
               (Some e, w2) \<Rightarrow>
                 (Some (Wrapped (''reset migration history to head version '' @ itoa_nat head_version) e), w2)
             | (None, w2) \<Rightarrow> up_again m w2)))"

definition open_migrator ::
  "(string \<Rightarrow> string) \<Rightarrow> (string \<Rightarrow> string \<Rightarrow> gerr) \<Rightarrow> gerr + (string \<times> bool) list \<Rightarrow> 'w migration_runner \<Rightarrow>
   string \<Rightarrow> gerr + nat" where
  "open_migrator quote num_error read_dir m database_url =
     result_bind (map_error (Wrapped ''discover migration head'')
       (latest_embedded_migration_version quote num_error read_dir)) (\<lambda>head_version.
       case mr_source m of
         Some e \<Rightarrow> Inl (Wrapped ''load migration source'' e)
       | None \<Rightarrow>
           (case mr_open m (to_pgx_url database_url) of
              Some e \<Rightarrow> Inl (Wrapped ''init migrator'' e)
            | None \<Rightarrow> Inr head_version))"

definition migrate ::
  "(string \<Rightarrow> string) \<Rightarrow> (string \<Rightarrow> string \<Rightarrow> gerr) \<Rightarrow> gerr + (string \<times> bool) list \<Rightarrow> 'w migration_runner \<Rightarrow>
   string \<Rightarrow> 'w \<Rightarrow> gerr option \<times> 'w" where
  "migrate quote num_error read_dir m database_url w =
     (case open_migrator quote num_error read_dir m database_url of
        Inl e \<Rightarrow> (Some e, w)
      | Inr head_version \<Rightarrow>
          (case apply_migrations m head_version w of
             (Some e, w') \<Rightarrow> (Some (Wrapped ''apply migrations'' e), w')
           | (None, w') \<Rightarrow> (None, w')))"

record migration_status =
  ms_current_version :: nat
  ms_head_version :: nat
  ms_dirty :: bool
  ms_at_head :: bool

definition migration_state ::
  "(string \<Rightarrow> string) \<Rightarrow> (string \<Rightarrow> string \<Rightarrow> gerr) \<Rightarrow> gerr + (string \<times> bool) list \<Rightarrow> 'w migration_runner \<Rightarrow>
   string \<Rightarrow> 'w \<Rightarrow> gerr + migration_status" where
  "migration_state quote num_error read_dir m database_url w =
     result_bind (open_migrator quote num_error read_dir m database_url) (\<lambda>head_version.
     result_bind (case mr_version m w of
         Inl e \<Rightarrow> if errors_is e err_nil_version then Inr (0, False) else Inl (Wrapped ''read migration version'' e)
       | Inr v \<Rightarrow> Inr v) (\<lambda>(current, dirty).
     Inr \<lparr>ms_current_version = current, ms_head_version = head_version, ms_dirty = dirty,
          ms_at_head = (\<not> dirty \<and> current = head_version)\<rparr>))"

section \<open>cmd/control-plane\<close>

text \<open>\<open>FakeVerifier\<close>, and the verifier chosen; \<open>clerk\<close> verifies a token with a secret key.\<close>

definition fake_verify :: "(string \<rightharpoonup> string) \<Rightarrow> string \<Rightarrow> gerr + string" where
  "fake_verify tokens token = (case tokens token of Some user \<Rightarrow> Inr user | None \<Rightarrow> Inl (ErrNew ''invalid token''))"

definition choose_verifier ::
  "(string \<Rightarrow> string \<Rightarrow> gerr + string) \<Rightarrow> control_plane_config \<Rightarrow> string \<Rightarrow> gerr + string" where
  "choose_verifier clerk cfg =
     (if cc_clerk_secret_key cfg \<noteq> [] then clerk (cc_clerk_secret_key cfg)
      else fake_verify [''dev-token'' \<mapsto> ''dev_user_001''])"

definition api_key_env_names :: "string list" where
  "api_key_env_names = map sp_api_key_env supported_specs"

text \<open>A read of a Go map; the loop of \<open>buildLLMRuntime\<close> over the table, with the providers built so far.\<close>

definition setting_of :: "(string \<times> string) list \<Rightarrow> string \<Rightarrow> string" where
  "setting_of entries key = (case map_of entries key of None \<Rightarrow> [] | Some v \<Rightarrow> v)"

fun build_configured ::
  "provider_lib \<Rightarrow> 'u url_lib \<Rightarrow> control_plane_config \<Rightarrow> provider_spec list \<Rightarrow> built_provider list \<Rightarrow> string list \<Rightarrow>
   gerr + built_provider list \<times> string list" where
  "build_configured lib urls cfg [] providers configured = Inr (providers, configured)"
| "build_configured lib urls cfg (spec # specs) providers configured =
     (let api_key = trim_space (setting_of (cc_provider_api_keys cfg) (sp_name spec)) in
      if api_key = [] then build_configured lib urls cfg specs providers configured
      else (case build_provider lib urls (sp_name spec) api_key (Some (seconds64 (cc_llm_timeout_seconds cfg))) of
          Inl e \<Rightarrow> Inl e
        | Inr p \<Rightarrow> build_configured lib urls cfg specs (providers @ [p]) (configured @ [sp_name spec])))"

record llm_runtime =
  lt_providers :: "built_provider list"
  lt_semantic_models :: "string \<rightharpoonup> string"
  lt_query_models :: "string \<rightharpoonup> string"

definition build_llm_runtime ::
  "provider_lib \<Rightarrow> 'u url_lib \<Rightarrow> control_plane_config \<Rightarrow> gerr + llm_runtime" where
  "build_llm_runtime lib urls cfg =
     (let default_name = trim_space (cc_default_llm_provider cfg) in
      result_bind (require (spec_by_name default_name \<noteq> None)
        (''unsupported DEFAULT_LLM_PROVIDER '' @ pl_quote lib default_name)) (\<lambda>_.
      result_bind (build_configured lib urls cfg supported_specs [] []) (\<lambda>(providers, configured).
      result_bind (require (providers \<noteq> [])
        (''no llm providers are configured; set at least one of '' @ join api_key_env_names '', '')) (\<lambda>_.
      result_bind (require (default_name \<in> set configured)
        (''DEFAULT_LLM_PROVIDER '' @ pl_quote lib default_name @ '' is not configured'')) (\<lambda>_.
      Inr \<lparr>lt_providers = providers,
           lt_semantic_models = clone_provider_models (cc_semantic_layer_provider_models cfg),
           lt_query_models = clone_provider_models (cc_query_provider_models cfg)\<rparr>)))))"

text \<open>The router over the providers built; a provider is known by its place and name.\<close>

definition runtime_router :: "(string \<Rightarrow> 'b) \<Rightarrow> control_plane_config \<Rightarrow> built_provider list \<Rightarrow> 'b router" where
  "runtime_router new_breaker cfg providers =
     new_router new_breaker (cc_default_llm_provider cfg)
       (map (\<lambda>(i, p). Some \<lparr>provider_id = i, provider_name = built_name p\<rparr>) (enumerate 0 providers))"

text \<open>\<open>loadFrontendHandler\<close>, from what \<open>NewFrontendHandler\<close> gives: a nil handler is \<open>None\<close>.\<close>

definition load_frontend_handler :: "control_plane_config \<Rightarrow> gerr + 'h \<Rightarrow> gerr + 'h option" where
  "load_frontend_handler cfg loaded =
     (case loaded of
        Inr h \<Rightarrow> Inr (Some h)
      | Inl e \<Rightarrow>
          (if errors_is e err_not_exist then
             (if cc_env cfg = ''production''
              then Inl (Wrapped ''frontend assets missing at web/dist/index.html'' e) else Inr None)
           else Inl (Wrapped ''load frontend assets'' e)))"

section \<open>cmd/preflight-helper\<close>

definition ping_request :: "string \<Rightarrow> completion_request" where
  "ping_request model =
     \<lparr>req_system = [], req_messages = [\<lparr>msg_role = ''user'', msg_content = ''ping'', msg_cached_content = []\<rparr>],
      req_operation = ''preflight.anthropic_ping'', req_model = model, req_provider_models = Map.empty,
      req_max_tokens = 1, req_output_format = None, req_cache_control = None\<rparr>"

definition ping_provider ::
  "provider_lib \<Rightarrow> 'u url_lib \<Rightarrow> 'w llm_clients \<Rightarrow> string \<Rightarrow> string \<Rightarrow> string \<Rightarrow> string \<Rightarrow> 'w \<Rightarrow> gerr option \<times> 'w" where
  "ping_provider lib urls cs provider_raw api_key model base_url w =
     (let provider = trim_space provider_raw in
      if provider = [] then (Some (ErrNew ''--provider is required''), w)
      else if spec_by_name provider = None then
        (Some (ErrNew (''unsupported provider '' @ pl_quote lib provider)), w)
      else if trim_space api_key = [] then (Some (ErrNew ''--api-key is required''), w)
      else if trim_space model = [] then (Some (ErrNew ''--model is required''), w)
      else (case build_with_base_url lib urls provider api_key base_url (Some (seconds 30)) of
          Inl e \<Rightarrow> (Some e, w)
        | Inr p \<Rightarrow>
            (case built_complete lib cs p (ping_request model) w of
               (Inl e, w') \<Rightarrow> (Some e, w')
             | (Inr _, w') \<Rightarrow> (None, w'))))"

section \<open>Settings that are accepted\<close>

lemma map_error_Inr [simp]: "map_error f r = Inr v \<longleftrightarrow> r = Inr v"
  by (cases r) simp_all

lemma atoi_range: "atoi num_error s = Inr n \<Longrightarrow> - (2 ^ 63) \<le> n \<and> n < 2 ^ 63"
  by (auto simp: atoi_def parse_int64_def Let_def split: option.splits if_splits prod.splits)

lemma int_setting_Inr:
  "int_setting num_error env key fallback = Inr n \<longleftrightarrow> parse_int64 (getenv env key fallback) = Some n"
  by (simp add: int_setting_def atoi_def split: option.split)

lemma load_database_settings_Inr:
  "load_database_settings num_error env = Inr (a, b, p) \<longleftrightarrow>
     parse_int64 (getenv env ''DB_MAX_CONNS'' ''4'') = Some a \<and> parse_int64 (getenv env ''DB_MIN_CONNS'' ''1'') = Some b \<and>
     parse_int64 (getenv env ''DB_HEALTH_CHECK_PERIOD_SECONDS'' ''30'') = Some p \<and>
     0 < a \<and> 0 \<le> b \<and> b \<le> a \<and> 0 < p"
  by (auto simp: load_database_settings_def int_setting_Inr)

lemma load_config_built:
  assumes "load_config num_error env = Inr cfg"
  shows "\<exists>port shutdown a b p rpm llm_rpm max_body llm_timeout.
    load_database_settings num_error env = Inr (a, b, p) \<and> 0 < llm_timeout \<and>
    check_config (with_numbers env rpm llm_rpm max_body llm_timeout (settings_of env port shutdown a b p)) = Inr cfg"
  using assms by (auto simp: load_config_def) blast

lemma check_config_Inr:
  assumes "check_config cfg = Inr cfg'"
  shows "cc_database_url cfg \<noteq> []" "cc_clerk_secret_key cfg = [] \<Longrightarrow> cc_env cfg = ''development''"
    "cc_env cfg = ''production'' \<Longrightarrow> cc_public_control_plane_url cfg \<noteq> []" "cc_public_control_plane_url cfg' \<noteq> []"
    "cc_public_control_plane_url cfg \<noteq> [] \<Longrightarrow> cc_public_control_plane_url cfg' = cc_public_control_plane_url cfg"
    "\<exists>url. cfg' = cfg\<lparr>cc_public_control_plane_url := url\<rparr>"
proof -
  from assms show "cc_database_url cfg \<noteq> []" "cc_clerk_secret_key cfg = [] \<Longrightarrow> cc_env cfg = ''development''"
    "cc_env cfg = ''production'' \<Longrightarrow> cc_public_control_plane_url cfg \<noteq> []" by (auto simp: check_config_def)
  from assms have cfg': "cfg' = (if cc_public_control_plane_url cfg = []
      then cfg\<lparr>cc_public_control_plane_url := ''http://localhost:'' @ itoa (cc_http_port cfg)\<rparr> else cfg)"
    by (auto simp: check_config_def)
  then show "cc_public_control_plane_url cfg' \<noteq> []"
    "cc_public_control_plane_url cfg \<noteq> [] \<Longrightarrow> cc_public_control_plane_url cfg' = cc_public_control_plane_url cfg"
    by simp_all
  have "cfg = cfg\<lparr>cc_public_control_plane_url := cc_public_control_plane_url cfg\<rparr>" by simp
  with cfg' show "\<exists>url. cfg' = cfg\<lparr>cc_public_control_plane_url := url\<rparr>" by metis
qed

lemma load_config_Inr:
  assumes "load_config num_error env = Inr cfg"
  obtains a b p where "load_database_settings num_error env = Inr (a, b, p)"
    "cc_db_max_conns cfg = wrap32 a" "cc_db_min_conns cfg = wrap32 b" "cc_db_health_check_period cfg = seconds64 p"
    "cc_database_url cfg \<noteq> []" "0 < cc_llm_timeout_seconds cfg" "cc_public_control_plane_url cfg \<noteq> []"
    "cc_clerk_secret_key cfg = env ''CLERK_SECRET_KEY''"
    "cc_clerk_secret_key cfg = [] \<Longrightarrow> cc_env cfg = ''development''"
    "cc_env cfg = ''production'' \<Longrightarrow> cc_public_control_plane_url cfg = trim_space (env ''PUBLIC_CONTROL_PLANE_URL'')"
proof -
  from load_config_built [OF assms] obtain port shutdown a b p rpm llm_rpm max_body llm_timeout where
    db: "load_database_settings num_error env = Inr (a, b, p)" and t: "0 < llm_timeout" and
    chk: "check_config (with_numbers env rpm llm_rpm max_body llm_timeout (settings_of env port shutdown a b p)) = Inr cfg"
    (is "check_config ?c = _") by blast
  note facts = check_config_Inr [OF chk]
  obtain url where cfg: "cfg = ?c\<lparr>cc_public_control_plane_url := url\<rparr>" using facts(6) by blast
  have fields: "cc_db_max_conns ?c = wrap32 a" "cc_db_min_conns ?c = wrap32 b"
    "cc_db_health_check_period ?c = seconds64 p" "cc_llm_timeout_seconds ?c = llm_timeout"
    "cc_clerk_secret_key ?c = env ''CLERK_SECRET_KEY''"
    "cc_public_control_plane_url ?c = trim_space (env ''PUBLIC_CONTROL_PLANE_URL'')"
    by (simp_all add: with_numbers_def settings_of_def)
  have same: "cc_env cfg = cc_env ?c" "cc_clerk_secret_key cfg = cc_clerk_secret_key ?c"
    "cc_database_url cfg = cc_database_url ?c" "cc_db_max_conns cfg = cc_db_max_conns ?c"
    "cc_db_min_conns cfg = cc_db_min_conns ?c" "cc_db_health_check_period cfg = cc_db_health_check_period ?c"
    "cc_llm_timeout_seconds cfg = cc_llm_timeout_seconds ?c"
    unfolding cfg by simp_all
  show thesis
    by (rule that [OF db]) (use facts(1-5) fields t in \<open>simp_all add: same\<close>)
qed

lemma wrap32_id: "- (2 ^ 31) \<le> x \<Longrightarrow> x < 2 ^ 31 \<Longrightarrow> wrap32 x = x"
  by (simp add: wrap32_def)

lemma seconds64_small: "0 < n \<Longrightarrow> n \<le> 9223372036 \<Longrightarrow> seconds64 n = seconds n \<and> 0 < seconds64 n"
  by (simp add: seconds64_def seconds_def nanosecond_per_second_def wrap64_def)

text \<open>
  A loaded configuration starts the control plane: it has a database URL, a public URL and a
  positive model timeout, outside of development a Clerk key, and in production the public URL that
  was set; and when the numbers of the pool's settings fit in 32 bits (and its period in 292 years),
  the pool's own checks accept them.
\<close>

theorem loaded_config_is_complete:
  assumes "load_config num_error env = Inr cfg"
  shows "cc_database_url cfg \<noteq> [] \<and> cc_public_control_plane_url cfg \<noteq> [] \<and> 0 < cc_llm_timeout_seconds cfg \<and>
    (cc_env cfg \<noteq> ''development'' \<longrightarrow> cc_clerk_secret_key cfg \<noteq> []) \<and>
    (cc_env cfg = ''production'' \<longrightarrow> cc_public_control_plane_url cfg = trim_space (env ''PUBLIC_CONTROL_PLANE_URL'')) \<and>
    (\<exists>a p. parse_int64 (getenv env ''DB_MAX_CONNS'' ''4'') = Some a \<and>
       parse_int64 (getenv env ''DB_HEALTH_CHECK_PERIOD_SECONDS'' ''30'') = Some p \<and>
       (a < 2 ^ 31 \<and> p \<le> 9223372036 \<longrightarrow> check_pool_config (pool_config_of cfg) = Inr ()))"
proof -
  from load_config_Inr [OF assms] obtain a b p where c:
    "load_database_settings num_error env = Inr (a, b, p)" "cc_db_max_conns cfg = wrap32 a"
    "cc_db_min_conns cfg = wrap32 b" "cc_db_health_check_period cfg = seconds64 p"
    "cc_database_url cfg \<noteq> []" "0 < cc_llm_timeout_seconds cfg" "cc_public_control_plane_url cfg \<noteq> []"
    "cc_clerk_secret_key cfg = [] \<Longrightarrow> cc_env cfg = ''development''"
    "cc_env cfg = ''production'' \<Longrightarrow> cc_public_control_plane_url cfg = trim_space (env ''PUBLIC_CONTROL_PLANE_URL'')"
    by metis
  have "check_pool_config (pool_config_of cfg) = Inr ()" if "a < 2 ^ 31" "p \<le> 9223372036"
    using c(1-4) that seconds64_small [of p]
    by (simp add: check_pool_config_def pool_config_of_def load_database_settings_Inr wrap32_id require_def)
  with c show ?thesis by (auto simp: load_database_settings_Inr)
qed

text \<open>
  C37. Nobody signs in without Clerk outside of development: when the configuration loads and the
  environment is not development, a request is served exactly when Clerk, with the secret key set,
  accepts its bearer token; and where no key is set, the one token accepted is the development token.
\<close>

theorem sign_in_needs_clerk:
  assumes "load_config num_error env = Inr cfg"
  shows "(cc_env cfg \<noteq> ''development'' \<longrightarrow>
      env ''CLERK_SECRET_KEY'' \<noteq> [] \<and>
      require_auth (choose_verifier clerk cfg) header = require_auth (clerk (env ''CLERK_SECRET_KEY'')) header) \<and>
    (env ''CLERK_SECRET_KEY'' = [] \<longrightarrow> cc_env cfg = ''development'' \<and>
      (\<forall>user. require_auth (choose_verifier clerk cfg) header = Served user \<longrightarrow>
        user = ''dev_user_001'' \<and> bearer_token_from_header header = Some ''dev-token''))"
proof -
  from load_config_Inr [OF assms] have c: "cc_clerk_secret_key cfg = env ''CLERK_SECRET_KEY''"
    "cc_clerk_secret_key cfg = [] \<Longrightarrow> cc_env cfg = ''development''" by metis+
  then show ?thesis
    by (auto simp: choose_verifier_def require_auth_def fake_verify_def split: option.splits if_splits)
qed

section \<open>The providers at run time\<close>

definition keyed :: "control_plane_config \<Rightarrow> string \<Rightarrow> bool" where
  "keyed cfg name = (trim_space (setting_of (cc_provider_api_keys cfg) name) \<noteq> [])"

lemma supported_name_trimmed: "spec \<in> set supported_specs \<Longrightarrow> trim_space (sp_name spec) = sp_name spec"
proof -
  have "list_all (\<lambda>spec. list_all plain_char (sp_name spec)) supported_specs" by code_simp
  then show "spec \<in> set supported_specs \<Longrightarrow> ?thesis" using trim_space_plain [of "sp_name spec"]
    by (cases "sp_name spec = []") (auto simp: list_all_iff)
qed

lemma provider_names_eq:
  "provider_names = [''anthropic'', ''openai'', ''together'', ''mistral'', ''cerebras'', ''deepseek'', ''xai'', ''fireworks'']"
  by (simp add: provider_names_def supported_specs_def)

lemma provider_names_facts: "distinct provider_names" "[] \<notin> set provider_names"
  by (simp_all add: provider_names_eq)

lemma provider_name_trimmed: "n \<in> set provider_names \<Longrightarrow> trim_space n = n"
  using supported_name_trimmed by (auto simp: provider_names_def)

lemma build_with_base_url_name:
  assumes "build_with_base_url lib urls name api_key url http = Inr p"
  shows "built_name p = trim_space name"
  using assms build_with_base_url_contract [of lib urls name api_key url http "undefined :: unit llm_clients"] by blast

lemma build_configured_names:
  assumes "build_configured lib urls cfg specs providers configured = Inr (providers', configured')"
    and "set specs \<subseteq> set supported_specs"
  shows "map built_name providers' = map built_name providers @ filter (keyed cfg) (map sp_name specs) \<and>
    configured' = configured @ filter (keyed cfg) (map sp_name specs)"
  using assms
proof (induction specs arbitrary: providers configured)
  case (Cons spec specs)
  show ?case
  proof (cases "keyed cfg (sp_name spec)")
    case False
    with Cons show ?thesis by (simp add: keyed_def)
  next
    case True
    with Cons.prems(1) obtain p where
      p: "build_provider lib urls (sp_name spec) (trim_space (setting_of (cc_provider_api_keys cfg) (sp_name spec)))
        (Some (seconds64 (cc_llm_timeout_seconds cfg))) = Inr p" and
      rest: "build_configured lib urls cfg specs (providers @ [p]) (configured @ [sp_name spec]) =
        Inr (providers', configured')"
      by (auto simp: keyed_def Let_def split: sum.splits)
    have "built_name p = sp_name spec"
      using build_with_base_url_name [of lib urls "sp_name spec"] p supported_name_trimmed [of spec] Cons.prems(2)
      by (simp add: build_provider_def)
    with Cons.IH [OF rest] Cons.prems(2) True show ?thesis by simp
  qed
qed simp

text \<open>
  C38. A control plane that starts can ask a model: the providers built are those of the table with a
  key, once each and in its order, and the router over them has exactly these candidates, the default
  one first, so that a completion never fails for want of a provider.
\<close>

theorem started_llm_runtime_is_ready:
  assumes "build_llm_runtime lib urls cfg = Inr rt"
  shows "map built_name (lt_providers rt) = filter (keyed cfg) provider_names \<and>
    distinct (ordered_providers (runtime_router nb cfg (lt_providers rt))) \<and>
    set (ordered_providers (runtime_router nb cfg (lt_providers rt))) = set (filter (keyed cfg) provider_names) \<and>
    ordered_providers (runtime_router nb cfg (lt_providers rt)) \<noteq> [] \<and>
    hd (ordered_providers (runtime_router nb cfg (lt_providers rt))) = trim_space (cc_default_llm_provider cfg)"
proof -
  define ps where "ps = lt_providers rt"
  from assms obtain configured where built: "build_configured lib urls cfg supported_specs [] [] = Inr (ps, configured)"
    and default: "trim_space (cc_default_llm_provider cfg) \<in> set configured"
    by (auto simp: build_llm_runtime_def Let_def ps_def)
  from build_configured_names [OF built] have names: "map built_name ps = filter (keyed cfg) provider_names"
    "configured = filter (keyed cfg) provider_names" by (simp_all add: provider_names_def)
  let ?entries = "map (\<lambda>(i, p). Some \<lparr>provider_id = i, provider_name = built_name p\<rparr>) (enumerate 0 ps)"
  have "map (trim_space \<circ> provider_name) (map the (filter (\<lambda>p. p \<noteq> None) ?entries)) =
      map trim_space (map (built_name \<circ> snd) (enumerate 0 ps))"
  proof -
    have "filter (\<lambda>p. p \<noteq> None) ?entries = ?entries" by (simp add: filter_id_conv case_prod_unfold)
    then show ?thesis by (simp add: comp_def case_prod_unfold)
  qed
  also have "\<dots> = map trim_space (map built_name ps)" by (simp flip: map_map)
  also have "\<dots> = filter (keyed cfg) provider_names"
    unfolding names(1) using provider_name_trimmed by (intro map_idI) auto
  finally have entries: "filter (\<lambda>n. n \<noteq> []) (map (trim_space \<circ> provider_name)
      (map the (filter (\<lambda>p. p \<noteq> None) ?entries))) = filter (keyed cfg) provider_names"
    using provider_names_facts(2) by (auto simp: filter_id_conv intro!: filter_cong)
  from router_candidates [of nb "cc_default_llm_provider cfg" ?entries, unfolded Let_def entries] default
  have "distinct (ordered_providers (runtime_router nb cfg ps)) \<and>
      set (ordered_providers (runtime_router nb cfg ps)) = set (filter (keyed cfg) provider_names) \<and>
      hd (ordered_providers (runtime_router nb cfg ps)) = trim_space (cc_default_llm_provider cfg)"
    unfolding runtime_router_def names(2) by blast
  moreover have "ordered_providers (runtime_router nb cfg ps) \<noteq> []" if
    "set (ordered_providers (runtime_router nb cfg ps)) = set (filter (keyed cfg) provider_names)"
    using that default names(2) by (metis empty_iff list.set(1))
  ultimately show ?thesis using names(1) unfolding ps_def by blast
qed

section \<open>The edge agent's intervals\<close>

lemma wrap64_range: "- (2 ^ 63) \<le> wrap64 x \<and> wrap64 x < 2 ^ 63"
  by (simp add: wrap64_def)

lemma load_edge_config_Inr:
  assumes "load_edge_config quote read_file env = Inr cfg"
  shows "0 < xc_heartbeat_interval cfg" "0 < xc_reconnect_base cfg" "xc_reconnect_base cfg \<le> xc_reconnect_max cfg"
    "xc_control_plane_url cfg \<noteq> []" "xc_tenant_token cfg \<noteq> []"
  using assms by (auto simp: load_edge_config_def Let_def)

text \<open>
  C39. An edge agent whose configuration loads starts with the intervals it was given, none replaced
  by a default: its heartbeat interval is positive, and when the maximum is at most 2^62 ns each delay
  before a reconnection lies between the base and the maximum and a fifth, for every outcome of its
  sessions and every schedule of their loops.
\<close>

theorem loaded_edge_config_paces_agent:
  assumes "load_edge_config quote read_file env = Inr cfg" "xc_reconnect_max cfg \<le> 2 ^ 62"
    and "\<And>n w. 0 < n \<Longrightarrow> 0 \<le> fst (eo_int63n ops n w) \<and> fst (eo_int63n ops n w) < n"
  shows "\<exists>s. new_agent_service True (Inr host) fresh now (edge_service_config cfg) = Inr s \<and>
    0 < as_heartbeat_interval s \<and> as_heartbeat_interval s = xc_heartbeat_interval cfg \<and>
    as_reconnect_base s = xc_reconnect_base cfg \<and> as_reconnect_max s = xc_reconnect_max cfg \<and>
    (\<forall>delays final w'. agent_run s ops scheds (as_reconnect_base s) w = (delays, final, w') \<longrightarrow>
       (\<forall>d \<in> set delays. xc_reconnect_base cfg \<le> d \<and> d \<le> xc_reconnect_max cfg + xc_reconnect_max cfg div 5))"
proof -
  note c = load_edge_config_Inr [OF assms(1)]
  obtain s where s: "new_agent_service True (Inr host) fresh now (edge_service_config cfg) = Inr s"
    "as_heartbeat_interval s = xc_heartbeat_interval cfg" "as_reconnect_base s = xc_reconnect_base cfg"
    "as_reconnect_max s = xc_reconnect_max cfg"
    using c(1-3) by (simp add: new_agent_service_def edge_service_config_def Let_def)
  have sane: "sane_backoff s"
    using new_agent_service_sane [OF s(1)] assms(2) by (simp add: edge_service_config_def)
  then have "as_reconnect_base s \<le> as_reconnect_max s" by (simp add: sane_backoff_def)
  then have "xc_reconnect_base cfg \<le> d \<and> d \<le> xc_reconnect_max cfg + xc_reconnect_max cfg div 5"
    if "agent_run s ops scheds (as_reconnect_base s) w = (delays, final, w')" "d \<in> set delays" for delays final w' d
    using agent_run_delays [OF sane assms(3) that(1) order_refl] that(2) s(3,4) by simp
  then show ?thesis using s c(1) by (intro exI [of _ s] conjI allI ballI impI) simp_all
qed

section \<open>Migrations\<close>

text \<open>
  golang-migrate over a database whose recorded version and schema are \<open>ver\<close> and \<open>schema\<close>: \<open>Up\<close>
  succeeds when it has run migrations up to the last one, and says that there is no change when it
  found the last one recorded; any other error may come at any time. \<open>Force\<close> sets the recorded
  version alone.
\<close>

definition runner_laws :: "nat \<Rightarrow> ('w \<Rightarrow> (nat \<times> bool) option) \<Rightarrow> ('w \<Rightarrow> 's) \<Rightarrow> 'w migration_runner \<Rightarrow> bool" where
  "runner_laws head_version ver schema m \<longleftrightarrow>
     (\<forall>w w'. mr_up m w = (None, w') \<longrightarrow>
        ver w \<noteq> Some (head_version, False) \<and> ver w' = Some (head_version, False)) \<and>
     (\<forall>w e w'. mr_up m w = (Some e, w') \<longrightarrow> errors_is e err_no_change \<longrightarrow>
        ver w = Some (head_version, False) \<and> w' = w) \<and>
     (\<forall>w (v :: nat) w'. mr_force m (int v) w = (None, w') \<longrightarrow> ver w' = Some (v, False) \<and> schema w' = schema w)"

lemma up_again_head:
  assumes "runner_laws head_version ver schema m" "up_again m w = (None, w')"
  shows "ver w' = Some (head_version, False)" and "ver w = Some (head_version, False) \<Longrightarrow> w' = w"
proof -
  obtain r w1 where up: "mr_up m w = (r, w1)" by fastforce
  with assms(2) have "w' = w1" "r = None \<or> (\<exists>e. r = Some e \<and> errors_is e err_no_change)"
    by (auto simp: up_again_def split: option.splits if_splits)
  with up assms(1) show "ver w' = Some (head_version, False)" "ver w = Some (head_version, False) \<Longrightarrow> w' = w"
    unfolding runner_laws_def by metis+
qed

lemma apply_migrations_success:
  assumes "runner_laws head_version ver schema m" "apply_migrations m head_version w = (None, w')"
  shows "ver w' = Some (head_version, False) \<and>
    (\<forall>err w1. up_again m w = (Some err, w1) \<longrightarrow> schema w' = schema w1)"
proof -
  obtain r w1 where up: "up_again m w = (r, w1)" by fastforce
  show ?thesis
  proof (cases r)
    case None
    with up assms(2) have "w' = w1" by (simp add: apply_migrations_def)
    with up None up_again_head(1) [OF assms(1)] show ?thesis by auto
  next
    case (Some err)
    with up assms(2) obtain w2 where force: "mr_force m (int head_version) w1 = (None, w2)"
      and again: "up_again m w2 = (None, w')"
      by (auto simp: apply_migrations_def split: if_splits prod.splits option.splits)
    have w2: "ver w2 = Some (head_version, False)" "schema w2 = schema w1"
      using assms(1) force unfolding runner_laws_def by blast+
    with up_again_head(2) [OF assms(1) again] up show ?thesis by auto
  qed
qed

lemma apply_migrations_failure:
  assumes "mr_up m w = (Some e, w1)" "\<not> errors_is e err_no_change" "\<not> is_missing_migration_version_error e"
  shows "apply_migrations m head_version w = (Some e, w1)"
  using assms by (simp add: apply_migrations_def up_again_def)

lemma latest_version_max:
  "latest_version quote num_error entries latest = Inr head_version \<Longrightarrow> latest \<le> head_version \<and>
     (\<forall>name v. (name, False) \<in> set entries \<longrightarrow>
        migration_version_from_filename quote num_error name = Inr (Some v) \<longrightarrow> v \<le> head_version)"
proof (induction quote num_error entries latest rule: latest_version.induct)
  case (2 quote num_error name is_dir entries latest)
  then show ?case
    by (auto split: if_splits sum.splits option.splits)
qed simp

text \<open>
  C40. A migration that reports success leaves the database recorded at the head version, the largest
  of the embedded files, and clean. Only the error of a recorded version that the program does not have
  rewrites the record: then no migration runs after the failed attempt, and a success leaves the schema
  as it was found; any other failure of the first attempt is reported and nothing else is done.
\<close>

theorem migrate_reaches_head:
  assumes "runner_laws head_version ver schema m"
    and "latest_embedded_migration_version quote num_error (Inr entries) = Inr head_version"
    and "mr_source m = None" "mr_open m (to_pgx_url url) = None"
  shows "(\<forall>w'. migrate quote num_error (Inr entries) m url w = (None, w') \<longrightarrow> ver w' = Some (head_version, False)) \<and>
    (\<forall>e w1. mr_up m w = (Some e, w1) \<longrightarrow> \<not> errors_is e err_no_change \<longrightarrow>
       (if is_missing_migration_version_error e
        then \<forall>w'. migrate quote num_error (Inr entries) m url w = (None, w') \<longrightarrow> schema w' = schema w1
        else migrate quote num_error (Inr entries) m url w = (Some (Wrapped ''apply migrations'' e), w1))) \<and>
    (\<forall>name v. (name, False) \<in> set entries \<longrightarrow>
       migration_version_from_filename quote num_error name = Inr (Some v) \<longrightarrow> v \<le> head_version)"
proof -
  have run: "migrate quote num_error (Inr entries) m url w =
      (case apply_migrations m head_version w of
         (Some e, w') \<Rightarrow> (Some (Wrapped ''apply migrations'' e), w') | (None, w') \<Rightarrow> (None, w'))"
    using assms(2-4) by (simp add: migrate_def open_migrator_def)
  have applied: "migrate quote num_error (Inr entries) m url w = (None, w') \<Longrightarrow>
      apply_migrations m head_version w = (None, w')" for w'
    unfolding run by (auto split: prod.splits option.splits)
  note success = apply_migrations_success [OF assms(1) applied]
  have "schema w' = schema w1" if "mr_up m w = (Some e, w1)" "\<not> errors_is e err_no_change"
    "migrate quote num_error (Inr entries) m url w = (None, w')" for e w1 w'
    using success [OF that(3)] that(1,2) by (simp add: up_again_def)
  moreover have "migrate quote num_error (Inr entries) m url w = (Some (Wrapped ''apply migrations'' e), w1)"
    if "mr_up m w = (Some e, w1)" "\<not> errors_is e err_no_change" "\<not> is_missing_migration_version_error e" for e w1
    unfolding run using apply_migrations_failure [OF that] by simp
  ultimately show ?thesis
    using success latest_version_max [of quote num_error entries 0 head_version] assms(2)
    by (auto simp: latest_embedded_migration_version_def)
qed

section \<open>Examples\<close>

definition example_environment :: environment where
  "example_environment key =
     (if key = ''DATABASE_URL'' then ''postgres://db'' else if key = ''OPENAI_API_KEY'' then ''k''
      else if key = ''DEFAULT_LLM_PROVIDER'' then ''openai'' else [])"

definition example_control_plane :: control_plane_config where
  "example_control_plane = (case load_config (\<lambda>_ s. ErrNew s) example_environment of Inr cfg \<Rightarrow> cfg)"

lemma example_control_plane_loads:
  "load_config (\<lambda>_ s. ErrNew s) example_environment = Inr example_control_plane"
proof -
  have numbers: "parse_int64 ''10'' = Some 10" "parse_int64 ''4'' = Some 4" "parse_int64 ''1'' = Some 1"
    "parse_int64 ''30'' = Some 30" "parse_int64 ''120'' = Some 120" "parse_int64 ''1048576'' = Some 1048576"
    "parse_int64 ''90'' = Some 90" "parse_int64 ''8080'' = Some 8080" by code_simp+
  have blank: "trim_space [] = []" by (simp add: trim_space_plain)
  have port: "load_http_port (\<lambda>_ s. ErrNew s) example_environment = Inr 8080"
    by (simp add: load_http_port_def first_set_def example_environment_def blank atoi_def numbers)
  have settings: "int_setting num example_environment ''SHUTDOWN_TIMEOUT_SECONDS'' ''10'' = Inr 10"
    "int_setting num example_environment ''RATE_LIMIT_RPM'' ''120'' = Inr 120"
    "int_setting num example_environment ''RATE_LIMIT_LLM_RPM'' ''30'' = Inr 30"
    "int_setting num example_environment ''MAX_REQUEST_BODY_BYTES'' ''1048576'' = Inr 1048576"
    "int_setting num example_environment ''LLM_TIMEOUT_SECONDS'' ''90'' = Inr 90" for num
    by (simp_all add: int_setting_Inr getenv_def example_environment_def numbers)
  have db: "load_database_settings (\<lambda>_ s. ErrNew s) example_environment = Inr (4, 1, 30)"
    by (simp add: load_database_settings_Inr getenv_def example_environment_def numbers)
  have env: "cc_database_url (with_numbers example_environment 120 30 1048576 90
      (settings_of example_environment 8080 10 4 1 30)) \<noteq> []"
    "cc_env (with_numbers example_environment 120 30 1048576 90
      (settings_of example_environment 8080 10 4 1 30)) = ''development''"
    by (simp_all add: with_numbers_def settings_of_def getenv_def example_environment_def)
  have "\<exists>cfg. load_config (\<lambda>_ s. ErrNew s) example_environment = Inr cfg"
    by (simp add: load_config_def port settings db check_config_def require_def env)
  then show ?thesis by (auto simp: example_control_plane_def)
qed

theorem loaded_config_is_complete_witness:
  "cc_database_url example_control_plane \<noteq> [] \<and> check_pool_config (pool_config_of example_control_plane) = Inr ()"
proof -
  have "parse_int64 (getenv example_environment ''DB_MAX_CONNS'' ''4'') = Some 4"
    "parse_int64 (getenv example_environment ''DB_HEALTH_CHECK_PERIOD_SECONDS'' ''30'') = Some 30" by code_simp+
  with loaded_config_is_complete [OF example_control_plane_loads] show ?thesis by auto
qed

theorem sign_in_needs_clerk_witness:
  "cc_env example_control_plane = ''development''"
proof -
  have "example_environment ''CLERK_SECRET_KEY'' = []" by (simp add: example_environment_def)
  with sign_in_needs_clerk [OF example_control_plane_loads, of "\<lambda>_. Inr" "[]"] show ?thesis by blast
qed

definition example_keyed_control_plane :: control_plane_config where
  "example_keyed_control_plane =
     (settings_of (\<lambda>_. []) 0 0 1 1 1)\<lparr>cc_provider_api_keys := [(''openai'', ''k'')],
       cc_default_llm_provider := ''openai'', cc_llm_timeout_seconds := 90,
       cc_semantic_layer_provider_models := [], cc_query_provider_models := []\<rparr>"

theorem started_llm_runtime_is_ready_witness:
  "\<exists>rt. build_llm_runtime example_provider_lib example_url_lib example_keyed_control_plane = Inr rt \<and>
     map built_name (lt_providers rt) = filter (keyed example_keyed_control_plane) provider_names"
proof -
  have "plain_char (CHR ''k'')" by code_simp
  then have plain: "trim_space [] = []" "trim_space ''k'' = ''k''" by (simp_all add: trim_space_plain)
  moreover have "trim_space ''openai'' = ''openai''" by (rule provider_name_trimmed) (simp add: provider_names_eq)
  ultimately have known: "spec_by_name ''openai'' \<noteq> None" "trim_space ''openai'' = ''openai''"
    by (simp_all add: spec_by_name_def supported_specs_def)
  have fields: "cc_provider_api_keys example_keyed_control_plane = [(''openai'', ''k'')]"
    "cc_default_llm_provider example_keyed_control_plane = ''openai''"
    "cc_llm_timeout_seconds example_keyed_control_plane = 90"
    by (simp_all add: example_keyed_control_plane_def)
  have "\<exists>p. build_provider example_provider_lib example_url_lib ''openai'' ''k'' (Some (seconds64 90)) = Inr p"
  proof -
    have "\<not> isl (build_provider example_provider_lib example_url_lib ''openai'' ''k'' (Some (seconds64 90)))" by code_simp
    then show ?thesis by (metis sum.collapse(2))
  qed
  then obtain p where "build_provider example_provider_lib example_url_lib ''openai'' ''k'' (Some (seconds64 90)) = Inr p" ..
  then have "\<exists>rt. build_llm_runtime example_provider_lib example_url_lib example_keyed_control_plane = Inr rt"
    by (simp add: build_llm_runtime_def fields plain known [simplified] supported_specs_def setting_of_def require_def)
  then obtain rt where run: "build_llm_runtime example_provider_lib example_url_lib example_keyed_control_plane = Inr rt" ..
  from started_llm_runtime_is_ready [OF run, of "\<lambda>_. ()"] run show ?thesis by blast
qed

definition example_edge_environment :: environment where
  "example_edge_environment key =
     (if key = ''CONTROL_PLANE_URL'' then ''https://cp'' else if key = ''TENANT_TOKEN'' then ''t''
      else if key = ''MYSQL_DSN'' then ''dsn'' else [])"

theorem loaded_edge_config_paces_agent_witness:
  "\<exists>cfg s. load_edge_config id (\<lambda>_. Inl err_not_exist) example_edge_environment = Inr cfg \<and>
     new_agent_service True (Inr ''h'') ''id'' 0 (edge_service_config cfg) = Inr s \<and> as_reconnect_max s = seconds 30"
proof -
  let ?load = "load_edge_config id (\<lambda>_. Inl err_not_exist) example_edge_environment"
  have "\<not> isl ?load" "xc_reconnect_max (projr ?load) = seconds 30" by code_simp+
  then obtain cfg where cfg: "?load = Inr cfg" "xc_reconnect_max cfg = seconds 30"
    by (cases ?load) auto
  have small: "xc_reconnect_max cfg \<le> 2 ^ 62" by (simp add: cfg(2) seconds_def nanosecond_per_second_def)
  have rand: "0 \<le> fst (eo_int63n example_edge n w) \<and> fst (eo_int63n example_edge n w) < n" if "0 < n" for n w
    using that by (simp add: example_edge_def)
  from loaded_edge_config_paces_agent [OF cfg(1) small rand, of "''h''" "''id''" 0 "[]"] cfg show ?thesis by metis
qed

text \<open>A database recorded at a version of which no file is left.\<close>

definition example_runner :: "((nat \<times> bool) \<times> nat) migration_runner" where
  "example_runner =
     \<lparr>mr_source = None, mr_open = (\<lambda>_. None),
      mr_up = (\<lambda>(v, s). if v = (1, False) then (Some err_no_change, (v, s))
        else if fst v = 0 then (None, ((1, False), s + 1))
        else (Some (ErrNew ''no migration found for version 7''), (v, s))),
      mr_version = (\<lambda>(v, s). Inr v), mr_force = (\<lambda>n (v, s). (None, ((nat n, False), s)))\<rparr>"

lemma example_runner_laws: "runner_laws 1 (\<lambda>w. Some (fst w)) snd example_runner"
  unfolding runner_laws_def
  by (auto simp: example_runner_def err_no_change_def errors_is_def split: if_splits)

theorem migrate_reaches_head_witness:
  "\<exists>w'. migrate id (\<lambda>_ s. ErrNew s) (Inr [(''0001_schema.up.sql'', False)]) example_runner ''postgres://db'' ((7, False), 5) =
     (None, w') \<and> fst w' = (1, False) \<and> snd w' = 5"
proof -
  let ?migrate = "migrate id (\<lambda>_ s. ErrNew s) (Inr [(''0001_schema.up.sql'', False)]) example_runner ''postgres://db''"
  have "fst (?migrate ((7, False), 5)) = None" by code_simp
  then obtain w' where run: "?migrate ((7, False), 5) = (None, w')" by (metis prod.collapse)
  have head: "latest_embedded_migration_version id (\<lambda>_ s. ErrNew s) (Inr [(''0001_schema.up.sql'', False)]) = Inr 1"
    by code_simp
  have opens: "mr_source example_runner = None" "mr_open example_runner (to_pgx_url ''postgres://db'') = None"
    by (simp_all add: example_runner_def)
  have first: "mr_up example_runner ((7, False), 5) = (Some (ErrNew ''no migration found for version 7''), ((7, False), 5))"
    by (simp add: example_runner_def)
  have missing: "is_missing_migration_version_error (ErrNew ''no migration found for version 7'')"
    "\<not> errors_is (ErrNew ''no migration found for version 7'') err_no_change" by code_simp+
  from migrate_reaches_head [OF example_runner_laws head opens, of "((7, False), 5)"] run first missing
  show ?thesis by auto
qed

end
