(* ===== verification/Spec2Isabelle.thy ===== *)
theory Spec2Isabelle
  imports Prelude GoStrings Errors SqlGuard Breaker Json Router Model AgentSessions AgentProtocol
    Tenancy EdgeMysql EdgeAgent AgentWire Schemas SemanticLayer Messages Onboarding QueryStore QueryPrompts QueryPipeline StarterQuestions
    ConnectHelpers QueryHandlers WorkspaceHandlers SemanticHandlers
    LlmProviders Startup
begin

text \<open>
  A verification development of mission, a control plane that answers questions about a customer's
  MySQL database with SQL written by a language model, and of the edge agent that runs beside the
  database. The program is the Go code under src/internal and src/cmd.

  \<^bold>\<open>The program.\<close> A member of a tenant asks a question (controller/query.go). The control plane builds
  a prompt from the tenant's captured schema, its semantic layer and approved examples, has a
  language model write SQL, checks and rewrites the SQL (sqlguard), and sends it to the tenant's edge
  agent over a command stream the agent holds open (controller/agent.go, handler/agent.go). The
  agent (edgeagent/controller/agent.go) checks the SQL again, runs it over a read-only connection
  (edgeagent/gateway/mysql, edgeagent/runtime) and submits the result, which the control plane hands
  to the waiting caller, has summarised and stores with the question. Tenants, tokens, invites,
  onboarding, schema versions, semantic layers and starter questions are kept in PostgreSQL
  (repository/). Language models are reached through a router with a circuit breaker per provider.

  \<^bold>\<open>Theories, in the order of import.\<close>
  \<^item> \<open>Prelude\<close>: type names, collections of rules, list and map lemmas the components share.
    \<open>GoStrings\<close>: what the code uses of Go's \<open>strings\<close>, \<open>fmt\<close> and \<open>strconv\<close>, on byte strings.
    \<open>Errors\<close>: Go error values, \<open>errors.Is\<close>, queryerror/ and gateway/llm/errors.go. \<open>Json\<close>: JSON
    documents and the strictness that structured outputs require.
  \<^item> \<open>SqlGuard\<close>: sqlguard/sqlguard.go, statement by statement, with a lexer as the reference of its
    scanner and \<open>guard_admissible\<close> as the reference of the whole; the locale \<open>sql_validator\<close> is what
    callers rely on, interpreted on \<open>validate_sql\<close>.
  \<^item> \<open>Breaker\<close>, \<open>Router\<close>: gateway/llm/breaker.go and router.go with message.go and llm.go; the
    locale \<open>call_gate\<close> is the contract between them.
  \<^item> \<open>Model\<close>: internal/controlplane/model.
  \<^item> \<open>AgentSessions\<close>, \<open>AgentProtocol\<close>: controller/agent.go. The first has one definition per critical
    section or channel operation on a heap of sessions and waiters; the second interleaves them as a
    step relation and proves the invariant of the reachable states.
  \<^item> \<open>Tenancy\<close>: controller/tenant.go, auth/agent.go and the repositories of tenants, tokens and
    invites; the locale \<open>agent_token_store\<close> is the contract of the token table.
  \<^item> \<open>EdgeMysql\<close>, \<open>EdgeAgent\<close>: the edge agent's gateway and runtime, and its service loop.
  \<^item> \<open>AgentWire\<close>: both ends of the wire, edgeagent/gateway/controlplane/client.go and
    handler/agent.go.
  \<^item> \<open>Schemas\<close>, \<open>SemanticLayer\<close>: introspection, schema versions and semantic layers, controller and
    repository.
  \<^item> \<open>Messages\<close>, \<open>Onboarding\<close>: the texts shown to users and controller/onboarding.go with its
    repository, refined to a machine of a tenant's progress.
  \<^item> \<open>QueryStore\<close>, \<open>QueryPrompts\<close>, \<open>QueryPipeline\<close>: the memory of questions with query_review.go, the
    prompts, and the pipeline from question to answer.
  \<^item> \<open>StarterQuestions\<close>: the generated first questions.

  \<^item> \<open>LlmProviders\<close>: gateway/llm/anthropic, openai and mistral, baseurl.go and llmprovider/; the locale
    \<open>completion_provider\<close> is what the router relies on, interpreted on the three.
  \<^item> \<open>Startup\<close>: what both programs do before they serve: config/, db/ and the parts of cmd/ that decide
    from settings.
  This theory composes both ends of a command: \<open>answer_reaches_caller\<close>.

  \<^bold>\<open>How code is rendered.\<close> A struct is a record, an enumeration a datatype, a Go string its bytes, a
  table a list of rows in insertion order with its unique indexes checked by the inserting operation
  (a JSONB column gives back the text it was given),
  a transaction a function that returns the old rows when a statement or the commit fails. A function
  that returns an error returns \<open>Inl\<close> of it; package-level errors have an identity. Every statement or
  call that may fail takes the error it fails with from the environment of the call (\<open>io\<close>, or an
  \<open>..._env\<close> record), so that a theorem over all environments covers every failure. Third-party code is
  an argument: the TiDB parser, the MySQL driver, structpb, the JSON and UUID codecs, Unicode case
  mapping, \<open>sort.Slice\<close>, pg_trgm's similarity and the language models. Concurrency
  is modelled where the code's correctness depends on it, in \<open>AgentProtocol\<close>, and by overlapping reads
  and writes in \<open>Onboarding\<close>; elsewhere an operation runs alone. Where rows tie in an ORDER BY the
  insertion order decides.

  \<^bold>\<open>Bounds.\<close> Loops are structural recursion or have a measure. The retry loop of a question runs
  \<open>max_attempts\<close> = 2 times, that of the starter questions twice, as in the code. The agent's connect
  loop, which the code runs until it is cancelled, takes its number of rounds as an argument, and its
  theorems hold for every number.

  \<^bold>\<open>What the lemmas show.\<close> The guard accepts exactly the admissible read-only statements and bounds
  their rows; what the agent executes is the guard's own rewriting, twice over; the accounts accepted
  have no grant but SELECT and SHOW VIEW. Sessions never send on a closed channel and lose no waiter; a
  result reaches the one caller that waits for it. Revoked tokens never serve. At most one draft and
  one approved layer exist; prompts are built from the tenant's own data; every question's run is
  closed, or the failure to close it is what the caller is told; starter questions are complete sets of their layer's tables; onboarding progress follows
  its machine. Theorems that state defects (a review queue that always fails, a rewound onboarding, a
  second probe of the breaker, a session id taken over, a cancelled question whose run stays running, a
  vendor that is not sent the context of assistant messages) hold of the code as it is.

  \<^bold>\<open>Not modelled.\<close>
  gen/ is generated. The vendors' SDKs, pgxpool, golang-migrate and Clerk are arguments. cmd/ is
  modelled where it decides; the order of its constructors, its router and its shutdown are not. Of
  handler/, health.go and frontend*.go serve files and a ping. auditlog/ and reqlog/ write logs. web/
  is a TypeScript client.
\<close>

lemma answers_submitted:
  assumes "answers ops c tr"
  obtains r where "filter (\<lambda>t. \<exists>r. t = Submitted r) tr = [Submitted r]"
    "result_ids r = (cm_session_id c, cm_command_id c)" "result_kind r = cm_kind c"
  using assms by (auto simp: answers_def split: if_splits)

lemma take_waiter_pending:
  assumes "session_locked now tid sid m = Inr a" "pend m a k cid = Some w"
  shows "\<exists>m'. take_waiter now tid sid k cid m = (Inr w, m') \<and> pend m' a k cid = None"
  using assms by (auto simp: take_waiter_def pend_def split: option.splits)

text \<open>
  C19. The composition of both ends of a command. When the edge agent handles a command the control
  plane sent, what it submits is the one result of that command; encoded by the agent's client and
  received by the handler on a live session in which a caller waits for this command and kind, it
  completes exactly that caller, with the result as the wire encoding renders it, and the slot of
  the caller is consumed, so no second answer can reach it.
\<close>

theorem answer_reaches_caller:
  assumes handled: "handle_command (log_ops ops) (stream_message (command_to_proto c)) (w, []) =
      (e, (w', tr))"
    and sent: "Submitted r \<in> set tr" and req: "client_request codec order r = Inr req"
    and order: "\<And>row. row \<in> set (result_rows r) \<Longrightarrow> dom row \<subseteq> set (order row)"
    and live: "session_locked now (ag_token_id ag) (cmd_session_id c) m = Inr a"
    and waits: "pend m a (cmd_kind c) (cmd_command_id c) = Some waiter"
  shows "\<exists>m'. submit_command_result codec (Some ag) now req m =
             (Inr (waiter, wire_result codec r), m') \<and>
           pend m' a (cmd_kind c) (cmd_command_id c) = None \<and>
           filter (\<lambda>t. \<exists>r. t = Submitted r) tr = [Submitted r]"
proof -
  let ?c = "stream_message (command_to_proto c)"
  have c: "cm_kind ?c = kind_name (cmd_kind c)" "cm_session_id ?c = cmd_session_id c"
      "cm_command_id ?c = cmd_command_id c"
    by (cases "cmd_kind c"; simp add: stream_message_def command_to_proto_def command_kind_of_def)+
  from handle_command_answers [OF handled] c have "answers ops ?c tr" by simp
  then obtain r' where r': "filter (\<lambda>t. \<exists>r. t = Submitted r) tr = [Submitted r']"
      "result_ids r' = (cmd_session_id c, cmd_command_id c)" "result_kind r' = kind_name (cmd_kind c)"
    using c by (auto elim: answers_submitted)
  have "Submitted r \<in> set (filter (\<lambda>t. \<exists>r. t = Submitted r) tr)" using sent by auto
  with r' have [simp]: "r' = r" by simp
  obtain m' where "take_waiter now (ag_token_id ag) (cmd_session_id c) (cmd_kind c)
      (cmd_command_id c) m = (Inr waiter, m')" "pend m' a (cmd_kind c) (cmd_command_id c) = None"
    using take_waiter_pending [OF live waits] by blast
  with submit_result_wire [OF req order, of ag now m] r' kind_name_inj [of r "cmd_kind c"]
  show ?thesis by auto
qed

theorem answer_reaches_caller_witness:
  "\<exists>m' p. submit_command_result example_struct (Some example_agent) 11
     \<lparr>sq_session_id = ''s1'', sq_command_id = ''c1'', sq_completed_at = Some 7000000,
      sq_result = Some (PingPayload 6)\<rparr> example_pending = (Inr (0, PingR p), m') \<and>
     pr_round_trip_ms p = 6"
proof -
  let ?c = "\<lparr>cmd_session_id = ''s1'', cmd_command_id = ''c1'', cmd_issued_at = 10,
      cmd_kind = KindPing, cmd_sql = [], cmd_dsn = []\<rparr>"
  let ?r = "PingR \<lparr>pr_session_id = ''s1'', pr_command_id = ''c1'', pr_completed_at = 7000000,
      pr_round_trip_ms = 6\<rparr>"
  have handled: "handle_command (log_ops example_edge) (stream_message (command_to_proto ?c)) ((), []) =
      (None, ((), [Submitted ?r]))"
    by (simp add: example_edge_def log_ops_def stream_message_def command_to_proto_def
        command_kind_of_def handle_command_def handle_ping_def milliseconds_def time_sub_def
        duration_max_def duration_min_def)
  have live: "session_locked 11 (ag_token_id example_agent) (cmd_session_id ?c) example_pending = Inr 0"
    by code_simp
  have waits: "pend example_pending 0 (cmd_kind ?c) (cmd_command_id ?c) = Some 0"
    by code_simp
  from answer_reaches_caller [OF handled _ _ _ live waits, of ?r example_struct "\<lambda>_. []"]
  show ?thesis by auto
qed

end
